(* ===== verification/Prelude.thy ===== *)
theory Prelude
  imports Main "HOL-Library.State_Monad" "HOL-Library.Word" "HOL-Library.Signed_Division"
    "HOL-Library.Sublist"
begin

text \<open>
  Shared vocabulary of the development: the machine types and the error convention of the Go
  code, the string functions of Go's standard library that the program calls
  (\<open>strings.Split\<close>, \<open>strings.ReplaceAll\<close>, \<open>strings.Contains\<close>, \<open>strconv.Itoa\<close>), and the
  collections of facts that the component theories fill.

  A Go \<open>string\<close> is a sequence of bytes; the model's \<open>string\<close> (a list of 8-bit characters) is
  the same, so \<open>length\<close> is Go's \<open>len\<close>.
\<close>

named_theorems handler_defs \<open>definitions of the handlers, to be unfolded when one is executed\<close>
named_theorems io_simps \<open>how the primitive effects act on the world\<close>
named_theorems frame_simps \<open>what an operation leaves unchanged\<close>

type_synonym u64 = "64 word"
type_synonym i64 = "64 word"
type_synonym gateway_id = string

text \<open>
  A Go \<open>error\<close> is modelled by the text of its \<open>Error()\<close> method, an \<open>(x, error)\<close> pair by a sum
  with the error on the left, a lone \<open>error\<close> result by an option (\<open>None\<close> is \<open>nil\<close>).
\<close>

type_synonym err = string
type_synonym 'a result = "err + 'a"

definition wrap :: "err \<Rightarrow> string \<Rightarrow> err" where
  "wrap e msg = msg @ '': '' @ e"

text \<open>The outcome of code that may panic: a panic ends the process.\<close>

datatype 'a outcome = Returned 'a | Panicked

section \<open>Strings\<close>

definition replace_char :: "char \<Rightarrow> char \<Rightarrow> string \<Rightarrow> string" where
  "replace_char a b s = map (\<lambda>c. if c = a then b else c) s"

fun split_on :: "char \<Rightarrow> string \<Rightarrow> string list" where
  "split_on c [] = [[]]"
| "split_on c (x # xs) =
     (if x = c then [] # split_on c xs
      else (case split_on c xs of [] \<Rightarrow> [[x]] | w # ws \<Rightarrow> (x # w) # ws))"

fun join_with :: "char \<Rightarrow> string list \<Rightarrow> string" where
  "join_with c [] = []"
| "join_with c [w] = w"
| "join_with c (w # ws) = w @ c # join_with c ws"

fun contains_str :: "string \<Rightarrow> string \<Rightarrow> bool" where
  "contains_str p [] = (p = [])"
| "contains_str p (x # xs) = (take (length p) (x # xs) = p \<or> contains_str p xs)"

definition dec_digit :: "nat \<Rightarrow> char" where
  "dec_digit d = ''0123456789'' ! d"

fun nat_to_dec :: "nat \<Rightarrow> string" where
  "nat_to_dec n =
     (if n < 10 then [dec_digit n] else nat_to_dec (n div 10) @ [dec_digit (n mod 10)])"

declare nat_to_dec.simps [simp del]

definition Itoa :: "int \<Rightarrow> string" where
  "Itoa i = (if i < 0 then CHR ''-'' # nat_to_dec (nat (- i)) else nat_to_dec (nat i))"

text \<open>Reading decimal digits back, to state what \<open>Itoa\<close> writes.\<close>

definition digit_value :: "char \<Rightarrow> nat" where
  "digit_value c = of_char c - 48"

definition dec_value :: "string \<Rightarrow> nat" where
  "dec_value s = foldl (\<lambda>v c. 10 * v + digit_value c) 0 s"

definition is_digit :: "char \<Rightarrow> bool" where
  "is_digit c \<longleftrightarrow> c \<in> set ''0123456789''"

lemma length_replace_char [simp]: "length (replace_char a b s) = length s"
  by (simp add: replace_char_def)

lemma replace_char_append [simp]:
  "replace_char a b (s @ t) = replace_char a b s @ replace_char a b t"
  by (simp add: replace_char_def)

lemma replace_char_gone: "a \<noteq> b \<Longrightarrow> a \<notin> set (replace_char a b s)"
  by (auto simp: replace_char_def)

lemma replace_char_absent: "a \<notin> set s \<Longrightarrow> replace_char a b s = s"
  by (auto simp: replace_char_def intro!: map_idI)

lemma replace_char_idem [simp]: "replace_char a b (replace_char a b s) = replace_char a b s"
  by (simp add: replace_char_def)

lemma split_on_nonempty [simp]: "split_on c s \<noteq> []"
  by (induction s) (auto split: list.splits)

lemma split_on_parts: "w \<in> set (split_on c s) \<Longrightarrow> c \<notin> set w"
  by (induction s arbitrary: w) (auto split: list.splits if_splits)

lemma join_with_Cons: "ws \<noteq> [] \<Longrightarrow> join_with c (w # ws) = w @ c # join_with c ws"
  by (cases ws) auto

lemma join_split: "join_with c (split_on c s) = s"
proof (induction s)
  case (Cons x xs)
  show ?case
  proof (cases "split_on c xs")
    case (Cons w ws)
    with Cons.IH show ?thesis
      by (cases ws) auto
  qed simp
qed simp

lemma split_on_append:
  "c \<notin> set w \<Longrightarrow> split_on c (w @ c # s) = w # split_on c s"
  by (induction w) auto

lemma split_on_absent: "c \<notin> set w \<Longrightarrow> split_on c w = [w]"
  by (induction w) auto

lemma contains_str_sublist: "contains_str p s \<longleftrightarrow> sublist p s"
proof (induction s)
  case (Cons x xs)
  have "take (length p) (x # xs) = p \<longleftrightarrow> prefix p (x # xs)"
    by (metis append_eq_conv_conj prefix_def take_is_prefix)
  then show ?case
    by (simp only: contains_str.simps Cons.IH sublist_Cons_right)
qed auto

section \<open>Decimal numbers\<close>

lemma dec_digit_value: "d < 10 \<Longrightarrow> digit_value (dec_digit d) = d"
  by (auto simp: dec_digit_def digit_value_def less_Suc_eq numeral_eq_Suc)

lemma dec_digit_is_digit: "d < 10 \<Longrightarrow> is_digit (dec_digit d)"
  by (auto simp: dec_digit_def is_digit_def less_Suc_eq numeral_eq_Suc)

lemma dec_value_snoc: "dec_value (s @ [c]) = 10 * dec_value s + digit_value c"
  by (simp add: dec_value_def)

lemma dec_value_nat_to_dec [simp]: "dec_value (nat_to_dec n) = n"
proof (induction n rule: nat_to_dec.induct)
  case (1 n)
  then show ?case
    by (subst nat_to_dec.simps) (auto simp: dec_value_snoc dec_digit_value dec_value_def)
qed

lemma nat_to_dec_digits: "list_all is_digit (nat_to_dec n)"
proof (induction n rule: nat_to_dec.induct)
  case (1 n)
  then show ?case
    by (subst nat_to_dec.simps) (auto simp: dec_digit_is_digit)
qed

lemma nat_to_dec_nonempty [simp]: "nat_to_dec n \<noteq> []"
  by (subst nat_to_dec.simps) simp

lemma nat_to_dec_inj: "nat_to_dec m = nat_to_dec n \<Longrightarrow> m = n"
  by (metis dec_value_nat_to_dec)

end
