(* ===== verification/Entities.thy ===== *)
theory Entities
  imports Prelude
begin

text \<open>
  The data that travels between the gateways, the cloud server and its back ends
  (\<open>internal/domain/entities\<close>): the product constants, the configuration records of cameras and
  Z-Wave devices, the IoT message with its label helpers, and the constructor of the messages
  the cloud itself sends.
\<close>

section \<open>Product constants\<close>

definition VeedoVersion :: string where
  "VeedoVersion = ''3.1.0''"

definition VendorName :: string where
  "VendorName = ''Veedo''"

definition ServiceName :: string where
  "ServiceName = ''Veedo GO Cloud Server''"

section \<open>Device configuration records\<close>

record CameraParams =
  cam_ID :: string
  cam_DeviceID :: string
  cam_Enabled :: string
  cam_IPAddress :: string
  cam_Username :: string
  cam_Password :: string
  cam_DeviceURI :: string
  cam_Profile :: string
  cam_StreamURI :: string
  cam_Manufacturer :: string
  cam_Model :: string
  cam_FirmwareVersion :: string
  cam_SerialNumber :: string
  cam_HardwareID :: string
  cam_FactoryUUID :: string
  cam_MotionDetector :: string
  cam_ConnectionState :: string
  cam_CloudStreaming :: string
  cam_CloudStreamingType :: string
  cam_CloudStreamingState :: string
  cam_LocalArchive :: string
  cam_LocalArchiveType :: string
  cam_LocalRecordingState :: string
  cam_LocalArchiveUploading :: string

record ZWaveParams =
  zw_ID :: string
  zw_DeviceID :: string
  zw_HomeID :: string
  zw_NodeID :: string
  zw_BasicType :: string
  zw_GenericType :: string
  zw_Manufacturer :: string
  zw_Product :: string
  zw_Value :: string
  zw_LastHeardTime :: string
  zw_Status :: string

section \<open>The IoT message\<close>

record IotMessage =
  Timestamp :: string
  Vendor :: string
  Version :: string
  GatewayId :: string
  ClientType :: string
  DeviceId :: string
  DeviceType :: string
  DeviceState :: string
  DeviceTableId :: u64
  Protocol :: string
  MessageType :: string
  SensorType :: string
  SensorData :: string
  Preview :: string
  Label :: string
  Value :: string
  Units :: string
  MediaserverIp :: string
  ApplicationName :: string
  Recording :: string
  Command :: string
  Attribute :: string
  TariffId :: u64
  Money :: u64
  Vip :: bool
  LegalEntity :: bool
  UserId :: u64
  Title :: string
  Content :: string
  Status :: string
  Cameras :: "CameraParams list"
  ZWave :: "ZWaveParams list"

text \<open>The zero value of each struct: what \<open>entities.IotMessage{}\<close> denotes.\<close>

definition zero_CameraParams :: CameraParams where
  "zero_CameraParams = \<lparr>cam_ID = [], cam_DeviceID = [], cam_Enabled = [], cam_IPAddress = [],
     cam_Username = [], cam_Password = [], cam_DeviceURI = [], cam_Profile = [],
     cam_StreamURI = [], cam_Manufacturer = [], cam_Model = [], cam_FirmwareVersion = [],
     cam_SerialNumber = [], cam_HardwareID = [], cam_FactoryUUID = [], cam_MotionDetector = [],
     cam_ConnectionState = [], cam_CloudStreaming = [], cam_CloudStreamingType = [],
     cam_CloudStreamingState = [], cam_LocalArchive = [], cam_LocalArchiveType = [],
     cam_LocalRecordingState = [], cam_LocalArchiveUploading = []\<rparr>"

definition zero_ZWaveParams :: ZWaveParams where
  "zero_ZWaveParams = \<lparr>zw_ID = [], zw_DeviceID = [], zw_HomeID = [], zw_NodeID = [],
     zw_BasicType = [], zw_GenericType = [], zw_Manufacturer = [], zw_Product = [],
     zw_Value = [], zw_LastHeardTime = [], zw_Status = []\<rparr>"

definition zero_IotMessage :: IotMessage where
  "zero_IotMessage = \<lparr>Timestamp = [], Vendor = [], Version = [], GatewayId = [],
     ClientType = [], DeviceId = [], DeviceType = [], DeviceState = [], DeviceTableId = 0,
     Protocol = [], MessageType = [], SensorType = [], SensorData = [], Preview = [],
     Label = [], Value = [], Units = [], MediaserverIp = [], ApplicationName = [],
     Recording = [], Command = [], Attribute = [], TariffId = 0, Money = 0, Vip = False,
     LegalEntity = False, UserId = 0, Title = [], Content = [], Status = [],
     Cameras = [], ZWave = []\<rparr>"

definition GetSensorType :: "IotMessage \<Rightarrow> string" where
  "GetSensorType m = replace_char CHR '' '' CHR ''_'' (SensorType m)"

definition GetLabel :: "IotMessage \<Rightarrow> string" where
  "GetLabel m = replace_char CHR '' '' CHR ''_'' (Label m)"

text \<open>
  \<open>t.UnixNano()\<close> is a signed 64-bit count; Go's integer division truncates towards zero, and
  the conversion to \<open>int\<close> is the identity on the 64-bit platforms the server is built for.
\<close>

definition CreateTimestampMs :: "i64 \<Rightarrow> string" where
  "CreateTimestampMs nanos = Itoa (sint nanos sdiv 1000000)"

definition CreateCloudIotMessage :: "i64 \<Rightarrow> gateway_id \<Rightarrow> string \<Rightarrow> IotMessage" where
  "CreateCloudIotMessage now gatewayID deviceID = zero_IotMessage
     \<lparr>Timestamp := CreateTimestampMs now, Vendor := VendorName, Version := VeedoVersion,
      GatewayId := gatewayID, ClientType := ''veedoCloud'', DeviceId := deviceID\<rparr>"

section \<open>Facts about messages\<close>

lemma GetLabel_no_space: "CHR '' '' \<notin> set (GetLabel m)"
  by (simp add: GetLabel_def replace_char_gone)

lemma GetSensorType_no_space: "CHR '' '' \<notin> set (GetSensorType m)"
  by (simp add: GetSensorType_def replace_char_gone)

lemma zero_IotMessage_sel [simp]:
  "Timestamp zero_IotMessage = []" "Vendor zero_IotMessage = []" "Version zero_IotMessage = []"
  "GatewayId zero_IotMessage = []" "ClientType zero_IotMessage = []"
  "DeviceId zero_IotMessage = []" "DeviceType zero_IotMessage = []"
  "DeviceState zero_IotMessage = []" "DeviceTableId zero_IotMessage = 0"
  "Protocol zero_IotMessage = []" "MessageType zero_IotMessage = []"
  "SensorType zero_IotMessage = []" "SensorData zero_IotMessage = []"
  "Preview zero_IotMessage = []" "Label zero_IotMessage = []" "Value zero_IotMessage = []"
  "Units zero_IotMessage = []" "MediaserverIp zero_IotMessage = []"
  "ApplicationName zero_IotMessage = []" "Recording zero_IotMessage = []"
  "Command zero_IotMessage = []" "Attribute zero_IotMessage = []"
  "TariffId zero_IotMessage = 0" "Money zero_IotMessage = 0" "\<not> Vip zero_IotMessage"
  "\<not> LegalEntity zero_IotMessage" "UserId zero_IotMessage = 0" "Title zero_IotMessage = []"
  "Content zero_IotMessage = []" "Status zero_IotMessage = []" "Cameras zero_IotMessage = []"
  "ZWave zero_IotMessage = []"
  by (simp_all add: zero_IotMessage_def)

lemma CreateCloudIotMessage_sel [simp]:
  "Timestamp (CreateCloudIotMessage t g d) = CreateTimestampMs t"
  "Vendor (CreateCloudIotMessage t g d) = VendorName"
  "Version (CreateCloudIotMessage t g d) = VeedoVersion"
  "GatewayId (CreateCloudIotMessage t g d) = g"
  "ClientType (CreateCloudIotMessage t g d) = ''veedoCloud''"
  "DeviceId (CreateCloudIotMessage t g d) = d"
  "DeviceType (CreateCloudIotMessage t g d) = []"
  "MessageType (CreateCloudIotMessage t g d) = []"
  "Recording (CreateCloudIotMessage t g d) = []"
  "Status (CreateCloudIotMessage t g d) = []"
  by (simp_all add: CreateCloudIotMessage_def)

text \<open>The millisecond count of a time after 1970 is the floor of the nanosecond count.\<close>

lemma Itoa_nonneg: "0 \<le> i \<Longrightarrow> Itoa i = nat_to_dec (nat i)"
  by (simp add: Itoa_def)

lemma sdiv_nonneg: "0 \<le> i \<Longrightarrow> 0 < k \<Longrightarrow> i sdiv k = i div (k :: int)"
  by (cases "i = 0") (auto simp: signed_divide_int_def)

lemma CreateTimestampMs_value:
  assumes "0 \<le> sint nanos"
  shows "list_all is_digit (CreateTimestampMs nanos)"
    and "int (dec_value (CreateTimestampMs nanos)) = sint nanos div 1000000"
proof -
  have *: "CreateTimestampMs nanos = nat_to_dec (nat (sint nanos div 1000000))"
    using assms by (simp add: CreateTimestampMs_def Itoa_nonneg sdiv_nonneg pos_imp_zdiv_nonneg_iff)
  show "list_all is_digit (CreateTimestampMs nanos)"
    by (simp add: * nat_to_dec_digits)
  show "int (dec_value (CreateTimestampMs nanos)) = sint nanos div 1000000"
    using assms by (simp add: * pos_imp_zdiv_nonneg_iff)
qed

lemma sdiv_bounds:
  fixes i k :: int
  assumes "0 < k"
  shows "\<bar>i - (i sdiv k) * k\<bar> < k \<and> \<bar>(i sdiv k) * k\<bar> \<le> \<bar>i\<bar>"
proof -
  have floor: "\<bar>n - (n div k) * k\<bar> < k \<and> \<bar>(n div k) * k\<bar> \<le> n" if "0 \<le> n" for n
  proof -
    have "n = (n div k) * k + n mod k" "0 \<le> n mod k" "n mod k < k" "0 \<le> (n div k) * k"
      using assms that by (simp_all add: pos_imp_zdiv_nonneg_iff)
    then show ?thesis by (intro conjI; linarith)
  qed
  show ?thesis
  proof (cases "0 \<le> i")
    case True
    with floor [of i] assms show ?thesis by (simp add: sdiv_nonneg)
  next
    case False
    then have "(i sdiv k) * k = - (((- i) div k) * k)"
      using assms by (simp add: signed_divide_int_def)
    moreover have "\<bar>- i - ((- i) div k) * k\<bar> < k" "\<bar>((- i) div k) * k\<bar> \<le> - i"
      using False floor [of "- i"] by simp_all
    ultimately show ?thesis using False by (intro conjI; linarith)
  qed
qed

lemma Itoa_value:
  "if 0 \<le> i then list_all is_digit (Itoa i) \<and> dec_value (Itoa i) = nat i
   else hd (Itoa i) = CHR ''-'' \<and> dec_value (tl (Itoa i)) = nat (- i)"
  by (simp add: Itoa_def nat_to_dec_digits)

text \<open>C40: a timestamp is the clock's nanosecond count in milliseconds, rounded towards zero, in decimal: for every 64-bit count, before
  1970 too, it is off by less than a millisecond, and stays within thirteen digits.\<close>

theorem timestamp_milliseconds:
  "\<exists>ms. \<bar>sint now - ms * 1000000\<bar> < 1000000 \<and> \<bar>ms * 1000000\<bar> \<le> \<bar>sint now\<bar> \<and> \<bar>ms\<bar> \<le> 9223372036854
     \<and> (if 0 \<le> ms then list_all is_digit (CreateTimestampMs now) \<and> dec_value (CreateTimestampMs now) = nat ms
        else hd (CreateTimestampMs now) = CHR ''-'' \<and> dec_value (tl (CreateTimestampMs now)) = nat (- ms))"
proof -
  let ?ms = "sint now sdiv 1000000"
  have near: "\<bar>sint now - ?ms * 1000000\<bar> < 1000000" "\<bar>?ms * 1000000\<bar> \<le> \<bar>sint now\<bar>"
    using sdiv_bounds [of 1000000 "sint now"] by simp_all
  moreover have "- 9223372036854775808 \<le> sint now" "sint now < 9223372036854775808"
    using sint_range_size [of now] by (simp_all add: word_size)
  with near(2) have "\<bar>?ms\<bar> \<le> 9223372036854"
    by linarith
  ultimately show ?thesis
    using Itoa_value [of ?ms] by (intro exI [of _ ?ms]) (simp only: CreateTimestampMs_def if_cancel conj_assoc simp_thms)
qed

end
