(* ===== verification/Params.thy ===== *)
theory Params
  imports Entities
begin

text \<open>
  The parameters of the business logic (\<open>internal/domain/logic/params\<close>) and the messages built
  from them (\<open>internal/domain/logic/messages\<close>): device, camera, sensor and user records, the
  mutex-guarded parameter map with its contract as a locale, the recording modes, and the rule
  that decides whether a user may be recorded.
\<close>

section \<open>Device, camera, sensor and user parameters\<close>

record DeviceLogicParams =
  dev_GatewayId :: gateway_id
  dev_DeviceTableId :: u64
  dev_UserId :: u64
  dev_DeviceId :: string
  dev_Title :: string

datatype CloudCameraRecordingMode =
    RecordingModeNoRecord
  | RecordingModeContinuous
  | RecordingModeMotion
  | RecordingModeSchedule

text \<open>The \<open>iota\<close> numbering of the modes is their order.\<close>

fun recording_mode_iota :: "CloudCameraRecordingMode \<Rightarrow> nat" where
  "recording_mode_iota RecordingModeNoRecord = 0"
| "recording_mode_iota RecordingModeContinuous = 1"
| "recording_mode_iota RecordingModeMotion = 2"
| "recording_mode_iota RecordingModeSchedule = 3"

instantiation CloudCameraRecordingMode :: linorder
begin

definition less_eq_CloudCameraRecordingMode ::
    "CloudCameraRecordingMode \<Rightarrow> CloudCameraRecordingMode \<Rightarrow> bool" where
  "less_eq_CloudCameraRecordingMode a b \<longleftrightarrow> recording_mode_iota a \<le> recording_mode_iota b"

definition less_CloudCameraRecordingMode ::
    "CloudCameraRecordingMode \<Rightarrow> CloudCameraRecordingMode \<Rightarrow> bool" where
  "less_CloudCameraRecordingMode a b \<longleftrightarrow> recording_mode_iota a < recording_mode_iota b"

instance
proof
  fix a b :: CloudCameraRecordingMode
  show "a \<le> b \<Longrightarrow> b \<le> a \<Longrightarrow> a = b"
    by (cases a; cases b) (simp_all add: less_eq_CloudCameraRecordingMode_def)
qed (auto simp: less_eq_CloudCameraRecordingMode_def less_CloudCameraRecordingMode_def)

end

record CameraLogicParams = DeviceLogicParams +
  RecordingMode :: CloudCameraRecordingMode
  Schedule :: string
  MediaserverParamsSet :: bool
  cl_MediaserverIp :: string
  cl_ApplicationName :: string
  MotionInProcess :: bool

text \<open>
  \<open>Value\<close> and \<open>Timestamp\<close> of \<open>InnerParams\<close> are never read or written by the program; the
  timestamp is kept as a nanosecond count.
\<close>

record InnerParams =
  Influx :: bool
  Notify :: bool
  Desc :: string
  ip_Value :: string
  ip_Timestamp :: i64

record UserLogicParams =
  usr_UserId :: u64
  usr_TarifId :: u64
  usr_Money :: u64
  usr_Vip :: bool
  usr_LegalEntity :: bool
  usr_Blocked :: bool
  usr_Push :: bool

definition zero_UserLogicParams :: UserLogicParams where
  "zero_UserLogicParams = \<lparr>usr_UserId = 0, usr_TarifId = 0, usr_Money = 0, usr_Vip = False,
     usr_LegalEntity = False, usr_Blocked = False, usr_Push = False\<rparr>"

definition UserTarifOnline :: u64 where
  "UserTarifOnline = 1"

definition CanBeRecorded :: "UserLogicParams \<Rightarrow> bool" where
  "CanBeRecorded p \<longleftrightarrow>
     (usr_TarifId p > UserTarifOnline \<and> usr_Money p > 0) \<or> usr_Vip p \<or> usr_LegalEntity p"

section \<open>The guarded parameter map\<close>

text \<open>
  The map holds \<open>interface{}\<close> values; the dynamic types the program stores are pointers to
  camera, sensor and inner parameters. A sensor's parameters contain a map of their own
  (\<open>Inner\<close>), hence the recursion. Every method holds the mutex for its whole body, so a method
  is one atomic step and the map is the whole state.
\<close>

datatype iface =
    CameraP CameraLogicParams
  | SensorP DeviceLogicParams "string \<Rightarrow> iface option"
  | InnerP InnerParams

type_synonym GuardedParamsMap = "string \<Rightarrow> iface option"

definition NewGuardedParamsMap :: GuardedParamsMap where
  "NewGuardedParamsMap = Map.empty"

definition GuardedParamsMap_Add :: "string \<Rightarrow> iface \<Rightarrow> GuardedParamsMap \<Rightarrow> GuardedParamsMap" where
  "GuardedParamsMap_Add key value m = m(key \<mapsto> value)"

definition GuardedParamsMap_Get :: "GuardedParamsMap \<Rightarrow> string \<Rightarrow> iface option" where
  "GuardedParamsMap_Get m key = m key"

definition GuardedParamsMap_Remove :: "string \<Rightarrow> GuardedParamsMap \<Rightarrow> GuardedParamsMap" where
  "GuardedParamsMap_Remove key m = m(key := None)"

text \<open>
  The contract of a registry of named objects, which the parameter map and the gateway channel
  map both keep: a lookup sees the last addition of its key unless a removal came later, and
  other keys are not touched.
\<close>

locale registry =
  fixes new :: 'm
    and add :: "string \<Rightarrow> 'v \<Rightarrow> 'm \<Rightarrow> 'm"
    and get :: "'m \<Rightarrow> string \<Rightarrow> 'v option"
    and remove :: "string \<Rightarrow> 'm \<Rightarrow> 'm"
  assumes get_new: "get new k = None"
    and get_add: "get (add k v m) k' = (if k' = k then Some v else get m k')"
    and get_remove: "get (remove k m) k' = (if k' = k then None else get m k')"
begin

lemmas registry_laws = get_new get_add get_remove

text \<open>Loading a list of rows: the last row with a key decides.\<close>

lemma get_add_all:
  "get (fold (\<lambda>x m. add (key x) (val x) m) xs m) k =
     (case map_of (rev (map (\<lambda>x. (key x, val x)) xs)) k of
        None \<Rightarrow> get m k | Some v \<Rightarrow> Some v)"
  by (induction xs arbitrary: m) (auto simp: get_add map_add_def split: option.splits)

lemma get_add_all_new:
  "get (fold (\<lambda>x m. add (key x) (val x) m) xs new) k =
     map_of (rev (map (\<lambda>x. (key x, val x)) xs)) k"
  by (simp add: get_add_all get_new split: option.splits)

lemma get_add_all_distinct:
  assumes "distinct (map key xs)" and "x \<in> set xs"
  shows "get (fold (\<lambda>x m. add (key x) (val x) m) xs new) (key x) = Some (val x)"
proof -
  have "distinct (map fst (rev (map (\<lambda>x. (key x, val x)) xs)))"
    using assms(1) by (simp add: rev_map [symmetric] o_def)
  then show ?thesis
    using assms(2) by (auto simp: get_add_all_new)
qed

lemma add_remove_other: "k \<noteq> k' \<Longrightarrow> get (remove k (add k' v m)) k' = Some v"
  by (simp add: get_remove get_add)

end

interpretation params_map: registry NewGuardedParamsMap GuardedParamsMap_Add
    GuardedParamsMap_Get GuardedParamsMap_Remove
  by unfold_locales (auto simp: NewGuardedParamsMap_def GuardedParamsMap_Add_def
      GuardedParamsMap_Get_def GuardedParamsMap_Remove_def)

lemmas params_map_simps [simp] =
  params_map.get_new params_map.get_add params_map.get_remove

section \<open>Camera parameters\<close>

definition zero_CameraLogicParams :: CameraLogicParams where
  "zero_CameraLogicParams = \<lparr>dev_GatewayId = [], dev_DeviceTableId = 0, dev_UserId = 0,
     dev_DeviceId = [], dev_Title = [], RecordingMode = RecordingModeNoRecord, Schedule = [],
     MediaserverParamsSet = False, cl_MediaserverIp = [], cl_ApplicationName = [],
     MotionInProcess = False\<rparr>"

definition ConvertRecordingMode :: "string \<Rightarrow> CloudCameraRecordingMode" where
  "ConvertRecordingMode mode =
     (if mode = ''continuous'' then RecordingModeContinuous
      else if mode = ''motion'' then RecordingModeMotion
      else if mode = ''schedule'' then RecordingModeSchedule
      else RecordingModeNoRecord)"

definition SetRecordingMode :: "string \<Rightarrow> CameraLogicParams \<Rightarrow> CameraLogicParams" where
  "SetRecordingMode mode p = p\<lparr>RecordingMode := ConvertRecordingMode mode\<rparr>"

definition ToMessage :: "i64 \<Rightarrow> CameraLogicParams \<Rightarrow> bool \<Rightarrow> IotMessage" where
  "ToMessage now p recording =
     (let recMode = (if recording then ''on'' else ''off'');
          message = CreateCloudIotMessage now '''' (dev_DeviceId p)
      in message\<lparr>MediaserverIp := cl_MediaserverIp p,
                 ApplicationName := cl_ApplicationName p, Recording := recMode\<rparr>)"

section \<open>Messages\<close>

definition NewStatusMessage :: "i64 \<Rightarrow> gateway_id \<Rightarrow> string \<Rightarrow> IotMessage" where
  "NewStatusMessage now gatewayID status =
     (CreateCloudIotMessage now gatewayID '''')\<lparr>Protocol := ''amqp'', Status := status\<rparr>"

definition NewPushMessage :: "string \<Rightarrow> string \<Rightarrow> string \<Rightarrow> u64 \<Rightarrow> u64 \<Rightarrow> IotMessage" where
  "NewPushMessage deviceType title content deviceTableId userId = zero_IotMessage
     \<lparr>DeviceType := deviceType, DeviceTableId := deviceTableId, UserId := userId,
      Title := title, Content := content\<rparr>"

lemma ToMessage_sel [simp]:
  "Recording (ToMessage t p r) = (if r then ''on'' else ''off'')"
  "DeviceId (ToMessage t p r) = dev_DeviceId p"
  "MediaserverIp (ToMessage t p r) = cl_MediaserverIp p"
  "ApplicationName (ToMessage t p r) = cl_ApplicationName p"
  "GatewayId (ToMessage t p r) = []"
  by (simp_all add: ToMessage_def Let_def)

lemma NewStatusMessage_sel [simp]:
  "GatewayId (NewStatusMessage t g s) = g"
  "Status (NewStatusMessage t g s) = s"
  "Protocol (NewStatusMessage t g s) = ''amqp''"
  "DeviceId (NewStatusMessage t g s) = []"
  "MessageType (NewStatusMessage t g s) = []"
  by (simp_all add: NewStatusMessage_def)

lemma NewPushMessage_sel [simp]:
  "DeviceType (NewPushMessage d t c i u) = d"
  "DeviceTableId (NewPushMessage d t c i u) = i"
  "UserId (NewPushMessage d t c i u) = u"
  "Title (NewPushMessage d t c i u) = t"
  "Content (NewPushMessage d t c i u) = c"
  by (simp_all add: NewPushMessage_def)

lemma ConvertRecordingMode_simps [simp]:
  "ConvertRecordingMode ''continuous'' = RecordingModeContinuous"
  "ConvertRecordingMode ''motion'' = RecordingModeMotion"
  "ConvertRecordingMode ''schedule'' = RecordingModeSchedule"
  by (simp_all add: ConvertRecordingMode_def)

lemma ConvertRecordingMode_cases:
  "ConvertRecordingMode s = RecordingModeContinuous \<longleftrightarrow> s = ''continuous''"
  "ConvertRecordingMode s = RecordingModeMotion \<longleftrightarrow> s = ''motion''"
  "ConvertRecordingMode s = RecordingModeSchedule \<longleftrightarrow> s = ''schedule''"
  by (auto simp: ConvertRecordingMode_def)

text \<open>
  The tariff comparison is unsigned on 64 bits: a user without privileges is recorded from
  tariff 2 on, and only with money left.
\<close>

lemma CanBeRecorded_iff:
  "CanBeRecorded p \<longleftrightarrow>
     usr_Vip p \<or> usr_LegalEntity p \<or> (2 \<le> unat (usr_TarifId p) \<and> unat (usr_Money p) \<noteq> 0)"
proof -
  have "usr_TarifId p > 1 \<longleftrightarrow> 2 \<le> unat (usr_TarifId p)"
    by (simp add: word_less_nat_alt) linarith
  moreover have "usr_Money p > 0 \<longleftrightarrow> unat (usr_Money p) \<noteq> 0"
    by (simp add: word_greater_zero_iff unat_eq_0)
  ultimately show ?thesis
    by (auto simp: CanBeRecorded_def UserTarifOnline_def)
qed

end
