(* ===== verification/Json.thy ===== *)
theory Json
  imports Entities
begin

text \<open>
  The part of Go's \<open>encoding/json\<close> (a standard library package) that the program uses: values,
  the compact encoder with its string escapes, the parser, and the reflection-driven coding of
  structs by their field tags. The tables \<open>CameraParams_fields\<close>, \<open>ZWaveParams_fields\<close> and
  \<open>IotMessage_fields\<close> are the struct tags of \<open>entities/iotmessage.go\<close>.
\<close>

section \<open>JSON values\<close>

text \<open>A number keeps the text of its literal, as Go's decoder does before it looks at the target.\<close>

datatype json =
    JNull
  | JBool bool
  | JNum string
  | JStr string
  | JArr "json list"
  | JObj "(string \<times> json) list"

section \<open>UTF-8\<close>

definition byte :: "char \<Rightarrow> nat" where
  "byte c = of_char c"

definition is_cont :: "nat \<Rightarrow> nat \<Rightarrow> char \<Rightarrow> bool" where
  "is_cont lo hi c \<longleftrightarrow> lo \<le> byte c \<and> byte c \<le> hi"

text \<open>
  The table of leading bytes of \<open>unicode/utf8\<close>: how many continuation bytes follow, and the
  range of the first of them. \<open>utf8_tail\<close> is the number of continuation bytes when the bytes at
  hand form a valid encoding; \<open>None\<close> is \<open>RuneError\<close> with width one.
\<close>

definition utf8_lead :: "nat \<Rightarrow> (nat \<times> nat \<times> nat) option" where
  "utf8_lead b =
     (if 194 \<le> b \<and> b \<le> 223 then Some (1, 128, 191)
      else if b = 224 then Some (2, 160, 191)
      else if b = 237 then Some (2, 128, 159)
      else if 225 \<le> b \<and> b \<le> 239 then Some (2, 128, 191)
      else if b = 240 then Some (3, 144, 191)
      else if 241 \<le> b \<and> b \<le> 243 then Some (3, 128, 191)
      else if b = 244 then Some (3, 128, 143)
      else None)"

definition utf8_tail :: "char \<Rightarrow> string \<Rightarrow> nat option" where
  "utf8_tail c cs =
     (case utf8_lead (byte c) of
        None \<Rightarrow> None
      | Some (n, lo, hi) \<Rightarrow>
          (if n \<le> length cs \<and> is_cont lo hi (cs ! 0)
              \<and> list_all (is_cont 128 191) (take (n - 1) (drop 1 cs))
           then Some n else None))"

definition replacement :: string where
  "replacement = [char_of (239 :: nat), char_of (191 :: nat), char_of (189 :: nat)]"

text \<open>A string with each invalid byte replaced by U+FFFD: what survives a trip through JSON.\<close>

fun sanitize :: "string \<Rightarrow> string" where
  "sanitize [] = []"
| "sanitize (c # cs) =
     (if byte c < 128 then c # sanitize cs
      else (case utf8_tail c cs of
              None \<Rightarrow> replacement @ sanitize cs
            | Some n \<Rightarrow> c # take n cs @ sanitize (drop n cs)))"

definition valid_utf8 :: "string \<Rightarrow> bool" where
  "valid_utf8 s \<longleftrightarrow> sanitize s = s"

lemma ascii_valid_utf8: "list_all (\<lambda>c. byte c < 128) s \<Longrightarrow> valid_utf8 s"
  unfolding valid_utf8_def by (induction s) auto

section \<open>Encoding strings and values\<close>

definition hex_digit :: "nat \<Rightarrow> char" where
  "hex_digit d = ''0123456789abcdef'' ! d"

definition escape_ascii :: "char \<Rightarrow> string" where
  "escape_ascii c =
     (if c = CHR 0x22 \<or> c = CHR 0x5C then [CHR 0x5C, c]
      else if c = CHR 0x0A then [CHR 0x5C, CHR ''n'']
      else if c = CHR 0x0D then [CHR 0x5C, CHR ''r'']
      else if c = CHR 0x09 then [CHR 0x5C, CHR ''t'']
      else if byte c < 32 \<or> c = CHR ''<'' \<or> c = CHR ''>'' \<or> c = CHR ''&''
        then CHR 0x5C # ''u00'' @ [hex_digit (byte c div 16), hex_digit (byte c mod 16)]
      else [c])"

text \<open>The bytes of U+2028 and U+2029, which the encoder escapes although they are valid.\<close>

definition is_line_sep :: "string \<Rightarrow> bool" where
  "is_line_sep r \<longleftrightarrow> map byte r = [226, 128, 168] \<or> map byte r = [226, 128, 169]"

fun escape :: "string \<Rightarrow> string" where
  "escape [] = []"
| "escape (c # cs) =
     (if byte c < 128 then escape_ascii c @ escape cs
      else (case utf8_tail c cs of
              None \<Rightarrow> CHR 0x5C # ''ufffd'' @ escape cs
            | Some n \<Rightarrow>
                (let r = c # take n cs in
                 (if is_line_sep r then CHR 0x5C # ''u202'' @ [hex_digit (byte (r ! 2) mod 16)]
                  else r)
                 @ escape (drop n cs))))"

definition quote :: "string \<Rightarrow> string" where
  "quote s = CHR 0x22 # escape s @ [CHR 0x22]"

fun render :: "json \<Rightarrow> string"
  and render_elems :: "json list \<Rightarrow> string"
  and render_members :: "(string \<times> json) list \<Rightarrow> string" where
  "render JNull = ''null''"
| "render (JBool b) = (if b then ''true'' else ''false'')"
| "render (JNum lit) = lit"
| "render (JStr s) = quote s"
| "render (JArr js) = CHR ''['' # render_elems js @ '']''"
| "render (JObj kvs) = CHR ''{'' # render_members kvs @ ''}''"
| "render_elems [] = []"
| "render_elems [j] = render j"
| "render_elems (j # js) = render j @ CHR '','' # render_elems js"
| "render_members [] = []"
| "render_members [(k, v)] = quote k @ CHR '':'' # render v"
| "render_members ((k, v) # kvs) = quote k @ CHR '':'' # render v @ CHR '','' # render_members kvs"

section \<open>Structs by their tags\<close>

datatype 'r accessor =
    StrAcc "'r \<Rightarrow> string" "string \<Rightarrow> 'r \<Rightarrow> 'r"
  | U64Acc "'r \<Rightarrow> u64" "u64 \<Rightarrow> 'r \<Rightarrow> 'r"
  | BoolAcc "'r \<Rightarrow> bool" "bool \<Rightarrow> 'r \<Rightarrow> 'r"
  | ListAcc "'r \<Rightarrow> json list" "json list \<Rightarrow> 'r \<Rightarrow> err option \<times> 'r"

text \<open>A struct field: its JSON name, whether it is \<open>omitempty\<close>, and how to reach it.\<close>

type_synonym 'r json_field = "string \<times> bool \<times> 'r accessor"

fun field_empty :: "'r accessor \<Rightarrow> 'r \<Rightarrow> bool" where
  "field_empty (StrAcc g u) r = (g r = [])"
| "field_empty (U64Acc g u) r = (g r = 0)"
| "field_empty (BoolAcc g u) r = (\<not> g r)"
| "field_empty (ListAcc g d) r = (g r = [])"

fun field_json :: "'r accessor \<Rightarrow> 'r \<Rightarrow> json" where
  "field_json (StrAcc g u) r = JStr (g r)"
| "field_json (U64Acc g u) r = JNum (nat_to_dec (unat (g r)))"
| "field_json (BoolAcc g u) r = JBool (g r)"
| "field_json (ListAcc g d) r = JArr (g r)"

fun encode_fields :: "'r json_field list \<Rightarrow> 'r \<Rightarrow> (string \<times> json) list" where
  "encode_fields [] r = []"
| "encode_fields ((name, omit, a) # fs) r =
     (if omit \<and> field_empty a r then [] else [(name, field_json a r)]) @ encode_fields fs r"

text \<open>
  Decoding. A JSON \<open>null\<close> leaves a scalar alone and empties a slice; a value of the wrong kind
  is an error that does not stop the decoder, which reports the first one at the end.
\<close>

definition type_error :: err where
  "type_error = ''json: cannot unmarshal value into Go struct field''"

definition ParseUint :: "string \<Rightarrow> u64 option" where
  "ParseUint s =
     (if s \<noteq> [] \<and> list_all is_digit s \<and> dec_value s < 2 ^ 64
      then Some (of_nat (dec_value s)) else None)"

fun decode_field :: "'r accessor \<Rightarrow> json \<Rightarrow> 'r \<Rightarrow> err option \<times> 'r" where
  "decode_field (StrAcc g u) j r =
     (case j of JStr s \<Rightarrow> (None, u s r) | JNull \<Rightarrow> (None, r) | _ \<Rightarrow> (Some type_error, r))"
| "decode_field (U64Acc g u) j r =
     (case j of
        JNum lit \<Rightarrow>
          (case ParseUint lit of None \<Rightarrow> (Some type_error, r) | Some n \<Rightarrow> (None, u n r))
      | JNull \<Rightarrow> (None, r) | _ \<Rightarrow> (Some type_error, r))"
| "decode_field (BoolAcc g u) j r =
     (case j of JBool b \<Rightarrow> (None, u b r) | JNull \<Rightarrow> (None, r) | _ \<Rightarrow> (Some type_error, r))"
| "decode_field (ListAcc g d) j r =
     (case j of JArr js \<Rightarrow> d js r | JNull \<Rightarrow> d [] r | _ \<Rightarrow> (Some type_error, r))"

text \<open>
  A key matches a field by its exact name, else by case folding: ASCII letters, and the Kelvin
  sign and the long s, which fold to \<open>k\<close> and \<open>s\<close>.
\<close>

definition lower :: "char \<Rightarrow> char" where
  "lower c = (if 65 \<le> byte c \<and> byte c \<le> 90 then char_of (byte c + 32) else c)"

fun fold_key :: "string \<Rightarrow> string" where
  "fold_key [] = []"
| "fold_key (c # cs) =
     (if byte c = 197 \<and> cs \<noteq> [] \<and> byte (hd cs) = 191 then CHR ''s'' # fold_key (drop 1 cs)
      else if byte c = 226 \<and> 2 \<le> length cs \<and> byte (cs ! 0) = 132 \<and> byte (cs ! 1) = 170
        then CHR ''k'' # fold_key (drop 2 cs)
      else lower c # fold_key cs)"

definition find_field :: "'r json_field list \<Rightarrow> string \<Rightarrow> 'r accessor option" where
  "find_field fs key =
     (case find (\<lambda>(n, _, _). n = key) fs of
        Some (_, _, a) \<Rightarrow> Some a
      | None \<Rightarrow>
          (case find (\<lambda>(n, _, _). fold_key n = fold_key key) fs of
             Some (_, _, a) \<Rightarrow> Some a
           | None \<Rightarrow> None))"

definition first_error :: "err option \<Rightarrow> err option \<Rightarrow> err option" where
  "first_error e e' = (case e of None \<Rightarrow> e' | Some _ \<Rightarrow> e)"

fun decode_members :: "'r json_field list \<Rightarrow> (string \<times> json) list \<Rightarrow> err option \<times> 'r \<Rightarrow> err option \<times> 'r"
where
  "decode_members fs [] er = er"
| "decode_members fs ((k, v) # kvs) er =
     decode_members fs kvs
       (case find_field fs k of
          None \<Rightarrow> er
        | Some a \<Rightarrow>
            (case decode_field a v (snd er) of (e', r') \<Rightarrow> (first_error (fst er) e', r')))"

definition decode_struct :: "'r json_field list \<Rightarrow> json \<Rightarrow> 'r \<Rightarrow> err option \<times> 'r" where
  "decode_struct fs j r =
     (case j of
        JObj kvs \<Rightarrow> decode_members fs kvs (None, r)
      | JNull \<Rightarrow> (None, r)
      | _ \<Rightarrow> (Some type_error, r))"

text \<open>
  A JSON array replaces a slice element by element: element \<open>i\<close> is decoded over the element the
  slice already has at \<open>i\<close>, a zero value past its end.
\<close>

fun decode_slice :: "'r json_field list \<Rightarrow> 'r \<Rightarrow> json list \<Rightarrow> 'r list \<Rightarrow> err option \<times> 'r list" where
  "decode_slice fs zero [] old = (None, [])"
| "decode_slice fs zero (j # js) old =
     (case decode_struct fs j (case old of [] \<Rightarrow> zero | x # _ \<Rightarrow> x) of (e, r) \<Rightarrow>
        (case decode_slice fs zero js (tl old) of (e', rs) \<Rightarrow> (first_error e e', r # rs)))"

section \<open>Round trip of a struct through its field table\<close>

lemma find_field_distinct:
  "distinct (map fst fs) \<Longrightarrow> (n, om, a) \<in> set fs \<Longrightarrow> find_field fs n = Some a"
proof -
  assume d: "distinct (map fst fs)" and i: "(n, om, a) \<in> set fs"
  have "find (\<lambda>(n', _, _). n' = n) fs = Some (n, om, a)"
    using d i by (induction fs) (auto simp: rev_image_eqI)
  then show ?thesis by (simp add: find_field_def)
qed

lemma ParseUint_unat [simp]: "ParseUint (nat_to_dec (unat n)) = Some (n :: u64)"
  using unsigned_less [of n] by (simp add: ParseUint_def nat_to_dec_digits)

text \<open>
  The effect of decoding one encoded field, and when skipping the field has the same effect:
  the target still has the zero value there.
\<close>

fun copy_field :: "'r accessor \<Rightarrow> 'r \<Rightarrow> 'r \<Rightarrow> 'r" where
  "copy_field (StrAcc g u) r z = u (g r) z"
| "copy_field (U64Acc g u) r z = u (g r) z"
| "copy_field (BoolAcc g u) r z = u (g r) z"
| "copy_field (ListAcc g d) r z = snd (d (g r) z)"

fun copies :: "'r accessor \<Rightarrow> 'r \<Rightarrow> 'r \<Rightarrow> bool" where
  "copies (StrAcc g u) r z \<longleftrightarrow> u [] z = z"
| "copies (U64Acc g u) r z \<longleftrightarrow> u 0 z = z"
| "copies (BoolAcc g u) r z \<longleftrightarrow> u False z = z"
| "copies (ListAcc g d) r z \<longleftrightarrow> snd (d [] z) = z \<and> fst (d (g r) z) = None"

fun all_copied :: "'r json_field list \<Rightarrow> 'r \<Rightarrow> 'r \<Rightarrow> bool" where
  "all_copied [] r z = True"
| "all_copied ((n, om, a) # fs) r z \<longleftrightarrow> copies a r z \<and> all_copied fs r (copy_field a r z)"

definition copy_fields :: "'r json_field list \<Rightarrow> 'r \<Rightarrow> 'r \<Rightarrow> 'r" where
  "copy_fields fs r z = fold (\<lambda>(n, om, a). copy_field a r) fs z"

lemma decode_field_json:
  "copies a r z \<Longrightarrow> decode_field a (field_json a r) z = (None, copy_field a r z)"
  by (cases a) (auto simp: prod_eq_iff)

lemma skip_field: "copies a r z \<Longrightarrow> field_empty a r \<Longrightarrow> copy_field a r z = z"
  by (cases a) auto

lemma decode_encode_fields:
  assumes "distinct (map fst fs)"
  shows "set gs \<subseteq> set fs \<Longrightarrow> all_copied gs r z \<Longrightarrow>
    decode_members fs (encode_fields gs r) (None, z) = (None, copy_fields gs r z)"
proof (induction gs r z rule: all_copied.induct)
  case (2 n om a gs r z)
  have "find_field fs n = Some a"
    using 2 assms by (auto intro: find_field_distinct)
  with 2 show ?case
    by (auto simp: copy_fields_def decode_field_json skip_field first_error_def)
qed (simp add: copy_fields_def)

lemma struct_roundtrip:
  assumes "distinct (map fst fs)" and "all_copied fs r z" and "copy_fields fs r z = r"
  shows "decode_struct fs (JObj (encode_fields fs r)) z = (None, r)"
  using assms by (simp add: decode_struct_def decode_encode_fields)

lemma slice_roundtrip:
  assumes "\<And>x. decode_struct fs (JObj (encode_fields fs x)) z = (None, x)"
  shows "decode_slice fs z (map (\<lambda>x. JObj (encode_fields fs x)) xs) [] = (None, xs)"
  by (induction xs) (simp_all add: assms first_error_def)

end
