(* ===== verification/Codec.thy ===== *)
theory Codec
  imports Json
begin

text \<open>
  JSON coding of the IoT message: the field tables of \<open>CameraParams\<close>, \<open>ZWaveParams\<close> and
  \<open>IotMessage\<close> (one entry per struct tag of \<open>entities/iotmessage.go\<close>, in the order of the
  struct), \<open>json.Marshal\<close> and \<open>json.Unmarshal\<close> on them, and the round trip.
\<close>

section \<open>The struct tags\<close>

definition CameraParams_fields :: "CameraParams json_field list" where
  "CameraParams_fields = [
     (''id'', True, StrAcc cam_ID (\<lambda>v. cam_ID_update (\<lambda>_. v))),
     (''deviceId'', True, StrAcc cam_DeviceID (\<lambda>v. cam_DeviceID_update (\<lambda>_. v))),
     (''enabled'', True, StrAcc cam_Enabled (\<lambda>v. cam_Enabled_update (\<lambda>_. v))),
     (''ipAddress'', True, StrAcc cam_IPAddress (\<lambda>v. cam_IPAddress_update (\<lambda>_. v))),
     (''username'', True, StrAcc cam_Username (\<lambda>v. cam_Username_update (\<lambda>_. v))),
     (''password'', True, StrAcc cam_Password (\<lambda>v. cam_Password_update (\<lambda>_. v))),
     (''deviceUri'', True, StrAcc cam_DeviceURI (\<lambda>v. cam_DeviceURI_update (\<lambda>_. v))),
     (''profile'', True, StrAcc cam_Profile (\<lambda>v. cam_Profile_update (\<lambda>_. v))),
     (''streamUri'', True, StrAcc cam_StreamURI (\<lambda>v. cam_StreamURI_update (\<lambda>_. v))),
     (''manufacturer'', True, StrAcc cam_Manufacturer (\<lambda>v. cam_Manufacturer_update (\<lambda>_. v))),
     (''model'', True, StrAcc cam_Model (\<lambda>v. cam_Model_update (\<lambda>_. v))),
     (''firmwareVersion'', True, StrAcc cam_FirmwareVersion (\<lambda>v. cam_FirmwareVersion_update (\<lambda>_. v))),
     (''serialNumber'', True, StrAcc cam_SerialNumber (\<lambda>v. cam_SerialNumber_update (\<lambda>_. v))),
     (''hardwareId'', True, StrAcc cam_HardwareID (\<lambda>v. cam_HardwareID_update (\<lambda>_. v))),
     (''factoryUuid'', True, StrAcc cam_FactoryUUID (\<lambda>v. cam_FactoryUUID_update (\<lambda>_. v))),
     (''motionDetector'', True, StrAcc cam_MotionDetector (\<lambda>v. cam_MotionDetector_update (\<lambda>_. v))),
     (''connectionState'', True, StrAcc cam_ConnectionState (\<lambda>v. cam_ConnectionState_update (\<lambda>_. v))),
     (''cloudStreaming'', True, StrAcc cam_CloudStreaming (\<lambda>v. cam_CloudStreaming_update (\<lambda>_. v))),
     (''cloudStreamingType'', True, StrAcc cam_CloudStreamingType (\<lambda>v. cam_CloudStreamingType_update (\<lambda>_. v))),
     (''cloudStreamingState'', True, StrAcc cam_CloudStreamingState (\<lambda>v. cam_CloudStreamingState_update (\<lambda>_. v))),
     (''localArchive'', True, StrAcc cam_LocalArchive (\<lambda>v. cam_LocalArchive_update (\<lambda>_. v))),
     (''localArchiveType'', True, StrAcc cam_LocalArchiveType (\<lambda>v. cam_LocalArchiveType_update (\<lambda>_. v))),
     (''localRecordingState'', True, StrAcc cam_LocalRecordingState (\<lambda>v. cam_LocalRecordingState_update (\<lambda>_. v))),
     (''localArchiveUploading'', True, StrAcc cam_LocalArchiveUploading (\<lambda>v. cam_LocalArchiveUploading_update (\<lambda>_. v)))]"

definition ZWaveParams_fields :: "ZWaveParams json_field list" where
  "ZWaveParams_fields = [
     (''id'', True, StrAcc zw_ID (\<lambda>v. zw_ID_update (\<lambda>_. v))),
     (''deviceId'', True, StrAcc zw_DeviceID (\<lambda>v. zw_DeviceID_update (\<lambda>_. v))),
     (''homeId'', True, StrAcc zw_HomeID (\<lambda>v. zw_HomeID_update (\<lambda>_. v))),
     (''nodeId'', True, StrAcc zw_NodeID (\<lambda>v. zw_NodeID_update (\<lambda>_. v))),
     (''basicType'', True, StrAcc zw_BasicType (\<lambda>v. zw_BasicType_update (\<lambda>_. v))),
     (''genericType'', True, StrAcc zw_GenericType (\<lambda>v. zw_GenericType_update (\<lambda>_. v))),
     (''manufacturer'', True, StrAcc zw_Manufacturer (\<lambda>v. zw_Manufacturer_update (\<lambda>_. v))),
     (''product'', False, StrAcc zw_Product (\<lambda>v. zw_Product_update (\<lambda>_. v))),
     (''value'', False, StrAcc zw_Value (\<lambda>v. zw_Value_update (\<lambda>_. v))),
     (''lastHeardTime'', False, StrAcc zw_LastHeardTime (\<lambda>v. zw_LastHeardTime_update (\<lambda>_. v))),
     (''status'', True, StrAcc zw_Status (\<lambda>v. zw_Status_update (\<lambda>_. v)))]"

definition IotMessage_fields :: "IotMessage json_field list" where
  "IotMessage_fields = [
     (''timestampMs'', True, StrAcc Timestamp (\<lambda>v. Timestamp_update (\<lambda>_. v))),
     (''vendor'', True, StrAcc Vendor (\<lambda>v. Vendor_update (\<lambda>_. v))),
     (''version'', True, StrAcc Version (\<lambda>v. Version_update (\<lambda>_. v))),
     (''gatewayId'', True, StrAcc GatewayId (\<lambda>v. GatewayId_update (\<lambda>_. v))),
     (''clientType'', True, StrAcc ClientType (\<lambda>v. ClientType_update (\<lambda>_. v))),
     (''deviceId'', True, StrAcc DeviceId (\<lambda>v. DeviceId_update (\<lambda>_. v))),
     (''deviceType'', True, StrAcc DeviceType (\<lambda>v. DeviceType_update (\<lambda>_. v))),
     (''deviceState'', True, StrAcc DeviceState (\<lambda>v. DeviceState_update (\<lambda>_. v))),
     (''deviceTableId'', True, U64Acc DeviceTableId (\<lambda>v. DeviceTableId_update (\<lambda>_. v))),
     (''protocol'', True, StrAcc Protocol (\<lambda>v. Protocol_update (\<lambda>_. v))),
     (''messageType'', True, StrAcc MessageType (\<lambda>v. MessageType_update (\<lambda>_. v))),
     (''sensorType'', True, StrAcc SensorType (\<lambda>v. SensorType_update (\<lambda>_. v))),
     (''sensorData'', True, StrAcc SensorData (\<lambda>v. SensorData_update (\<lambda>_. v))),
     (''preview'', True, StrAcc Preview (\<lambda>v. Preview_update (\<lambda>_. v))),
     (''label'', True, StrAcc Label (\<lambda>v. Label_update (\<lambda>_. v))),
     (''value'', True, StrAcc Value (\<lambda>v. Value_update (\<lambda>_. v))),
     (''units'', True, StrAcc Units (\<lambda>v. Units_update (\<lambda>_. v))),
     (''mediaserverIp'', True, StrAcc MediaserverIp (\<lambda>v. MediaserverIp_update (\<lambda>_. v))),
     (''applicationName'', True, StrAcc ApplicationName (\<lambda>v. ApplicationName_update (\<lambda>_. v))),
     (''recording'', True, StrAcc Recording (\<lambda>v. Recording_update (\<lambda>_. v))),
     (''command'', True, StrAcc Command (\<lambda>v. Command_update (\<lambda>_. v))),
     (''attribute'', True, StrAcc Attribute (\<lambda>v. Attribute_update (\<lambda>_. v))),
     (''tariffId'', True, U64Acc TariffId (\<lambda>v. TariffId_update (\<lambda>_. v))),
     (''money'', True, U64Acc Money (\<lambda>v. Money_update (\<lambda>_. v))),
     (''vip'', True, BoolAcc Vip (\<lambda>v. Vip_update (\<lambda>_. v))),
     (''isLegalEntity'', True, BoolAcc LegalEntity (\<lambda>v. LegalEntity_update (\<lambda>_. v))),
     (''userId'', True, U64Acc UserId (\<lambda>v. UserId_update (\<lambda>_. v))),
     (''title'', True, StrAcc Title (\<lambda>v. Title_update (\<lambda>_. v))),
     (''content'', True, StrAcc Content (\<lambda>v. Content_update (\<lambda>_. v))),
     (''status'', True, StrAcc Status (\<lambda>v. Status_update (\<lambda>_. v))),
     (''cameras'', True, ListAcc (\<lambda>m. map (\<lambda>x. JObj (encode_fields CameraParams_fields x)) (Cameras m))
        (\<lambda>js m. case decode_slice CameraParams_fields zero_CameraParams js (Cameras m) of
           (e, xs) \<Rightarrow> (e, m\<lparr>Cameras := xs\<rparr>))),
     (''zwave'', True, ListAcc (\<lambda>m. map (\<lambda>x. JObj (encode_fields ZWaveParams_fields x)) (ZWave m))
        (\<lambda>js m. case decode_slice ZWaveParams_fields zero_ZWaveParams js (ZWave m) of
           (e, xs) \<Rightarrow> (e, m\<lparr>ZWave := xs\<rparr>)))]"

section \<open>Encoding and decoding messages as JSON values\<close>

definition encode_IotMessage :: "IotMessage \<Rightarrow> json" where
  "encode_IotMessage m = JObj (encode_fields IotMessage_fields m)"

definition decode_IotMessage :: "json \<Rightarrow> err option \<times> IotMessage" where
  "decode_IotMessage j = decode_struct IotMessage_fields j zero_IotMessage"

definition json_Marshal :: "IotMessage \<Rightarrow> string" where
  "json_Marshal m = render (encode_IotMessage m)"

section \<open>What is encoded is decoded\<close>

lemma CameraParams_names: "distinct (map fst CameraParams_fields)"
  by (simp add: CameraParams_fields_def)

lemma ZWaveParams_names: "distinct (map fst ZWaveParams_fields)"
  by (simp add: ZWaveParams_fields_def)

lemma IotMessage_names: "distinct (map fst IotMessage_fields)"
  by (simp add: IotMessage_fields_def)

lemma CameraParams_roundtrip:
  "decode_struct CameraParams_fields (JObj (encode_fields CameraParams_fields c)) zero_CameraParams = (None, c)"
proof (rule struct_roundtrip [OF CameraParams_names])
  show "all_copied CameraParams_fields c zero_CameraParams"
    by (simp add: CameraParams_fields_def zero_CameraParams_def)
  show "copy_fields CameraParams_fields c zero_CameraParams = c"
    by (cases c) (simp add: CameraParams_fields_def zero_CameraParams_def copy_fields_def)
qed

lemma ZWaveParams_roundtrip:
  "decode_struct ZWaveParams_fields (JObj (encode_fields ZWaveParams_fields c)) zero_ZWaveParams = (None, c)"
proof (rule struct_roundtrip [OF ZWaveParams_names])
  show "all_copied ZWaveParams_fields c zero_ZWaveParams"
    by (simp add: ZWaveParams_fields_def zero_ZWaveParams_def)
  show "copy_fields ZWaveParams_fields c zero_ZWaveParams = c"
    by (cases c) (simp add: ZWaveParams_fields_def zero_ZWaveParams_def copy_fields_def)
qed

lemma IotMessage_value_roundtrip: "decode_IotMessage (encode_IotMessage m) = (None, m)"
  unfolding decode_IotMessage_def encode_IotMessage_def
proof (rule struct_roundtrip [OF IotMessage_names])
  show "all_copied IotMessage_fields m zero_IotMessage"
    by (simp add: IotMessage_fields_def zero_IotMessage_def slice_roundtrip
        CameraParams_roundtrip ZWaveParams_roundtrip split_beta)
  show "copy_fields IotMessage_fields m zero_IotMessage = m"
    by (cases m) (simp add: IotMessage_fields_def zero_IotMessage_def copy_fields_def slice_roundtrip
        CameraParams_roundtrip ZWaveParams_roundtrip split_beta)
qed

end
