(* ===== verification/JsonText.thy ===== *)
theory JsonText
  imports Codec
begin

text \<open>
  The parser of \<open>encoding/json\<close>, as \<open>json.Unmarshal\<close> runs it: the whole input is checked before
  anything is decoded, so a syntax error leaves the target untouched. The parser is recursive on
  a fuel that \<open>parse_json\<close> sets to more than twice the length of the input;
  \<open>parse_fuel_enough\<close> shows that no larger fuel changes any result, so \<open>None\<close> always is a syntax
  error. The main fact is the round trip with the encoder.
\<close>

section \<open>Tokens\<close>

definition is_space :: "char \<Rightarrow> bool" where
  "is_space c \<longleftrightarrow> c = CHR '' '' \<or> c = CHR 0x09 \<or> c = CHR 0x0A \<or> c = CHR 0x0D"

definition skip_ws :: "string \<Rightarrow> string" where
  "skip_ws s = dropWhile is_space s"

definition is_hex :: "char \<Rightarrow> bool" where
  "is_hex c \<longleftrightarrow> c \<in> set ''0123456789abcdefABCDEF''"

definition hex_value :: "char \<Rightarrow> nat" where
  "hex_value c = (if byte c < 58 then byte c - 48 else if byte c < 71 then byte c - 55
     else byte c - 87)"

definition hex4 :: "string \<Rightarrow> nat option" where
  "hex4 s = (if 4 \<le> length s \<and> list_all is_hex (take 4 s)
     then Some (foldl (\<lambda>v c. 16 * v + hex_value c) 0 (take 4 s)) else None)"

definition utf8_encode :: "nat \<Rightarrow> string" where
  "utf8_encode n =
     (if n < 128 then [char_of n]
      else if n < 2048 then [char_of (192 + n div 64), char_of (128 + n mod 64)]
      else if n < 65536 then
        [char_of (224 + n div 4096), char_of (128 + (n div 64) mod 64), char_of (128 + n mod 64)]
      else [char_of (240 + n div 262144), char_of (128 + (n div 4096) mod 64),
            char_of (128 + (n div 64) mod 64), char_of (128 + n mod 64)])"

definition is_surrogate :: "nat \<Rightarrow> bool" where
  "is_surrogate n \<longleftrightarrow> 55296 \<le> n \<and> n < 57344"

text \<open>A \<open>\u\<close> escape right after a high surrogate completes the pair (\<open>utf16.DecodeRune\<close>).\<close>

definition surrogate_pair :: "nat \<Rightarrow> string \<Rightarrow> nat option" where
  "surrogate_pair n s =
     (if take 2 s = [CHR 0x5C, CHR ''u''] then
        (case hex4 (drop 2 s) of
           None \<Rightarrow> None
         | Some m \<Rightarrow>
             (if 55296 \<le> n \<and> n < 56320 \<and> 56320 \<le> m \<and> m < 57344
              then Some (65536 + (n - 55296) * 1024 + (m - 56320)) else None))
      else None)"

definition simple_escape :: "char \<Rightarrow> char option" where
  "simple_escape e =
     (if e = CHR 0x22 \<or> e = CHR 0x5C \<or> e = CHR ''/'' then Some e
      else if e = CHR ''b'' then Some CHR 0x08
      else if e = CHR ''f'' then Some CHR 0x0C
      else if e = CHR ''n'' then Some CHR 0x0A
      else if e = CHR ''r'' then Some CHR 0x0D
      else if e = CHR ''t'' then Some CHR 0x09
      else None)"

definition prepend :: "string \<Rightarrow> (string \<times> string) option \<Rightarrow> (string \<times> string) option" where
  "prepend p x = (case x of None \<Rightarrow> None | Some (s, r) \<Rightarrow> Some (p @ s, r))"

text \<open>The text of a string literal after its opening quote: its value and the rest.\<close>

fun parse_str :: "string \<Rightarrow> (string \<times> string) option" where
  "parse_str [] = None"
| "parse_str (c # r) =
     (if c = CHR 0x22 then Some ([], r)
      else if c = CHR 0x5C then
        (case r of
           [] \<Rightarrow> None
         | e # r' \<Rightarrow>
             (if e = CHR ''u'' then
                (case hex4 r' of
                   None \<Rightarrow> None
                 | Some n \<Rightarrow>
                     (if is_surrogate n then
                        (case surrogate_pair n (drop 4 r') of
                           Some m \<Rightarrow> prepend (utf8_encode m) (parse_str (drop 10 r'))
                         | None \<Rightarrow> prepend replacement (parse_str (drop 4 r')))
                      else prepend (utf8_encode n) (parse_str (drop 4 r'))))
              else (case simple_escape e of
                      None \<Rightarrow> None
                    | Some x \<Rightarrow> prepend [x] (parse_str r'))))
      else if byte c < 32 then None
      else if byte c < 128 then prepend [c] (parse_str r)
      else (case utf8_tail c r of
              None \<Rightarrow> prepend replacement (parse_str r)
            | Some n \<Rightarrow> prepend (c # take n r) (parse_str (drop n r))))"

text \<open>A number literal: sign, integer part without leading zeros, fraction, exponent.\<close>

definition parse_int_part :: "string \<Rightarrow> (string \<times> string) option" where
  "parse_int_part s =
     (case s of
        [] \<Rightarrow> None
      | c # r \<Rightarrow>
          (if c = CHR ''0'' then Some ([c], r)
           else if is_digit c then Some (takeWhile is_digit s, dropWhile is_digit s)
           else None))"

definition parse_digits :: "string \<Rightarrow> string \<Rightarrow> (string \<times> string) option" where
  "parse_digits lead s =
     (if takeWhile is_digit s = [] then None
      else Some (lead @ takeWhile is_digit s, dropWhile is_digit s))"

definition parse_frac :: "string \<Rightarrow> (string \<times> string) option" where
  "parse_frac s = (case s of [] \<Rightarrow> Some ([], s)
     | c # r \<Rightarrow> (if c = CHR ''.'' then parse_digits [c] r else Some ([], s)))"

definition parse_exp :: "string \<Rightarrow> (string \<times> string) option" where
  "parse_exp s = (case s of [] \<Rightarrow> Some ([], s)
     | c # r \<Rightarrow>
         (if c = CHR ''e'' \<or> c = CHR ''E'' then
            (case r of [] \<Rightarrow> None
             | d # r' \<Rightarrow> (if d = CHR ''+'' \<or> d = CHR ''-'' then parse_digits [c, d] r'
                         else parse_digits [c] r))
          else Some ([], s)))"

definition parse_num :: "string \<Rightarrow> (string \<times> string) option" where
  "parse_num s =
     (let (sign, s0) = (case s of [] \<Rightarrow> ([], s)
            | c # r \<Rightarrow> (if c = CHR ''-'' then ([c], r) else ([], s)))
      in case parse_int_part s0 of
           None \<Rightarrow> None
         | Some (i, s1) \<Rightarrow>
             (case parse_frac s1 of
                None \<Rightarrow> None
              | Some (f, s2) \<Rightarrow>
                  (case parse_exp s2 of
                     None \<Rightarrow> None
                   | Some (e, s3) \<Rightarrow> Some (sign @ i @ f @ e, s3))))"

definition keyword :: "string \<Rightarrow> json \<Rightarrow> string \<Rightarrow> (json \<times> string) option" where
  "keyword w j s = (if take (length w) s = w then Some (j, drop (length w) s) else None)"

section \<open>Values\<close>

fun parse_value :: "nat \<Rightarrow> string \<Rightarrow> (json \<times> string) option"
  and parse_elems :: "nat \<Rightarrow> string \<Rightarrow> (json list \<times> string) option"
  and parse_members :: "nat \<Rightarrow> string \<Rightarrow> ((string \<times> json) list \<times> string) option" where
  "parse_value 0 s = None"
| "parse_value (Suc n) s =
     (case skip_ws s of
        [] \<Rightarrow> None
      | c # r \<Rightarrow>
          (if c = CHR ''{'' then
             (if take 1 (skip_ws r) = ''}'' then Some (JObj [], drop 1 (skip_ws r))
              else (case parse_members n r of None \<Rightarrow> None | Some (kvs, r') \<Rightarrow> Some (JObj kvs, r')))
           else if c = CHR ''['' then
             (if take 1 (skip_ws r) = '']'' then Some (JArr [], drop 1 (skip_ws r))
              else (case parse_elems n r of None \<Rightarrow> None | Some (js, r') \<Rightarrow> Some (JArr js, r')))
           else if c = CHR 0x22 then
             (case parse_str r of None \<Rightarrow> None | Some (s', r') \<Rightarrow> Some (JStr s', r'))
           else if c = CHR ''t'' then keyword ''true'' (JBool True) (c # r)
           else if c = CHR ''f'' then keyword ''false'' (JBool False) (c # r)
           else if c = CHR ''n'' then keyword ''null'' JNull (c # r)
           else (case parse_num (c # r) of None \<Rightarrow> None | Some (l, r') \<Rightarrow> Some (JNum l, r'))))"
| "parse_elems 0 s = None"
| "parse_elems (Suc n) s =
     (case parse_value n s of
        None \<Rightarrow> None
      | Some (j, r) \<Rightarrow>
          (case skip_ws r of
             [] \<Rightarrow> None
           | c # r' \<Rightarrow>
               (if c = CHR '']'' then Some ([j], r')
                else if c = CHR '','' then
                  (case parse_elems n r' of None \<Rightarrow> None | Some (js, r'') \<Rightarrow> Some (j # js, r''))
                else None)))"
| "parse_members 0 s = None"
| "parse_members (Suc n) s =
     (case skip_ws s of
        [] \<Rightarrow> None
      | q # r0 \<Rightarrow>
          (if q \<noteq> CHR 0x22 then None
           else (case parse_str r0 of
                   None \<Rightarrow> None
                 | Some (k, r1) \<Rightarrow>
                     (case skip_ws r1 of
                        [] \<Rightarrow> None
                      | d # r2 \<Rightarrow>
                          (if d \<noteq> CHR '':'' then None
                           else (case parse_value n r2 of
                                   None \<Rightarrow> None
                                 | Some (v, r3) \<Rightarrow>
                                     (case skip_ws r3 of
                                        [] \<Rightarrow> None
                                      | c # r4 \<Rightarrow>
                                          (if c = CHR ''}'' then Some ([(k, v)], r4)
                                           else if c = CHR '','' then
                                             (case parse_members n r4 of
                                                None \<Rightarrow> None
                                              | Some (kvs, r5) \<Rightarrow> Some ((k, v) # kvs, r5))
                                           else None))))))))"

definition parse_json :: "string \<Rightarrow> json option" where
  "parse_json s =
     (case parse_value (2 * length s + 1) s of
        Some (j, r) \<Rightarrow> (if skip_ws r = [] then Some j else None)
      | None \<Rightarrow> None)"

text \<open>\<open>json.Unmarshal\<close> into a zero \<open>IotMessage\<close>; on an error the caller drops the target.\<close>

definition syntax_error :: err where
  "syntax_error = ''invalid JSON syntax''"

definition json_Unmarshal :: "string \<Rightarrow> IotMessage result" where
  "json_Unmarshal s =
     (case parse_json s of
        None \<Rightarrow> Inl syntax_error
      | Some j \<Rightarrow>
          (case decode_IotMessage j of (None, m) \<Rightarrow> Inr m | (Some e, _) \<Rightarrow> Inl e))"

declare parse_value.simps [simp del] parse_elems.simps [simp del] parse_members.simps [simp del]

section \<open>The fuel is enough\<close>

lemma prepend_Some: "prepend p x = Some (s, r) \<longleftrightarrow> (\<exists>s'. x = Some (s', r) \<and> s = p @ s')"
  by (cases x) (auto simp: prepend_def)

lemma length_skip_ws: "length (skip_ws s) \<le> length s"
  by (simp add: skip_ws_def length_dropWhile_le)

lemma skip_ws_Cons: "skip_ws s = c # r \<Longrightarrow> length r < length s"
  using length_skip_ws [of s] by simp

lemma parse_str_shorter: "parse_str s = Some (v, r) \<Longrightarrow> length r < length s"
proof (induction s arbitrary: v rule: parse_str.induct)
  case (2 c s)
  then show ?case
    by (force simp: prepend_Some split: if_splits list.splits option.splits)
qed simp

lemma parse_int_part_shorter: "parse_int_part s = Some (i, r) \<Longrightarrow> length r < length s"
  by (auto simp: parse_int_part_def length_dropWhile_le less_Suc_eq_le split: list.splits if_splits)

lemma parse_digits_shorter: "parse_digits l s = Some (i, r) \<Longrightarrow> length r \<le> length s"
  by (auto simp: parse_digits_def length_dropWhile_le split: if_splits)

lemma parse_frac_shorter: "parse_frac s = Some (i, r) \<Longrightarrow> length r \<le> length s"
  by (auto simp: parse_frac_def dest: parse_digits_shorter split: list.splits if_splits)

lemma parse_exp_shorter: "parse_exp s = Some (i, r) \<Longrightarrow> length r \<le> length s"
  by (auto simp: parse_exp_def dest: parse_digits_shorter split: list.splits if_splits)

lemma parse_num_shorter: "parse_num s = Some (i, r) \<Longrightarrow> length r < length s"
  by (fastforce simp: parse_num_def Let_def split: list.splits if_splits option.splits prod.splits
      dest: parse_int_part_shorter parse_frac_shorter parse_exp_shorter)

lemma keyword_shorter: "keyword w j s = Some (x, r) \<Longrightarrow> w \<noteq> [] \<Longrightarrow> length r < length s"
  by (cases w; cases s) (auto simp: keyword_def less_Suc_eq_le split: if_splits)

lemma parse_shorter_step:
  assumes V: "\<And>s j r. parse_value n s = Some (j, r) \<Longrightarrow> length r < length s"
    and E: "\<And>s js r. parse_elems n s = Some (js, r) \<Longrightarrow> length r < length s"
    and M: "\<And>s kvs r. parse_members n s = Some (kvs, r) \<Longrightarrow> length r < length s"
  shows "parse_value (Suc n) s = Some (j, r) \<Longrightarrow> length r < length s"
    and "parse_elems (Suc n) s = Some (js, r) \<Longrightarrow> length r < length s"
    and "parse_members (Suc n) s = Some (kvs, r) \<Longrightarrow> length r < length s"
proof -
  show "length r < length s" if *: "parse_value (Suc n) s = Some (j, r)"
  proof -
    obtain c t where t: "skip_ws s = c # t"
      using * by (auto simp: parse_value.simps split: list.splits)
    note t' = skip_ws_Cons [OF t]
    have "length (skip_ws t) - 1 < length s"
      using t' length_skip_ws [of t] by simp
    moreover have "length r < length (skip_ws s) \<Longrightarrow> length r < length s"
      using length_skip_ws [of s] by simp
    ultimately show ?thesis
      using * t t'
      by (auto simp: parse_value.simps split: if_splits option.splits
          dest!: E M parse_str_shorter keyword_shorter parse_num_shorter)
  qed
  show "length r < length s" if *: "parse_elems (Suc n) s = Some (js, r)"
    using * by (fastforce simp: parse_elems.simps split: if_splits option.splits list.splits
        dest: skip_ws_Cons V E)
  show "length r < length s" if *: "parse_members (Suc n) s = Some (kvs, r)"
    using * by (fastforce simp: parse_members.simps split: if_splits option.splits list.splits
        dest: skip_ws_Cons V M parse_str_shorter)
qed

lemma parse_shorter:
  "parse_value n s = Some (j, r) \<Longrightarrow> length r < length s"
  "parse_elems n s = Some (js, r) \<Longrightarrow> length r < length s"
  "parse_members n s = Some (kvs, r) \<Longrightarrow> length r < length s"
proof (induction n arbitrary: s j js kvs r)
  case (Suc n)
  { case 1 then show ?case by - (rule parse_shorter_step(1) [of n], (erule Suc.IH)+) }
  { case 2 then show ?case by - (rule parse_shorter_step(2) [of n], (erule Suc.IH)+) }
  { case 3 then show ?case by - (rule parse_shorter_step(3) [of n], (erule Suc.IH)+) }
qed (simp_all add: parse_value.simps parse_elems.simps parse_members.simps)


lemma parse_more_fuel_step:
  assumes V: "\<And>s. 2 * length s < n \<Longrightarrow> parse_value (Suc n) s = parse_value n s"
    and E: "\<And>s. 2 * length s + 1 < n \<Longrightarrow> parse_elems (Suc n) s = parse_elems n s"
    and M: "\<And>s. 2 * length s + 1 < n \<Longrightarrow> parse_members (Suc n) s = parse_members n s"
  shows "2 * length s < Suc n \<Longrightarrow> parse_value (Suc (Suc n)) s = parse_value (Suc n) s"
    and "2 * length s + 1 < Suc n \<Longrightarrow> parse_elems (Suc (Suc n)) s = parse_elems (Suc n) s"
    and "2 * length s + 1 < Suc n \<Longrightarrow> parse_members (Suc (Suc n)) s = parse_members (Suc n) s"
proof -
  show "parse_value (Suc (Suc n)) s = parse_value (Suc n) s" if "2 * length s < Suc n"
  proof (cases "skip_ws s")
    case (Cons c t)
    with that skip_ws_Cons [OF Cons] have "2 * length t + 1 < n"
      by simp
    with Cons show ?thesis
      by (simp add: parse_value.simps E M)
  qed (simp add: parse_value.simps)
  show "parse_elems (Suc (Suc n)) s = parse_elems (Suc n) s" if *: "2 * length s + 1 < Suc n"
  proof (cases "parse_value n s")
    case (Some p)
    then obtain j r where p: "parse_value n s = Some (j, r)"
      by (cases p) auto
    then have "length r < length s"
      by (rule parse_shorter)
    then have "parse_elems (Suc n) t = parse_elems n t" if "skip_ws r = c # t" for c t
      using * skip_ws_Cons [OF that] by (intro E) simp
    with p * show ?thesis
      by (auto simp: parse_elems.simps(2) [of "Suc n"] parse_elems.simps(2) [of n] V split: list.splits)
  qed (use * in \<open>simp add: parse_elems.simps(2) [of "Suc n"] parse_elems.simps(2) [of n] V\<close>)
  show "parse_members (Suc (Suc n)) s = parse_members (Suc n) s" if *: "2 * length s + 1 < Suc n"
  proof -
    have v: "parse_value (Suc n) r2 = parse_value n r2"
      if "skip_ws s = q # r0" "parse_str r0 = Some (k, r1)" "skip_ws r1 = d # r2" for q r0 k r1 d r2
      using * that by (intro V) (auto dest!: skip_ws_Cons parse_str_shorter)
    have m: "parse_members (Suc n) r4 = parse_members n r4"
      if "skip_ws s = q # r0" "parse_str r0 = Some (k, r1)" "skip_ws r1 = d # r2"
        "parse_value n r2 = Some (v, r3)" "skip_ws r3 = c # r4" for q r0 k r1 d r2 v r3 c r4
      using * that by (intro M) (auto dest!: skip_ws_Cons parse_str_shorter parse_shorter)
    show ?thesis
      by (auto simp: parse_members.simps(2) [of "Suc n"] parse_members.simps(2) [of n] v
          split: list.splits option.splits dest: m)
  qed
qed

lemma parse_more_fuel:
  "2 * length s < n \<Longrightarrow> parse_value (Suc n) s = parse_value n s"
  "2 * length s + 1 < n \<Longrightarrow> parse_elems (Suc n) s = parse_elems n s"
  "2 * length s + 1 < n \<Longrightarrow> parse_members (Suc n) s = parse_members n s"
proof (induction n arbitrary: s)
  case (Suc n)
  { case 1 then show ?case by - (rule parse_more_fuel_step(1) [of n], (erule Suc.IH)+) }
  { case 2 then show ?case by - (rule parse_more_fuel_step(2) [of n], (erule Suc.IH)+) }
  { case 3 then show ?case by - (rule parse_more_fuel_step(3) [of n], (erule Suc.IH)+) }
qed simp_all

lemma parse_fuel_enough:
  "2 * length s < n \<Longrightarrow> parse_value n s = parse_value (2 * length s + 1) s"
proof (induction n)
  case (Suc n)
  then show ?case
    by (cases "2 * length s < n") (auto simp: parse_more_fuel less_Suc_eq)
qed simp

section \<open>Strings survive\<close>

lemma hex_digit_facts:
  assumes "d < 16"
  shows "is_hex (hex_digit d)" and "hex_value (hex_digit d) = d"
proof -
  have "d \<in> {0, 1, 2, 3, 4, 5, 6, 7, 8, 9, 10, 11, 12, 13, 14, 15}"
    using assms by (simp only: insert_iff empty_iff) presburger
  then have "is_hex (hex_digit d) \<and> hex_value (hex_digit d) = d"
    by (elim insertE) (simp_all add: hex_digit_def is_hex_def hex_value_def byte_def)
  then show "is_hex (hex_digit d)" and "hex_value (hex_digit d) = d"
    by auto
qed

lemma hex4_byte:
  assumes "n < 256"
  shows "hex4 (CHR ''0'' # CHR ''0'' # hex_digit (n div 16) # hex_digit (n mod 16) # t) = Some n"
proof -
  have d: "n div 16 < 16" "n mod 16 < 16"
    using assms by auto
  show ?thesis
    using hex_digit_facts [OF d(1)] hex_digit_facts [OF d(2)]
    by (simp add: hex4_def is_hex_def hex_value_def byte_def)
qed

lemma utf8_encode_byte: "byte c < 128 \<Longrightarrow> utf8_encode (byte c) = [c]"
  by (simp add: utf8_encode_def byte_def)

lemma parse_escape_ascii:
  assumes "byte c < 128"
  shows "parse_str (escape_ascii c @ t) = prepend [c] (parse_str t)"
proof -
  have u: "parse_str (CHR 0x5C # CHR ''u'' # CHR ''0'' # CHR ''0'' # hex_digit (byte c div 16)
      # hex_digit (byte c mod 16) # t) = prepend [c] (parse_str t)"
    using assms by (simp add: hex4_byte utf8_encode_byte is_surrogate_def)
  show ?thesis
    using assms u by (auto simp: escape_ascii_def simple_escape_def)
qed

lemma utf8_lead_facts:
  "utf8_lead b = Some (n, lo, hi) \<Longrightarrow> 1 \<le> n \<and> n \<le> 3 \<and> 128 \<le> b"
  by (simp add: utf8_lead_def split: if_splits)

lemma utf8_tail_facts:
  assumes "utf8_tail c cs = Some n"
  shows "1 \<le> n" and "n \<le> length cs" and "128 \<le> byte c"
  using assms by (auto simp: utf8_tail_def split: option.splits if_splits dest: utf8_lead_facts)

lemma utf8_tail_take:
  assumes "utf8_tail c cs = Some n"
  shows "utf8_tail c (take n cs @ t) = Some n"
proof -
  have n: "1 \<le> n" "n \<le> length cs"
    using utf8_tail_facts [OF assms] by auto
  then have "(take n cs @ t) ! 0 = cs ! 0" "take (n - 1) (drop 1 (take n cs @ t)) = take (n - 1) (drop 1 cs)"
    by (simp_all add: nth_append drop_take)
  with assms n show ?thesis
    by (auto simp: utf8_tail_def split: option.splits if_splits)
qed

lemma high_byte_neq: "128 \<le> byte c \<Longrightarrow> c \<noteq> CHR 0x22 \<and> c \<noteq> CHR 0x5C"
  by (auto simp: byte_def)

lemma map_byte_eq: "map byte r = ns \<Longrightarrow> r = map char_of ns"
  by (auto simp: byte_def o_def)

lemma parse_line_sep:
  assumes "is_line_sep r"
  shows "parse_str (CHR 0x5C # ''u202'' @ hex_digit (byte (r ! 2) mod 16) # t) = prepend r (parse_str t)"
proof -
  have "r = map char_of [226, 128, 168 :: nat] \<or> r = map char_of [226, 128, 169 :: nat]"
    using assms unfolding is_line_sep_def by (metis map_byte_eq)
  then obtain d :: nat where d: "d = 8 \<or> d = 9" and r: "r = map char_of [226, 128, 160 + d]"
    by fastforce
  then have m: "byte (r ! 2) mod 16 = d" and e: "utf8_encode (8224 + d) = r"
    by (auto simp: byte_def utf8_encode_def)
  have "hex4 (CHR ''2'' # CHR ''0'' # CHR ''2'' # hex_digit d # t) = Some (8224 + d)"
    using d by (auto simp: hex_digit_def hex4_def is_hex_def hex_value_def byte_def)
  then show ?thesis
    using d by (auto simp: m e is_surrogate_def)
qed

lemma prepend_prepend [simp]: "prepend p (prepend q x) = prepend (p @ q) x"
  by (auto simp: prepend_def split: option.splits)

lemma prepend_value [simp]: "prepend p (Some (s, r)) = Some (p @ s, r)"
  by (simp add: prepend_def)

lemma parse_replacement: "parse_str (CHR 0x5C # CHR ''u'' # CHR ''f'' # CHR ''f'' # CHR ''f'' # CHR ''d'' # t) = prepend replacement (parse_str t)"
  by (simp add: hex4_def is_hex_def hex_value_def byte_def is_surrogate_def utf8_encode_def replacement_def)

lemma parse_multibyte:
  assumes "utf8_tail c cs = Some n"
  shows "parse_str (c # take n cs @ t) = prepend (c # take n cs) (parse_str t)"
  using assms utf8_tail_facts [OF assms] utf8_tail_take [OF assms, of t]
  by (auto dest: high_byte_neq)

lemma parse_escape: "parse_str (escape s @ CHR 0x22 # rest) = Some (sanitize s, rest)"
proof (induction s rule: escape.induct)
  case (2 c cs)
  show ?case
  proof (cases "byte c < 128")
    case True
    with 2(1) show ?thesis
      by (simp add: parse_escape_ascii del: parse_str.simps)
  next
    case False
    show ?thesis
    proof (cases "utf8_tail c cs")
      case None
      with False 2(2) show ?thesis
        by (simp add: parse_replacement del: parse_str.simps)
    next
      case (Some n)
      let ?t = "escape (drop n cs) @ CHR 0x22 # rest"
      have "parse_str (escape (c # cs) @ CHR 0x22 # rest) = prepend (c # take n cs) (parse_str ?t)"
        using False Some parse_line_sep [of "c # take n cs" ?t] parse_multibyte [OF Some, of ?t]
        by (simp add: Let_def del: parse_str.simps)
      with False Some 2(3) [OF False Some refl] show ?thesis
        by simp
    qed
  qed
qed simp

section \<open>Values survive\<close>

text \<open>What the encoder writes for a value, seen from the parser: strings sanitised.\<close>

fun sanitize_json :: "json \<Rightarrow> json" where
  "sanitize_json (JStr s) = JStr (sanitize s)"
| "sanitize_json (JArr js) = JArr (map sanitize_json js)"
| "sanitize_json (JObj kvs) = JObj (map (\<lambda>(k, v). (sanitize k, sanitize_json v)) kvs)"
| "sanitize_json j = j"

text \<open>Values whose numbers are natural numbers: all the encoder is given here.\<close>

fun nat_numbers :: "json \<Rightarrow> bool" where
  "nat_numbers (JNum lit) \<longleftrightarrow> nat_to_dec (dec_value lit) = lit"
| "nat_numbers (JArr js) \<longleftrightarrow> (\<forall>j \<in> set js. nat_numbers j)"
| "nat_numbers (JObj kvs) \<longleftrightarrow> (\<forall>(k, v) \<in> set kvs. nat_numbers v)"
| "nat_numbers j \<longleftrightarrow> True"

text \<open>What may follow a value: not a character that would extend a number.\<close>

definition ends_value :: "string \<Rightarrow> bool" where
  "ends_value s \<longleftrightarrow> s = [] \<or> (\<not> is_digit (hd s) \<and> hd s \<notin> {CHR ''.'', CHR ''e'', CHR ''E''})"

lemma nat_to_dec_hd:
  "hd (nat_to_dec n) = CHR ''0'' \<Longrightarrow> n = 0"
proof (induction n rule: nat_to_dec.induct)
  case (1 n)
  show ?case
  proof (cases "n < 10")
    case True
    with 1(2) show ?thesis
      by (subst (asm) nat_to_dec.simps) (auto simp: dec_digit_def less_Suc_eq numeral_eq_Suc)
  next
    case False
    with 1 show ?thesis
      by (subst (asm) (2) nat_to_dec.simps) auto
  qed
qed

lemma parse_int_part_nat:
  assumes "ends_value rest"
  shows "parse_int_part (nat_to_dec n @ rest) = Some (nat_to_dec n, rest)"
proof (cases "n = 0")
  case True
  then show ?thesis
    by (simp add: nat_to_dec.simps dec_digit_def parse_int_part_def)
next
  case False
  obtain c ds where cd: "nat_to_dec n = c # ds"
    by (cases "nat_to_dec n") auto
  have "c \<noteq> CHR ''0''"
    using False cd nat_to_dec_hd [of n] by auto
  moreover have "list_all is_digit (c # ds)"
    using nat_to_dec_digits [of n] cd by simp
  moreover have "takeWhile is_digit rest = []" "dropWhile is_digit rest = rest"
    using assms by (cases rest; auto simp: ends_value_def)+
  ultimately show ?thesis
    by (auto simp: cd parse_int_part_def takeWhile_append dropWhile_append list_all_iff)
qed

lemma parse_num_nat:
  assumes "ends_value rest"
  shows "parse_num (nat_to_dec n @ rest) = Some (nat_to_dec n, rest)"
proof -
  obtain c ds where cd: "nat_to_dec n = c # ds"
    by (cases "nat_to_dec n") auto
  then have "c \<noteq> CHR ''-''"
    using nat_to_dec_digits [of n] by (auto simp: is_digit_def)
  moreover have "parse_frac rest = Some ([], rest)" "parse_exp rest = Some ([], rest)"
    using assms by (auto simp: ends_value_def parse_frac_def parse_exp_def split: list.splits)
  ultimately show ?thesis
    using parse_int_part_nat [OF assms, of n] by (simp add: parse_num_def cd)
qed

lemma parse_value_nat:
  assumes "ends_value rest"
  shows "parse_value (Suc m) (nat_to_dec n @ rest) = Some (JNum (nat_to_dec n), rest)"
proof -
  obtain c ds where cd: "nat_to_dec n = c # ds"
    by (cases "nat_to_dec n") auto
  then have d: "is_digit c"
    using nat_to_dec_digits [of n] by simp
  have other: "c \<noteq> x" if "\<not> is_digit x" for x
    using d that by auto
  have "\<not> is_space c"
    by (simp add: is_space_def other is_digit_def)
  then have "skip_ws (c # ds @ rest) = c # ds @ rest"
    by (simp add: skip_ws_def)
  moreover have "parse_num (c # ds @ rest) = Some (nat_to_dec n, rest)"
    using parse_num_nat [OF assms, of n] cd by simp
  ultimately show ?thesis
    by (simp add: parse_value.simps cd other is_digit_def)
qed

lemma skip_ws_nonspace: "\<not> is_space c \<Longrightarrow> skip_ws (c # s) = c # s"
  by (simp add: skip_ws_def)

lemma render_start:
  "nat_numbers j \<Longrightarrow> \<exists>c t. render j = c # t \<and> \<not> is_space c \<and> c \<noteq> CHR '']'' \<and> c \<noteq> CHR ''}''"
proof (cases j)
  case (JNum lit)
  assume "nat_numbers j"
  then have "lit \<noteq> []" "list_all is_digit lit"
    using JNum nat_to_dec_nonempty [of "dec_value lit"] nat_to_dec_digits [of "dec_value lit"]
    by simp_all
  then show ?thesis
    using JNum by (cases lit) (auto simp: is_digit_def is_space_def)
qed (auto simp: quote_def is_space_def)

lemma parse_quote: "parse_str (escape s @ CHR 0x22 # t) = Some (sanitize s, t)"
  by (rule parse_escape)

lemma ends_value_simps [simp]:
  "ends_value []" "ends_value (CHR '','' # s)" "ends_value (CHR '']'' # s)" "ends_value (CHR ''}'' # s)"
  by (simp_all add: ends_value_def is_digit_def)

lemma skip_ws_simps [simp]:
  "skip_ws (CHR '','' # s) = CHR '','' # s" "skip_ws (CHR '']'' # s) = CHR '']'' # s"
  "skip_ws (CHR ''}'' # s) = CHR ''}'' # s" "skip_ws (CHR '':'' # s) = CHR '':'' # s"
  "skip_ws (CHR 0x22 # s) = CHR 0x22 # s" "skip_ws (CHR ''['' # s) = CHR ''['' # s"
  "skip_ws (CHR ''{'' # s) = CHR ''{'' # s"
  by (simp_all add: skip_ws_nonspace is_space_def)

lemma parse_render:
  "nat_numbers j \<Longrightarrow> length (render j) \<le> n \<Longrightarrow> ends_value rest \<Longrightarrow>
     parse_value n (render j @ rest) = Some (sanitize_json j, rest)"
  "js \<noteq> [] \<Longrightarrow> \<forall>j \<in> set js. nat_numbers j \<Longrightarrow> length (render_elems js) < n \<Longrightarrow>
     parse_elems n (render_elems js @ CHR '']'' # rest) = Some (map sanitize_json js, rest)"
  "kvs \<noteq> [] \<Longrightarrow> \<forall>(k, v) \<in> set kvs. nat_numbers v \<Longrightarrow> length (render_members kvs) < n \<Longrightarrow>
     parse_members n (render_members kvs @ CHR ''}'' # rest) =
       Some (map (\<lambda>(k, v). (sanitize k, sanitize_json v)) kvs, rest)"
proof (induction j and js and kvs arbitrary: n rest and n rest and n rest
    rule: render_render_elems_render_members.induct)
  case 1
  then show ?case by (cases n) (simp_all add: parse_value.simps skip_ws_nonspace is_space_def keyword_def)
next
  case (2 b)
  then show ?case by (cases n) (auto simp: parse_value.simps skip_ws_nonspace is_space_def keyword_def split: if_splits)
next
  case (3 lit)
  then have "lit \<noteq> []"
    using nat_to_dec_nonempty [of "dec_value lit"] by simp
  then obtain m where n: "n = Suc m"
    using 3 by (cases n) auto
  show ?case
    using 3 parse_value_nat [of rest m "dec_value lit"] n by simp
next
  case (4 s)
  then show ?case by (cases n) (simp_all add: parse_value.simps quote_def parse_quote)
next
  case (5 js)
  then obtain m where n: "n = Suc m" by (cases n) auto
  show ?case
  proof (cases js)
    case Nil
    then show ?thesis by (simp add: n parse_value.simps)
  next
    case (Cons j js')
    then obtain c t where "render j = c # t" "\<not> is_space c" "c \<noteq> CHR '']''"
      using render_start [of j] 5(2) by auto
    then have "take 1 (skip_ws (render_elems js @ CHR '']'' # rest)) \<noteq> '']''"
      using Cons by (cases js') (auto simp: skip_ws_nonspace)
    then show ?thesis
      using 5 Cons n by (simp add: parse_value.simps)
  qed
next
  case (6 kvs)
  then obtain m where n: "n = Suc m" by (cases n) auto
  show ?case
  proof (cases kvs)
    case Nil
    then show ?thesis by (simp add: n parse_value.simps)
  next
    case (Cons kv kvs')
    then have "take 1 (skip_ws (render_members kvs @ CHR ''}'' # rest)) \<noteq> ''}''"
      by (cases kv; cases kvs') (auto simp: quote_def)
    then show ?thesis
      using 6 Cons n by (simp add: parse_value.simps)
  qed
next
  case (8 j)
  then obtain m where n: "n = Suc m" by (cases n) auto
  show ?case
    using 8 n by (simp add: parse_elems.simps)
next
  case (9 j j' js)
  then obtain m where n: "n = Suc m" by (cases n) auto
  show ?case
    using 9 n by (simp add: parse_elems.simps)
next
  case (11 k v)
  then obtain m where n: "n = Suc m" by (cases n) auto
  show ?case
    using 11 n by (simp add: parse_members.simps quote_def parse_quote)
next
  case (12 k v kv kvs)
  then obtain m where n: "n = Suc m" by (cases n) auto
  show ?case
    using 12 n by (simp add: parse_members.simps quote_def parse_quote)
qed simp_all

lemma parse_json_render: "nat_numbers j \<Longrightarrow> parse_json (render j) = Some (sanitize_json j)"
  using parse_render(1) [of j "2 * length (render j) + 1" "[]"]
  by (simp add: parse_json_def skip_ws_def)

section \<open>Messages survive\<close>

text \<open>All the strings of a value, keys included.\<close>

fun json_strings :: "json \<Rightarrow> string list" where
  "json_strings (JStr s) = [s]"
| "json_strings (JArr js) = concat (map json_strings js)"
| "json_strings (JObj kvs) = concat (map (\<lambda>(k, v). k # json_strings v) kvs)"
| "json_strings j = []"

definition valid_text :: "IotMessage \<Rightarrow> bool" where
  "valid_text m \<longleftrightarrow> list_all valid_utf8 (json_strings (encode_IotMessage m))"

lemma sanitize_json_valid: "list_all valid_utf8 (json_strings j) \<Longrightarrow> sanitize_json j = j"
  by (induction j rule: sanitize_json.induct)
    (auto simp: valid_utf8_def list_all_iff intro!: map_idI)

lemma encode_fields_nat_numbers:
  assumes "\<And>n om g d j. (n, om, ListAcc g d) \<in> set fs \<Longrightarrow> j \<in> set (g r) \<Longrightarrow> nat_numbers j"
  shows "\<forall>(k, v) \<in> set (encode_fields fs r). nat_numbers v"
  using assms
proof (induction fs r rule: encode_fields.induct)
  case (2 n om a fs r)
  have "nat_numbers (field_json a r)"
  proof (cases a)
    case (ListAcc g d)
    then show ?thesis
      using 2(2) [of n om g d] by auto
  qed auto
  moreover have "\<forall>(k, v) \<in> set (encode_fields fs r). nat_numbers v"
    by (rule 2(1)) (rule 2(2), rule list.set_intros(2))
  ultimately show ?case
    by simp
qed simp

lemma CameraParams_nat_numbers: "nat_numbers (JObj (encode_fields CameraParams_fields c))"
  by (simp del: encode_fields.simps) (rule encode_fields_nat_numbers, simp add: CameraParams_fields_def)

lemma ZWaveParams_nat_numbers: "nat_numbers (JObj (encode_fields ZWaveParams_fields c))"
  by (simp del: encode_fields.simps) (rule encode_fields_nat_numbers, simp add: ZWaveParams_fields_def)

lemma IotMessage_nat_numbers: "nat_numbers (encode_IotMessage m)"
  unfolding encode_IotMessage_def nat_numbers.simps
proof (rule encode_fields_nat_numbers)
  fix n om g d j
  assume "(n, om, ListAcc g d) \<in> set IotMessage_fields" and "j \<in> set (g m)"
  then show "nat_numbers j"
    using CameraParams_nat_numbers ZWaveParams_nat_numbers by (auto simp: IotMessage_fields_def)
qed

lemma json_roundtrip: "valid_text m \<Longrightarrow> json_Unmarshal (json_Marshal m) = Inr m"
  by (simp add: json_Unmarshal_def json_Marshal_def parse_json_render IotMessage_nat_numbers
      valid_text_def sanitize_json_valid IotMessage_value_roundtrip)

end
