(* ===== verification/Binary64.thy ===== *)
theory Binary64
  imports Complex_Main "HOL-Library.Log_Nat" JsonText
begin

text \<open>
  Go's \<open>float64\<close> as far as the server uses it: \<open>strconv.ParseFloat\<close>, product and quotient,
  \<open>math.Round\<close> and the format \<open>%.2f\<close>. A number is a sign and an exact rational magnitude, which every operation
  rounds to the nearest binary64 number, ties to the even significand.
\<close>

section \<open>Numbers\<close>

datatype f64 = Finite bool rat | Infinite bool | NotANumber

definition round_even :: "rat \<Rightarrow> int" where
  "round_even x =
     (let n = \<lfloor>x\<rfloor>; r = x - of_int n
      in if r < 1/2 \<or> (r = 1/2 \<and> even n) then n else n + 1)"

text \<open>The exponent of the leading bit of a positive number.\<close>

definition leading_bit :: "rat \<Rightarrow> int" where
  "leading_bit x =
     (case quotient_of x of (p, q) \<Rightarrow>
        let k = bitlen p - bitlen q in if 2 powi k \<le> x then k else k - 1)"

text \<open>53 significant bits, and no bit below \<open>2 powi -1074\<close>.\<close>

definition last_bit :: "rat \<Rightarrow> int" where
  "last_bit x = max (leading_bit x - 52) (- 1074)"

definition nearest64 :: "rat \<Rightarrow> rat" where
  "nearest64 x = (if x = 0 then 0 else of_int (round_even (x / 2 powi last_bit x)) * 2 powi last_bit x)"

definition round64 :: "bool \<Rightarrow> rat \<Rightarrow> f64" where
  "round64 neg x = (if 2 ^ 1024 \<le> nearest64 x then Infinite neg else Finite neg (nearest64 x))"

fun f64_times :: "f64 \<Rightarrow> f64 \<Rightarrow> f64" where
  "f64_times (Finite a x) (Finite b y) = round64 (a \<noteq> b) (x * y)"
| "f64_times (Finite a x) (Infinite b) = (if x = 0 then NotANumber else Infinite (a \<noteq> b))"
| "f64_times (Infinite a) (Finite b y) = (if y = 0 then NotANumber else Infinite (a \<noteq> b))"
| "f64_times (Infinite a) (Infinite b) = Infinite (a \<noteq> b)"
| "f64_times _ _ = NotANumber"

fun f64_divide :: "f64 \<Rightarrow> f64 \<Rightarrow> f64" where
  "f64_divide (Finite a x) (Finite b y) =
     (if y = 0 then (if x = 0 then NotANumber else Infinite (a \<noteq> b)) else round64 (a \<noteq> b) (x / y))"
| "f64_divide (Finite a x) (Infinite b) = Finite (a \<noteq> b) 0"
| "f64_divide (Infinite a) (Finite b y) = Infinite (a \<noteq> b)"
| "f64_divide _ _ = NotANumber"

text \<open>\<open>math.Round\<close>: to the nearest integer, halves away from zero.\<close>

fun math_Round :: "f64 \<Rightarrow> f64" where
  "math_Round (Finite neg x) = Finite neg (of_int \<lfloor>x + 1/2\<rfloor>)"
| "math_Round f = f"

text \<open>\<open>fmt.Sprintf("%.2f", f)\<close>: two decimals of the exact value, ties to even; a negative zero keeps its sign.\<close>

definition two_decimals :: "bool \<Rightarrow> nat \<Rightarrow> string" where
  "two_decimals neg n = (if neg then ''-'' else []) @ nat_to_dec (n div 100) @ ''.''
     @ [dec_digit (n div 10 mod 10), dec_digit (n mod 10)]"

fun format_2f :: "f64 \<Rightarrow> string" where
  "format_2f (Finite neg x) = two_decimals neg (nat (round_even (x * 100)))"
| "format_2f (Infinite neg) = (if neg then ''-Inf'' else ''+Inf'')"
| "format_2f NotANumber = ''NaN''"

section \<open>Texts\<close>

definition split_sign :: "string \<Rightarrow> bool \<times> string" where
  "split_sign s =
     (case s of [] \<Rightarrow> (False, [])
      | c # r \<Rightarrow> (if c = CHR ''-'' then (True, r) else if c = CHR ''+'' then (False, r) else (False, s)))"

text \<open>\<open>underscoreOK\<close>: an underscore stands between digits, or between a base prefix and a digit. The first
  argument is the kind of the character before.\<close>

datatype seen = SeenDigit | SeenUnderscore | SeenOther

fun underscores_ok :: "bool \<Rightarrow> seen \<Rightarrow> string \<Rightarrow> bool" where
  "underscores_ok hex prev [] \<longleftrightarrow> prev \<noteq> SeenUnderscore"
| "underscores_ok hex prev (c # s) \<longleftrightarrow>
     (if is_digit c \<or> hex \<and> is_hex c then underscores_ok hex SeenDigit s
      else if c = CHR ''_'' then prev = SeenDigit \<and> underscores_ok hex SeenUnderscore s
      else prev \<noteq> SeenUnderscore \<and> underscores_ok hex SeenOther s)"

text \<open>The exponent is capped while it is read, as \<open>readFloat\<close> does it.\<close>

definition exponent_value :: "string \<Rightarrow> int" where
  "exponent_value s = foldl (\<lambda>e c. if e < 10000 then 10 * e + int (digit_value c) else e) 0 s"

text \<open>\<open>e\<close> or \<open>p\<close>, a sign and digits, up to the end of the text; only a hexadecimal number must have one.\<close>

definition read_exponent :: "bool \<Rightarrow> string \<Rightarrow> int option" where
  "read_exponent hex s =
     (case s of
        [] \<Rightarrow> if hex then None else Some 0
      | c # r \<Rightarrow>
          (case split_sign r of (neg, ds) \<Rightarrow>
             if lower c = (if hex then CHR ''p'' else CHR ''e'') \<and> ds \<noteq> [] \<and> list_all is_digit ds
             then Some (if neg then - exponent_value ds else exponent_value ds)
             else None))"

definition read_mantissa :: "bool \<Rightarrow> string \<Rightarrow> rat option" where
  "read_mantissa hex s =
     (let dig = (if hex then is_hex else is_digit);
          ds = takeWhile dig s; r = dropWhile dig s;
          point = (r \<noteq> [] \<and> hd r = CHR ''.'');
          fs = (if point then takeWhile dig (tl r) else []);
          r' = (if point then dropWhile dig (tl r) else r);
          n = of_nat (foldl (\<lambda>v c. (if hex then 16 * v + hex_value c else 10 * v + digit_value c)) 0 (ds @ fs))
      in if ds @ fs = [] then None
         else map_option (\<lambda>e. if hex then n * 2 powi (e - 4 * int (length fs)) else n * 10 powi (e - int (length fs)))
           (read_exponent hex r'))"

text \<open>\<open>readFloat\<close>: the sign of a number and its exact magnitude.\<close>

definition read_float :: "string \<Rightarrow> (bool \<times> rat) option" where
  "read_float s =
     (case split_sign s of (neg, r) \<Rightarrow>
        let hex = (length r > 2 \<and> hd r = CHR ''0'' \<and> lower (r ! 1) = CHR ''x'');
            body = (if hex then drop 2 r else r)
        in if CHR ''_'' \<in> set body \<and> \<not> underscores_ok hex (if hex then SeenDigit else SeenOther) body then None
           else map_option (\<lambda>x. (neg, x)) (read_mantissa hex (filter (\<lambda>c. c \<noteq> CHR ''_'') body)))"

text \<open>A text that is no number, and a number out of range, give an error.\<close>

definition ParseFloat :: "string \<Rightarrow> f64 option" where
  "ParseFloat s =
     (let t = map lower s; (neg, r) = split_sign t in
      if t = ''nan'' then Some NotANumber
      else if r = ''inf'' \<or> r = ''infinity'' then Some (Infinite neg)
      else case read_float s of
        None \<Rightarrow> None
      | Some (neg, x) \<Rightarrow> (case round64 neg x of Finite a y \<Rightarrow> Some (Finite a y) | _ \<Rightarrow> None))"

section \<open>Rounding errors\<close>

lemma round_even_close: "\<bar>of_int (round_even x) - x\<bar> \<le> 1/2"
proof -
  define y where "y = rat_of_int \<lfloor>x\<rfloor>"
  have "y \<le> x" "x < y + 1"
    using floor_correct [of x] by (simp_all add: y_def)
  then have "x - y \<le> 1/2 \<Longrightarrow> \<bar>y - x\<bar> \<le> 1/2" "1/2 \<le> x - y \<Longrightarrow> \<bar>y + 1 - x\<bar> \<le> 1/2"
    by (simp_all add: abs_if)
  then show ?thesis
    unfolding round_even_def Let_def by (auto simp flip: y_def)
qed

lemma round_even_unique: "\<bar>x - of_int n\<bar> < 1/2 \<Longrightarrow> round_even x = n"
  using round_even_close [of x] by linarith

lemma round_even_nonneg: "0 \<le> x \<Longrightarrow> 0 \<le> round_even x"
  unfolding round_even_def Let_def by (simp add: le_floor_iff)

lemma leading_bit_le:
  assumes "0 < x"
  shows "2 powi leading_bit x \<le> x"
proof -
  obtain p q where pq: "quotient_of x = (p, q)" by (cases "quotient_of x")
  have q: "0 < q" and x: "x = of_int p / of_int q"
    using quotient_of_denom_pos [OF pq] quotient_of_div [OF pq] by simp_all
  with assms have p: "0 < p"
    by (simp add: zero_less_divide_iff)
  define m n where "m = nat (bitlen p - 1)" and "n = nat (bitlen q)"
  have lens: "bitlen p - 1 = int m" "bitlen q = int n"
    using p q bitlen_nonneg [of p] bitlen_nonneg [of q] bitlen_eq_zero_iff [of p] by (auto simp: m_def n_def)
  have "2 ^ m \<le> p" "q < 2 ^ n"
    using bitlen_bounds [OF p] bitlen_bounds [OF q] by (simp_all add: m_def n_def)
  then have "2 ^ m * of_int q \<le> (of_int p * 2 ^ n :: rat)"
    by (intro mult_mono) (simp_all add: p q less_imp_le flip: of_int_power)
  then have "2 powi (bitlen p - 1 - bitlen q) \<le> x"
    using q by (simp add: x lens power_int_diff field_simps)
  then show ?thesis
    by (auto simp: leading_bit_def pq Let_def algebra_simps)
qed

lemma nearest64_nonneg: "0 \<le> x \<Longrightarrow> 0 \<le> nearest64 x"
  by (simp add: nearest64_def round_even_nonneg)

text \<open>Half of the smallest positive number.\<close>

definition tiny :: rat where
  "tiny = 2 powi (- 1075)"

lemma twice_tiny: "2 powi (- 1074) = 2 * tiny"
proof -
  have "(2 :: rat) powi (1 + - 1075) = 2 powi 1 * 2 powi (- 1075)"
    by (rule power_int_add) simp
  moreover have "(1 :: int) + - 1075 = - 1074" by simp
  ultimately show ?thesis
    by (simp only: tiny_def power_int_1_right)
qed

lemma tiny_pos: "0 < tiny"
  unfolding tiny_def by (rule zero_less_power_int) simp

lemma tiny_less: "tiny \<le> 1 / 2 ^ 80"
proof -
  have "(- 1075 :: int) \<le> - 80" by simp
  then have "(2 :: rat) powi (- 1075) \<le> 2 powi (- 80)"
    by (rule power_int_increasing) (rule one_le_numeral)
  also have "(2 :: rat) powi (- 80) = 1 / 2 ^ 80"
    by (simp add: power_int_minus_divide)
  finally show ?thesis unfolding tiny_def .
qed

lemma nearest64_close:
  assumes "0 \<le> x"
  shows "\<bar>nearest64 x - x\<bar> \<le> x / 2 ^ 53 + tiny"
proof (cases "x = 0")
  case False
  define u where "u = (2 :: rat) powi last_bit x"
  have u: "0 < u" by (simp add: u_def)
  have half: "u / 2 \<le> x / 2 ^ 53 + tiny"
  proof (cases "leading_bit x - 52 \<le> - 1074")
    case True
    then have "u = 2 * tiny"
      by (simp only: u_def last_bit_def max_absorb2 twice_tiny)
    with assms show ?thesis by simp
  next
    case False
    then have "u = 2 powi leading_bit x / 2 ^ 52"
      by (simp add: u_def last_bit_def power_int_diff)
    moreover have "2 powi leading_bit x \<le> x"
      using assms \<open>x \<noteq> 0\<close> by (simp add: leading_bit_le)
    ultimately have "u / 2 \<le> x / 2 ^ 53"
      by simp
    then show ?thesis using tiny_pos by simp
  qed
  have "nearest64 x - x = (of_int (round_even (x / u)) - x / u) * u"
    using False u by (simp add: nearest64_def u_def algebra_simps)
  then have "\<bar>nearest64 x - x\<bar> = \<bar>of_int (round_even (x / u)) - x / u\<bar> * u"
    using u by (simp add: abs_mult)
  also have "\<dots> \<le> 1/2 * u"
    using round_even_close u by (intro mult_right_mono) simp_all
  finally show ?thesis using half by simp
qed (simp add: nearest64_def tiny_pos less_imp_le)

lemma round64_finite:
  assumes "0 \<le> x" and "x \<le> 2 ^ 60"
  shows "round64 neg x = Finite neg (nearest64 x)"
proof -
  have "nearest64 x \<le> x + x / 2 ^ 53 + tiny"
    using nearest64_close [OF assms(1)] by (simp add: abs_if split: if_splits)
  also have "\<dots> < 2 ^ 62"
    using assms tiny_less by simp
  also have "(2 :: rat) ^ 62 \<le> 2 ^ 1024"
    by (rule power_increasing) simp_all
  finally show ?thesis
    by (simp only: round64_def not_le [symmetric] if_False simp_thms)
qed

lemma error_sum:
  fixes f g x z t :: rat
  assumes "\<bar>z - g\<bar> \<le> 1/2" and "\<bar>g - f * 100\<bar> \<le> f * 100 / 2 ^ 53 + t" and "\<bar>f - x\<bar> \<le> x / 2 ^ 53 + t"
    and "0 \<le> x" "t \<le> 1 / 2 ^ 80" "0 < t"
  shows "\<bar>z / 100 - x\<bar> \<le> 1/200 + (1 + x) / 2 ^ 51"
proof -
  define d e where "d = f / 2 ^ 53" and "e = x / 2 ^ 53"
  have g: "\<bar>g - f * 100\<bar> \<le> 100 * d + t" and f: "\<bar>f - x\<bar> \<le> e + t"
    using assms(2,3) by (simp_all add: d_def e_def)
  have "\<bar>z / 100 - f\<bar> \<le> 1/200 + d + t"
    using assms(1,6) g by linarith
  then have sum: "\<bar>z / 100 - x\<bar> \<le> 1/200 + d + e + 2 * t"
    using f by linarith
  have "f \<le> x + e + t" using f by linarith
  then have "d \<le> (x + e + t) / 2 ^ 53"
    by (simp add: d_def)
  then have "d + e + 2 * t \<le> (1 + x) / 2 ^ 51"
    using assms(4-6) by (simp add: e_def)
  with sum show ?thesis by linarith
qed
section \<open>Two decimals\<close>

text \<open>A number that is rounded to two decimals and printed with two decimals.\<close>

definition rounded_2f :: "f64 \<Rightarrow> string" where
  "rounded_2f f = format_2f (f64_divide (math_Round (f64_times f (Finite False 100))) (Finite False 100))"

lemma rounded_2f_close:
  assumes "0 \<le> x" and "x \<le> 2 ^ 40"
  shows "\<exists>n. rounded_2f (Finite neg (nearest64 x)) = two_decimals neg n
    \<and> \<bar>of_nat n / 100 - x\<bar> \<le> 1/200 + (1 + x) / 2 ^ 51"
proof -
  define f where "f = nearest64 x"
  define g where "g = nearest64 (f * 100)"
  define n where "n = nat \<lfloor>g + 1/2\<rfloor>"
  define h where "h = nearest64 (of_nat n / 100)"
  note tiny = tiny_less tiny_pos
  have f: "0 \<le> f" "\<bar>f - x\<bar> \<le> x / 2 ^ 53 + tiny"
    using nearest64_nonneg [OF assms(1)] nearest64_close [OF assms(1)] by (simp_all add: f_def)
  then have f2: "f \<le> 2 ^ 41"
    using assms tiny by (simp add: abs_le_iff)
  have g: "0 \<le> g" "\<bar>g - f * 100\<bar> \<le> f * 100 / 2 ^ 53 + tiny"
    using nearest64_nonneg [of "f * 100"] nearest64_close [of "f * 100"] f(1) by (simp_all add: g_def)
  then have g2: "g \<le> 2 ^ 48"
    using f2 tiny by (simp add: abs_le_iff)
  have n: "\<bar>of_nat n - g\<bar> \<le> 1/2"
  proof -
    define z where "z = rat_of_int \<lfloor>g + 1/2\<rfloor>"
    have "z \<le> g + 1/2" "g + 1/2 < z + 1"
      using floor_correct [of "g + 1/2"] by (simp_all add: z_def)
    then have "\<bar>z - g\<bar> \<le> 1/2" by linarith
    moreover have "of_nat n = z"
      using g(1) by (simp add: n_def z_def)
    ultimately show ?thesis by simp
  qed
  then have n2: "(of_nat n :: rat) \<le> 2 ^ 49"
  proof -
    have "of_nat n \<le> g + 1/2" using n by linarith
    also have "\<dots> \<le> 2 ^ 49" using g2 by simp
    finally show ?thesis .
  qed
  have h: "\<bar>h - of_nat n / 100\<bar> \<le> of_nat n / 100 / 2 ^ 53 + tiny"
    using nearest64_close [of "of_nat n / 100"] by (simp add: h_def)
  have "\<bar>h * 100 - z\<bar> < 1/2" if "\<bar>h - z / 100\<bar> \<le> z / 100 / 2 ^ 53 + tiny" "z \<le> 2 ^ 49" for z
  proof -
    have "h - z / 100 \<le> 1 / 400" "z / 100 - h \<le> 1 / 400"
      using that tiny by (simp_all add: abs_le_iff)
    then show ?thesis by linarith
  qed
  from this [OF h n2] have "\<bar>h * 100 - of_int (int n)\<bar> < 1/2"
    by simp
  then have "round_even (h * 100) = int n"
    by (rule round_even_unique)
  moreover have "rounded_2f (Finite neg f) = format_2f (Finite neg h)"
  proof -
    have "f * 100 \<le> 2 ^ 60" "of_nat n / 100 \<le> (2 :: rat) ^ 60"
      using f2 n2 by simp_all
    then have "f64_times (Finite neg f) (Finite False 100) = Finite neg g"
      and "f64_divide (Finite neg (of_nat n)) (Finite False 100) = Finite neg h"
      using f(1) by (simp_all add: round64_finite g_def h_def)
    moreover have "of_int \<lfloor>g + 1/2\<rfloor> = (of_nat n :: rat)"
      using g(1) by (simp add: n_def)
    ultimately show ?thesis
      by (simp only: rounded_2f_def math_Round.simps)
  qed
  ultimately have "rounded_2f (Finite neg f) = two_decimals neg n"
    by simp
  moreover have "\<bar>of_nat n / 100 - x\<bar> \<le> 1/200 + (1 + x) / 2 ^ 51"
    by (rule error_sum [OF n g(2) f(2) assms(1) tiny])
  ultimately show ?thesis by (auto simp: f_def)
qed

text \<open>What is printed is read back as the hundredths it was printed for.\<close>

lemma digits_plain: "is_digit c \<Longrightarrow> c \<noteq> CHR ''-'' \<and> c \<noteq> CHR ''+'' \<and> c \<noteq> CHR ''_'' \<and> c \<noteq> CHR ''.'' \<and> lower c \<noteq> CHR ''x''"
  by (auto simp: is_digit_def lower_def byte_def)

lemma read_float_two_decimals: "read_float (two_decimals neg n) = Some (neg, of_nat n / 100)"
proof -
  let ?ds = "nat_to_dec (n div 100)" and ?d1 = "dec_digit (n div 10 mod 10)" and ?d2 = "dec_digit (n mod 10)"
  let ?r = "?ds @ CHR ''.'' # [?d1, ?d2]"
  obtain c cs where ds: "?ds = c # cs" by (cases ?ds) auto
  have digits: "\<forall>d \<in> set ?ds. is_digit d" "is_digit ?d1" "is_digit ?d2" "is_digit c"
    using nat_to_dec_digits [of "n div 100"] ds by (auto simp: list_all_iff dec_digit_is_digit)
  have sign: "split_sign (two_decimals neg n) = (neg, ?r)"
    using digits(4) [THEN digits_plain] by (simp add: two_decimals_def split_sign_def ds)
  have "\<not> (hd ?r = CHR ''0'' \<and> lower (?r ! 1) = CHR ''x'')"
  proof (cases cs)
    case Nil
    then show ?thesis by (simp add: ds lower_def byte_def)
  next
    case (Cons d ds')
    then have "lower d \<noteq> CHR ''x''" using digits(1) ds digits_plain [of d] by simp
    with Cons show ?thesis by (simp add: ds)
  qed
  then have "\<not> (2 < length ?r \<and> hd ?r = CHR ''0'' \<and> lower (?r ! 1) = CHR ''x'')" by blast
  moreover have "CHR ''_'' \<notin> set ?r"
  proof -
    have "CHR ''_'' \<notin> set ?ds" using digits(1) digits_plain by blast
    with digits(2,3) [THEN digits_plain] show ?thesis by auto
  qed
  then have "filter (\<lambda>c. c \<noteq> CHR ''_'') ?r = ?r" "CHR ''_'' \<notin> set ?r"
    by (auto intro!: filter_True)
  ultimately have "read_float (two_decimals neg n) = map_option (\<lambda>x. (neg, x)) (read_mantissa False ?r)"
    unfolding read_float_def sign prod.case Let_def by (simp only: if_False simp_thms)
  moreover have "takeWhile is_digit ?r = ?ds" "dropWhile is_digit ?r = [CHR ''.'', ?d1, ?d2]"
    using digits(1) by (simp_all add: takeWhile_append2 dropWhile_append2 is_digit_def)
  then have "read_mantissa False ?r = Some (of_nat (dec_value (?ds @ [?d1, ?d2])) * 10 powi (- 2))"
    using digits(2,3) by (simp add: read_mantissa_def read_exponent_def Let_def dec_value_def)
  moreover have "dec_value (?ds @ [?d1, ?d2]) = n"
  proof -
    have "dec_value (?ds @ [?d1, ?d2]) = 10 * (10 * (n div 100) + n div 10 mod 10) + n mod 10"
      using dec_value_snoc [of "?ds @ [?d1]" ?d2] dec_value_snoc [of ?ds ?d1] by (simp add: dec_digit_value)
    also have "\<dots> = n"
    proof -
      have "n div 100 = n div 10 div 10" by (simp flip: div_mult2_eq)
      then show ?thesis by (simp only: mult_div_mod_eq)
    qed
    finally show ?thesis .
  qed
  ultimately show ?thesis
    by (simp add: power_int_minus_divide)
qed

lemma read_float_nonneg: "read_float s = Some (neg, x) \<Longrightarrow> 0 \<le> x"
  by (auto simp: read_float_def read_mantissa_def Let_def split: prod.splits if_splits)

lemma length_split_sign: "length s \<le> Suc (length (snd (split_sign s)))"
  by (auto simp: split_sign_def split: list.split)

lemma ParseFloat_long:
  assumes "10 < length s" and "read_float s = Some (neg, x)" and "x \<le> 2 ^ 60"
  shows "ParseFloat s = Some (Finite neg (nearest64 x))"
proof -
  obtain a r where r: "split_sign (map lower s) = (a, r)" by (cases "split_sign (map lower s)")
  then have "map lower s \<noteq> ''nan''" "r \<noteq> ''inf''" "r \<noteq> ''infinity''"
    using assms(1) length_split_sign [of "map lower s"] by (auto dest: arg_cong [where f = length])
  then show ?thesis
    using assms(2,3) by (simp add: ParseFloat_def Let_def r round64_finite [OF read_float_nonneg])
qed

end
