(* ===== verification/Runtime.thy ===== *)
theory Runtime
  imports Params Binary64
begin

text \<open>
  The world the server runs in. Everything outside the process (the SQL database, InfluxDB, the
  HTTP services, the RabbitMQ client, the clock, the UUID generator, the configuration) is a
  parameter \<open>E :: env\<close>: each of its functions answers a call given the history of all events up
  to and including that call, so it may answer differently every time and no answer is assumed.

  Inside the process, a message is an object on a heap: handlers pass \<open>*IotMessage\<close> pointers to
  goroutines and go on writing to the object, so what a goroutine reads depends on when it runs.
  Every write to a message and every \<open>go\<close> statement is an event of the history; \<open>task_views\<close>
  computes from it the versions of its message that a goroutine may see.

  A \<open>record world\<close> is the history, the heap and the next free address; an operation with effects
  is a computation in the state monad over it.
\<close>

section \<open>Events\<close>

type_synonym ref = nat
type_synonym chan = nat
type_synonym chan_ptr = nat

datatype log_level = DebugLevel | InfoLevel | WarnLevel | ErrorLevel | FatalLevel

text \<open>The tasks of \<open>internal/infrastructure/tasks\<close>, by the struct that carries their \<open>Run\<close>.\<close>

datatype task =
    UpdateGatewayStatusTask
  | StoreSensorDataMySqlTask
  | StoreSensorDataInfluxTask
  | StorePreviewTask
  | UpdateCameraStateTask
  | UpdateCameraStreamingStateTask
  | RecordMediaStreamTask
  | SendPushNotificationTask
  | SendGatewayMessageTask "chan_ptr option"

text \<open>
  The goroutines the server starts. A task goroutine holds a pointer; the event also shows the
  message as it stood at the \<open>go\<close> statement.
\<close>

datatype goroutine =
    RunTask task ref IotMessage
  | RunApplyLogic chan_ptr IotMessage
  | RunReader chan_ptr
  | RunEventLoop
  | RunRestServer

datatype sqlarg = SqlStr string | SqlInt int | SqlU64 u64

record http_request =
  http_method :: string
  http_url :: string
  http_body :: string
  http_auth :: "(string \<times> string) option"
  http_headers :: "(string \<times> string) list"

datatype influx_value = InfluxStr string | InfluxFloat f64

record influx_point =
  influx_db :: string
  influx_name :: string
  influx_tags :: "(string \<times> string) list"
  influx_fields :: "(string \<times> influx_value) list"
  influx_time :: i64

record publishing =
  pub_ContentType :: string
  pub_CorrelationId :: string
  pub_ReplyTo :: string
  pub_Body :: string

datatype amqp_call =
    Dial string
  | OpenChannel
  | ExchangeDeclare chan string string
  | QueueDeclare chan string bool
  | QueueBind chan string string string
  | Consume chan string bool
  | Publish chan string string publishing
  | QueueDelete chan string
  | CloseChannel chan
  | CloseConnection

datatype event =
    LogLine log_level string
  | Go goroutine
  | MsgStored ref IotMessage
  | ClockRead
  | UuidNew
  | SqlExec string "sqlarg list"
  | SqlQuery string "sqlarg list"
  | RowsClose
  | SqlConnect string
  | SqlClose
  | HttpDo http_request
  | InfluxClient string string string
  | InfluxWrite influx_point
  | InfluxClose
  | SignalNotify
  | Amqp amqp_call

section \<open>The environment\<close>

record camera_row =
  cr_id :: u64
  cr_uid :: u64
  cr_stream_id :: string
  cr_recording :: "string option"
  cr_schedule :: "string option"
  cr_gateway_id :: string
  cr_title :: string

record sensor_row =
  sr_id :: u64
  sr_device_id :: string
  sr_user_id :: u64
  sr_title :: string
  sr_gateway_id :: string

record inner_row =
  ir_sensor :: string
  ir_influx :: bool
  ir_notify :: bool
  ir_desc :: string

text \<open>
  The rows of a query as the code iterates over them: while \<open>Next\<close> returns true there is one more row, with the outcome of
  its \<open>Scan\<close>; when it returns false the rows have ended, or the iteration was broken off by the error that \<open>rows.Err()\<close>
  would report.
\<close>

datatype 'a rows = RowsEnd "err option" | NextRow "'a result" "'a rows"

text \<open>An HTTP exchange: no response, or a status code and the outcome of reading the body.\<close>

datatype http_reply = HttpFailed err | HttpReply int "string result"

text \<open>
  \<open>e_error\<close> answers every call that returns an error or nil; the other fields are the calls that
  return data.
\<close>

record env =
  e_now :: "event list \<Rightarrow> i64"
  e_hms :: "event list \<Rightarrow> string"
  e_uuid :: "event list \<Rightarrow> string"
  e_uuid_ok :: "string \<Rightarrow> bool"
  e_cfg_str :: "string \<Rightarrow> string"
  e_cfg_int :: "string \<Rightarrow> int"
  e_error :: "event list \<Rightarrow> err option"
  e_user :: "event list \<Rightarrow> UserLogicParams result"
  e_cameras :: "event list \<Rightarrow> camera_row rows result"
  e_sensors :: "event list \<Rightarrow> sensor_row rows result"
  e_inner :: "event list \<Rightarrow> inner_row rows result"
  e_players :: "event list \<Rightarrow> string rows result"
  e_count :: "event list \<Rightarrow> int result"
  e_new_request :: "http_request \<Rightarrow> err option"
  e_http :: "event list \<Rightarrow> http_reply"
  e_influx_batch :: "string \<Rightarrow> err option"
  e_influx_point :: "influx_point \<Rightarrow> err option"
  e_channel :: "event list \<Rightarrow> chan result"
  e_queue :: "event list \<Rightarrow> string result"

section \<open>Computations\<close>

record world =
  hist :: "event list"
  heap :: "ref \<Rightarrow> IotMessage"
  next_ref :: ref

type_synonym 'a io = "(world, 'a) state"

abbreviation ret :: "'a \<Rightarrow> 'a io" where
  "ret \<equiv> State_Monad.return"

definition emit :: "event \<Rightarrow> unit io" where
  "emit e = State (\<lambda>w. ((), w\<lparr>hist := hist w @ [e]\<rparr>))"

text \<open>A call to the outside: it is recorded, and answered from the history it ends.\<close>

definition ask :: "event \<Rightarrow> (event list \<Rightarrow> 'r) \<Rightarrow> 'r io" where
  "ask e f = State (\<lambda>w. (f (hist w @ [e]), w\<lparr>hist := hist w @ [e]\<rparr>))"

definition deref :: "ref \<Rightarrow> IotMessage io" where
  "deref r = State (\<lambda>w. (heap w r, w))"

definition modify :: "ref \<Rightarrow> (IotMessage \<Rightarrow> IotMessage) \<Rightarrow> unit io" where
  "modify r f = State (\<lambda>w. ((), w\<lparr>heap := (heap w)(r := f (heap w r)),
     hist := hist w @ [MsgStored r (f (heap w r))]\<rparr>))"

definition alloc :: "IotMessage \<Rightarrow> ref io" where
  "alloc m = State (\<lambda>w. (next_ref w, w\<lparr>heap := (heap w)(next_ref w := m),
     next_ref := Suc (next_ref w), hist := hist w @ [MsgStored (next_ref w) m]\<rparr>))"

text \<open>\<open>go task.Run(message)\<close>\<close>

definition go_task :: "task \<Rightarrow> ref \<Rightarrow> unit io" where
  "go_task t r = State (\<lambda>w. ((), w\<lparr>hist := hist w @ [Go (RunTask t r (heap w r))]\<rparr>))"

definition Debug :: "string \<Rightarrow> unit io" where
  "Debug msg = emit (LogLine DebugLevel msg)"

definition Info :: "string \<Rightarrow> unit io" where
  "Info msg = emit (LogLine InfoLevel msg)"

definition Warn :: "string \<Rightarrow> unit io" where
  "Warn msg = emit (LogLine WarnLevel msg)"

definition Error :: "string \<Rightarrow> unit io" where
  "Error msg = emit (LogLine ErrorLevel msg)"

lemma run_emit [simp, io_simps]: "run_state (emit e) w = ((), w\<lparr>hist := hist w @ [e]\<rparr>)"
  by (simp add: emit_def)

lemma run_ask [simp, io_simps]:
  "run_state (ask e f) w = (f (hist w @ [e]), w\<lparr>hist := hist w @ [e]\<rparr>)"
  by (simp add: ask_def)

lemma run_deref [simp, io_simps]: "run_state (deref r) w = (heap w r, w)"
  by (simp add: deref_def)

lemma run_modify [simp, io_simps]:
  "run_state (modify r f) w = ((), w\<lparr>heap := (heap w)(r := f (heap w r)),
     hist := hist w @ [MsgStored r (f (heap w r))]\<rparr>)"
  by (simp add: modify_def)

lemma run_alloc [simp, io_simps]:
  "run_state (alloc m) w = (next_ref w, w\<lparr>heap := (heap w)(next_ref w := m),
     next_ref := Suc (next_ref w), hist := hist w @ [MsgStored (next_ref w) m]\<rparr>)"
  by (simp add: alloc_def)

lemma run_go_task [simp, io_simps]:
  "run_state (go_task t r) w = ((), w\<lparr>hist := hist w @ [Go (RunTask t r (heap w r))]\<rparr>)"
  by (simp add: go_task_def)

lemma run_log [simp, io_simps]:
  "run_state (Debug s) w = ((), w\<lparr>hist := hist w @ [LogLine DebugLevel s]\<rparr>)"
  "run_state (Info s) w = ((), w\<lparr>hist := hist w @ [LogLine InfoLevel s]\<rparr>)"
  "run_state (Warn s) w = ((), w\<lparr>hist := hist w @ [LogLine WarnLevel s]\<rparr>)"
  "run_state (Error s) w = ((), w\<lparr>hist := hist w @ [LogLine ErrorLevel s]\<rparr>)"
  by (simp_all add: Debug_def Info_def Warn_def Error_def)

section \<open>What a computation did\<close>

text \<open>The result of a run, its final world, and the events it added to the history.\<close>

definition value_of :: "'a io \<Rightarrow> world \<Rightarrow> 'a" where
  "value_of m w = fst (run_state m w)"

definition world_after :: "'a io \<Rightarrow> world \<Rightarrow> world" where
  "world_after m w = snd (run_state m w)"

definition effects :: "'a io \<Rightarrow> world \<Rightarrow> event list" where
  "effects m w = drop (length (hist w)) (hist (world_after m w))"

text \<open>A computation only ever adds to the history.\<close>

definition appends :: "'a io \<Rightarrow> bool" where
  "appends m \<longleftrightarrow> (\<forall>w. \<exists>es. hist (snd (run_state m w)) = hist w @ es)"

lemma appendsI: "(\<And>w. \<exists>es. hist (snd (run_state m w)) = hist w @ es) \<Longrightarrow> appends m"
  by (simp add: appends_def)

lemma appends_hist: "appends m \<Longrightarrow> hist (world_after m w) = hist w @ effects m w"
  unfolding appends_def effects_def world_after_def by (metis append_eq_conv_conj)

lemma appends_prim [simp, intro]:
  "appends (ret x)" "appends (emit e)" "appends (ask e f)" "appends (deref r)"
  "appends (modify r g)" "appends (alloc m)" "appends (go_task t r)"
  "appends (Debug s)" "appends (Info s)" "appends (Warn s)" "appends (Error s)"
  by (simp_all add: appends_def)

lemma appends_bind [intro]:
  assumes "appends m" and "\<And>x. appends (f x)"
  shows "appends (State_Monad.bind m f)"
proof (rule appendsI)
  fix w
  obtain x w' where m: "run_state m w = (x, w')"
    by (cases "run_state m w")
  obtain es where "hist w' = hist w @ es"
    using assms(1) m unfolding appends_def by (metis snd_conv)
  moreover obtain es' where "hist (snd (run_state (f x) w')) = hist w' @ es'"
    using assms(2) unfolding appends_def by blast
  ultimately show "\<exists>es. hist (snd (run_state (State_Monad.bind m f) w)) = hist w @ es"
    using m by simp
qed

text \<open>
  The task goroutines among some events, each with its message as it stood at the \<open>go\<close> statement
  and after every later write to the same object: whatever the scheduler does, a read of the
  message by the task yields a field of one of these versions.
\<close>

fun later_versions :: "ref \<Rightarrow> event list \<Rightarrow> IotMessage list" where
  "later_versions r [] = []"
| "later_versions r (MsgStored r' m # es) =
     (if r' = r then m # later_versions r es else later_versions r es)"
| "later_versions r (_ # es) = later_versions r es"

fun task_views :: "event list \<Rightarrow> (task \<times> IotMessage list) list" where
  "task_views [] = []"
| "task_views (Go (RunTask t r m) # es) = (t, m # later_versions r es) # task_views es"
| "task_views (_ # es) = task_views es"

definition tasks_of :: "event list \<Rightarrow> task list" where
  "tasks_of es = map fst (task_views es)"

text \<open>No task can see a write that comes after its \<open>go\<close> statement: there is no data race.\<close>

definition race_free :: "event list \<Rightarrow> bool" where
  "race_free es \<longleftrightarrow> list_all (\<lambda>(t, ms). length ms = 1) (task_views es)"

definition logs_of :: "event list \<Rightarrow> (log_level \<times> string) list" where
  "logs_of es = concat (map (\<lambda>e. case e of LogLine l s \<Rightarrow> [(l, s)] | _ \<Rightarrow> []) es)"

text \<open>Events that reach outside the process.\<close>

fun is_external :: "event \<Rightarrow> bool" where
  "is_external (SqlExec _ _) = True"
| "is_external (SqlQuery _ _) = True"
| "is_external (HttpDo _) = True"
| "is_external (InfluxWrite _) = True"
| "is_external (Amqp _) = True"
| "is_external _ = False"

definition externals :: "event list \<Rightarrow> event list" where
  "externals es = filter is_external es"

lemma effects_append: "appends m \<Longrightarrow> (\<And>x. appends (f x)) \<Longrightarrow>
    effects (State_Monad.bind m f) w =
      effects m w @ effects (f (value_of m w)) (world_after m w)"
proof -
  assume m: "appends m" and f: "\<And>x. appends (f x)"
  let ?w = "world_after m w"
  have "world_after (State_Monad.bind m f) w = world_after (f (value_of m w)) ?w"
    by (simp add: world_after_def value_of_def split_beta)
  then have "hist (world_after (State_Monad.bind m f) w) =
      hist w @ effects m w @ effects (f (value_of m w)) ?w"
    using appends_hist [OF m, of w] appends_hist [OF f, of "value_of m w" ?w] by simp
  then show ?thesis
    unfolding effects_def [of "State_Monad.bind m f"] by simp
qed

end
