(* ===== verification/GatewayLogic.thy ===== *)
theory GatewayLogic
  imports Runtime
begin

text \<open>
  The business logic of one gateway (\<open>internal/domain/logic\<close>): loading the parameters of its user,
  cameras and sensors from the database, and processing its messages. A handler takes the logic
  object and the address of the message and returns its error together with the logic as the
  handler left it; the message is changed on the heap and the tasks it starts are events.
\<close>

section \<open>State\<close>

text \<open>
  \<open>ctx\<close> and \<open>conn\<close> are handles that the logic only passes on. A parameter map may be nil; the
  pointers it holds are reached through the map only, so a write through one is an update of
  the map at its key.
\<close>

record GatewayLogic =
  gl_gatewayId :: gateway_id
  gl_CameraParams :: "GuardedParamsMap option"
  gl_SensorParams :: "GuardedParamsMap option"
  gl_UserParams :: UserLogicParams

definition NewGatewayLogic :: "gateway_id \<Rightarrow> GatewayLogic" where
  "NewGatewayLogic gatewayId = \<lparr>gl_gatewayId = gatewayId,
     gl_CameraParams = Some NewGuardedParamsMap, gl_SensorParams = Some NewGuardedParamsMap,
     gl_UserParams = zero_UserLogicParams\<rparr>"

section \<open>Cameras\<close>

definition getCameraLogicParams :: "GatewayLogic \<Rightarrow> string \<Rightarrow> CameraLogicParams result" where
  "getCameraLogicParams l deviceId =
     (case gl_CameraParams l of
        None \<Rightarrow> Inl ''no camera logic params loaded''
      | Some cams \<Rightarrow>
          (case GuardedParamsMap_Get cams deviceId of
             None \<Rightarrow> Inl (''no logic params for camera '' @ deviceId)
           | Some (CameraP p) \<Rightarrow> Inr p
           | Some _ \<Rightarrow> Inl ''error casting interface to CameraLogicParams''))"

text \<open>Writing through the pointer that \<open>getCameraLogicParams\<close> returned.\<close>

definition set_camera :: "string \<Rightarrow> CameraLogicParams \<Rightarrow> GatewayLogic \<Rightarrow> GatewayLogic" where
  "set_camera deviceId p l =
     l\<lparr>gl_CameraParams := map_option (GuardedParamsMap_Add deviceId (CameraP p)) (gl_CameraParams l)\<rparr>"

definition recordByMode :: "CameraLogicParams \<Rightarrow> ref \<Rightarrow> unit io" where
  "recordByMode p r =
     (case RecordingMode p of
        RecordingModeContinuous \<Rightarrow> go_task RecordMediaStreamTask r
      | RecordingModeMotion \<Rightarrow>
          (if MotionInProcess p then go_task RecordMediaStreamTask r else ret ())
      | _ \<Rightarrow> ret ())"

definition processCameraState :: "GatewayLogic \<Rightarrow> ref \<Rightarrow> (err option \<times> GatewayLogic) io" where
  "processCameraState l r = do {
     message \<leftarrow> deref r;
     (case getCameraLogicParams l (DeviceId message) of
        Inl e \<Rightarrow> ret (Some e, l)
      | Inr p \<Rightarrow> do {
          go_task UpdateCameraStateTask r;
          (if DeviceState message = ''on'' then ret (None, l)
           else if DeviceState message = ''off'' then ret (None, l)
           else if DeviceState message = ''streamingOn'' then
             (if \<not> CanBeRecorded (gl_UserParams l) then ret (None, l)
              else do {
                modify r (Recording_update (\<lambda>_. ''on''));
                let p' = p\<lparr>cl_MediaserverIp := MediaserverIp message,
                           cl_ApplicationName := ApplicationName message,
                           MediaserverParamsSet := True\<rparr>;
                recordByMode p' r;
                ret (None, set_camera (DeviceId message) p' l)
              })
           else if DeviceState message = ''streamingOff'' then do {
             modify r (Recording_update (\<lambda>_. ''off''));
             modify r (MediaserverIp_update (\<lambda>_. cl_MediaserverIp p));
             modify r (ApplicationName_update (\<lambda>_. cl_ApplicationName p));
             let p' = p\<lparr>cl_MediaserverIp := [], cl_ApplicationName := [],
                        MediaserverParamsSet := False\<rparr>;
             recordByMode p' r;
             ret (None, set_camera (DeviceId message) p' l)
           }
           else ret (Some (''wrong deviceState: '' @ DeviceState message), l))
        })
   }"

text \<open>The UTF-8 bytes of the push text of \<open>processCameraData\<close>, Russian for "motion detected".\<close>

definition motion_text :: string where
  "motion_text = map char_of
     [208, 158, 208, 177, 208, 189, 208, 176, 209, 128, 209, 131, 208, 182,
      208, 181, 208, 189, 208, 190, 32, 208, 180, 208, 178, 208, 184, 208,
      182, 208, 181, 208, 189, 208, 184, 208, 181 :: nat]"

definition processCameraData :: "GatewayLogic \<Rightarrow> ref \<Rightarrow> (err option \<times> GatewayLogic) io" where
  "processCameraData l r = do {
     message \<leftarrow> deref r;
     (case getCameraLogicParams l (DeviceId message) of
        Inl e \<Rightarrow> ret (Some e, l)
      | Inr p \<Rightarrow> do {
          l' \<leftarrow> (if Label message = ''motionDetector'' \<and> RecordingMode p = RecordingModeMotion
                then do {
                  let p' = p\<lparr>MotionInProcess := (SensorData message = ''on'')\<rparr>;
                  modify r (\<lambda>m. m\<lparr>Recording := SensorData m\<rparr>);
                  go_task RecordMediaStreamTask r;
                  ret (set_camera (DeviceId message) p' l)
                }
                else ret l);
          go_task StoreSensorDataInfluxTask r;
          (if Label message = ''motionDetector'' \<and> SensorData message = ''on''
              \<and> usr_Push (gl_UserParams l)
           then do {
             pushMessage \<leftarrow> alloc (NewPushMessage ''camera'' (dev_Title p) motion_text
               (dev_DeviceTableId p) (dev_UserId p));
             go_task SendPushNotificationTask pushMessage
           }
           else ret ());
          ret (None, l')
        })
   }"

text \<open>The two statements that start or stop the recording of a stream from a command.\<close>

definition sendRecording :: "env \<Rightarrow> CameraLogicParams \<Rightarrow> bool \<Rightarrow> unit io" where
  "sendRecording E p recording = do {
     now \<leftarrow> ask ClockRead (e_now E);
     recordingCommand \<leftarrow> alloc (ToMessage now p recording);
     go_task RecordMediaStreamTask recordingCommand
   }"

text \<open>
  The decision of \<open>processCameraCommand\<close>, after the user parameters have been replaced by the
  command's: \<open>prevTariffId\<close> is the tariff before, \<open>newTariffId\<close> the one in the message.
\<close>

definition switchRecording ::
    "env \<Rightarrow> CameraLogicParams \<Rightarrow> CloudCameraRecordingMode \<Rightarrow> u64 \<Rightarrow> u64 \<Rightarrow> UserLogicParams \<Rightarrow> unit io" where
  "switchRecording E p newRecordingMode prevTariffId newTariffId u =
     (let currentRecordingMode = RecordingMode p in
      (if currentRecordingMode = RecordingModeMotion
          \<and> newRecordingMode = RecordingModeContinuous \<and> CanBeRecorded u
       then sendRecording E p True
       else if currentRecordingMode = RecordingModeContinuous
          \<and> newRecordingMode = RecordingModeMotion
       then sendRecording E p False
       else if currentRecordingMode = newRecordingMode then do {
         (if prevTariffId = UserTarifOnline \<and> CanBeRecorded u
          then sendRecording E p True else ret ());
         (if prevTariffId > UserTarifOnline \<and> newTariffId = UserTarifOnline
          then sendRecording E p False else ret ())
       }
       else ret ()))"

definition processCameraCommand ::
    "env \<Rightarrow> GatewayLogic \<Rightarrow> ref \<Rightarrow> (err option \<times> GatewayLogic) io" where
  "processCameraCommand E l r = do {
     message \<leftarrow> deref r;
     (case getCameraLogicParams l (DeviceId message) of
        Inl e \<Rightarrow> ret (Some e, l)
      | Inr p \<Rightarrow>
          (if Command message = ''setRecording'' then do {
             let u = (gl_UserParams l)\<lparr>usr_TarifId := TariffId message, usr_Money := Money message,
                       usr_Vip := Vip message, usr_LegalEntity := LegalEntity message\<rparr>;
             switchRecording E p (ConvertRecordingMode (Attribute message))
               (usr_TarifId (gl_UserParams l)) (TariffId message) u;
             ret (None, l\<lparr>gl_UserParams := u\<rparr>)
           }
           else ret (None, l)))
   }"

section \<open>Sensors\<close>

definition getSensorLogicParams ::
    "GatewayLogic \<Rightarrow> string \<Rightarrow> (DeviceLogicParams \<times> GuardedParamsMap) result" where
  "getSensorLogicParams l deviceId =
     (case gl_SensorParams l of
        None \<Rightarrow> Inl ''no sensor logic params loaded''
      | Some sens \<Rightarrow>
          (case GuardedParamsMap_Get sens deviceId of
             None \<Rightarrow> Inl (''no logic params for sensor '' @ deviceId)
           | Some (SensorP d inner) \<Rightarrow> Inr (d, inner)
           | Some _ \<Rightarrow> Inl ''error casting interface to SensorLogicParams''))"

definition processSensorData :: "GatewayLogic \<Rightarrow> ref \<Rightarrow> err option io" where
  "processSensorData l r = do {
     message \<leftarrow> deref r;
     (case getSensorLogicParams l (DeviceId message) of
        Inl e \<Rightarrow> ret (Some e)
      | Inr (d, inner) \<Rightarrow>
          (let label = GetLabel message in
           case GuardedParamsMap_Get inner label of
             None \<Rightarrow> ret (Some (''no params for sensor: '' @ label))
           | Some (InnerP ip) \<Rightarrow> do {
               modify r (DeviceTableId_update (\<lambda>_. dev_DeviceTableId d));
               go_task StoreSensorDataMySqlTask r;
               (if Influx ip then go_task StoreSensorDataInfluxTask r else ret ());
               (if SensorData message = ''on'' \<and> Notify ip \<and> usr_Push (gl_UserParams l)
                then do {
                  pushMessage \<leftarrow> alloc (NewPushMessage ''sensor'' (dev_Title d) (Desc ip)
                    (dev_DeviceTableId d) (dev_UserId d));
                  go_task SendPushNotificationTask pushMessage
                }
                else ret ());
               ret None
             }
           | Some _ \<Rightarrow> ret (Some ''error casting interface to InnerParams'')))
   }"

section \<open>Loading the parameters\<close>

text \<open>
  \<open>getDescription\<close> decodes a JSON object of strings and picks one; anything else gives the
  empty string. A \<open>null\<close> member leaves the empty string under its key.
\<close>

fun string_members :: "(string \<times> json) list \<Rightarrow> (string \<rightharpoonup> string) \<Rightarrow> (string \<rightharpoonup> string) option" where
  "string_members [] m = Some m"
| "string_members ((k, v) # kvs) m =
     (case v of
        JStr s \<Rightarrow> string_members kvs (m(k \<mapsto> s))
      | JNull \<Rightarrow> string_members kvs (m(k \<mapsto> []))
      | _ \<Rightarrow> None)"

definition getDescription :: "string \<Rightarrow> string \<Rightarrow> string" where
  "getDescription full value =
     (case parse_json full of
        Some (JObj kvs) \<Rightarrow>
          (case string_members kvs Map.empty of
             Some m \<Rightarrow> (case m value of Some out \<Rightarrow> out | None \<Rightarrow> [])
           | None \<Rightarrow> [])
      | _ \<Rightarrow> [])"

definition userParamsQueryText :: string where
  "userParamsQueryText = ''SELECT usr.id AS user_id, usr.tfid AS tarif_id, usr.amount AS money, usr.vip, usr.isLegalEntity, usr.blocked, usr.push FROM v3_gateways AS gw INNER JOIN users AS usr ON gw.user_id = usr.id WHERE gw.gateway_id = ?;''"

definition cameraParamsQueryText :: string where
  "cameraParamsQueryText = ''SELECT cam.id AS device_table_id, cam.uid AS user_id, cam.stream_id, cam.recording, cam.schedule, cam.gateway_id, cam.title FROM camers AS cam INNER JOIN v3_gateways AS gw ON cam.gateway_id = gw.gateway_id INNER JOIN users AS usr ON cam.uid = usr.id WHERE gw.gateway_id = ?;''"

definition sensorParamsQueryText :: string where
  "sensorParamsQueryText = ''SELECT dev.id AS device_table_id, dev.device_id, dev.user_id, dev.title, dev.gateway_id FROM v3_devices AS dev INNER JOIN v3_gateways AS gw ON dev.gateway_id = gw.gateway_id WHERE gw.gateway_id = ?;''"

definition innerParamsQueryText :: string where
  "innerParamsQueryText = ''SELECT sens.sensor, sens.influx, sens.notify, sens.desc FROM v3_sensors AS sens INNER JOIN v3_devices AS dev ON dev.id = sens.device_id WHERE dev.id = ?;''"

definition camera_of_row :: "camera_row \<Rightarrow> CameraLogicParams" where
  "camera_of_row row =
     (let p = zero_CameraLogicParams\<lparr>dev_DeviceTableId := cr_id row, dev_UserId := cr_uid row,
                dev_DeviceId := cr_stream_id row, dev_GatewayId := cr_gateway_id row,
                dev_Title := cr_title row\<rparr>;
          p = (case cr_recording row of None \<Rightarrow> p | Some mode \<Rightarrow> SetRecordingMode mode p)
      in (case cr_schedule row of None \<Rightarrow> p | Some s \<Rightarrow> p\<lparr>Schedule := s\<rparr>))"

text \<open>The row loops: a failing \<open>Scan\<close> ends the load with an error; when \<open>Next\<close> returns false the loop is over, and the error that may have
  broken it off is not asked for.\<close>

fun load_cameras ::
    "camera_row rows \<Rightarrow> GuardedParamsMap option \<Rightarrow> (err option \<times> GuardedParamsMap option) outcome"
where
  "load_cameras (RowsEnd err) m = Returned (None, m)"
| "load_cameras (NextRow (Inl e) rows) m = Returned (Some (wrap e ''could not read record data''), m)"
| "load_cameras (NextRow (Inr row) rows) m =
     (let p = camera_of_row row in
      case m of
        None \<Rightarrow> Panicked
      | Some cams \<Rightarrow>
          load_cameras rows (Some (GuardedParamsMap_Add (dev_DeviceId p) (CameraP p) cams)))"

definition inner_of_row :: "inner_row \<Rightarrow> InnerParams" where
  "inner_of_row row = \<lparr>Influx = ir_influx row, Notify = ir_notify row,
     Desc = getDescription (ir_desc row) ''on'', ip_Value = [], ip_Timestamp = 0\<rparr>"

fun load_inner :: "inner_row rows \<Rightarrow> GuardedParamsMap \<Rightarrow> err option \<times> GuardedParamsMap" where
  "load_inner (RowsEnd err) m = (None, m)"
| "load_inner (NextRow (Inl e) rows) m = (Some (wrap e ''could not read record data''), m)"
| "load_inner (NextRow (Inr row) rows) m =
     load_inner rows (GuardedParamsMap_Add (ir_sensor row) (InnerP (inner_of_row row)) m)"

definition device_of_row :: "sensor_row \<Rightarrow> DeviceLogicParams" where
  "device_of_row row = \<lparr>dev_GatewayId = sr_gateway_id row, dev_DeviceTableId = sr_id row,
     dev_UserId = sr_user_id row, dev_DeviceId = sr_device_id row, dev_Title = sr_title row\<rparr>"

fun load_sensors ::
    "env \<Rightarrow> sensor_row rows \<Rightarrow> GuardedParamsMap option
      \<Rightarrow> (err option \<times> GuardedParamsMap option) outcome io"
where
  "load_sensors E (RowsEnd err) m = ret (Returned (None, m))"
| "load_sensors E (NextRow (Inl e) rows) m =
     ret (Returned (Some (wrap e ''could not read record data''), m))"
| "load_sensors E (NextRow (Inr row) rows) m = do {
     innerRows \<leftarrow> ask (SqlQuery innerParamsQueryText [SqlU64 (sr_id row)]) (e_inner E);
     (case innerRows of
        Inl e \<Rightarrow> ret (Returned (Some (wrap e ''failed to query sensor inner params''), m))
      | Inr rs \<Rightarrow>
          (case load_inner rs NewGuardedParamsMap of
             (Some e, _) \<Rightarrow> ret (Returned (Some e, m))
           | (None, inner) \<Rightarrow> do {
               emit RowsClose;
               (case m of
                  None \<Rightarrow> ret Panicked
                | Some sens \<Rightarrow>
                    load_sensors E rows (Some (GuardedParamsMap_Add (sr_device_id row)
                      (SensorP (device_of_row row) inner) sens)))
             }))
   }"

text \<open>
  An \<open>io.Writer\<close> is its \<open>Write\<close> method, \<open>None\<close> for nil. Loading ends by telling the gateway,
  through the writer, that it is registered. A nil parameter map would make \<open>Add\<close> panic.
\<close>

type_synonym writer = "string \<Rightarrow> (nat \<times> err option) io"

definition announceRegistered ::
    "env \<Rightarrow> writer \<Rightarrow> GatewayLogic \<Rightarrow> (err option \<times> GatewayLogic) outcome io" where
  "announceRegistered E write l = do {
     Debug ''Params for business logic were loaded successfully'';
     now \<leftarrow> ask ClockRead (e_now E);
     let statusMessage = NewStatusMessage now (gl_gatewayId l) ''registered'';
     (n, err) \<leftarrow> write (json_Marshal statusMessage);
     (case err of
        Some e \<Rightarrow> ret (Returned (Some (wrap e ''error sending message to gateway''), l))
      | None \<Rightarrow> do {
          Debug ''Registered message were sent to gateway'';
          ret (Returned (None, l))
        })
   }"

definition loadSensorParams ::
    "env \<Rightarrow> writer \<Rightarrow> GatewayLogic \<Rightarrow> (err option \<times> GatewayLogic) outcome io" where
  "loadSensorParams E write l = do {
     sensorRows \<leftarrow> ask (SqlQuery sensorParamsQueryText [SqlStr (gl_gatewayId l)]) (e_sensors E);
     (case sensorRows of
        Inl e \<Rightarrow> ret (Returned (Some (wrap e ''failed to query sensor device params''), l))
      | Inr rows \<Rightarrow> do {
          loaded \<leftarrow> load_sensors E rows (gl_SensorParams l);
          (case loaded of
             Panicked \<Rightarrow> ret Panicked
           | Returned (Some e, m) \<Rightarrow> ret (Returned (Some e, l\<lparr>gl_SensorParams := m\<rparr>))
           | Returned (None, m) \<Rightarrow> do {
               emit RowsClose;
               announceRegistered E write (l\<lparr>gl_SensorParams := m\<rparr>)
             })
        })
   }"

definition loadCameraParams ::
    "env \<Rightarrow> writer \<Rightarrow> GatewayLogic \<Rightarrow> (err option \<times> GatewayLogic) outcome io" where
  "loadCameraParams E write l = do {
     cameraRows \<leftarrow> ask (SqlQuery cameraParamsQueryText [SqlStr (gl_gatewayId l)]) (e_cameras E);
     (case cameraRows of
        Inl e \<Rightarrow> ret (Returned (Some (wrap e ''failed to query camera params''), l))
      | Inr rows \<Rightarrow>
          (case load_cameras rows (gl_CameraParams l) of
             Panicked \<Rightarrow> ret Panicked
           | Returned (Some e, m) \<Rightarrow> ret (Returned (Some e, l\<lparr>gl_CameraParams := m\<rparr>))
           | Returned (None, m) \<Rightarrow> do {
               emit RowsClose;
               loadSensorParams E write (l\<lparr>gl_CameraParams := m\<rparr>)
             }))
   }"

definition LoadParams ::
    "env \<Rightarrow> writer option \<Rightarrow> GatewayLogic \<Rightarrow> (err option \<times> GatewayLogic) outcome io" where
  "LoadParams E writer l =
     (case writer of
        None \<Rightarrow> ret (Returned (Some ''wrong input parameter'', l))
      | Some write \<Rightarrow> do {
          user \<leftarrow> ask (SqlQuery userParamsQueryText [SqlStr (gl_gatewayId l)]) (e_user E);
          (case user of
             Inl e \<Rightarrow> ret (Returned (Some (wrap e ''failed to query user params''), l))
           | Inr u \<Rightarrow> loadCameraParams E write (l\<lparr>gl_UserParams := u\<rparr>))
        })"

section \<open>Processing a message\<close>

definition Process :: "env \<Rightarrow> GatewayLogic \<Rightarrow> ref option \<Rightarrow> (err option \<times> GatewayLogic) io" where
  "Process E l message =
     (case message of
        None \<Rightarrow> ret (Some ''wrong input parameter'', l)
      | Some r \<Rightarrow>
          (if usr_Blocked (gl_UserParams l) then do {
             Info ''Gateway owner's account is blocked in cloud database'';
             ret (None, l)
           }
           else do {
             m \<leftarrow> deref r;
             (if MessageType m = ''status'' then do {
                go_task UpdateGatewayStatusTask r; ret (None, l)
              }
              else if MessageType m = ''sensorData'' then
                (if DeviceType m = ''camera'' then processCameraData l r
                 else if DeviceType m = ''sensor'' then do {
                   err \<leftarrow> processSensorData l r; ret (err, l)
                 }
                 else ret (None, l))
              else if MessageType m = ''preview'' then do {
                go_task StorePreviewTask r; ret (None, l)
              }
              else if MessageType m = ''command'' then processCameraCommand E l r
              else if MessageType m = ''deviceState'' then
                (if DeviceType m = ''camera'' then processCameraState l r else ret (None, l))
              else if MessageType m = ''cloudStreaming'' then
                (if DeviceType m = ''camera'' then do {
                   go_task UpdateCameraStreamingStateTask r; ret (None, l)
                 }
                 else ret (None, l))
              else ret (None, l))
           }))"

definition SetPush :: "bool \<Rightarrow> GatewayLogic \<Rightarrow> GatewayLogic" where
  "SetPush state l = l\<lparr>gl_UserParams := (gl_UserParams l)\<lparr>usr_Push := state\<rparr>\<rparr>"

end
