(* ===== verification/GatewayLogicProps.thy ===== *)
theory GatewayLogicProps
  imports GatewayLogic
begin

text \<open>
  Facts about the business logic: what each handler does to its world, as an equation for the
  events it adds, the invariant \<open>logic_ok\<close> of the parameters, and the reference rules
  (\<open>recording_order\<close>, \<open>records\<close>, \<open>motion_message\<close>) that the handlers are measured against.
\<close>

section \<open>Running a handler\<close>

lemma effects_run: "effects m w = drop (length (hist w)) (hist (snd (run_state m w)))"
  by (simp add: effects_def world_after_def)

lemmas handler_run = effects_run value_of_def split_beta

text \<open>The logic object a handler leaves behind.\<close>

definition logic_after :: "(err option \<times> GatewayLogic) io \<Rightarrow> world \<Rightarrow> GatewayLogic" where
  "logic_after m w = snd (value_of m w)"

definition camera_of :: "GatewayLogic \<Rightarrow> string \<Rightarrow> CameraLogicParams option" where
  "camera_of l k = (case getCameraLogicParams l k of Inl _ \<Rightarrow> None | Inr p \<Rightarrow> Some p)"

lemma getCamera_Inr:
  "getCameraLogicParams l d = Inr p \<longleftrightarrow>
     (\<exists>cams. gl_CameraParams l = Some cams \<and> GuardedParamsMap_Get cams d = Some (CameraP p))"
  by (auto simp: getCameraLogicParams_def split: option.splits iface.splits)

lemma getSensor_Inr:
  "getSensorLogicParams l d = Inr (dv, inner) \<longleftrightarrow>
     (\<exists>sens. gl_SensorParams l = Some sens \<and> GuardedParamsMap_Get sens d = Some (SensorP dv inner))"
  by (auto simp: getSensorLogicParams_def split: option.splits iface.splits)

lemma getCamera_set_camera:
  "getCameraLogicParams l d = Inr q \<Longrightarrow>
   getCameraLogicParams (set_camera d p l) k = (if k = d then Inr p else getCameraLogicParams l k)"
  by (auto simp: getCameraLogicParams_def set_camera_def split: option.splits)

lemma camera_of_user [simp]: "camera_of (l\<lparr>gl_UserParams := u\<rparr>) k = camera_of l k"
  by (simp add: camera_of_def getCameraLogicParams_def)

lemma camera_of_set_camera:
  "getCameraLogicParams l d = Inr q \<Longrightarrow>
   camera_of (set_camera d p l) k = (if k = d then Some p else camera_of l k)"
  by (simp add: camera_of_def getCamera_set_camera)

section \<open>Camera state\<close>

text \<open>A camera whose stream is to be recorded now.\<close>

definition records :: "CameraLogicParams \<Rightarrow> bool" where
  "records p \<longleftrightarrow> RecordingMode p = RecordingModeContinuous
     \<or> (RecordingMode p = RecordingModeMotion \<and> MotionInProcess p)"

lemma recordByMode_records:
  "recordByMode p r = (if records p then go_task RecordMediaStreamTask r else ret ())"
  by (auto simp: recordByMode_def records_def split: CloudCameraRecordingMode.splits)

lemma records_simps [simp]:
  "records (p\<lparr>cl_MediaserverIp := a, cl_ApplicationName := b, MediaserverParamsSet := c\<rparr>) = records p"
  by (simp add: records_def)

definition stream_on_message :: "IotMessage \<Rightarrow> IotMessage" where
  "stream_on_message m = m\<lparr>Recording := ''on''\<rparr>"

definition stream_off_message :: "CameraLogicParams \<Rightarrow> IotMessage \<Rightarrow> IotMessage" where
  "stream_off_message p m = m\<lparr>Recording := ''off'', MediaserverIp := cl_MediaserverIp p,
     ApplicationName := cl_ApplicationName p\<rparr>"

definition stream_on_camera :: "IotMessage \<Rightarrow> CameraLogicParams \<Rightarrow> CameraLogicParams" where
  "stream_on_camera m p = p\<lparr>cl_MediaserverIp := MediaserverIp m,
     cl_ApplicationName := ApplicationName m, MediaserverParamsSet := True\<rparr>"

definition stream_off_camera :: "CameraLogicParams \<Rightarrow> CameraLogicParams" where
  "stream_off_camera p = p\<lparr>cl_MediaserverIp := [], cl_ApplicationName := [],
     MediaserverParamsSet := False\<rparr>"

definition record_task :: "CameraLogicParams \<Rightarrow> ref \<Rightarrow> IotMessage \<Rightarrow> event list" where
  "record_task p r m = (if records p then [Go (RunTask RecordMediaStreamTask r m)] else [])"

lemma processCameraState_streamingOn:
  assumes "heap w r = m" and "getCameraLogicParams l (DeviceId m) = Inr p"
    and "DeviceState m = ''streamingOn''" and "CanBeRecorded (gl_UserParams l)"
  shows "value_of (processCameraState l r) w =
           (None, set_camera (DeviceId m) (stream_on_camera m p) l)"
    and "effects (processCameraState l r) w =
           [Go (RunTask UpdateCameraStateTask r m), MsgStored r (stream_on_message m)]
           @ record_task p r (stream_on_message m)"
  using assms by (simp_all add: handler_run processCameraState_def Let_def recordByMode_records
      stream_on_camera_def stream_on_message_def record_task_def)

lemma processCameraState_streamingOff:
  assumes "heap w r = m" and "getCameraLogicParams l (DeviceId m) = Inr p"
    and "DeviceState m = ''streamingOff''"
  shows "value_of (processCameraState l r) w =
           (None, set_camera (DeviceId m) (stream_off_camera p) l)"
    and "effects (processCameraState l r) w =
           [Go (RunTask UpdateCameraStateTask r m), MsgStored r (m\<lparr>Recording := ''off''\<rparr>),
            MsgStored r (m\<lparr>Recording := ''off'', MediaserverIp := cl_MediaserverIp p\<rparr>),
            MsgStored r (stream_off_message p m)]
           @ record_task p r (stream_off_message p m)"
  using assms by (simp_all add: handler_run processCameraState_def Let_def recordByMode_records
      stream_off_camera_def stream_off_message_def record_task_def)

text \<open>In every other state, and for a user who may not be recorded, only the state is stored.\<close>

lemma processCameraState_other:
  assumes "heap w r = m" and "getCameraLogicParams l (DeviceId m) = Inr p"
    and "DeviceState m \<noteq> ''streamingOff''"
    and "DeviceState m = ''streamingOn'' \<Longrightarrow> \<not> CanBeRecorded (gl_UserParams l)"
  shows "snd (value_of (processCameraState l r) w) = l"
    and "effects (processCameraState l r) w = [Go (RunTask UpdateCameraStateTask r m)]"
  using assms by (auto simp: handler_run processCameraState_def)

lemma processCameraState_unknown:
  assumes "heap w r = m" and "getCameraLogicParams l (DeviceId m) = Inl e"
  shows "run_state (processCameraState l r) w = ((Some e, l), w)"
  using assms by (simp add: processCameraState_def)

section \<open>Camera data\<close>

definition motion_message :: "CameraLogicParams \<Rightarrow> IotMessage \<Rightarrow> bool" where
  "motion_message p m \<longleftrightarrow> Label m = ''motionDetector'' \<and> RecordingMode p = RecordingModeMotion"

definition motion_push :: "UserLogicParams \<Rightarrow> IotMessage \<Rightarrow> bool" where
  "motion_push u m \<longleftrightarrow> Label m = ''motionDetector'' \<and> SensorData m = ''on'' \<and> usr_Push u"

definition camera_push_message :: "CameraLogicParams \<Rightarrow> IotMessage" where
  "camera_push_message p = NewPushMessage ''camera'' (dev_Title p) motion_text
     (dev_DeviceTableId p) (dev_UserId p)"

definition motion_record_message :: "CameraLogicParams \<Rightarrow> IotMessage \<Rightarrow> IotMessage" where
  "motion_record_message p m = (if motion_message p m then m\<lparr>Recording := SensorData m\<rparr> else m)"

definition push_task :: "ref \<Rightarrow> IotMessage \<Rightarrow> event list" where
  "push_task a q = [MsgStored a q, Go (RunTask SendPushNotificationTask a q)]"

lemmas camera_data_folds = motion_message_def [symmetric] motion_push_def [symmetric]
  camera_push_message_def [symmetric]

lemma processCameraData_effects:
  assumes "heap w r = m" and "getCameraLogicParams l (DeviceId m) = Inr p"
    and "q = motion_record_message p m"
  shows "value_of (processCameraData l r) w =
      (None, if motion_message p m
             then set_camera (DeviceId m) (p\<lparr>MotionInProcess := (SensorData m = ''on'')\<rparr>) l else l)"
    and "effects (processCameraData l r) w =
      (if motion_message p m then [MsgStored r q, Go (RunTask RecordMediaStreamTask r q)] else [])
      @ [Go (RunTask StoreSensorDataInfluxTask r q)]
      @ (if motion_push (gl_UserParams l) m then push_task (next_ref w) (camera_push_message p) else [])"
  using assms
  by (cases "motion_message p m"; cases "motion_push (gl_UserParams l) m";
      simp add: handler_run processCameraData_def camera_data_folds Let_def motion_record_message_def
        push_task_def)+

lemma processCameraData_unknown:
  assumes "heap w r = m" and "getCameraLogicParams l (DeviceId m) = Inl e"
  shows "run_state (processCameraData l r) w = ((Some e, l), w)"
  using assms by (simp add: processCameraData_def)

section \<open>Camera commands\<close>

text \<open>
  The rule for the recorder, stated apart from the code: \<open>Some True\<close> starts it, \<open>Some False\<close>
  stops it. A change between the motion and the continuous mode decides first; with an unchanged
  mode the recorder follows a change of tariff.
\<close>

definition recording_order ::
    "CloudCameraRecordingMode \<Rightarrow> CloudCameraRecordingMode \<Rightarrow> u64 \<Rightarrow> UserLogicParams \<Rightarrow> bool option"
where
  "recording_order cur new prev u =
     (if cur = RecordingModeMotion \<and> new = RecordingModeContinuous
      then (if CanBeRecorded u then Some True else None)
      else if cur = RecordingModeContinuous \<and> new = RecordingModeMotion then Some False
      else if cur \<noteq> new then None
      else if prev = UserTarifOnline then (if CanBeRecorded u then Some True else None)
      else if prev > UserTarifOnline \<and> usr_TarifId u = UserTarifOnline then Some False
      else None)"

definition run_order :: "env \<Rightarrow> CameraLogicParams \<Rightarrow> bool option \<Rightarrow> unit io" where
  "run_order E p order = (case order of None \<Rightarrow> ret () | Some on \<Rightarrow> sendRecording E p on)"

definition command_user :: "IotMessage \<Rightarrow> UserLogicParams \<Rightarrow> UserLogicParams" where
  "command_user m u = u\<lparr>usr_TarifId := TariffId m, usr_Money := Money m, usr_Vip := Vip m,
     usr_LegalEntity := LegalEntity m\<rparr>"

lemma switchRecording_order:
  "usr_TarifId u = newTariff \<Longrightarrow>
   switchRecording E p new prev newTariff u =
     run_order E p (recording_order (RecordingMode p) new prev u)"
  by (cases "RecordingMode p"; cases new; cases "prev = UserTarifOnline"; cases "CanBeRecorded u")
    (auto simp: switchRecording_def Let_def recording_order_def run_order_def)

lemma sendRecording_effects:
  "effects (sendRecording E p on) w =
     (let m = ToMessage (e_now E (hist w @ [ClockRead])) p on
      in [ClockRead, MsgStored (next_ref w) m,
          Go (RunTask RecordMediaStreamTask (next_ref w) m)])"
  by (simp add: handler_run sendRecording_def Let_def)

lemma processCameraCommand_effects:
  assumes "heap w r = m" and "getCameraLogicParams l (DeviceId m) = Inr p"
    and "Command m = ''setRecording''" and "u = command_user m (gl_UserParams l)"
    and "order = recording_order (RecordingMode p) (ConvertRecordingMode (Attribute m))
           (usr_TarifId (gl_UserParams l)) u"
  shows "value_of (processCameraCommand E l r) w = (None, l\<lparr>gl_UserParams := u\<rparr>)"
    and "effects (processCameraCommand E l r) w =
      (case order of None \<Rightarrow> [] | Some on \<Rightarrow> effects (sendRecording E p on) w)"
  using assms
  by (simp_all add: handler_run processCameraCommand_def command_user_def switchRecording_order
      run_order_def Let_def split: option.split)

lemma processCameraCommand_other:
  assumes "heap w r = m" and "getCameraLogicParams l (DeviceId m) = Inr p"
    and "Command m \<noteq> ''setRecording''"
  shows "run_state (processCameraCommand E l r) w = ((None, l), w)"
  using assms by (simp add: processCameraCommand_def)

lemma processCameraCommand_unknown:
  assumes "heap w r = m" and "getCameraLogicParams l (DeviceId m) = Inl e"
  shows "run_state (processCameraCommand E l r) w = ((Some e, l), w)"
  using assms by (simp add: processCameraCommand_def)

section \<open>Sensor data\<close>

definition sensor_push :: "UserLogicParams \<Rightarrow> InnerParams \<Rightarrow> IotMessage \<Rightarrow> bool" where
  "sensor_push u ip m \<longleftrightarrow> SensorData m = ''on'' \<and> Notify ip \<and> usr_Push u"

definition sensor_push_message :: "DeviceLogicParams \<Rightarrow> InnerParams \<Rightarrow> IotMessage" where
  "sensor_push_message d ip = NewPushMessage ''sensor'' (dev_Title d) (Desc ip)
     (dev_DeviceTableId d) (dev_UserId d)"

lemma processSensorData_effects:
  assumes "heap w r = m" and "getSensorLogicParams l (DeviceId m) = Inr (d, inner)"
    and "GuardedParamsMap_Get inner (GetLabel m) = Some (InnerP ip)"
    and "q = m\<lparr>DeviceTableId := dev_DeviceTableId d\<rparr>"
  shows "value_of (processSensorData l r) w = None"
    and "effects (processSensorData l r) w =
      [MsgStored r q, Go (RunTask StoreSensorDataMySqlTask r q)]
      @ (if Influx ip then [Go (RunTask StoreSensorDataInfluxTask r q)] else [])
      @ (if sensor_push (gl_UserParams l) ip m
         then push_task (next_ref w) (sensor_push_message d ip) else [])"
  using assms
  by (cases "Influx ip"; cases "sensor_push (gl_UserParams l) ip m";
      simp add: handler_run processSensorData_def sensor_push_def [symmetric] push_task_def
        sensor_push_message_def [symmetric])+

lemma processSensorData_unknown:
  assumes "heap w r = m"
    and "\<nexists>d inner ip. getSensorLogicParams l (DeviceId m) = Inr (d, inner)
           \<and> GuardedParamsMap_Get inner (GetLabel m) = Some (InnerP ip)"
  shows "\<exists>e. run_state (processSensorData l r) w = (Some e, w)"
  using assms
  by (auto simp: processSensorData_def Let_def split: sum.splits option.splits iface.splits)

section \<open>The invariant of the parameters\<close>

definition camera_ok :: "CameraLogicParams \<Rightarrow> bool" where
  "camera_ok p \<longleftrightarrow>
     (\<not> MediaserverParamsSet p \<longrightarrow> cl_MediaserverIp p = [] \<and> cl_ApplicationName p = [])
     \<and> (MotionInProcess p \<longrightarrow> RecordingMode p = RecordingModeMotion)"

definition cameras_ok :: "GuardedParamsMap \<Rightarrow> bool" where
  "cameras_ok m \<longleftrightarrow> (\<forall>k v. GuardedParamsMap_Get m k = Some v \<longrightarrow>
     (\<exists>p. v = CameraP p \<and> dev_DeviceId p = k \<and> camera_ok p))"

definition inner_ok :: "GuardedParamsMap \<Rightarrow> bool" where
  "inner_ok m \<longleftrightarrow> (\<forall>k v. GuardedParamsMap_Get m k = Some v \<longrightarrow> (\<exists>ip. v = InnerP ip))"

definition sensors_ok :: "GuardedParamsMap \<Rightarrow> bool" where
  "sensors_ok m \<longleftrightarrow> (\<forall>k v. GuardedParamsMap_Get m k = Some v \<longrightarrow>
     (\<exists>d inner. v = SensorP d inner \<and> dev_DeviceId d = k \<and> inner_ok inner))"

definition logic_ok :: "GatewayLogic \<Rightarrow> bool" where
  "logic_ok l \<longleftrightarrow>
     (\<exists>cams sens. gl_CameraParams l = Some cams \<and> gl_SensorParams l = Some sens
       \<and> cameras_ok cams \<and> sensors_ok sens)"

lemma logic_ok_user [simp]: "logic_ok (l\<lparr>gl_UserParams := u\<rparr>) = logic_ok l"
  by (simp add: logic_ok_def)

lemma set_camera_sel [simp]:
  "gl_SensorParams (set_camera d p l) = gl_SensorParams l"
  "gl_gatewayId (set_camera d p l) = gl_gatewayId l"
  "gl_UserParams (set_camera d p l) = gl_UserParams l"
  by (simp_all add: set_camera_def)

lemma logic_ok_camera:
  "logic_ok l \<Longrightarrow> getCameraLogicParams l d = Inr p \<Longrightarrow> dev_DeviceId p = d \<and> camera_ok p"
  by (fastforce simp: logic_ok_def getCamera_Inr cameras_ok_def)

lemma logic_ok_set_camera:
  assumes "logic_ok l" and "camera_ok p" and "dev_DeviceId p = d"
  shows "logic_ok (set_camera d p l)"
  using assms by (auto simp: logic_ok_def set_camera_def cameras_ok_def)

lemma camera_ok_updates [simp]:
  "camera_ok p \<Longrightarrow> camera_ok (stream_on_camera m p)"
  "camera_ok p \<Longrightarrow> camera_ok (stream_off_camera p)"
  "camera_ok p \<Longrightarrow> RecordingMode p = RecordingModeMotion \<Longrightarrow> camera_ok (p\<lparr>MotionInProcess := b\<rparr>)"
  "dev_DeviceId (stream_on_camera m p) = dev_DeviceId p"
  "dev_DeviceId (stream_off_camera p) = dev_DeviceId p"
  by (auto simp: camera_ok_def stream_on_camera_def stream_off_camera_def)

text \<open>
  Every state of the logic after a handler is the state before, with new user parameters or
  with one camera's media server or motion flag changed.
\<close>

inductive camera_step :: "CameraLogicParams \<Rightarrow> CameraLogicParams \<Rightarrow> bool" where
  on: "camera_step p (stream_on_camera m p)"
| off: "camera_step p (stream_off_camera p)"
| motion: "RecordingMode p = RecordingModeMotion \<Longrightarrow> camera_step p (p\<lparr>MotionInProcess := b\<rparr>)"

inductive logic_step :: "GatewayLogic \<Rightarrow> GatewayLogic \<Rightarrow> bool" where
  stay: "logic_step l l"
| user: "logic_step l (l\<lparr>gl_UserParams := u\<rparr>)"
| camera: "getCameraLogicParams l d = Inr p \<Longrightarrow> camera_step p p' \<Longrightarrow> logic_step l (set_camera d p' l)"

lemma camera_step_ok: "camera_step p p' \<Longrightarrow> camera_ok p \<Longrightarrow> camera_ok p' \<and> dev_DeviceId p' = dev_DeviceId p"
  by (induction rule: camera_step.induct) simp_all

lemma camera_step_frame: "camera_step p p' \<Longrightarrow>
   DeviceLogicParams.truncate p' = DeviceLogicParams.truncate p \<and> RecordingMode p' = RecordingMode p
   \<and> Schedule p' = Schedule p"
  by (induction rule: camera_step.induct)
    (simp_all add: stream_on_camera_def stream_off_camera_def DeviceLogicParams.truncate_def)

lemma logic_step_ok: "logic_step l l' \<Longrightarrow> logic_ok l \<Longrightarrow> logic_ok l'"
  by (induction rule: logic_step.induct)
    (auto dest: logic_ok_camera camera_step_ok intro!: logic_ok_set_camera)

lemma processCameraState_step: "logic_step l (logic_after (processCameraState l r) w)"
proof (cases "getCameraLogicParams l (DeviceId (heap w r))")
  case (Inl e)
  then show ?thesis
    by (simp add: logic_after_def value_of_def processCameraState_unknown stay)
next
  case (Inr p)
  let ?m = "heap w r"
  consider "DeviceState ?m = ''streamingOff''"
    | "DeviceState ?m = ''streamingOn''" "CanBeRecorded (gl_UserParams l)"
    | "DeviceState ?m \<noteq> ''streamingOff''" "DeviceState ?m = ''streamingOn'' \<Longrightarrow> \<not> CanBeRecorded (gl_UserParams l)"
    by blast
  then show ?thesis
    unfolding logic_after_def
    by cases (simp_all add: processCameraState_streamingOff(1) [OF refl Inr]
        processCameraState_streamingOn(1) [OF refl Inr] processCameraState_other(1) [OF refl Inr]
        logic_step.intros camera_step.intros Inr)
qed

lemma processCameraData_step: "logic_step l (logic_after (processCameraData l r) w)"
proof (cases "getCameraLogicParams l (DeviceId (heap w r))")
  case (Inr p)
  then show ?thesis
    by (auto simp: logic_after_def processCameraData_effects(1) [OF refl Inr] motion_message_def
        intro: logic_step.intros camera_step.intros)
qed (simp add: logic_after_def value_of_def processCameraData_unknown stay)

lemma processCameraCommand_step: "logic_step l (logic_after (processCameraCommand E l r) w)"
proof (cases "getCameraLogicParams l (DeviceId (heap w r))")
  case (Inr p)
  show ?thesis
  proof (cases "Command (heap w r) = ''setRecording''")
    case True
    show ?thesis
      by (simp add: logic_after_def processCameraCommand_effects(1) [OF refl Inr True refl refl] user)
  next
    case False
    show ?thesis
      by (simp add: logic_after_def value_of_def processCameraCommand_other [OF refl Inr False] stay)
  qed
qed (simp add: logic_after_def value_of_def processCameraCommand_unknown stay)

lemma Process_step: "logic_step l (logic_after (Process E l m) w)"
  using processCameraState_step [of l _ w] processCameraData_step [of l _ w]
    processCameraCommand_step [of l E _ w]
  by (cases m) (auto simp: Process_def logic_after_def value_of_def split_beta intro: stay)


text \<open>What no message changes: which cameras there are, their identity and recording mode.\<close>

definition camera_config :: "CameraLogicParams \<Rightarrow> DeviceLogicParams \<times> CloudCameraRecordingMode \<times> string" where
  "camera_config p = (DeviceLogicParams.truncate p, RecordingMode p, Schedule p)"

lemma logic_step_config:
  "logic_step l l' \<Longrightarrow> map_option camera_config (camera_of l' k) = map_option camera_config (camera_of l k)
     \<and> gl_SensorParams l' = gl_SensorParams l \<and> gl_gatewayId l' = gl_gatewayId l"
proof (induction rule: logic_step.induct)
  case (camera l d p p')
  then have "camera_of l d = Some p" and "camera_config p' = camera_config p"
    using camera_step_frame [of p p'] by (simp_all add: camera_of_def camera_config_def)
  with camera show ?case
    by (simp add: camera_of_set_camera)
qed simp_all

section \<open>The tasks a message starts\<close>

lemma later_versions_push [simp]: "r \<noteq> a \<Longrightarrow> later_versions r (push_task a q) = []"
  by (simp add: push_task_def)

lemma task_views_push [simp]: "task_views (push_task a q) = [(SendPushNotificationTask, [q])]"
  by (simp add: push_task_def)

lemma task_views_record [simp]:
  "task_views (record_task p r m) = (if records p then [(RecordMediaStreamTask, [m])] else [])"
  by (simp add: record_task_def)

lemma later_versions_append [simp]:
  "later_versions r (xs @ ys) = later_versions r xs @ later_versions r ys"
  by (induction r xs rule: later_versions.induct) auto

lemma processCameraData_race_free:
  assumes "r < next_ref w"
  shows "race_free (effects (processCameraData l r) w)"
proof (cases "getCameraLogicParams l (DeviceId (heap w r))")
  case (Inr p)
  show ?thesis
    using assms by (simp add: processCameraData_effects(2) [OF refl Inr refl] race_free_def)
qed (simp add: effects_run processCameraData_unknown race_free_def)

lemma processSensorData_race_free:
  assumes "r < next_ref w"
  shows "race_free (effects (processSensorData l r) w)"
proof (cases "\<exists>d inner ip. getSensorLogicParams l (DeviceId (heap w r)) = Inr (d, inner)
           \<and> GuardedParamsMap_Get inner (GetLabel (heap w r)) = Some (InnerP ip)")
  case True
  then show ?thesis
    using assms by (auto simp: processSensorData_effects(2) [OF refl _ _ refl] race_free_def)
next
  case False
  then obtain e where "run_state (processSensorData l r) w = (Some e, w)"
    using processSensorData_unknown [OF refl, where l = l] by blast
  then show ?thesis by (simp add: effects_run race_free_def)
qed

lemma sendRecording_race_free: "race_free (effects (sendRecording E p on) w)"
  by (simp add: sendRecording_effects Let_def race_free_def)

lemma processCameraCommand_race_free:
  "race_free (effects (processCameraCommand E l r) w)"
proof (cases "getCameraLogicParams l (DeviceId (heap w r))")
  case (Inr p)
  show ?thesis
  proof (cases "Command (heap w r) = ''setRecording''")
    case True
    show ?thesis
      using sendRecording_race_free
      by (simp add: processCameraCommand_effects(2) [OF refl Inr True refl refl] race_free_def split: option.split)
  qed (simp add: effects_run processCameraCommand_other [OF refl Inr] race_free_def)
qed (simp add: effects_run processCameraCommand_unknown race_free_def)

text \<open>Which handler a message reaches; its events and its result are the handler's.\<close>

lemma Process_effects:
  assumes "heap w r = m" and "\<not> usr_Blocked (gl_UserParams l)"
  shows "effects (Process E l (Some r)) w =
    (if MessageType m = ''status'' then [Go (RunTask UpdateGatewayStatusTask r m)]
     else if MessageType m = ''sensorData'' \<and> DeviceType m = ''camera''
       then effects (processCameraData l r) w
     else if MessageType m = ''sensorData'' \<and> DeviceType m = ''sensor''
       then effects (processSensorData l r) w
     else if MessageType m = ''preview'' then [Go (RunTask StorePreviewTask r m)]
     else if MessageType m = ''command'' then effects (processCameraCommand E l r) w
     else if MessageType m = ''deviceState'' \<and> DeviceType m = ''camera''
       then effects (processCameraState l r) w
     else if MessageType m = ''cloudStreaming'' \<and> DeviceType m = ''camera''
       then [Go (RunTask UpdateCameraStreamingStateTask r m)]
     else [])"
  using assms by (simp add: effects_run Process_def split_beta)

lemma Process_value:
  assumes "heap w r = m" and "\<not> usr_Blocked (gl_UserParams l)"
  shows "value_of (Process E l (Some r)) w =
    (if MessageType m = ''sensorData'' \<and> DeviceType m = ''camera''
       then value_of (processCameraData l r) w
     else if MessageType m = ''sensorData'' \<and> DeviceType m = ''sensor''
       then (value_of (processSensorData l r) w, l)
     else if MessageType m = ''command'' then value_of (processCameraCommand E l r) w
     else if MessageType m = ''deviceState'' \<and> DeviceType m = ''camera''
       then value_of (processCameraState l r) w
     else (None, l))"
  using assms by (simp add: value_of_def Process_def split_beta)

lemma Process_blocked:
  assumes "usr_Blocked (gl_UserParams l)"
  shows "value_of (Process E l (Some r)) w = (None, l)"
    and "effects (Process E l (Some r)) w =
      [LogLine InfoLevel ''Gateway owner's account is blocked in cloud database'']"
  using assms by (simp_all add: value_of_def effects_run Process_def)

lemma Process_nil: "run_state (Process E l None) w = ((Some ''wrong input parameter'', l), w)"
  by (simp add: Process_def)

lemma race_free_simps [simp]:
  "race_free []" "race_free [Go (RunTask t r m)]" "race_free [LogLine v s]"
  by (simp_all add: race_free_def)

section \<open>Rules for the recorder and the push service\<close>

text \<open>The tasks a message starts, with the message each of them got.\<close>

definition started :: "event list \<Rightarrow> (task \<times> IotMessage) list" where
  "started es = concat (map (\<lambda>e. case e of Go (RunTask t r m) \<Rightarrow> [(t, m)] | _ \<Rightarrow> []) es)"

lemma started_simps [simp]:
  "started [] = []" "started (Go (RunTask t r m) # es) = (t, m) # started es"
  "started (MsgStored r m # es) = started es" "started (ClockRead # es) = started es"
  "started (LogLine v s # es) = started es"
  "started (xs @ ys) = started xs @ started ys"
  by (simp_all add: started_def)

lemma started_tasks [simp]:
  "started (push_task a q) = [(SendPushNotificationTask, q)]"
  "started (record_task p r m) = (if records p then [(RecordMediaStreamTask, m)] else [])"
  by (simp_all add: push_task_def record_task_def)

lemma started_sendRecording:
  "started (effects (sendRecording E p on) w) =
     [(RecordMediaStreamTask, ToMessage (e_now E (hist w @ [ClockRead])) p on)]"
  by (simp add: sendRecording_effects Let_def)

lemma processCameraState_started:
  assumes "(RecordMediaStreamTask, q) \<in> set (started (effects (processCameraState l r) w))"
    and "Recording q = ''on''"
  shows "DeviceState (heap w r) = ''streamingOn'' \<and> CanBeRecorded (gl_UserParams l)"
proof (cases "getCameraLogicParams l (DeviceId (heap w r))")
  case (Inr p)
  let ?m = "heap w r"
  consider "DeviceState ?m = ''streamingOff''"
    | "DeviceState ?m = ''streamingOn''" "CanBeRecorded (gl_UserParams l)"
    | "DeviceState ?m \<noteq> ''streamingOff''" "DeviceState ?m = ''streamingOn'' \<Longrightarrow> \<not> CanBeRecorded (gl_UserParams l)"
    by blast
  then show ?thesis
    using assms
    by cases (auto simp: processCameraState_streamingOff(2) [OF refl Inr] processCameraState_other(2) [OF refl Inr]
        stream_off_message_def split: if_splits)
qed (use assms in \<open>simp add: effects_run processCameraState_unknown\<close>)

lemma processCameraData_started:
  assumes "(RecordMediaStreamTask, q) \<in> set (started (effects (processCameraData l r) w))"
    and "Recording q = ''on''"
  shows "\<exists>p. getCameraLogicParams l (DeviceId (heap w r)) = Inr p \<and> motion_message p (heap w r) 
     \<and> SensorData (heap w r) = ''on''"
proof (cases "getCameraLogicParams l (DeviceId (heap w r))")
  case (Inr p)
  with assms show ?thesis
    by (auto simp: processCameraData_effects(2) [OF refl Inr refl] motion_record_message_def split: if_splits)
qed (use assms in \<open>simp add: effects_run processCameraData_unknown\<close>)

lemma recording_order_start: "recording_order cur new prev u = Some True \<Longrightarrow> CanBeRecorded u"
  by (auto simp: recording_order_def split: if_splits)

lemma processCameraCommand_started:
  assumes "(RecordMediaStreamTask, q) \<in> set (started (effects (processCameraCommand E l r) w))"
    and "Recording q = ''on''"
  shows "CanBeRecorded (gl_UserParams (logic_after (processCameraCommand E l r) w))"
proof (cases "getCameraLogicParams l (DeviceId (heap w r))")
  case (Inr p)
  show ?thesis
  proof (cases "Command (heap w r) = ''setRecording''")
    case True
    from assms show ?thesis
      by (auto simp: processCameraCommand_effects [OF refl Inr True refl refl] logic_after_def started_sendRecording
          split: option.splits if_splits dest: recording_order_start)
  next
    case False
    from assms show ?thesis
      by (simp add: effects_run processCameraCommand_other [OF refl Inr False])
  qed
qed (use assms in \<open>simp add: effects_run processCameraCommand_unknown\<close>)

lemma processSensorData_started:
  assumes "(t, q) \<in> set (started (effects (processSensorData l r) w))"
  shows "t \<noteq> RecordMediaStreamTask"
proof (cases "\<exists>d inner ip. getSensorLogicParams l (DeviceId (heap w r)) = Inr (d, inner)
           \<and> GuardedParamsMap_Get inner (GetLabel (heap w r)) = Some (InnerP ip)")
  case True
  then show ?thesis
    using assms by (auto simp: processSensorData_effects(2) [OF refl _ _ refl] split: if_splits)
next
  case False
  then obtain e where "run_state (processSensorData l r) w = (Some e, w)"
    using processSensorData_unknown [OF refl, where l = l] by blast
  then show ?thesis using assms by (simp add: effects_run)
qed


definition motion_recording :: "GatewayLogic \<Rightarrow> IotMessage \<Rightarrow> bool" where
  "motion_recording l m \<longleftrightarrow> MessageType m = ''sensorData'' \<and> DeviceType m = ''camera'' \<and> SensorData m = ''on''
     \<and> (\<exists>p. getCameraLogicParams l (DeviceId m) = Inr p \<and> motion_message p m)"


lemma processCameraState_user: "gl_UserParams (snd (value_of (processCameraState l r) w)) = gl_UserParams l"
  by (auto simp: value_of_def processCameraState_def split_beta Let_def split: sum.split)

lemma Process_other_started:
  assumes "\<not> usr_Blocked (gl_UserParams l)" and "MessageType (heap w r) \<notin> {''command'', ''sensorData'', ''deviceState''}"
  shows "(RecordMediaStreamTask, q) \<notin> set (started (effects (Process E l (Some r)) w))"
  using assms by (simp add: Process_effects [OF refl])

end
