(* ===== verification/GatewaySessions.thy ===== *)
theory GatewaySessions
  imports GatewayLogicProps
begin

text \<open>
  The messages of a gateway handled one after the other: what a sequence of them does to the
  logic, and the media server that a camera's stream was announced on.
\<close>

section \<open>Sequences of messages\<close>

text \<open>
  One message handled to its end, on a copy of its own as \<open>ApplyLogic\<close> makes it, and a sequence
  of messages handled one after the other.
\<close>

definition deliver :: "env \<Rightarrow> GatewayLogic \<Rightarrow> IotMessage \<Rightarrow> (err option \<times> GatewayLogic) io" where
  "deliver E l m = do { r \<leftarrow> alloc m; Process E l (Some r) }"

fun deliver_all :: "env \<Rightarrow> GatewayLogic \<Rightarrow> IotMessage list \<Rightarrow> GatewayLogic io" where
  "deliver_all E l [] = ret l"
| "deliver_all E l (m # ms) = do { (e, l') \<leftarrow> deliver E l m; deliver_all E l' ms }"

text \<open>The media server a camera streams to.\<close>

definition server_of :: "GatewayLogic \<Rightarrow> string \<Rightarrow> (string \<times> string) option" where
  "server_of l d = map_option (\<lambda>p. (cl_MediaserverIp p, cl_ApplicationName p)) (camera_of l d)"

definition stream_message :: "string \<Rightarrow> IotMessage \<Rightarrow> bool" where
  "stream_message d m \<longleftrightarrow> MessageType m = ''deviceState'' \<and> DeviceType m = ''camera'' \<and> DeviceId m = d
     \<and> DeviceState m \<in> {''streamingOn'', ''streamingOff''}"

lemma server_of_user [simp]: "server_of (l\<lparr>gl_UserParams := u\<rparr>) d = server_of l d"
  by (simp add: server_of_def)

lemma camera_of_Inr: "getCameraLogicParams l d = Inr p \<Longrightarrow> camera_of l d = Some p"
  by (simp add: camera_of_def)

lemma server_of_set_camera:
  "getCameraLogicParams l d = Inr q \<Longrightarrow>
   server_of (set_camera d p l) k =
     (if k = d then Some (cl_MediaserverIp p, cl_ApplicationName p) else server_of l k)"
  by (simp add: server_of_def camera_of_set_camera)

lemma processCameraState_server:
  assumes "DeviceId (heap w r) \<noteq> d \<or> DeviceState (heap w r) \<notin> {''streamingOn'', ''streamingOff''}"
  shows "server_of (logic_after (processCameraState l r) w) d = server_of l d"
proof (cases "getCameraLogicParams l (DeviceId (heap w r))")
  case (Inr p)
  then show ?thesis
    using assms
    by (auto simp: logic_after_def value_of_def processCameraState_def split_beta Let_def server_of_set_camera)
qed (simp add: logic_after_def value_of_def processCameraState_unknown)

lemma processCameraData_server: "server_of (logic_after (processCameraData l r) w) d = server_of l d"
proof (cases "getCameraLogicParams l (DeviceId (heap w r))")
  case (Inr p)
  then show ?thesis
    by (simp add: logic_after_def processCameraData_effects(1) [OF refl Inr refl] server_of_set_camera)
      (simp add: server_of_def camera_of_def)
qed (simp add: logic_after_def value_of_def processCameraData_unknown)

lemma processCameraCommand_server: "server_of (logic_after (processCameraCommand E l r) w) d = server_of l d"
proof (cases "getCameraLogicParams l (DeviceId (heap w r))")
  case (Inr p)
  show ?thesis
    by (simp add: logic_after_def value_of_def processCameraCommand_def split_beta Let_def Inr)
qed (simp add: logic_after_def value_of_def processCameraCommand_unknown)

lemma Process_server:
  assumes "\<not> stream_message d (heap w r)"
  shows "server_of (logic_after (Process E l (Some r)) w) d = server_of l d"
proof (cases "usr_Blocked (gl_UserParams l)")
  case False
  then show ?thesis
    using assms processCameraState_server [of w r d l] processCameraData_server [of l r w d]
      processCameraCommand_server [of E l r w d]
    by (auto simp: logic_after_def Process_value [OF refl False] stream_message_def)
qed (simp add: logic_after_def Process_blocked)

lemma logic_step_blocked: 
  "usr_Blocked (gl_UserParams (logic_after (Process E l m) w)) = usr_Blocked (gl_UserParams l)"
  by (auto simp: value_of_def logic_after_def Process_def processCameraState_def processCameraData_def processCameraCommand_def
      split_beta Let_def split: option.split sum.split)

lemma deliver_value: "logic_after (deliver E l m) w =
   logic_after (Process E l (Some (next_ref w))) (world_after (alloc m) w)"
  by (simp add: deliver_def logic_after_def value_of_def world_after_def split_beta)

lemma deliver_result: "logic_after (deliver E l m) w =
   snd (value_of (Process E l (Some (next_ref w))) (world_after (alloc m) w))"
  by (simp add: deliver_value) (simp add: logic_after_def)

lemma deliver_server:
  "\<not> stream_message d m \<Longrightarrow> server_of (logic_after (deliver E l m) w) d = server_of l d"
  by (simp add: deliver_value Process_server world_after_def)

lemma deliver_all_server:
  "\<forall>m \<in> set ms. \<not> stream_message d m \<Longrightarrow> server_of (value_of (deliver_all E l ms) w) d = server_of l d"
proof (induction ms arbitrary: l w)
  case (Cons m ms)
  obtain e l' w' where d: "run_state (deliver E l m) w = ((e, l'), w')"
    by (metis prod.exhaust)
  then have "l' = logic_after (deliver E l m) w"
    by (simp add: logic_after_def value_of_def)
  with Cons d deliver_server [of d m E l w] show ?case
    by (simp add: value_of_def)
qed (simp add: value_of_def)

lemma deliver_all_blocked:
  "usr_Blocked (gl_UserParams (value_of (deliver_all E l ms) w)) = usr_Blocked (gl_UserParams l)"
proof (induction ms arbitrary: l w)
  case (Cons m ms)
  obtain e l' w' where d: "run_state (deliver E l m) w = ((e, l'), w')"
    by (metis prod.exhaust)
  then have "l' = logic_after (deliver E l m) w"
    by (simp add: logic_after_def value_of_def)
  with Cons d show ?case
    by (simp add: value_of_def deliver_value logic_step_blocked)
qed (simp add: value_of_def)


lemma appends_if [intro]: "(b \<Longrightarrow> appends m) \<Longrightarrow> (\<not> b \<Longrightarrow> appends n) \<Longrightarrow> appends (if b then m else n)"
  by simp

lemma appends_recordByMode [intro]: "appends (recordByMode p r)"
  by (auto simp: recordByMode_records)

lemma appends_handlers [intro]:
  "appends (processCameraState l r)" "appends (processCameraData l r)"
  "appends (sendRecording E p on)" "appends (switchRecording E p new prev newT u)"
  "appends (processCameraCommand E l r)" "appends (processSensorData l r)"
proof -
  show s: "appends (sendRecording E p on)" for E p on
    unfolding sendRecording_def by (intro appends_bind) auto
  show sw: "appends (switchRecording E p new prev newT u)" for E p new prev newT u
    unfolding switchRecording_def Let_def by (intro appends_if appends_bind) (auto intro: s)
  show "appends (processCameraState l r)"
    unfolding processCameraState_def Let_def
    by (intro appends_bind) (auto split: sum.split intro!: appends_bind)
  show "appends (processCameraData l r)"
    unfolding processCameraData_def Let_def
    by (intro appends_bind) (auto split: sum.split intro!: appends_bind)
  show "appends (processCameraCommand E l r)"
    unfolding processCameraCommand_def Let_def
    by (intro appends_bind) (auto split: sum.split intro!: appends_bind sw)
  show "appends (processSensorData l r)"
    unfolding processSensorData_def Let_def
    by (intro appends_bind) (auto split: sum.split option.split iface.split intro!: appends_bind)
qed

lemma appends_Process [intro]: "appends (Process E l m)"
  unfolding Process_def
  by (auto split: option.split intro!: appends_bind)

lemma deliver_effects:
  "effects (deliver E l m) w = MsgStored (next_ref w) m #
     effects (Process E l (Some (next_ref w))) (world_after (alloc m) w)"
  unfolding deliver_def
  by (subst effects_append) (auto simp: effects_run value_of_def)

lemma stream_on_value:
  assumes "stream_message d m" and "DeviceState m = ''streamingOn''" and "heap w r = m"
    and "\<not> usr_Blocked (gl_UserParams l)" and "CanBeRecorded (gl_UserParams l)"
    and "getCameraLogicParams l d = Inr p"
  shows "value_of (Process E l (Some r)) w = (None, set_camera d (stream_on_camera m p) l)"
  using assms
  by (auto simp: Process_value stream_message_def processCameraState_streamingOn(1))

lemma stream_on_dropped:
  assumes "stream_message d m" and "DeviceState m = ''streamingOn''" and "heap w r = m"
    and "\<not> usr_Blocked (gl_UserParams l)" and "\<not> CanBeRecorded (gl_UserParams l)"
    and "getCameraLogicParams l d = Inr p"
  shows "snd (value_of (Process E l (Some r)) w) = l"
  using assms by (simp add: Process_value stream_message_def processCameraState_other(1))

lemma stream_off_value:
  assumes "stream_message d m" and "DeviceState m = ''streamingOff''" and "heap w r = m"
    and "\<not> usr_Blocked (gl_UserParams l)" and "getCameraLogicParams l d = Inr p"
  shows "value_of (Process E l (Some r)) w = (None, set_camera d (stream_off_camera p) l)"
    and "started (effects (Process E l (Some r)) w) =
      (UpdateCameraStateTask, m) #
      (if records p then [(RecordMediaStreamTask, stream_off_message p m)] else [])"
  using assms
  by (auto simp: Process_value Process_effects stream_message_def processCameraState_streamingOff)

lemma camera_of_Some: "camera_of l d = Some p \<longleftrightarrow> getCameraLogicParams l d = Inr p"
  by (simp add: camera_of_def split: sum.split)

end
