(* ===== verification/LoadParamsProps.thy ===== *)
theory LoadParamsProps
  imports GatewaySessions
begin

text \<open>
  Facts about \<open>LoadParams\<close>: whatever the database answers, it returns (no map it adds to is nil) and
  leaves a well-formed logic; when it reports no error, the logic holds exactly what the three
  queries returned, the last row of a key winning.
\<close>

section \<open>The row loops\<close>

lemma camera_of_row_sel [simp]:
  "dev_DeviceId (camera_of_row row) = cr_stream_id row"
  "dev_Title (camera_of_row row) = cr_title row"
  "RecordingMode (camera_of_row row) =
     (case cr_recording row of None \<Rightarrow> RecordingModeNoRecord | Some s \<Rightarrow> ConvertRecordingMode s)"
  "camera_ok (camera_of_row row)"
  by (simp_all add: camera_of_row_def Let_def SetRecordingMode_def zero_CameraLogicParams_def camera_ok_def
      split: option.split)

lemma cameras_ok_Add:
  "cameras_ok m \<Longrightarrow> camera_ok p \<Longrightarrow> cameras_ok (GuardedParamsMap_Add (dev_DeviceId p) (CameraP p) m)"
  by (simp add: cameras_ok_def)

lemma inner_ok_Add: "inner_ok m \<Longrightarrow> inner_ok (GuardedParamsMap_Add k (InnerP ip) m)"
  by (simp add: inner_ok_def)

lemma sensors_ok_Add:
  "sensors_ok m \<Longrightarrow> inner_ok inner \<Longrightarrow> sensors_ok (GuardedParamsMap_Add (dev_DeviceId d) (SensorP d inner) m)"
  by (simp add: sensors_ok_def)

lemma maps_ok_new [simp]:
  "cameras_ok NewGuardedParamsMap" "inner_ok NewGuardedParamsMap" "sensors_ok NewGuardedParamsMap"
  by (simp_all add: cameras_ok_def inner_ok_def sensors_ok_def)

text \<open>The rows that were read: all that \<open>Next\<close> delivered, or those before the first failing \<open>Scan\<close>.\<close>

fun good_rows :: "'a rows \<Rightarrow> 'a list" where
  "good_rows (RowsEnd err) = []"
| "good_rows (NextRow (Inl e) rows) = []"
| "good_rows (NextRow (Inr r) rows) = r # good_rows rows"

fun row_error :: "'a rows \<Rightarrow> err option" where
  "row_error (RowsEnd err) = None"
| "row_error (NextRow (Inl e) rows) = Some (wrap e ''could not read record data'')"
| "row_error (NextRow (Inr r) rows) = row_error rows"

lemma load_cameras_eq:
  "load_cameras rows (Some m) = Returned (row_error rows,
     Some (fold (\<lambda>row. GuardedParamsMap_Add (cr_stream_id row) (CameraP (camera_of_row row))) (good_rows rows) m))"
  by (induction rows "Some m" arbitrary: m rule: load_cameras.induct) (simp_all add: Let_def)

lemma load_inner_eq:
  "load_inner rows m = (row_error rows,
     fold (\<lambda>row. GuardedParamsMap_Add (ir_sensor row) (InnerP (inner_of_row row))) (good_rows rows) m)"
  by (induction rows m rule: load_inner.induct) simp_all

lemma fold_cameras_ok:
  "cameras_ok m \<Longrightarrow>
   cameras_ok (fold (\<lambda>row. GuardedParamsMap_Add (cr_stream_id row) (CameraP (camera_of_row row))) rows m)"
proof (induction rows arbitrary: m)
  case (Cons row rows)
  then show ?case
    using cameras_ok_Add [of m "camera_of_row row"] by simp
qed simp

lemma fold_inner_ok:
  "inner_ok m \<Longrightarrow>
   inner_ok (fold (\<lambda>row. GuardedParamsMap_Add (ir_sensor row) (InnerP (inner_of_row row))) rows m)"
  by (induction rows arbitrary: m) (simp_all add: inner_ok_Add)

lemma device_of_row_sel [simp]: "dev_DeviceId (device_of_row row) = sr_device_id row"
  by (simp add: device_of_row_def)

text \<open>The device a sensor map holds under a key, without its inner parameters.\<close>

definition device_in :: "GuardedParamsMap \<Rightarrow> string \<Rightarrow> DeviceLogicParams option" where
  "device_in m k = (case GuardedParamsMap_Get m k of Some (SensorP d _) \<Rightarrow> Some d | _ \<Rightarrow> None)"

lemma device_in_Add [simp]:
  "device_in (GuardedParamsMap_Add k (SensorP d inner) m) k' = (if k' = k then Some d else device_in m k')"
  by (simp add: device_in_def)

lemma device_in_new [simp]: "device_in NewGuardedParamsMap k = None"
  by (simp add: device_in_def)

definition last_row :: "('a \<Rightarrow> string) \<Rightarrow> 'a list \<Rightarrow> string \<Rightarrow> 'a option" where
  "last_row key rows k = map_of (rev (map (\<lambda>r. (key r, r)) rows)) k"

lemma last_row_Cons:
  "last_row key (r # rows) k =
     (case last_row key rows k of Some r' \<Rightarrow> Some r' | None \<Rightarrow> if k = key r then Some r else None)"
  by (simp add: last_row_def map_add_def split: option.split)

lemma last_row_Nil [simp]: "last_row key [] k = None"
  by (simp add: last_row_def)

text \<open>No \<open>Scan\<close> failed, and the map holds the device of the last row of each key.\<close>

definition sensors_loaded :: "sensor_row rows \<Rightarrow> GuardedParamsMap \<Rightarrow> GuardedParamsMap \<Rightarrow> bool" where
  "sensors_loaded rows m m' \<longleftrightarrow> row_error rows = None \<and>
     (\<forall>k. device_in m' k = (case last_row sr_device_id (good_rows rows) k of
        Some row \<Rightarrow> Some (device_of_row row) | None \<Rightarrow> device_in m k))"

lemma sensors_loaded_Nil: "sensors_loaded (RowsEnd err) m m"
  by (simp add: sensors_loaded_def)

lemma sensors_loaded_Cons:
  "sensors_loaded rows (GuardedParamsMap_Add (sr_device_id row) (SensorP (device_of_row row) inner) m) m' \<Longrightarrow>
   sensors_loaded (NextRow (Inr row) rows) m m'"
  by (simp add: sensors_loaded_def last_row_Cons split: option.split)

text \<open>The sensor loop never panics, and keeps the map well formed whatever the database says.\<close>

lemma load_sensors_result:
  "sensors_ok m \<Longrightarrow>
   \<exists>e m'. value_of (load_sensors E rows (Some m)) w = Returned (e, Some m') \<and> sensors_ok m'
     \<and> (e = None \<longrightarrow> sensors_loaded rows m m')"
proof (induction rows arbitrary: m w)
  case (RowsEnd err)
  then show ?case by (simp add: value_of_def sensors_loaded_Nil)
next
  case (NextRow x rows)
  show ?case
  proof (cases x)
    case (Inl e)
    with NextRow.prems show ?thesis by (simp add: value_of_def)
  next
    case (Inr row)
    let ?w = "w\<lparr>hist := hist w @ [SqlQuery innerParamsQueryText [SqlU64 (sr_id row)]]\<rparr>"
    show ?thesis
    proof (cases "e_inner E (hist ?w)")
      case (Inl e)
      with \<open>x = Inr row\<close> NextRow.prems show ?thesis by (simp add: value_of_def)
    next
      case rs: (Inr rs)
      let ?inner = "fold (\<lambda>row. GuardedParamsMap_Add (ir_sensor row) (InnerP (inner_of_row row)))
        (good_rows rs) NewGuardedParamsMap"
      show ?thesis
      proof (cases "row_error rs")
        case None
        let ?m = "GuardedParamsMap_Add (sr_device_id row) (SensorP (device_of_row row) ?inner) m"
        let ?v = "?w\<lparr>hist := hist ?w @ [RowsClose]\<rparr>"
        have "sensors_ok ?m"
          using sensors_ok_Add [OF NextRow.prems fold_inner_ok, of NewGuardedParamsMap "device_of_row row"]
          by simp
        from NextRow.IH [OF this, of ?v] obtain e m' where m': "value_of (load_sensors E rows (Some ?m)) ?v = Returned (e, Some m')"
            "sensors_ok m'" "e = None \<longrightarrow> sensors_loaded rows ?m m'"
          by blast
        have "value_of (load_sensors E (NextRow x rows) (Some m)) w = Returned (e, Some m')"
          using m'(1) None rs \<open>x = Inr row\<close> by (simp add: value_of_def load_inner_eq)
        then show ?thesis
          using m'(2,3) \<open>x = Inr row\<close> by (auto intro: sensors_loaded_Cons)
      next
        case (Some e)
        with rs \<open>x = Inr row\<close> NextRow.prems show ?thesis
          by (simp add: value_of_def load_inner_eq)
      qed
    qed
  qed
qed

section \<open>The whole load\<close>

text \<open>The cameras and devices that a successful load leaves in the logic.\<close>

lemma Get_loaded_cameras:
  "GuardedParamsMap_Get (fold (\<lambda>row. GuardedParamsMap_Add (cr_stream_id row) (CameraP (camera_of_row row)))
      rows NewGuardedParamsMap) k = map_option (\<lambda>row. CameraP (camera_of_row row)) (last_row cr_stream_id rows k)"
  by (induction rows rule: rev_induct) (auto simp: last_row_def)

lemma camera_of_loaded:
  "gl_CameraParams l = Some (fold (\<lambda>row. GuardedParamsMap_Add (cr_stream_id row) (CameraP (camera_of_row row)))
      rows NewGuardedParamsMap) \<Longrightarrow>
   camera_of l k = map_option camera_of_row (last_row cr_stream_id rows k)"
  by (auto simp: camera_of_def getCameraLogicParams_def Get_loaded_cameras split: option.split)

definition user_query :: "gateway_id \<Rightarrow> event" where
  "user_query g = SqlQuery userParamsQueryText [SqlStr g]"

definition camera_query :: "gateway_id \<Rightarrow> event" where
  "camera_query g = SqlQuery cameraParamsQueryText [SqlStr g]"

definition sensor_query :: "gateway_id \<Rightarrow> event" where
  "sensor_query g = SqlQuery sensorParamsQueryText [SqlStr g]"

text \<open>What the database answered to the queries of a load that began in world \<open>w\<close>.\<close>

definition loaded_user :: "env \<Rightarrow> gateway_id \<Rightarrow> world \<Rightarrow> UserLogicParams result" where
  "loaded_user E g w = e_user E (hist w @ [user_query g])"

definition loaded_cameras :: "env \<Rightarrow> gateway_id \<Rightarrow> world \<Rightarrow> camera_row rows result" where
  "loaded_cameras E g w = e_cameras E (hist w @ [user_query g, camera_query g])"

definition loaded_sensors :: "env \<Rightarrow> gateway_id \<Rightarrow> world \<Rightarrow> sensor_row rows result" where
  "loaded_sensors E g w = e_sensors E (hist w @ [user_query g, camera_query g, RowsClose, sensor_query g])"

lemma announceRegistered_result:
  "\<exists>e. value_of (announceRegistered E write l) w = Returned (e, l)"
  by (auto simp: value_of_def announceRegistered_def Let_def split_beta split: option.split)

lemma loadSensorParams_result:
  assumes "gl_SensorParams l = Some m" and "sensors_ok m"
  shows "\<exists>e m'. value_of (loadSensorParams E write l) w = Returned (e, l\<lparr>gl_SensorParams := Some m'\<rparr>)
     \<and> sensors_ok m'
     \<and> (e = None \<longrightarrow> (\<exists>rows. e_sensors E (hist w @ [sensor_query (gl_gatewayId l)]) = Inr rows
          \<and> sensors_loaded rows m m'))"
proof -
  let ?w = "w\<lparr>hist := hist w @ [sensor_query (gl_gatewayId l)]\<rparr>"
  show ?thesis
  proof (cases "e_sensors E (hist ?w)")
    case (Inl e)
    then have "value_of (loadSensorParams E write l) w = Returned (Some (wrap e ''failed to query sensor device params''), l\<lparr>gl_SensorParams := Some m\<rparr>)"
      using assms by (simp add: value_of_def loadSensorParams_def sensor_query_def)
    with assms show ?thesis by blast
  next
    case (Inr rows)
    obtain e m' w' where m': "run_state (load_sensors E rows (Some m)) ?w = (Returned (e, Some m'), w')"
        "sensors_ok m'" "e = None \<longrightarrow> sensors_loaded rows m m'"
      using load_sensors_result [OF assms(2), of E rows ?w] unfolding value_of_def
      by (metis prod.collapse)
    show ?thesis
    proof (cases e)
      case None
      then show ?thesis
        using Inr assms m' announceRegistered_result [of E "write" "l\<lparr>gl_SensorParams := Some m'\<rparr>" "w'\<lparr>hist := hist w' @ [RowsClose]\<rparr>"]
        by (auto simp: value_of_def loadSensorParams_def sensor_query_def)
    next
      case (Some e')
      then have "value_of (loadSensorParams E write l) w = Returned (Some e', l\<lparr>gl_SensorParams := Some m'\<rparr>)"
        using Inr assms m' by (simp add: value_of_def loadSensorParams_def sensor_query_def)
      with m'(2) show ?thesis by blast
    qed
  qed
qed


definition cameras_loaded :: "camera_row rows \<Rightarrow> GatewayLogic \<Rightarrow> bool" where
  "cameras_loaded rows l \<longleftrightarrow> row_error rows = None \<and>
     (\<forall>k. camera_of l k = map_option camera_of_row (last_row cr_stream_id (good_rows rows) k))"

lemma logic_ok_maps:
  "gl_CameraParams l = Some cams \<Longrightarrow> gl_SensorParams l = Some sens \<Longrightarrow> cameras_ok cams \<Longrightarrow> sensors_ok sens \<Longrightarrow> logic_ok l"
  by (simp add: logic_ok_def)

lemma camera_of_sensors [simp]: "camera_of (l\<lparr>gl_SensorParams := s\<rparr>) k = camera_of l k"
  by (simp add: camera_of_def getCameraLogicParams_def)

lemma loadCameraParams_result:
  assumes "gl_CameraParams l = Some NewGuardedParamsMap" and "gl_SensorParams l = Some NewGuardedParamsMap"
  shows "\<exists>e l'. value_of (loadCameraParams E write l) w = Returned (e, l') \<and> logic_ok l'
     \<and> gl_gatewayId l' = gl_gatewayId l \<and> gl_UserParams l' = gl_UserParams l
     \<and> (e = None \<longrightarrow>
         (\<exists>rows. e_cameras E (hist w @ [camera_query (gl_gatewayId l)]) = Inr rows \<and> cameras_loaded rows l')
       \<and> (\<exists>rows m. e_sensors E (hist w @ [camera_query (gl_gatewayId l), RowsClose, sensor_query (gl_gatewayId l)]) = Inr rows
            \<and> gl_SensorParams l' = Some m \<and> sensors_loaded rows NewGuardedParamsMap m))"
proof (cases "e_cameras E (hist w @ [camera_query (gl_gatewayId l)])")
  case (Inl e)
  then show ?thesis
    using assms by (simp add: value_of_def loadCameraParams_def camera_query_def logic_ok_def)
next
  case (Inr rows)
  let ?cams = "fold (\<lambda>row. GuardedParamsMap_Add (cr_stream_id row) (CameraP (camera_of_row row)))
      (good_rows rows) NewGuardedParamsMap"
  let ?l = "l\<lparr>gl_CameraParams := Some ?cams\<rparr>"
  let ?w = "w\<lparr>hist := hist w @ [camera_query (gl_gatewayId l), RowsClose]\<rparr>"
  have ok: "cameras_ok ?cams"
    by (simp add: fold_cameras_ok)
  show ?thesis
  proof (cases "row_error rows")
    case (Some e)
    then have "value_of (loadCameraParams E write l) w = Returned (Some e, ?l)"
      using Inr assms(1) by (simp add: value_of_def loadCameraParams_def camera_query_def load_cameras_eq)
    with ok assms(2) show ?thesis by (simp add: logic_ok_def)
  next
    case None
    have "gl_SensorParams ?l = Some NewGuardedParamsMap" using assms(2) by simp
    from loadSensorParams_result [OF this, of E "write" ?w] obtain e m' where
      m': "value_of (loadSensorParams E write ?l) ?w = Returned (e, ?l\<lparr>gl_SensorParams := Some m'\<rparr>)" "sensors_ok m'"
        "e = None \<longrightarrow> (\<exists>rows. e_sensors E (hist w @ [camera_query (gl_gatewayId l), RowsClose, sensor_query (gl_gatewayId l)]) = Inr rows
          \<and> sensors_loaded rows NewGuardedParamsMap m')"
      by auto
    have "value_of (loadCameraParams E write l) w = Returned (e, ?l\<lparr>gl_SensorParams := Some m'\<rparr>)"
      using Inr None m'(1) assms(1) by (simp add: value_of_def loadCameraParams_def camera_query_def load_cameras_eq)
    moreover have "cameras_loaded rows (?l\<lparr>gl_SensorParams := Some m'\<rparr>)"
      using None by (simp add: cameras_loaded_def camera_of_loaded)
    ultimately show ?thesis
      using ok m'(2,3) Inr by (auto simp: logic_ok_def)
  qed
qed

lemma NewGatewayLogic_sel [simp]:
  "gl_CameraParams (NewGatewayLogic g) = Some NewGuardedParamsMap"
  "gl_SensorParams (NewGatewayLogic g) = Some NewGuardedParamsMap"
  "gl_gatewayId (NewGatewayLogic g) = g"
  "logic_ok (NewGatewayLogic g)"
  by (simp_all add: NewGatewayLogic_def logic_ok_def)

lemma LoadParams_result:
  "\<exists>e l'. value_of (LoadParams E write (NewGatewayLogic g)) w = Returned (e, l') \<and> logic_ok l' \<and> gl_gatewayId l' = g
     \<and> (e = None \<longrightarrow> write \<noteq> None
         \<and> loaded_user E g w = Inr (gl_UserParams l')
         \<and> (\<exists>rows. loaded_cameras E g w = Inr rows \<and> cameras_loaded rows l')
         \<and> (\<exists>rows m. loaded_sensors E g w = Inr rows \<and> gl_SensorParams l' = Some m
              \<and> sensors_loaded rows NewGuardedParamsMap m))"
proof (cases "write = None \<or> (\<exists>e. loaded_user E g w = Inl e)")
  case True
  then show ?thesis
    by (cases "write") (auto simp: LoadParams_def value_of_def loaded_user_def user_query_def)
next
  case False
  then obtain u wr where u: "loaded_user E g w = Inr u" and wr: "write = Some wr"
    by (cases "loaded_user E g w"; cases "write"; simp)
  let ?l = "(NewGatewayLogic g)\<lparr>gl_UserParams := u\<rparr>" and ?w = "w\<lparr>hist := hist w @ [user_query g]\<rparr>"
  from loadCameraParams_result [of ?l E wr ?w] obtain e l' where
    l': "value_of (loadCameraParams E wr ?l) ?w = Returned (e, l')" "logic_ok l'" "gl_gatewayId l' = g"
      "gl_UserParams l' = u" "e = None \<longrightarrow>
         (\<exists>rows. loaded_cameras E g w = Inr rows \<and> cameras_loaded rows l')
       \<and> (\<exists>rows m. loaded_sensors E g w = Inr rows
            \<and> gl_SensorParams l' = Some m \<and> sensors_loaded rows NewGuardedParamsMap m)"
    by (auto simp: loaded_cameras_def loaded_sensors_def)
  have "value_of (LoadParams E write (NewGatewayLogic g)) w = Returned (e, l')"
    using u l'(1) wr by (simp add: LoadParams_def value_of_def loaded_user_def user_query_def)
  with l' u wr show ?thesis by simp
qed

section \<open>Result sets that break off\<close>

text \<open>The same rows, ending without an error.\<close>

fun forget_error :: "'a rows \<Rightarrow> 'a rows" where
  "forget_error (RowsEnd err) = RowsEnd None"
| "forget_error (NextRow row rows) = NextRow row (forget_error rows)"

fun rows_err :: "'a rows \<Rightarrow> err option" where
  "rows_err (RowsEnd err) = err"
| "rows_err (NextRow row rows) = rows_err rows"

definition without_row_errors :: "env \<Rightarrow> env" where
  "without_row_errors E = E\<lparr>e_cameras := \<lambda>es. map_sum id forget_error (e_cameras E es),
     e_sensors := \<lambda>es. map_sum id forget_error (e_sensors E es), e_inner := \<lambda>es. map_sum id forget_error (e_inner E es)\<rparr>"

lemma ask_forgetful:
  "State_Monad.bind (ask e (\<lambda>es. map_sum id forget_error (f es))) k = State_Monad.bind (ask e f) (\<lambda>x. k (map_sum id forget_error x))"
  by (rule state.expand) (simp add: ask_def fun_eq_iff)

lemma load_cameras_forget [simp]: "load_cameras (forget_error rows) m = load_cameras rows m"
  by (induction rows m rule: load_cameras.induct) (simp_all add: Let_def split: option.split)

lemma load_inner_forget [simp]: "load_inner (forget_error rows) m = load_inner rows m"
  by (induction rows m rule: load_inner.induct) simp_all

lemma case_map_sum: "(case map_sum id h x of Inl e \<Rightarrow> f e | Inr y \<Rightarrow> g y) = (case x of Inl e \<Rightarrow> f e | Inr y \<Rightarrow> g (h y))"
  by (cases x) simp_all

lemma load_sensors_forget:
  "load_sensors (without_row_errors E) (forget_error rows) m = load_sensors E rows m"
proof (induction rows arbitrary: m)
  case (NextRow row rows)
  have "e_inner (without_row_errors E) = (\<lambda>es. map_sum id forget_error (e_inner E es))"
    by (simp add: without_row_errors_def)
  with NextRow show ?case
    by (cases row) (simp_all add: ask_forgetful case_map_sum cong: option.case_cong sum.case_cong)
qed simp

lemma LoadParams_forget: "LoadParams (without_row_errors E) writer l = LoadParams E writer l"
proof -
  have env: "e_cameras (without_row_errors E) = (\<lambda>es. map_sum id forget_error (e_cameras E es))"
    "e_sensors (without_row_errors E) = (\<lambda>es. map_sum id forget_error (e_sensors E es))"
    "e_user (without_row_errors E) = e_user E" "e_now (without_row_errors E) = e_now E"
    by (simp_all add: without_row_errors_def)
  have announce: "announceRegistered (without_row_errors E) = announceRegistered E"
    by (simp add: fun_eq_iff announceRegistered_def env)
  have sensors: "loadSensorParams (without_row_errors E) = loadSensorParams E"
    by (simp add: fun_eq_iff loadSensorParams_def env ask_forgetful case_map_sum load_sensors_forget announce
        cong: sum.case_cong outcome.case_cong option.case_cong prod.case_cong)
  have "loadCameraParams (without_row_errors E) = loadCameraParams E"
    by (simp add: fun_eq_iff loadCameraParams_def env ask_forgetful case_map_sum sensors
        cong: sum.case_cong outcome.case_cong option.case_cong prod.case_cong)
  then show ?thesis
    by (simp add: LoadParams_def env cong: sum.case_cong option.case_cong)
qed

end
