(* ===== verification/Samples.thy ===== *)
theory Samples
  imports LoadParamsProps
begin

text \<open>
  One concrete deployment, on which the properties of the development are instantiated: a gateway
  with a camera in the motion mode and a sensor, an environment that answers every call without
  an error, and the messages they send.
\<close>

definition sample_user :: UserLogicParams where
  "sample_user = \<lparr>usr_UserId = 7, usr_TarifId = 2, usr_Money = 100, usr_Vip = False,
     usr_LegalEntity = False, usr_Blocked = False, usr_Push = True\<rparr>"

definition sample_camera_row :: camera_row where
  "sample_camera_row = \<lparr>cr_id = 3, cr_uid = 7, cr_stream_id = ''cam1'', cr_recording = Some ''motion'',
     cr_schedule = None, cr_gateway_id = ''gw1'', cr_title = ''Porch''\<rparr>"

definition sample_sensor_row :: sensor_row where
  "sample_sensor_row = \<lparr>sr_id = 4, sr_device_id = ''dev1'', sr_user_id = 7, sr_title = ''Hall'',
     sr_gateway_id = ''gw1''\<rparr>"

definition sample_inner_row :: inner_row where
  "sample_inner_row = \<lparr>ir_sensor = ''smoke'', ir_influx = True, ir_notify = True, ir_desc = []\<rparr>"

definition sample_env :: env where
  "sample_env = \<lparr>e_now = (\<lambda>_. 1583064000000000000), e_hms = (\<lambda>_. ''12:00:00''),
     e_uuid = (\<lambda>es. ''6ba7b810-9dad-11d1-80b4-00c04fd430c8''), e_uuid_ok = (\<lambda>s. length s = 36),
     e_cfg_str = (\<lambda>k. k), e_cfg_int = (\<lambda>_. 5),
     e_error = (\<lambda>_. None), e_user = (\<lambda>_. Inr sample_user),
     e_cameras = (\<lambda>_. Inr (NextRow (Inr sample_camera_row) (RowsEnd None))), e_sensors = (\<lambda>_. Inr (NextRow (Inr sample_sensor_row) (RowsEnd None))),
     e_inner = (\<lambda>_. Inr (NextRow (Inr sample_inner_row) (RowsEnd None))), e_players = (\<lambda>_. Inr (RowsEnd None)), e_count = (\<lambda>_. Inr 1),
     e_new_request = (\<lambda>_. None), e_http = (\<lambda>_. HttpReply 200 (Inr [])),
     e_influx_batch = (\<lambda>_. None), e_influx_point = (\<lambda>_. None),
     e_channel = (\<lambda>_. Inr 1), e_queue = (\<lambda>_. Inr ''queue'')\<rparr>"

definition sample_camera :: CameraLogicParams where
  "sample_camera = camera_of_row sample_camera_row"

definition sample_inner :: InnerParams where
  "sample_inner = \<lparr>Influx = True, Notify = True, Desc = ''smoke'', ip_Value = [], ip_Timestamp = 0\<rparr>"

definition sample_logic :: GatewayLogic where
  "sample_logic = \<lparr>gl_gatewayId = ''gw1'',
     gl_CameraParams = Some (GuardedParamsMap_Add ''cam1'' (CameraP sample_camera) NewGuardedParamsMap),
     gl_SensorParams = Some (GuardedParamsMap_Add ''dev1'' (SensorP (device_of_row sample_sensor_row)
       (GuardedParamsMap_Add ''smoke'' (InnerP sample_inner) NewGuardedParamsMap)) NewGuardedParamsMap),
     gl_UserParams = sample_user\<rparr>"

definition sample_world :: "IotMessage \<Rightarrow> world" where
  "sample_world m = \<lparr>hist = [], heap = (\<lambda>_. m), next_ref = 1\<rparr>"

definition camera_message :: "string \<Rightarrow> string \<Rightarrow> IotMessage" where
  "camera_message type state = zero_IotMessage\<lparr>MessageType := type, DeviceType := ''camera'', DeviceId := ''cam1'',
     DeviceState := state, MediaserverIp := ''10.0.0.5'', ApplicationName := ''live''\<rparr>"

definition motion_event :: IotMessage where
  "motion_event = zero_IotMessage\<lparr>MessageType := ''sensorData'', DeviceType := ''camera'', DeviceId := ''cam1'',
     Label := ''motionDetector'', SensorData := ''on''\<rparr>"

definition smoke_event :: IotMessage where
  "smoke_event = zero_IotMessage\<lparr>MessageType := ''sensorData'', DeviceType := ''sensor'', DeviceId := ''dev1'',
     SensorType := ''smoke'', Label := ''smoke'', SensorData := ''on''\<rparr>"

definition set_recording :: "string \<Rightarrow> u64 \<Rightarrow> IotMessage" where
  "set_recording mode tariff = zero_IotMessage\<lparr>MessageType := ''command'', DeviceId := ''cam1'', Command := ''setRecording'',
     Attribute := mode, TariffId := tariff, Money := 10\<rparr>"

lemma sample_logic_ok: "logic_ok sample_logic"
  by (simp add: logic_ok_def sample_logic_def cameras_ok_def sensors_ok_def inner_ok_def sample_camera_def)
    (simp add: sample_camera_row_def sample_sensor_row_def)

lemma sample_camera_known [simp]:
  "getCameraLogicParams sample_logic ''cam1'' = Inr sample_camera"
  by (simp add: getCameraLogicParams_def sample_logic_def)

lemma sample_sensor_known [simp]:
  "getSensorLogicParams sample_logic ''dev1'' = Inr (device_of_row sample_sensor_row,
     GuardedParamsMap_Add ''smoke'' (InnerP sample_inner) NewGuardedParamsMap)"
  by (simp add: getSensorLogicParams_def sample_logic_def)

lemma sample_camera_sel [simp]:
  "RecordingMode sample_camera = RecordingModeMotion" "MotionInProcess sample_camera = False"
  "cl_MediaserverIp sample_camera = []" "cl_ApplicationName sample_camera = []"
  "dev_DeviceId sample_camera = ''cam1''"
  by (simp_all add: sample_camera_def camera_of_row_def sample_camera_row_def Let_def SetRecordingMode_def
      ConvertRecordingMode_def zero_CameraLogicParams_def)

lemma sample_user_sel [simp]:
  "gl_UserParams sample_logic = sample_user" "usr_Blocked sample_user = False" "usr_Push sample_user = True"
  "CanBeRecorded sample_user"
  by (simp_all add: sample_logic_def sample_user_def CanBeRecorded_def UserTarifOnline_def)

lemma sample_world_sel [simp]:
  "heap (sample_world m) r = m" "next_ref (sample_world m) = 1" "hist (sample_world m) = []"
  by (simp_all add: sample_world_def)

lemma sample_messages_sel [simp]:
  "MessageType (camera_message t s) = t" "DeviceType (camera_message t s) = ''camera''"
  "DeviceId (camera_message t s) = ''cam1''" "DeviceState (camera_message t s) = s"
  "MediaserverIp (camera_message t s) = ''10.0.0.5''" "ApplicationName (camera_message t s) = ''live''"
  "MessageType motion_event = ''sensorData''" "DeviceType motion_event = ''camera''"
  "DeviceId motion_event = ''cam1''" "Label motion_event = ''motionDetector''" "SensorData motion_event = ''on''"
  "MessageType smoke_event = ''sensorData''" "DeviceType smoke_event = ''sensor''"
  "DeviceId smoke_event = ''dev1''" "Label smoke_event = ''smoke''" "SensorType smoke_event = ''smoke''" "SensorData smoke_event = ''on''"
  by (simp_all add: camera_message_def motion_event_def smoke_event_def)

lemma set_recording_sel [simp]:
  "MessageType (set_recording a t) = ''command''" "DeviceId (set_recording a t) = ''cam1''"
  "Command (set_recording a t) = ''setRecording''" "Attribute (set_recording a t) = a" "TariffId (set_recording a t) = t"
  by (simp_all add: set_recording_def)

end
