(* ===== verification/LogicClaims.thy ===== *)
theory LogicClaims
  imports Samples
begin

text \<open>
  What the business logic promises: the lifetime invariant of its parameters, the reference rules
  for starting and stopping a recording, the errors it can report, the privacy of push
  notifications, and which messages are shared with a running task.
\<close>

section \<open>Facts over a session\<close>

lemma Process_ok: "logic_ok l \<Longrightarrow> logic_ok (logic_after (Process E l m) w)"
  using logic_step_ok Process_step by blast

lemma deliver_step: "logic_step l (logic_after (deliver E l m) w)"
  by (simp add: deliver_value Process_step)

lemma deliver_all_Cons:
  "\<exists>w'. value_of (deliver_all E l (m # ms)) w = value_of (deliver_all E (logic_after (deliver E l m) w) ms) w'"
  by (auto simp: value_of_def logic_after_def split_beta)

lemma deliver_all_ok: "logic_ok l \<Longrightarrow> logic_ok (value_of (deliver_all E l ms) w)"
proof (induction ms arbitrary: l w)
  case (Cons m ms)
  then show ?case
    using deliver_all_Cons [of E l m ms w] logic_step_ok [OF deliver_step] by metis
qed (simp add: value_of_def)

lemma deliver_all_config:
  "map_option camera_config (camera_of (value_of (deliver_all E l ms) w) k) = map_option camera_config (camera_of l k)
   \<and> gl_SensorParams (value_of (deliver_all E l ms) w) = gl_SensorParams l
   \<and> gl_gatewayId (value_of (deliver_all E l ms) w) = gl_gatewayId l"
proof (induction ms arbitrary: l w)
  case (Cons m ms)
  then show ?case
    using deliver_all_Cons [of E l m ms w] logic_step_config [OF deliver_step] by metis
qed (simp add: value_of_def)

lemma getCamera_ok_error:
  "logic_ok l \<Longrightarrow> getCameraLogicParams l d = Inl e \<Longrightarrow> e = ''no logic params for camera '' @ d"
  by (fastforce simp: logic_ok_def getCameraLogicParams_def cameras_ok_def split: option.splits iface.splits)

lemma getSensor_ok_error:
  "logic_ok l \<Longrightarrow> getSensorLogicParams l d = Inl e \<Longrightarrow> e = ''no logic params for sensor '' @ d"
  by (fastforce simp: logic_ok_def getSensorLogicParams_def sensors_ok_def split: option.splits iface.splits)

lemma inner_ok_Get:
  "logic_ok l \<Longrightarrow> getSensorLogicParams l d = Inr (dv, inner) \<Longrightarrow> GuardedParamsMap_Get inner k = Some v \<Longrightarrow> \<exists>ip. v = InnerP ip"
  by (fastforce simp: logic_ok_def getSensor_Inr sensors_ok_def inner_ok_def)

text \<open>The error that a message gives, as a table apart from the code.\<close>

definition camera_addressed :: "IotMessage \<Rightarrow> bool" where
  "camera_addressed m \<longleftrightarrow> MessageType m = ''command''
     \<or> MessageType m \<in> {''sensorData'', ''deviceState''} \<and> DeviceType m = ''camera''"

definition sensor_known :: "GatewayLogic \<Rightarrow> string \<Rightarrow> bool" where
  "sensor_known l d \<longleftrightarrow> (\<exists>x. getSensorLogicParams l d = Inr x)"

definition label_known :: "GatewayLogic \<Rightarrow> string \<Rightarrow> string \<Rightarrow> bool" where
  "label_known l d label \<longleftrightarrow> (\<exists>dev inner. getSensorLogicParams l d = Inr (dev, inner) \<and> GuardedParamsMap_Get inner label \<noteq> None)"

definition message_error :: "GatewayLogic \<Rightarrow> IotMessage \<Rightarrow> err option" where
  "message_error l m =
     (if usr_Blocked (gl_UserParams l) then None
      else if camera_addressed m then
        (if camera_of l (DeviceId m) = None then Some (''no logic params for camera '' @ DeviceId m)
         else if MessageType m = ''deviceState'' \<and> DeviceState m \<notin> {''on'', ''off'', ''streamingOn'', ''streamingOff''}
           then Some (''wrong deviceState: '' @ DeviceState m)
         else None)
      else if MessageType m = ''sensorData'' \<and> DeviceType m = ''sensor'' then
        (if \<not> sensor_known l (DeviceId m) then Some (''no logic params for sensor '' @ DeviceId m)
         else if \<not> label_known l (DeviceId m) (GetLabel m) then Some (''no params for sensor: '' @ GetLabel m)
         else None)
      else None)"

lemma unknown_camera_error:
  "logic_ok l \<Longrightarrow> camera_of l d = None \<Longrightarrow> getCameraLogicParams l d = Inl (''no logic params for camera '' @ d)"
  using getCamera_ok_error by (cases "getCameraLogicParams l d") (auto simp: camera_of_Inr)

lemma unknown_camera_errors:
  assumes "getCameraLogicParams l (DeviceId (heap w r)) = Inl e"
  shows "fst (value_of (processCameraState l r) w) = Some e" "fst (value_of (processCameraData l r) w) = Some e"
    "fst (value_of (processCameraCommand E l r) w) = Some e"
  by (simp_all add: value_of_def processCameraState_unknown [OF refl assms] processCameraData_unknown [OF refl assms]
      processCameraCommand_unknown [OF refl assms])

lemma known_camera_errors:
  assumes "getCameraLogicParams l (DeviceId (heap w r)) = Inr p"
  shows "fst (value_of (processCameraState l r) w) =
      (if DeviceState (heap w r) \<in> {''on'', ''off'', ''streamingOn'', ''streamingOff''} then None
       else Some (''wrong deviceState: '' @ DeviceState (heap w r)))"
    and "fst (value_of (processCameraData l r) w) = None" and "fst (value_of (processCameraCommand E l r) w) = None"
  using assms by (auto simp: value_of_def processCameraState_def processCameraData_def processCameraCommand_def split_beta Let_def)

lemma sensor_errors:
  assumes "logic_ok l"
  shows "value_of (processSensorData l r) w =
    (if \<not> sensor_known l (DeviceId (heap w r)) then Some (''no logic params for sensor '' @ DeviceId (heap w r))
     else if \<not> label_known l (DeviceId (heap w r)) (GetLabel (heap w r)) then Some (''no params for sensor: '' @ GetLabel (heap w r))
     else None)"
proof (cases "getSensorLogicParams l (DeviceId (heap w r))")
  case (Inl e)
  then show ?thesis
    by (simp add: value_of_def processSensorData_def sensor_known_def getSensor_ok_error [OF assms Inl])
next
  case (Inr x)
  obtain d inner where x: "x = (d, inner)"
    by (cases x)
  show ?thesis
  proof (cases "GuardedParamsMap_Get inner (GetLabel (heap w r))")
    case None
    with Inr x show ?thesis
      by (simp add: value_of_def processSensorData_def sensor_known_def label_known_def)
  next
    case (Some v)
    with Inr x obtain ip where "v = InnerP ip"
      using inner_ok_Get [OF assms] by blast
    with Some Inr x show ?thesis
      by (simp add: processSensorData_effects(1) [OF refl _ _ refl] sensor_known_def label_known_def)
  qed
qed

lemma Process_error:
  assumes "logic_ok l"
  shows "fst (value_of (Process E l (Some r)) w) = message_error l (heap w r)"
proof (cases "usr_Blocked (gl_UserParams l)")
  case False
  note here = Process_value [OF refl False, where r = r and w = w and E = E]
  show ?thesis
  proof (cases "camera_of l (DeviceId (heap w r))")
    case None
    with here show ?thesis
      using unknown_camera_errors [OF unknown_camera_error [OF assms None]] False
      by (simp add: message_error_def camera_addressed_def sensor_errors [OF assms])
  next
    case (Some p)
    then have "getCameraLogicParams l (DeviceId (heap w r)) = Inr p"
      by (simp add: camera_of_Some)
    from known_camera_errors [OF this] here Some False show ?thesis
      by (simp add: message_error_def camera_addressed_def sensor_errors [OF assms])
  qed
qed (simp add: Process_blocked message_error_def)

text \<open>No message changes the push switch of the user.\<close>

lemma Process_push_switch:
  "usr_Push (gl_UserParams (logic_after (Process E l m) w)) = usr_Push (gl_UserParams l)"
  by (auto simp: value_of_def logic_after_def Process_def processCameraState_def processCameraData_def
      processCameraCommand_def split_beta Let_def split: option.split sum.split)

text \<open>The tasks that each handler can start.\<close>

lemma camera_state_tasks:
  assumes "(t, q) \<in> set (started (effects (processCameraState l r) w))"
  shows "t = UpdateCameraStateTask \<or> t = RecordMediaStreamTask"
proof (cases "getCameraLogicParams l (DeviceId (heap w r))")
  case (Inr p)
  consider "DeviceState (heap w r) = ''streamingOff''"
    | "DeviceState (heap w r) = ''streamingOn''" "CanBeRecorded (gl_UserParams l)"
    | "DeviceState (heap w r) \<noteq> ''streamingOff''" "DeviceState (heap w r) = ''streamingOn'' \<Longrightarrow> \<not> CanBeRecorded (gl_UserParams l)"
    by blast
  then show ?thesis
    using assms by cases (auto simp: processCameraState_streamingOff(2) [OF refl Inr] processCameraState_streamingOn(2) [OF refl Inr]
        processCameraState_other(2) [OF refl Inr] split: if_splits)
qed (use assms in \<open>simp add: effects_run processCameraState_unknown\<close>)

lemma camera_data_tasks:
  assumes "(t, q) \<in> set (started (effects (processCameraData l r) w))"
  shows "t = RecordMediaStreamTask \<or> t = StoreSensorDataInfluxTask \<or> t = SendPushNotificationTask \<and> usr_Push (gl_UserParams l)"
proof (cases "getCameraLogicParams l (DeviceId (heap w r))")
  case (Inr p)
  with assms show ?thesis
    by (auto simp: processCameraData_effects(2) [OF refl Inr refl] motion_push_def push_task_def split: if_splits)
qed (use assms in \<open>simp add: effects_run processCameraData_unknown\<close>)

lemma camera_command_tasks:
  assumes "(t, q) \<in> set (started (effects (processCameraCommand E l r) w))"
  shows "t = RecordMediaStreamTask"
proof (cases "getCameraLogicParams l (DeviceId (heap w r))")
  case (Inr p)
  show ?thesis
  proof (cases "Command (heap w r) = ''setRecording''")
    case True
    with assms show ?thesis
      by (auto simp: processCameraCommand_effects(2) [OF refl Inr _ refl refl] started_sendRecording split: option.splits)
  qed (use assms in \<open>simp add: effects_run processCameraCommand_other [OF refl Inr]\<close>)
qed (use assms in \<open>simp add: effects_run processCameraCommand_unknown\<close>)

lemma sensor_data_tasks:
  assumes "(t, q) \<in> set (started (effects (processSensorData l r) w))"
  shows "(\<exists>d inner. getSensorLogicParams l (DeviceId (heap w r)) = Inr (d, inner)
       \<and> (t = StoreSensorDataMySqlTask \<longrightarrow> q = (heap w r)\<lparr>DeviceTableId := dev_DeviceTableId d\<rparr>))
     \<and> (t = StoreSensorDataMySqlTask \<or> t = StoreSensorDataInfluxTask \<or> t = SendPushNotificationTask \<and> usr_Push (gl_UserParams l))"
proof (cases "\<exists>d inner ip. getSensorLogicParams l (DeviceId (heap w r)) = Inr (d, inner)
         \<and> GuardedParamsMap_Get inner (GetLabel (heap w r)) = Some (InnerP ip)")
  case True
  with assms show ?thesis
    by (auto simp: processSensorData_effects(2) [OF refl _ _ refl] sensor_push_def push_task_def split: if_splits)
next
  case False
  then obtain e where "run_state (processSensorData l r) w = (Some e, w)"
    using processSensorData_unknown [OF refl, where l = l] by blast
  with assms show ?thesis by (simp add: effects_run)
qed

lemmas handler_tasks = camera_state_tasks camera_data_tasks camera_command_tasks sensor_data_tasks

lemma Process_push_started:
  assumes "\<not> usr_Push (gl_UserParams l)"
  shows "(SendPushNotificationTask, q) \<notin> set (started (effects (Process E l (Some r)) w))"
proof (cases "usr_Blocked (gl_UserParams l)")
  case False
  with assms show ?thesis
    by (auto simp: Process_effects split: if_splits dest: handler_tasks)
qed (simp add: Process_blocked)

lemma Process_mysql_started:
  assumes "(StoreSensorDataMySqlTask, q) \<in> set (started (effects (Process E l (Some r)) w))"
  shows "MessageType (heap w r) = ''sensorData'' \<and> DeviceType (heap w r) = ''sensor''
    \<and> (StoreSensorDataMySqlTask, q) \<in> set (started (effects (processSensorData l r) w))"
proof (cases "usr_Blocked (gl_UserParams l)")
  case False
  with assms show ?thesis
    by (auto simp: Process_effects split: if_splits dest: handler_tasks)
qed (use assms in \<open>simp add: Process_blocked\<close>)

lemma appends_deliver [intro]: "appends (deliver E l m)"
  unfolding deliver_def by (intro appends_bind) auto

lemma appends_deliver_all [intro]: "appends (deliver_all E l ms)"
proof (induction ms arbitrary: l)
  case (Cons m ms)
  then show ?case by (auto intro!: appends_bind split: prod.split)
qed simp

lemma deliver_all_effects_Cons:
  "effects (deliver_all E l (m # ms)) w = effects (deliver E l m) w
     @ effects (deliver_all E (logic_after (deliver E l m) w) ms) (world_after (deliver E l m) w)"
proof -
  have "appends (case x of (e, l') \<Rightarrow> deliver_all E l' ms)" for x :: "err option \<times> GatewayLogic"
    by (cases x) auto
  from effects_append [OF appends_deliver [of E l m], where f = "\<lambda>x. case x of (e, l') \<Rightarrow> deliver_all E l' ms", OF this]
  show ?thesis
    by (simp add: logic_after_def case_prod_unfold)
qed

lemma deliver_all_no_push:
  "\<not> usr_Push (gl_UserParams l) \<Longrightarrow>
   (SendPushNotificationTask, q) \<notin> set (started (effects (deliver_all E l ms) w))"
proof (induction ms arbitrary: l w)
  case (Cons m ms)
  then have "\<not> usr_Push (gl_UserParams (logic_after (deliver E l m) w))"
    by (simp add: deliver_value Process_push_switch)
  with Cons show ?case
    by (auto simp add: deliver_all_effects_Cons deliver_effects Process_push_started simp del: deliver_all.simps)
qed (simp add: effects_run)

section \<open>Properties\<close>

text \<open>C1: whatever the database answers, loading the parameters of a new gateway returns (it never
  panics), and the logic it leaves stays well formed through any sequence of messages: every key
  of the camera map holds a camera of that name, every key of the sensor map a sensor with inner
  parameters only, a camera without media server parameters has none left over, and only a camera in the motion mode
  can have motion in progress.\<close>

theorem session_well_formed:
  "\<exists>e l. value_of (LoadParams E writer (NewGatewayLogic g)) w = Returned (e, l) \<and> gl_gatewayId l = g
     \<and> logic_ok (value_of (deliver_all E l ms) w')"
  using LoadParams_result [of E writer g w] deliver_all_ok by blast

text \<open>C14: when \<open>LoadParams\<close> reports no error, the logic holds the user the database returned, for
  every stream id the camera of the last row that \<open>Next\<close> delivered for it and no other camera, and for every device id the device of the
  last such row; no \<open>Scan\<close> of these rows failed. (That \<open>Next\<close> delivered all rows is not checked: see \<open>row_errors_unnoticed\<close>.)\<close>

theorem load_success:
  assumes "value_of (LoadParams E writer (NewGatewayLogic g)) w = Returned (None, l)"
  shows "loaded_user E g w = Inr (gl_UserParams l)
     \<and> (\<exists>rows. loaded_cameras E g w = Inr rows \<and> cameras_loaded rows l)
     \<and> (\<exists>rows m. loaded_sensors E g w = Inr rows \<and> gl_SensorParams l = Some m
          \<and> sensors_loaded rows NewGuardedParamsMap m)"
  using LoadParams_result [of E writer g w] assms by auto

theorem load_success_witness:
  "\<exists>l. value_of (LoadParams sample_env (Some (\<lambda>s. ret (length s, None))) (NewGatewayLogic ''gw1'')) (sample_world zero_IotMessage)
       = Returned (None, l)
     \<and> loaded_user sample_env ''gw1'' (sample_world zero_IotMessage) = Inr (gl_UserParams l)
     \<and> (\<exists>rows. loaded_cameras sample_env ''gw1'' (sample_world zero_IotMessage) = Inr rows \<and> cameras_loaded rows l)"
proof -
  have "\<exists>l. value_of (LoadParams sample_env (Some (\<lambda>s. ret (length s, None))) (NewGatewayLogic ''gw1'')) (sample_world zero_IotMessage)
       = Returned (None, l)"
    by (simp add: value_of_def LoadParams_def loadCameraParams_def loadSensorParams_def announceRegistered_def
        sample_env_def Let_def)
  then show ?thesis
    using load_success by blast
qed

text \<open>C15: a result set that breaks off is taken for a complete one: an error that ends the iteration over the cameras, the sensors
  or their inner parameters changes nothing of what \<open>LoadParams\<close> does and returns; and when it reports
  success, every command, state and measurement of a camera whose row was not delivered fails for an owner who is not blocked.\<close>

theorem row_errors_unnoticed:
  "run_state (LoadParams E writer l0) w = run_state (LoadParams (without_row_errors E) writer l0) w
   \<and> (value_of (LoadParams E writer (NewGatewayLogic g)) w = Returned (None, l) \<and> loaded_cameras E g w = Inr rows
      \<and> DeviceId (heap w' r) \<notin> cr_stream_id ` set (good_rows rows) \<and> camera_addressed (heap w' r)
      \<longrightarrow> fst (value_of (Process E l (Some r)) w') = (if usr_Blocked (gl_UserParams l) then None
            else Some (''no logic params for camera '' @ DeviceId (heap w' r))))"
proof (intro conjI impI)
  assume broken: "value_of (LoadParams E writer (NewGatewayLogic g)) w = Returned (None, l) \<and> loaded_cameras E g w = Inr rows
      \<and> DeviceId (heap w' r) \<notin> cr_stream_id ` set (good_rows rows) \<and> camera_addressed (heap w' r)"
  then have "cameras_loaded rows l" "logic_ok l"
    using LoadParams_result [of E writer g w] by auto
  moreover from this have "camera_of l (DeviceId (heap w' r)) = None"
    using broken by (auto simp: cameras_loaded_def last_row_def map_of_eq_None_iff)
  ultimately show "fst (value_of (Process E l (Some r)) w') = (if usr_Blocked (gl_UserParams l) then None
      else Some (''no logic params for camera '' @ DeviceId (heap w' r)))"
    using Process_error [of l E r w'] broken by (simp add: message_error_def)
qed (simp add: LoadParams_forget)

text \<open>Two cameras, and a connection that is lost after the first.\<close>

definition broken_env :: env where
  "broken_env = sample_env\<lparr>e_cameras := \<lambda>_. Inr (NextRow (Inr sample_camera_row) (RowsEnd (Some ''invalid connection'')))\<rparr>"

theorem row_errors_unnoticed_witness:
  "\<exists>l. value_of (LoadParams broken_env (Some (\<lambda>s. ret (length s, None))) (NewGatewayLogic ''gw1'')) (sample_world zero_IotMessage) = Returned (None, l)
    \<and> fst (value_of (Process broken_env l (Some 0)) (sample_world ((camera_message ''command'' [])\<lparr>DeviceId := ''cam2''\<rparr>)))
      = (if usr_Blocked (gl_UserParams l) then None else Some ''no logic params for camera cam2'')"
proof -
  let ?m = "(camera_message ''command'' [])\<lparr>DeviceId := ''cam2''\<rparr>"
  obtain l where l: "value_of (LoadParams (without_row_errors broken_env) (Some (\<lambda>s. ret (length s, None))) (NewGatewayLogic ''gw1'')) (sample_world zero_IotMessage)
       = Returned (None, l)"
    by (simp add: value_of_def LoadParams_def loadCameraParams_def loadSensorParams_def announceRegistered_def without_row_errors_def
        broken_env_def sample_env_def Let_def)
  note unnoticed = row_errors_unnoticed [of broken_env "Some (\<lambda>s. ret (length s, None))" _ "sample_world zero_IotMessage" "''gw1''" l _ "sample_world ?m" 0]
  from l have loaded: "value_of (LoadParams broken_env (Some (\<lambda>s. ret (length s, None))) (NewGatewayLogic ''gw1'')) (sample_world zero_IotMessage)
       = Returned (None, l)"
    by (simp add: value_of_def unnoticed [THEN conjunct1])
  have "loaded_cameras broken_env ''gw1'' (sample_world zero_IotMessage) = Inr (NextRow (Inr sample_camera_row) (RowsEnd (Some ''invalid connection'')))"
    by (simp add: loaded_cameras_def broken_env_def)
  moreover have "DeviceId (heap (sample_world ?m) 0) \<notin> cr_stream_id ` set (good_rows (NextRow (Inr sample_camera_row) (RowsEnd (Some ''invalid connection''))))"
    by (simp add: sample_camera_row_def)
  moreover have "camera_addressed (heap (sample_world ?m) 0)"
    by (simp add: camera_addressed_def)
  ultimately have "fst (value_of (Process broken_env l (Some 0)) (sample_world ?m)) = (if usr_Blocked (gl_UserParams l) then None else Some ''no logic params for camera cam2'')"
    using unnoticed [THEN conjunct2, rule_format, OF conjI [OF loaded]] by simp
  with loaded show ?thesis by blast
qed

text \<open>C25: exactly which error a well-formed gateway reports for a message. Of an owner who is not blocked, a command, the data and the state
  of a camera need a known camera, and a state must be one of on, off, streamingOn and streamingOff; the data of a sensor
  need a known sensor and parameters for its label. Every other message, and every message of a blocked owner, returns nil; no cast error can happen.\<close>

theorem process_errors:
  "logic_ok l \<Longrightarrow> fst (value_of (Process E l (Some r)) w) = message_error l (heap w r)"
  by (rule Process_error)

theorem process_errors_witness:
  "fst (value_of (Process sample_env sample_logic (Some 0)) (sample_world (camera_message ''deviceState'' ''asleep''))) =
    Some ''wrong deviceState: asleep''"
  using process_errors [OF sample_logic_ok, of sample_env 0 "sample_world (camera_message ''deviceState'' ''asleep'')"]
  by (simp add: message_error_def camera_addressed_def camera_of_Inr)

text \<open>No sequence of messages changes which cameras a gateway has, their identity, schedule or
  recording mode, its sensors or its name: in particular a \<open>setRecording\<close> command never stores
  the mode it sets.\<close>

theorem session_keeps_config:
  "map_option camera_config (camera_of (value_of (deliver_all E l ms) w) k) = map_option camera_config (camera_of l k)
   \<and> gl_SensorParams (value_of (deliver_all E l ms) w) = gl_SensorParams l
   \<and> gl_gatewayId (value_of (deliver_all E l ms) w) = gl_gatewayId l"
  by (rule deliver_all_config)

text \<open>C7: every message other than a \<open>deviceState\<close> one is handed to its tasks after the last write to it:
  whatever the scheduler does, each task sees exactly one version of its message.\<close>

theorem tasks_race_free:
  assumes "r < next_ref w" and "MessageType (heap w r) \<noteq> ''deviceState''"
  shows "race_free (effects (Process E l (Some r)) w)"
proof (cases "usr_Blocked (gl_UserParams l)")
  case False
  with assms show ?thesis
    by (simp add: Process_effects [OF refl False] processCameraData_race_free processSensorData_race_free
        processCameraCommand_race_free)
qed (simp add: Process_blocked)


theorem tasks_race_free_witness:
  "race_free (effects (Process sample_env sample_logic (Some 0)) (sample_world smoke_event))"
  by (rule tasks_race_free) simp_all

text \<open>A \<open>streamingOff\<close> message is written to after its first task was started: the
  task that stores the camera state may see the message as it came, or with the recording flag,
  the media server and the application of the camera filled in, in any intermediate version.\<close>

theorem stream_off_race:
  assumes "stream_message (DeviceId m) m" and "DeviceState m = ''streamingOff''" and "heap w r = m"
    and "\<not> usr_Blocked (gl_UserParams l)" and "getCameraLogicParams l (DeviceId m) = Inr p"
  shows "task_views (effects (Process E l (Some r)) w) =
     (UpdateCameraStateTask, [m, m\<lparr>Recording := ''off''\<rparr>,
        m\<lparr>Recording := ''off'', MediaserverIp := cl_MediaserverIp p\<rparr>, stream_off_message p m])
     # (if records p then [(RecordMediaStreamTask, [stream_off_message p m])] else [])"
  using assms by (auto simp: stream_message_def Process_effects processCameraState_streamingOff(2) record_task_def)

theorem stream_off_race_witness:
  "hd (task_views (effects (Process sample_env sample_logic (Some 0)) (sample_world (camera_message ''deviceState'' ''streamingOff'')))) =
     (UpdateCameraStateTask, [camera_message ''deviceState'' ''streamingOff'',
        (camera_message ''deviceState'' ''streamingOff'')\<lparr>Recording := ''off''\<rparr>,
        (camera_message ''deviceState'' ''streamingOff'')\<lparr>Recording := ''off'', MediaserverIp := []\<rparr>,
        stream_off_message sample_camera (camera_message ''deviceState'' ''streamingOff'')])"
  using stream_off_race [of "camera_message ''deviceState'' ''streamingOff''"
      "sample_world (camera_message ''deviceState'' ''streamingOff'')" 0 sample_logic sample_camera sample_env]
  by (simp add: stream_message_def)

text \<open>C6: a recorder is started only for a user who may be recorded after the message (a paid tariff with money left, a VIP or a
  legal entity), or for a motion detected by a known camera in the motion mode, where no tariff is checked.\<close>

theorem recording_start_policy:
  assumes start: "(RecordMediaStreamTask, q) \<in> set (started (effects (Process E l (Some r)) w))"
    and on: "Recording q = ''on''"
  shows "CanBeRecorded (gl_UserParams (logic_after (Process E l (Some r)) w)) \<or> motion_recording l (heap w r)"
proof -
  let ?m = "heap w r"
  have nb: "\<not> usr_Blocked (gl_UserParams l)"
    using start by (auto simp: Process_blocked)
  note eff = Process_effects [OF refl nb, where w = w and r = r and E = E] and val = Process_value [OF refl nb, where w = w and r = r and E = E]
  consider "MessageType ?m = ''command''" | "MessageType ?m = ''sensorData''" | "MessageType ?m = ''deviceState''"
    using start Process_other_started [OF nb] by blast
  then show ?thesis
  proof cases
    case 1
    with start on processCameraCommand_started [of q E l r w] show ?thesis
      by (simp add: eff val logic_after_def)
  next
    case 2
    with start on processCameraData_started [of q l r w] processSensorData_started [of RecordMediaStreamTask q l r w]
    show ?thesis
      by (auto simp: eff motion_recording_def split: if_splits)
  next
    case 3
    with start on processCameraState_started [of q l r w] show ?thesis
      by (auto simp: eff val logic_after_def processCameraState_user split: if_splits)
  qed
qed


theorem recording_start_policy_witness:
  "motion_recording sample_logic motion_event \<or>
   CanBeRecorded (gl_UserParams (logic_after (Process sample_env sample_logic (Some 0)) (sample_world motion_event)))"
proof -
  have "(RecordMediaStreamTask, motion_event\<lparr>Recording := ''on''\<rparr>) \<in>
      set (started (effects (Process sample_env sample_logic (Some 0)) (sample_world motion_event)))"
    by (simp add: Process_effects processCameraData_effects(2) [OF refl _ refl] motion_message_def motion_record_message_def)
  from recording_start_policy [OF this] show ?thesis by simp blast
qed

text \<open>C5: while the owner is not blocked, a stream that was announced on a media server is stopped on that server: after
  \<open>streamingOn\<close> and any messages other than stream messages of the same camera, \<open>streamingOff\<close> stores the state and, if the camera
  records, stops the recorder with the media server and the application of the announcement; then the camera has no media server. An
  announcement of a user who may not be recorded is not kept: \<open>streamingOff\<close> then goes to the server stored before it.\<close>

theorem stream_off_reaches_same_server:
  assumes on: "stream_message d m1" "DeviceState m1 = ''streamingOn''"
    and off: "stream_message d m2" "DeviceState m2 = ''streamingOff''"
    and user: "\<not> usr_Blocked (gl_UserParams l)"
    and known: "server_of l d = Some stored"
    and server: "(ip, app) = (if CanBeRecorded (gl_UserParams l) then (MediaserverIp m1, ApplicationName m1) else stored)"
    and l1: "l1 = logic_after (deliver E l m1) w"
    and between: "\<forall>m \<in> set ms. \<not> stream_message d m" "l2 = value_of (deliver_all E l1 ms) w'"
  shows "\<exists>p. camera_of l2 d = Some p \<and>
    started (effects (deliver E l2 m2) w'') =
      (UpdateCameraStateTask, m2) #
      (if records p then [(RecordMediaStreamTask, m2\<lparr>Recording := ''off'',
         MediaserverIp := ip, ApplicationName := app\<rparr>)] else [])
    \<and> server_of (logic_after (deliver E l2 m2) w'') d = Some ([], [])"
proof -
  obtain p0 where p0: "getCameraLogicParams l d = Inr p0"
    using known by (auto simp: server_of_def camera_of_Some)
  have h: "heap (world_after (alloc m) v) (next_ref v) = m" for m v
    by (simp add: world_after_def)
  have "server_of l1 d = Some (ip, app) \<and> \<not> usr_Blocked (gl_UserParams l1)"
  proof (cases "CanBeRecorded (gl_UserParams l)")
    case True
    then have "l1 = set_camera d (stream_on_camera m1 p0) l"
      unfolding l1 deliver_result by (simp add: stream_on_value [OF on h user _ p0])
    then show ?thesis
      using p0 user server True by (simp add: server_of_set_camera stream_on_camera_def)
  next
    case False
    then have "l1 = l"
      unfolding l1 deliver_result by (rule stream_on_dropped [OF on h user _ p0])
    then show ?thesis
      using known user server False by simp
  qed
  then have "server_of l2 d = Some (ip, app)" and b2: "\<not> usr_Blocked (gl_UserParams l2)"
    using between by (simp_all add: deliver_all_server deliver_all_blocked)
  then obtain p where p: "getCameraLogicParams l2 d = Inr p" "cl_MediaserverIp p = ip" "cl_ApplicationName p = app"
    by (auto simp: server_of_def camera_of_Some)
  have "server_of (logic_after (deliver E l2 m2) w'') d = Some ([], [])"
    unfolding deliver_result stream_off_value(1) [OF off h b2 p(1)]
    by (simp add: server_of_set_camera [OF p(1)] stream_off_camera_def)
  then show ?thesis
    using p by (simp add: deliver_effects stream_off_value(2) [OF off h b2 p(1)] camera_of_Some stream_off_message_def)
qed

theorem stream_off_reaches_same_server_witness:
  "\<exists>p l2. camera_of l2 ''cam1'' = Some p
    \<and> started (effects (deliver sample_env l2 (camera_message ''deviceState'' ''streamingOff'')) (sample_world zero_IotMessage)) =
      (UpdateCameraStateTask, camera_message ''deviceState'' ''streamingOff'') #
      (if records p then [(RecordMediaStreamTask, (camera_message ''deviceState'' ''streamingOff'')\<lparr>Recording := ''off'',
         MediaserverIp := ''10.0.0.5'', ApplicationName := ''live''\<rparr>)] else [])"
proof -
  let ?w = "sample_world zero_IotMessage"
  let ?on = "camera_message ''deviceState'' ''streamingOn''" and ?off = "camera_message ''deviceState'' ''streamingOff''"
  let ?l1 = "logic_after (deliver sample_env sample_logic ?on) ?w"
  let ?l2 = "value_of (deliver_all sample_env ?l1 [motion_event]) ?w"
  have "stream_message ''cam1'' ?on" "stream_message ''cam1'' ?off" "\<not> stream_message ''cam1'' motion_event"
    by (simp_all add: stream_message_def)
  moreover have "server_of sample_logic ''cam1'' = Some ([], [])"
    by (simp add: server_of_def camera_of_Inr)
  ultimately obtain p where "camera_of ?l2 ''cam1'' = Some p"
      "started (effects (deliver sample_env ?l2 ?off) ?w) =
      (UpdateCameraStateTask, ?off) #
      (if records p then [(RecordMediaStreamTask, ?off\<lparr>Recording := ''off'',
         MediaserverIp := MediaserverIp ?on, ApplicationName := ApplicationName ?on\<rparr>)] else [])"
    using stream_off_reaches_same_server [of "''cam1''" ?on ?off sample_logic "([], [])" "MediaserverIp ?on" "ApplicationName ?on"
        ?l1 sample_env ?w "[motion_event]" ?l2 ?w ?w]
    by (auto simp del: deliver_all.simps)
  then show ?thesis
    by (intro exI [of _ p] exI [of _ ?l2]) (simp del: deliver_all.simps)
qed

text \<open>C4: a \<open>setRecording\<close> command for a known camera of an owner who is not blocked replaces the tariff, money and status of
  the user, and starts exactly the recorder task that the reference rule \<open>recording_order\<close> asks for:
  at most one, carrying the camera's media server and stream; every other command does nothing, and so does every
  command of a blocked owner.\<close>

theorem command_follows_rule:
  assumes "getCameraLogicParams l (DeviceId m) = Inr p" and "MessageType m = ''command''" and "heap w r = m"
  shows "if usr_Blocked (gl_UserParams l)
     then value_of (Process E l (Some r)) w = (None, l) \<and> started (effects (Process E l (Some r)) w) = []
     else if Command m = ''setRecording''
     then (let u = command_user m (gl_UserParams l) in
       value_of (Process E l (Some r)) w = (None, l\<lparr>gl_UserParams := u\<rparr>)
       \<and> started (effects (Process E l (Some r)) w) =
         (case recording_order (RecordingMode p) (ConvertRecordingMode (Attribute m)) (usr_TarifId (gl_UserParams l)) u of
            None \<Rightarrow> []
          | Some on \<Rightarrow> [(RecordMediaStreamTask, ToMessage (e_now E (hist w @ [ClockRead])) p on)]))
     else value_of (Process E l (Some r)) w = (None, l) \<and> effects (Process E l (Some r)) w = []"
proof (cases "usr_Blocked (gl_UserParams l)"; cases "Command m = ''setRecording''")
  assume active: "\<not> usr_Blocked (gl_UserParams l)" and True: "Command m = ''setRecording''"
  note eq = processCameraCommand_effects [OF assms(3,1) True refl refl, where E = E]
  have "value_of (Process E l (Some r)) w = value_of (processCameraCommand E l r) w"
    "effects (Process E l (Some r)) w = effects (processCameraCommand E l r) w"
    using assms active by (simp_all add: Process_value Process_effects)
  with True eq active show ?thesis
    by (simp add: Let_def started_sendRecording split: option.split)
next
  assume "\<not> usr_Blocked (gl_UserParams l)" and "Command m \<noteq> ''setRecording''"
  with assms show ?thesis
    by (simp add: Process_value Process_effects) (simp add: processCameraCommand_other handler_run)
qed (simp_all add: Process_blocked)

theorem command_follows_rule_witness:
  "started (effects (Process sample_env sample_logic (Some 0)) (sample_world (set_recording ''continuous'' 2))) =
     [(RecordMediaStreamTask, ToMessage 1583064000000000000 sample_camera True)]"
proof -
  let ?m = "set_recording ''continuous'' 2"
  have order: "recording_order (RecordingMode sample_camera) (ConvertRecordingMode (Attribute ?m))
      (usr_TarifId (gl_UserParams sample_logic)) (command_user ?m (gl_UserParams sample_logic)) = Some True"
    by (simp add: recording_order_def ConvertRecordingMode_def CanBeRecorded_def command_user_def UserTarifOnline_def)
      (simp add: set_recording_def)
  from command_follows_rule [of sample_logic ?m sample_camera "sample_world ?m" 0 sample_env] order
  show ?thesis
    by (simp add: Let_def del: sample_camera_sel(1)) (simp add: sample_env_def)
qed

text \<open>C27: a message from a known camera of an owner who is not blocked stores its data in InfluxDB; in the motion mode a motion message
  also sets the motion flag and hands the recorder a message with the detector's state; a detected motion is pushed to
  a user who wants pushes, in any recording mode. The data of a blocked owner is dropped.\<close>

theorem camera_data_outcome:
  assumes "getCameraLogicParams l (DeviceId m) = Inr p"
    and "MessageType m = ''sensorData''" and "DeviceType m = ''camera''" and "heap w r = m"
  shows "if usr_Blocked (gl_UserParams l)
    then started (effects (Process E l (Some r)) w) = [] \<and> value_of (Process E l (Some r)) w = (None, l)
    else started (effects (Process E l (Some r)) w) =
      (if motion_message p m then [(RecordMediaStreamTask, m\<lparr>Recording := SensorData m\<rparr>)] else [])
      @ [(StoreSensorDataInfluxTask, motion_record_message p m)]
      @ (if motion_push (gl_UserParams l) m then [(SendPushNotificationTask, camera_push_message p)] else [])
    \<and> value_of (Process E l (Some r)) w =
      (None, if motion_message p m
             then set_camera (DeviceId m) (p\<lparr>MotionInProcess := (SensorData m = ''on'')\<rparr>) l else l)"
  using assms by (simp add: Process_blocked Process_value Process_effects processCameraData_effects [OF _ _ refl] motion_record_message_def)

theorem camera_data_outcome_witness:
  "started (effects (Process sample_env sample_logic (Some 0)) (sample_world motion_event)) =
     [(RecordMediaStreamTask, motion_event\<lparr>Recording := ''on''\<rparr>),
      (StoreSensorDataInfluxTask, motion_event\<lparr>Recording := ''on''\<rparr>),
      (SendPushNotificationTask, camera_push_message sample_camera)]"
  using camera_data_outcome [of sample_logic motion_event sample_camera "sample_world motion_event" 0 sample_env]
  by (simp add: motion_message_def motion_record_message_def motion_push_def)

text \<open>C26: a message from a known sensor of an owner who is not blocked is stored in MySQL under the table id of its device, in InfluxDB
  exactly when the parameters of its label ask for it, and pushed exactly when the sensor went on, notifies and the
  user wants pushes; a message of a blocked owner is dropped. The logic does not change.\<close>

theorem sensor_data_outcome:
  assumes "getSensorLogicParams l (DeviceId m) = Inr (d, inner)"
    and "GuardedParamsMap_Get inner (GetLabel m) = Some (InnerP ip)"
    and "MessageType m = ''sensorData''" and "DeviceType m = ''sensor''" and "heap w r = m"
  shows "started (effects (Process E l (Some r)) w) =
      (if usr_Blocked (gl_UserParams l) then []
       else [(StoreSensorDataMySqlTask, m\<lparr>DeviceTableId := dev_DeviceTableId d\<rparr>)]
      @ (if Influx ip then [(StoreSensorDataInfluxTask, m\<lparr>DeviceTableId := dev_DeviceTableId d\<rparr>)] else [])
      @ (if sensor_push (gl_UserParams l) ip m then [(SendPushNotificationTask, sensor_push_message d ip)] else []))
    \<and> value_of (Process E l (Some r)) w = (None, l)"
  using assms by (cases "usr_Blocked (gl_UserParams l)")
    (simp_all add: Process_blocked Process_value Process_effects processSensorData_effects [OF _ _ _ refl])

theorem sensor_data_outcome_witness:
  "started (effects (Process sample_env sample_logic (Some 0)) (sample_world smoke_event)) =
     [(StoreSensorDataMySqlTask, smoke_event\<lparr>DeviceTableId := 4\<rparr>),
      (StoreSensorDataInfluxTask, smoke_event\<lparr>DeviceTableId := 4\<rparr>),
      (SendPushNotificationTask, sensor_push_message (device_of_row sample_sensor_row) sample_inner)]"
proof -
  have "GetLabel smoke_event = ''smoke''"
    by (simp add: GetLabel_def replace_char_def)
  moreover have "dev_DeviceTableId (device_of_row sample_sensor_row) = 4" "Influx sample_inner" "Notify sample_inner"
    by (simp_all add: device_of_row_def sample_sensor_row_def sample_inner_def)
  ultimately show ?thesis
    using sensor_data_outcome [of sample_logic smoke_event "device_of_row sample_sensor_row"
        "GuardedParamsMap_Add ''smoke'' (InnerP sample_inner) NewGuardedParamsMap" sample_inner "sample_world smoke_event" 0 sample_env]
    by (simp add: sensor_push_def)
qed

text \<open>While the owner of a gateway is blocked, no message does anything but write a log line.\<close>

theorem blocked_user_inert:
  assumes "usr_Blocked (gl_UserParams l)"
  shows "value_of (Process E l (Some r)) w = (None, l)
    \<and> effects (Process E l (Some r)) w = [LogLine InfoLevel ''Gateway owner's account is blocked in cloud database'']"
  using Process_blocked [OF assms] by simp

theorem blocked_user_inert_witness:
  "value_of (Process sample_env (sample_logic\<lparr>gl_UserParams := sample_user\<lparr>usr_Blocked := True\<rparr>\<rparr>) (Some 0)) (sample_world motion_event) =
     (None, sample_logic\<lparr>gl_UserParams := sample_user\<lparr>usr_Blocked := True\<rparr>\<rparr>)"
  using blocked_user_inert [of "sample_logic\<lparr>gl_UserParams := sample_user\<lparr>usr_Blocked := True\<rparr>\<rparr>"] by simp

text \<open>After pushes were switched off for a gateway, no sequence of messages starts a push
  notification.\<close>

theorem push_switched_off:
  "(SendPushNotificationTask, q) \<notin> set (started (effects (deliver_all E (SetPush False l) ms) w))"
  by (rule deliver_all_no_push) (simp add: SetPush_def)

end
