(* ===== verification/Tasks.thy ===== *)
theory Tasks
  imports GatewayLogic "HOL-Library.List_Lexorder" "HOL-Library.Char_ord"
begin

text \<open>
  The background tasks (\<open>internal/infrastructure/tasks\<close>) and the database connection they use
  (\<open>internal/infrastructure/database\<close>). Each task is a record of what its constructor read from
  the configuration; its \<open>Run\<close> takes the message by value: the one version of it that a task
  sees when no write follows its \<open>go\<close> statement. SQL texts are kept up to white space.
\<close>

section \<open>The database connection\<close>

text \<open>\<open>Db\<close> is nil until \<open>Init\<close> has connected; using it before that is a nil dereference.\<close>

record Connection =
  dsn :: string
  Db :: bool

definition NewDatabaseConnection :: "string \<Rightarrow> string \<Rightarrow> string \<Rightarrow> string \<Rightarrow> int \<Rightarrow> Connection" where
  "NewDatabaseConnection user password host database port =
     \<lparr>dsn = user @ '':'' @ password @ ''@tcp('' @ host @ '':'' @ Itoa port @ '')/'' @ database
        @ ''?checkConnLiveness=true'', Db = False\<rparr>"

definition Connection_Init :: "env \<Rightarrow> Connection \<Rightarrow> (err option \<times> Connection) io" where
  "Connection_Init E c = do {
     err \<leftarrow> ask (SqlConnect (dsn c)) (e_error E);
     (case err of
        Some e \<Rightarrow> ret (Some (wrap e ''failed to connect to mysql''), c)
      | None \<Rightarrow> ret (None, c\<lparr>Db := True\<rparr>))
   }"

definition Connection_Close :: "env \<Rightarrow> Connection \<Rightarrow> err option outcome io" where
  "Connection_Close E c =
     (if \<not> Db c then ret Panicked
      else do {
        err \<leftarrow> ask SqlClose (e_error E);
        ret (Returned (map_option (\<lambda>e. wrap e ''failed closing mysql connection'') err))
      })"

text \<open>The pointer to the connection that a task was given: it can be used when it is not nil and open.\<close>

type_synonym conn_ptr = "Connection option"

definition usable :: "conn_ptr \<Rightarrow> bool" where
  "usable conn = (case conn of None \<Rightarrow> False | Some c \<Rightarrow> Db c)"

text \<open>\<open>t.conn.Db.ExecContext\<close>: \<open>Panicked\<close> on a nil pointer, or the error.\<close>

definition ExecContext :: "env \<Rightarrow> conn_ptr \<Rightarrow> string \<Rightarrow> sqlarg list \<Rightarrow> err option outcome io" where
  "ExecContext E conn query args =
     (if usable conn then do { err \<leftarrow> ask (SqlExec query args) (e_error E); ret (Returned err) }
      else ret Panicked)"

text \<open>The constructors of the tasks that use the database only complain about a nil connection.\<close>

definition check_conn :: "conn_ptr \<Rightarrow> unit io" where
  "check_conn conn = (if conn = None then Error ''database connection is nil'' else ret ())"

section \<open>UpdateGatewayStatusTask\<close>

definition NewUpdateGatewayStatusTask :: "conn_ptr \<Rightarrow> conn_ptr io" where
  "NewUpdateGatewayStatusTask conn = do { check_conn conn; ret conn }"

text \<open>One update and its log line.\<close>

definition status_update :: "env \<Rightarrow> conn_ptr \<Rightarrow> string \<Rightarrow> sqlarg list \<Rightarrow> string \<Rightarrow> string \<Rightarrow> unit outcome io" where
  "status_update E conn query args failure success = do {
     res \<leftarrow> ExecContext E conn query args;
     (case res of
        Panicked \<Rightarrow> ret Panicked
      | Returned (Some e) \<Rightarrow> do { Error failure; ret (Returned ()) }
      | Returned None \<Rightarrow> do { Debug success; ret (Returned ()) })
   }"

definition gateway_status_query :: string where
  "gateway_status_query = ''update v3_gateways set status = ? where gateway_id = ?''"

definition devices_status_query :: string where
  "devices_status_query = ''update v3_devices set state = ? where gateway_id = ?''"

definition cameras_status_query :: string where
  "cameras_status_query = ''update camers set onair = ? where gateway_id = ?''"

text \<open>The value of \<open>statusInt\<close>, \<open>None\<close> for a status that is refused.\<close>

definition status_int :: "string \<Rightarrow> int option" where
  "status_int s = (if s = ''off'' then Some 0 else if s = ''on'' then Some 1 else None)"

definition UpdateGatewayStatusTask_Run :: "env \<Rightarrow> conn_ptr \<Rightarrow> IotMessage \<Rightarrow> unit outcome io" where
  "UpdateGatewayStatusTask_Run E conn message =
     (if \<not> e_uuid_ok E (GatewayId message) then do {
        Error ''wrong gateway id'';
        ret (Returned ())
      }
      else case status_int (Status message) of
        None \<Rightarrow> do { Error ''wrong gateway status''; ret (Returned ()) }
      | Some statusInt \<Rightarrow> do {
          r1 \<leftarrow> status_update E conn gateway_status_query [SqlStr (Status message), SqlStr (GatewayId message)]
            ''error updating gateway status in database'' ''Gateway status updated in database'';
          (case r1 of Panicked \<Rightarrow> ret Panicked | Returned _ \<Rightarrow> do {
             r2 \<leftarrow> status_update E conn devices_status_query [SqlInt statusInt, SqlStr (GatewayId message)]
               ''error updating devices statuses in database'' ''Devices statuses updated in database'';
             (case r2 of Panicked \<Rightarrow> ret Panicked | Returned _ \<Rightarrow>
                (if statusInt = 0
                 then status_update E conn cameras_status_query [SqlInt statusInt, SqlStr (GatewayId message)]
                   ''error updating cameras off statuses in database'' ''Cameras statuses updated in database''
                 else ret (Returned ())))
           })
        })"

section \<open>StoreSensorDataMySqlTask\<close>

definition NewStoreSensorDataMySqlTask :: "conn_ptr \<Rightarrow> conn_ptr io" where
  "NewStoreSensorDataMySqlTask conn = do { check_conn conn; ret conn }"

definition sensors_query :: string where
  "sensors_query = ''update v3_sensors set value = ?, updated_at = now() where device_id = ? and sensor = ?''"

text \<open>An update whose error is only logged.\<close>

definition logged_update :: "env \<Rightarrow> conn_ptr \<Rightarrow> string \<Rightarrow> sqlarg list \<Rightarrow> string \<Rightarrow> unit outcome io" where
  "logged_update E conn query args failure = do {
     res \<leftarrow> ExecContext E conn query args;
     (case res of
        Panicked \<Rightarrow> ret Panicked
      | Returned (Some e) \<Rightarrow> do { Error failure; ret (Returned ()) }
      | Returned None \<Rightarrow> ret (Returned ()))
   }"

text \<open>Values longer than ten bytes that are numbers are rounded to two decimal places.\<close>

definition stored_value :: "string \<Rightarrow> string" where
  "stored_value data =
     (if length data > 10 then
        (case ParseFloat data of Some f \<Rightarrow> rounded_2f f | None \<Rightarrow> data)
      else data)"

definition StoreSensorDataMySqlTask_Run :: "env \<Rightarrow> conn_ptr \<Rightarrow> IotMessage \<Rightarrow> unit outcome io" where
  "StoreSensorDataMySqlTask_Run E conn message =
     (if length (GatewayId message) = 0 \<or> length (DeviceId message) = 0 then do {
        Error ''no sender defined'';
        ret (Returned ())
      }
      else if DeviceType message \<noteq> ''sensor'' then do {
        Error ''wrong device type'';
        ret (Returned ())
      }
      else logged_update E conn sensors_query
        [SqlStr (stored_value (SensorData message)), SqlU64 (DeviceTableId message), SqlStr (GetLabel message)]
        ''error updating sensors'')"

section \<open>StorePreviewTask\<close>

definition NewStorePreviewTask :: "conn_ptr \<Rightarrow> conn_ptr io" where
  "NewStorePreviewTask conn = do { check_conn conn; ret conn }"

definition preview_query :: string where
  "preview_query = ''update camers set preview = ? where stream_id = ?''"

definition StorePreviewTask_Run :: "env \<Rightarrow> conn_ptr \<Rightarrow> IotMessage \<Rightarrow> unit outcome io" where
  "StorePreviewTask_Run E conn message =
     (if length (GatewayId message) = 0 \<or> length (DeviceId message) = 0 then do {
        Error ''no sender defined'';
        ret (Returned ())
      }
      else if length (Preview message) = 0 then do {
        Error ''no preview in message'';
        ret (Returned ())
      }
      else logged_update E conn preview_query [SqlStr (Preview message), SqlStr (DeviceId message)]
        ''error updating preview'')"

section \<open>UpdateCameraStateTask\<close>

definition NewUpdateCameraStateTask :: "conn_ptr \<Rightarrow> conn_ptr io" where
  "NewUpdateCameraStateTask conn = do { check_conn conn; ret conn }"

definition camera_stream_query :: string where
  "camera_stream_query = ''update camers set onair = ?, ip = ?, server_ip = ?, application = ? where stream_id = ?''"

definition camera_onair_query :: string where
  "camera_onair_query = ''update camers set onair = ? where stream_id = ?''"

definition UpdateCameraStateTask_Run :: "env \<Rightarrow> conn_ptr \<Rightarrow> IotMessage \<Rightarrow> unit outcome io" where
  "UpdateCameraStateTask_Run E conn message =
     (if length (GatewayId message) = 0 \<or> length (DeviceId message) = 0 then do {
        Error ''no sender defined'';
        ret (Returned ())
      }
      else let onair = (if DeviceState message = ''on'' \<or> DeviceState message = ''streamingOn'' then 1 else 0) in
        (if contains_str ''streaming'' (DeviceState message)
         then logged_update E conn camera_stream_query
           [SqlInt onair, SqlStr (MediaserverIp message), SqlStr (MediaserverIp message),
            SqlStr (ApplicationName message), SqlStr (DeviceId message)] ''error updating cameras''
         else logged_update E conn camera_onair_query [SqlInt onair, SqlStr (DeviceId message)]
           ''error updating cameras''))"

section \<open>UpdateCameraStreamingStateTask\<close>

definition NewUpdateCameraStreamingStateTask :: "conn_ptr \<Rightarrow> conn_ptr io" where
  "NewUpdateCameraStreamingStateTask conn = do { check_conn conn; ret conn }"

definition UpdateCameraStreamingStateTask_Run :: "env \<Rightarrow> conn_ptr \<Rightarrow> IotMessage \<Rightarrow> unit outcome io" where
  "UpdateCameraStreamingStateTask_Run E conn message =
     (if length (GatewayId message) = 0 \<or> length (DeviceId message) = 0 then do {
        Error ''no sender defined'';
        ret (Returned ())
      }
      else let onair = (if DeviceState message = ''streamingOn'' then 1 else 0) in
        logged_update E conn camera_onair_query [SqlInt onair, SqlStr (DeviceId message)]
          ''error updating camera streaming state'')"

section \<open>StoreSensorDataInfluxTask\<close>

record StoreSensorDataInfluxTask =
  inf_connURL :: string
  inf_username :: string
  inf_password :: string

definition NewStoreSensorDataInfluxTask :: "env \<Rightarrow> StoreSensorDataInfluxTask" where
  "NewStoreSensorDataInfluxTask E =
     \<lparr>inf_connURL = ''http://'' @ e_cfg_str E ''db.sensor.host'' @ '':'' @ Itoa (e_cfg_int E ''db.sensor.port''),
      inf_username = e_cfg_str E ''db.sensor.username'',
      inf_password = e_cfg_str E ''db.sensor.password''\<rparr>"

definition influx_database :: "IotMessage \<Rightarrow> string" where
  "influx_database message = ''gateway_'' @ replace_char CHR ''-'' CHR ''_'' (GatewayId message) @ ''_''
     @ DeviceType message @ ''s''"

definition sensor_point :: "i64 \<Rightarrow> IotMessage \<Rightarrow> influx_point" where
  "sensor_point now message =
     \<lparr>influx_db = influx_database message,
      influx_name = ''device_'' @ replace_char CHR ''-'' CHR ''_'' (DeviceId message),
      influx_tags = [(''class'', GetSensorType message), (''label'', GetLabel message)]
        @ (if length (Units message) \<noteq> 0 then [(''units'', Units message)] else []),
      influx_fields = (case ParseFloat (SensorData message) of
          None \<Rightarrow> [(''value'', InfluxStr (SensorData message))]
        | Some f \<Rightarrow> [(''value_float'', InfluxFloat f)]),
      influx_time = now\<rparr>"

text \<open>The part of \<open>Run\<close> after the client was created; the deferred \<open>Close\<close> follows it.\<close>

definition write_point :: "env \<Rightarrow> IotMessage \<Rightarrow> unit io" where
  "write_point E message =
     (case e_influx_batch E ''ms'' of
        Some e \<Rightarrow> Error ''error creating batch point''
      | None \<Rightarrow> do {
          now \<leftarrow> ask ClockRead (e_now E);
          let pt = sensor_point now message;
          (case e_influx_point E pt of
             Some e \<Rightarrow> Error ''error creating new point''
           | None \<Rightarrow> do {
               Debug ''New point value'';
               err \<leftarrow> ask (InfluxWrite pt) (e_error E);
               (case err of None \<Rightarrow> ret () | Some e \<Rightarrow> Error ''error writing point to InfluxDB'')
             })
        })"

definition StoreSensorDataInfluxTask_Run ::
    "env \<Rightarrow> StoreSensorDataInfluxTask \<Rightarrow> IotMessage \<Rightarrow> unit outcome io" where
  "StoreSensorDataInfluxTask_Run E t message =
     (if length (GatewayId message) = 0 \<or> length (DeviceId message) = 0 then do {
        Error ''no sender defined'';
        ret (Returned ())
      }
      else if DeviceType message \<noteq> ''sensor'' \<and> DeviceType message \<noteq> ''camera'' then do {
        Error ''wrong device type'';
        ret (Returned ())
      }
      else do {
        err \<leftarrow> ask (InfluxClient (inf_connURL t) (inf_username t) (inf_password t)) (e_error E);
        (case err of
           Some e \<Rightarrow> do { Error ''error creating InfluxDB client''; ret (Returned ()) }
         | None \<Rightarrow> do { write_point E message; emit InfluxClose; ret (Returned ()) })
      })"

section \<open>RecordMediaStreamTask\<close>

record RecordMediaStreamTask =
  rec_username :: string
  rec_password :: string
  rec_port :: int

definition NewRecordMediaStreamTask :: "env \<Rightarrow> RecordMediaStreamTask" where
  "NewRecordMediaStreamTask E = \<lparr>rec_username = e_cfg_str E ''wowza.user'',
     rec_password = e_cfg_str E ''wowza.password'', rec_port = e_cfg_int E ''wowza.port''\<rparr>"

text \<open>\<open>json.Marshal\<close> of a map writes its keys in the order of their bytes.\<close>

definition marshal_map :: "(string \<times> json) list \<Rightarrow> string" where
  "marshal_map kvs = render (JObj (sort_key fst kvs))"

definition recorder_members :: "IotMessage \<Rightarrow> (string \<times> json) list" where
  "recorder_members message =
    [(''instanceName'', JStr ''_definst_''),
     (''fileVersionDelegateName'', JStr ''ru.veedo.v3.VeedoFileVersionDelegate''),
     (''serverName'', JStr []),
     (''recorderName'', JStr (DeviceId message)),
     (''segmentSchedule'', JStr []),
     (''outputPath'', JStr []),
     (''currentFile'', JStr []),
     (''applicationName'', JStr (ApplicationName message)),
     (''fileTemplate'', JStr []),
     (''segmentationType'', JStr ''SegmentByDuration''),
     (''fileFormat'', JStr ''MP4''),
     (''recorderState'', JStr []),
     (''option'', JStr []),
     (''currentSize'', JNum ''0''),
     (''segmentSize'', JNum ''0''),
     (''segmentDuration'', JNum ''1800000''),
     (''backBufferTime'', JNum ''0''),
     (''currentDuration'', JNum ''0''),
     (''startOnKeyFrame'', JBool True),
     (''recordData'', JBool False),
     (''moveFirstVideoFrameToZero'', JBool True),
     (''defaultRecorder'', JBool False),
     (''splitOnTcDiscontinuity'', JBool False)]"

text \<open>The request that \<open>Run\<close> builds; marshalling a map of strings, numbers and booleans cannot fail.\<close>

definition recorder_request :: "RecordMediaStreamTask \<Rightarrow> IotMessage \<Rightarrow> http_request" where
  "recorder_request t message =
     (let recOn = (Recording message = ''on'');
          uri = ''http://'' @ MediaserverIp message @ '':'' @ Itoa (rec_port t)
            @ ''/v2/servers/_defaultServer_/vhosts/_defaultVHost_/applications/'' @ ApplicationName message
            @ ''/instances/_definst_/streamrecorders/'' @ DeviceId message;
          uri = (if \<not> recOn then uri @ ''/actions/stopRecording'' else uri);
          requestBody = (if recOn then marshal_map (recorder_members message) else []);
          method = (if \<not> recOn then ''PUT'' else ''POST'')
      in \<lparr>http_method = method, http_url = uri, http_body = requestBody,
          http_auth = Some (rec_username t, rec_password t),
          http_headers = [(''Content-Type'', ''application/json; charset=utf-8''),
                          (''Accept'', ''application/json; charset=utf-8'')]\<rparr>)"

text \<open>Sending a request and reading its answer, which is only logged.\<close>

definition send_request :: "env \<Rightarrow> http_request \<Rightarrow> string \<Rightarrow> string \<Rightarrow> unit outcome io" where
  "send_request E request failure success =
     (case e_new_request E request of
        Some e \<Rightarrow> do { Error ''failed to create http request''; ret (Returned ()) }
      | None \<Rightarrow> do {
          resp \<leftarrow> ask (HttpDo request) (e_http E);
          (case resp of
             HttpFailed e \<Rightarrow> do { Error failure; ret (Returned ()) }
           | HttpReply code (Inl e) \<Rightarrow> do { Error ''failed reading response''; ret (Returned ()) }
           | HttpReply code (Inr body) \<Rightarrow> do { Debug success; ret (Returned ()) })
        })"

definition RecordMediaStreamTask_Run ::
    "env \<Rightarrow> RecordMediaStreamTask \<Rightarrow> IotMessage \<Rightarrow> unit outcome io" where
  "RecordMediaStreamTask_Run E t message =
     (if length (DeviceId message) = 0 then do {
        Error ''no sender defined'';
        ret (Returned ())
      }
      else do {
        Debug ''Sending Wowza recording command'';
        send_request E (recorder_request t message) ''error while sending Wowza recording command'' ''Wowza response''
      })"

section \<open>SendPushNotificationTask\<close>

record SendPushNotificationTask =
  psh_conn :: conn_ptr
  psh_host :: string
  psh_requestUri :: string
  psh_appId :: string
  psh_restApiKey :: string

record RequestBodyHeadings =
  hd_En :: string
  hd_Ru :: string

record RequestBodyContents =
  ct_En :: string
  ct_Ru :: string

record RequestBodyData =
  dt_DeviceType :: string
  dt_DeviceId :: u64

record RequestBody =
  rb_AppId :: string
  rb_IncludePlayerIds :: "string list"
  rb_Headings :: RequestBodyHeadings
  rb_Contents :: RequestBodyContents
  rb_Data :: RequestBodyData

definition encode_RequestBody :: "RequestBody \<Rightarrow> json" where
  "encode_RequestBody b = JObj
     [(''app_id'', JStr (rb_AppId b)),
      (''include_player_ids'', JArr (map JStr (rb_IncludePlayerIds b))),
      (''headings'', JObj [(''en'', JStr (hd_En (rb_Headings b))), (''ru'', JStr (hd_Ru (rb_Headings b)))]),
      (''contents'', JObj [(''en'', JStr (ct_En (rb_Contents b))), (''ru'', JStr (ct_Ru (rb_Contents b)))]),
      (''data'', JObj [(''deviceType'', JStr (dt_DeviceType (rb_Data b))),
        (''deviceId'', JNum (Itoa (uint (dt_DeviceId (rb_Data b)))))])]"

definition NewSendPushNotificationTask :: "env \<Rightarrow> conn_ptr \<Rightarrow> SendPushNotificationTask io" where
  "NewSendPushNotificationTask E conn = do {
     check_conn conn;
     ret \<lparr>psh_conn = conn, psh_host = e_cfg_str E ''push.host'', psh_requestUri = e_cfg_str E ''push.requestUri'',
       psh_appId = e_cfg_str E ''push.appId'', psh_restApiKey = e_cfg_str E ''push.restApiKey''\<rparr>
   }"

text \<open>The row loop: a row that cannot be scanned is logged and skipped.\<close>

fun read_players :: "string rows \<Rightarrow> string list \<Rightarrow> string list io" where
  "read_players (RowsEnd err) playerIds = ret playerIds"
| "read_players (NextRow (Inl e) rows) playerIds = do { Error ''error reading player id''; read_players rows playerIds }"
| "read_players (NextRow (Inr pid) rows) playerIds = read_players rows (playerIds @ [pid])"

definition push_body :: "SendPushNotificationTask \<Rightarrow> string \<Rightarrow> string list \<Rightarrow> IotMessage \<Rightarrow> RequestBody" where
  "push_body t content playerIds message =
     \<lparr>rb_AppId = psh_appId t, rb_IncludePlayerIds = playerIds,
      rb_Headings = \<lparr>hd_En = Title message, hd_Ru = Title message\<rparr>,
      rb_Contents = \<lparr>ct_En = content, ct_Ru = content\<rparr>,
      rb_Data = \<lparr>dt_DeviceType = DeviceType message, dt_DeviceId = DeviceTableId message\<rparr>\<rparr>"

definition push_request :: "SendPushNotificationTask \<Rightarrow> RequestBody \<Rightarrow> http_request" where
  "push_request t b = \<lparr>http_method = ''POST'', http_url = psh_host t,
     http_body = render (encode_RequestBody b), http_auth = None,
     http_headers = [(''Content-Type'', ''application/json; charset=utf-8''),
                     (''Authorization'', ''Basic '' @ psh_restApiKey t)]\<rparr>"

definition players_query :: string where
  "players_query = ''select player_id from v3_playerids where user_id = ?''"

text \<open>
  When the query fails, \<open>rows\<close> is nil: the error is logged and the loop dereferences nil. The
  list of player ids starts with eight empty strings. The deferred \<open>rows.Close\<close> runs when \<open>Run\<close> returns.
\<close>

definition SendPushNotificationTask_Run ::
    "env \<Rightarrow> SendPushNotificationTask \<Rightarrow> IotMessage \<Rightarrow> unit outcome io" where
  "SendPushNotificationTask_Run E t message =
     (if DeviceTableId message = 0 then do {
        Error ''no sender defined'';
        ret (Returned ())
      }
      else if DeviceType message \<noteq> ''camera'' \<and> DeviceType message \<noteq> ''sensor'' then do {
        Error ''wrong device type'';
        ret (Returned ())
      }
      else if \<not> usable (psh_conn t) then ret Panicked
      else do {
        res \<leftarrow> ask (SqlQuery players_query [SqlU64 (UserId message)]) (e_players E);
        (case res of
           Inl e \<Rightarrow> do { Error ''error selecting player ids''; ret Panicked }
         | Inr rows \<Rightarrow> do {
             playerIds \<leftarrow> read_players rows (replicate 8 []);
             (if length playerIds = 0 then do {
                Debug ''Skip sending message. No player Ids for user'';
                emit RowsClose;
                ret (Returned ())
              }
              else do {
                hms \<leftarrow> ask ClockRead (e_hms E);
                let content = hms @ ''   '' @ Content message;
                sent \<leftarrow> send_request E (push_request t (push_body t content playerIds message))
                  ''error while sending Push notification'' ''Received response status code'';
                emit RowsClose;
                ret sent
              })
           })
      })"

section \<open>SendGatewayMessageTask\<close>

definition NewSendGatewayMessageTask :: "writer option \<Rightarrow> writer option" where
  "NewSendGatewayMessageTask gatewayChannel = gatewayChannel"

definition SendGatewayMessageTask_Run :: "writer option \<Rightarrow> IotMessage option \<Rightarrow> unit outcome io" where
  "SendGatewayMessageTask_Run gatewayChannel message =
     (case message of
        None \<Rightarrow> do { Error ''nothing to send''; ret (Returned ()) }
      | Some m \<Rightarrow>
          (if length (GatewayId m) = 0 then do { Error ''no gateway defined''; ret (Returned ()) }
           else case gatewayChannel of
             None \<Rightarrow> do { Error ''no gateway channel to send a message''; ret (Returned ()) }
           | Some write \<Rightarrow> do {
               let buffer = json_Marshal m;
               (n, err) \<leftarrow> write buffer;
               (if err \<noteq> None \<or> n \<noteq> length buffer then do {
                  Error ''error sending message to broker'';
                  ret (Returned ())
                }
                else ret (Returned ()))
             }))"

end
