(* ===== verification/TaskProps.thy ===== *)
theory TaskProps
  imports LogicClaims Tasks
begin

text \<open>
  The contract of a task (locale \<open>task\<close>): it only talks to the outside (no message on the heap
  changes and no goroutine starts), and a message it does not accept costs one error line and nothing else. Every task of
  the server satisfies it; then, for each of them, exactly what an accepted message does.
\<close>

section \<open>Computations that only talk\<close>

fun is_go :: "event \<Rightarrow> bool" where
  "is_go (Go g) = True"
| "is_go _ = False"

definition talks :: "'a io \<Rightarrow> bool" where
  "talks m \<longleftrightarrow> (\<forall>w. \<exists>es. snd (run_state m w) = w\<lparr>hist := hist w @ es\<rparr> \<and> list_all (\<lambda>e. \<not> is_go e) es)"

lemma talksI: "(\<And>w. \<exists>es. snd (run_state m w) = w\<lparr>hist := hist w @ es\<rparr> \<and> list_all (\<lambda>e. \<not> is_go e) es) \<Longrightarrow> talks m"
  by (simp add: talks_def)

lemma talks_prim [simp, intro]:
  "talks (ret x)" "\<not> is_go e \<Longrightarrow> talks (emit e)" "\<not> is_go e \<Longrightarrow> talks (ask e f)" "talks (deref r)"
  "talks (Debug s)" "talks (Info s)" "talks (Warn s)" "talks (Error s)"
  by (auto simp: talks_def intro: exI [of _ "[]"])

lemma talks_bind [intro]:
  assumes "talks m" and "\<And>x. talks (f x)"
  shows "talks (State_Monad.bind m f)"
proof (rule talksI)
  fix w
  obtain x w' where m: "run_state m w = (x, w')"
    by (cases "run_state m w")
  then obtain es where es: "w' = w\<lparr>hist := hist w @ es\<rparr>" "list_all (\<lambda>e. \<not> is_go e) es"
    using assms(1) unfolding talks_def by (metis snd_conv)
  obtain es' where es': "snd (run_state (f x) w') = w'\<lparr>hist := hist w' @ es'\<rparr>" "list_all (\<lambda>e. \<not> is_go e) es'"
    using assms(2) unfolding talks_def by blast
  show "\<exists>es. snd (run_state (State_Monad.bind m f) w) = w\<lparr>hist := hist w @ es\<rparr> \<and> list_all (\<lambda>e. \<not> is_go e) es"
    using m es es' by (intro exI [of _ "es @ es'"]) simp
qed

lemma talks_if [intro]: "(b \<Longrightarrow> talks m) \<Longrightarrow> (\<not> b \<Longrightarrow> talks n) \<Longrightarrow> talks (if b then m else n)"
  by simp

lemma talks_let [intro]: "(\<And>x. talks (f x)) \<Longrightarrow> talks (let x = a in f x)"
  by simp

lemma talks_option [intro]:
  "talks m \<Longrightarrow> (\<And>x. talks (f x)) \<Longrightarrow> talks (case v of None \<Rightarrow> m | Some x \<Rightarrow> f x)"
  by (cases v) simp_all

lemma talks_result [intro]:
  "(\<And>e. talks (f e)) \<Longrightarrow> (\<And>x. talks (g x)) \<Longrightarrow> talks (case v of Inl e \<Rightarrow> f e | Inr x \<Rightarrow> g x)"
  by (cases v) simp_all

lemma talks_outcome [intro]:
  "(\<And>x. talks (f x)) \<Longrightarrow> talks m \<Longrightarrow> talks (case v of Returned x \<Rightarrow> f x | Panicked \<Rightarrow> m)"
  by (cases v) simp_all

lemma talks_reply [intro]:
  "(\<And>e. talks (f e)) \<Longrightarrow> (\<And>c b. talks (g c b)) \<Longrightarrow> talks (case v of HttpFailed e \<Rightarrow> f e | HttpReply c b \<Rightarrow> g c b)"
  by (cases v) simp_all

lemma talks_prod [intro]: "(\<And>a b. talks (f a b)) \<Longrightarrow> talks (case v of (a, b) \<Rightarrow> f a b)"
  by (cases v) simp

lemmas talks_intros = talks_bind talks_if talks_let talks_option talks_result talks_outcome talks_reply talks_prod

lemma talks_appends:
  assumes "talks m"
  shows "appends m"
proof (rule appendsI)
  fix w
  obtain es where "snd (run_state m w) = w\<lparr>hist := hist w @ es\<rparr>"
    using assms unfolding talks_def by blast
  then show "\<exists>es. hist (snd (run_state m w)) = hist w @ es" by simp
qed

lemma talks_effects:
  assumes "talks m"
  shows "world_after m w = w\<lparr>hist := hist w @ effects m w\<rparr>" and "list_all (\<lambda>e. \<not> is_go e) (effects m w)"
proof -
  obtain es where es: "snd (run_state m w) = w\<lparr>hist := hist w @ es\<rparr>" "list_all (\<lambda>e. \<not> is_go e) es"
    using assms unfolding talks_def by blast
  then have "effects m w = es"
    by (simp add: effects_run)
  with es show "world_after m w = w\<lparr>hist := hist w @ effects m w\<rparr>" "list_all (\<lambda>e. \<not> is_go e) (effects m w)"
    by (simp_all add: world_after_def)
qed

lemmas talks_world = talks_effects(1)

lemma no_go_views: "list_all (\<lambda>e. \<not> is_go e) es \<Longrightarrow> task_views es = [] \<and> started es = []"
  by (induction es rule: task_views.induct) (auto simp: started_def split: event.splits)

section \<open>The contract\<close>

fun run_each :: "(IotMessage \<Rightarrow> unit outcome io) \<Rightarrow> IotMessage list \<Rightarrow> unit outcome io" where
  "run_each run [] = ret (Returned ())"
| "run_each run (m # ms) = do { r \<leftarrow> run m; (case r of Panicked \<Rightarrow> ret Panicked | Returned _ \<Rightarrow> run_each run ms) }"

locale task =
  fixes run :: "IotMessage \<Rightarrow> unit outcome io"
    and accepts :: "IotMessage \<Rightarrow> bool"
  assumes run_talks: "talks (run m)"
    and rejects: "\<not> accepts m \<Longrightarrow>
      \<exists>e. run_state (run m) w = (Returned (), w\<lparr>hist := hist w @ [LogLine ErrorLevel e]\<rparr>)"
begin

lemma rejected_returns: "\<not> accepts m \<Longrightarrow> value_of (run m) w = Returned ()"
  using rejects [of m w] by (auto simp: value_of_def)

lemma rejected_silent: "\<not> accepts m \<Longrightarrow> externals (effects (run m) w) = []"
  using rejects [of m w] by (auto simp: effects_run externals_def)

lemma external_accepted: "externals (effects (run m) w) \<noteq> [] \<Longrightarrow> accepts m"
  using rejected_silent by blast

lemma panic_accepted: "value_of (run m) w = Panicked \<Longrightarrow> accepts m"
  using rejected_returns by fastforce

lemma heap_kept: "heap (world_after (run m) w) = heap w"
  by (simp add: talks_world [OF run_talks])

lemma run_each_talks: "talks (run_each run ms)"
  by (induction ms) (auto intro!: talks_bind run_talks)

lemma all_rejected_silent:
  "list_all (\<lambda>m. \<not> accepts m) ms \<Longrightarrow>
   value_of (run_each run ms) w = Returned () \<and> externals (effects (run_each run ms) w) = []"
proof (induction ms arbitrary: w)
  case (Cons m ms)
  then obtain e where "run_state (run m) w = (Returned (), w\<lparr>hist := hist w @ [LogLine ErrorLevel e]\<rparr>)"
    using rejects [of m w] by auto
  moreover define v where "v = w\<lparr>hist := hist w @ [LogLine ErrorLevel e]\<rparr>"
  moreover have "world_after (run_each run ms) v = v\<lparr>hist := hist v @ effects (run_each run ms) v\<rparr>"
    by (rule talks_world [OF run_each_talks])
  moreover have "value_of (run_each run ms) v = Returned () \<and> externals (effects (run_each run ms) v) = []"
    using Cons by simp
  ultimately show ?case
    by (simp add: value_of_def effects_run [of "m' \<bind> f" for m' f] world_after_def externals_def)
qed (simp_all add: value_of_def effects_run externals_def)

end

section \<open>Every task keeps the contract\<close>

definition named_sender :: "IotMessage \<Rightarrow> bool" where
  "named_sender m \<longleftrightarrow> GatewayId m \<noteq> [] \<and> DeviceId m \<noteq> []"

definition status_accepts :: "env \<Rightarrow> IotMessage \<Rightarrow> bool" where
  "status_accepts E m \<longleftrightarrow> e_uuid_ok E (GatewayId m) \<and> status_int (Status m) \<noteq> None"

definition mysql_accepts :: "IotMessage \<Rightarrow> bool" where
  "mysql_accepts m \<longleftrightarrow> named_sender m \<and> DeviceType m = ''sensor''"

definition preview_accepts :: "IotMessage \<Rightarrow> bool" where
  "preview_accepts m \<longleftrightarrow> named_sender m \<and> Preview m \<noteq> []"

definition influx_accepts :: "IotMessage \<Rightarrow> bool" where
  "influx_accepts m \<longleftrightarrow> named_sender m \<and> DeviceType m \<in> {''sensor'', ''camera''}"

definition push_accepts :: "IotMessage \<Rightarrow> bool" where
  "push_accepts m \<longleftrightarrow> DeviceTableId m \<noteq> 0 \<and> DeviceType m \<in> {''camera'', ''sensor''}"

lemma talks_ExecContext [intro]: "talks (ExecContext E conn q a)"
  unfolding ExecContext_def by auto

lemma talks_updates [intro]:
  "talks (status_update E conn q a f s)" "talks (logged_update E conn q a f)"
  unfolding status_update_def logged_update_def by (auto intro!: talks_intros)

lemma talks_send_request [intro]: "talks (send_request E req f s)"
  unfolding send_request_def by (auto intro!: talks_intros)

lemma talks_read_players [intro]: "talks (read_players rows ids)"
  by (induction rows ids rule: read_players.induct) auto

lemma talks_write_point [intro]: "talks (write_point E m)"
  unfolding write_point_def by (auto intro!: talks_intros)

lemma talks_Run:
  "talks (UpdateGatewayStatusTask_Run E conn m)" "talks (StoreSensorDataMySqlTask_Run E conn m)"
  "talks (StorePreviewTask_Run E conn m)" "talks (UpdateCameraStateTask_Run E conn m)"
  "talks (UpdateCameraStreamingStateTask_Run E conn m)" "talks (StoreSensorDataInfluxTask_Run E i m)"
  "talks (RecordMediaStreamTask_Run E rc m)" "talks (SendPushNotificationTask_Run E p m)"
  unfolding UpdateGatewayStatusTask_Run_def StoreSensorDataMySqlTask_Run_def StorePreviewTask_Run_def
    UpdateCameraStateTask_Run_def UpdateCameraStreamingStateTask_Run_def StoreSensorDataInfluxTask_Run_def
    RecordMediaStreamTask_Run_def SendPushNotificationTask_Run_def
  by (auto intro!: talks_intros)

interpretation status_task: task "UpdateGatewayStatusTask_Run E conn" "status_accepts E" for E conn
  by (unfold_locales, rule talks_Run) (auto simp: status_accepts_def UpdateGatewayStatusTask_Run_def)

interpretation mysql_task: task "StoreSensorDataMySqlTask_Run E conn" mysql_accepts for E conn
  by (unfold_locales, rule talks_Run) (auto simp: mysql_accepts_def named_sender_def StoreSensorDataMySqlTask_Run_def)

interpretation preview_task: task "StorePreviewTask_Run E conn" preview_accepts for E conn
  by (unfold_locales, rule talks_Run) (auto simp: preview_accepts_def named_sender_def StorePreviewTask_Run_def)

interpretation camera_state_task: task "UpdateCameraStateTask_Run E conn" named_sender for E conn
  by (unfold_locales, rule talks_Run) (auto simp: named_sender_def UpdateCameraStateTask_Run_def)

interpretation streaming_task: task "UpdateCameraStreamingStateTask_Run E conn" named_sender for E conn
  by (unfold_locales, rule talks_Run) (auto simp: named_sender_def UpdateCameraStreamingStateTask_Run_def)

interpretation influx_task: task "StoreSensorDataInfluxTask_Run E t" influx_accepts for E t
  by (unfold_locales, rule talks_Run) (auto simp: influx_accepts_def named_sender_def StoreSensorDataInfluxTask_Run_def)

interpretation record_task: task "RecordMediaStreamTask_Run E t" "\<lambda>m. DeviceId m \<noteq> []" for E t
  by (unfold_locales, rule talks_Run) (auto simp: RecordMediaStreamTask_Run_def)

interpretation push_task: task "SendPushNotificationTask_Run E t" push_accepts for E t
  by (unfold_locales, rule talks_Run) (auto simp: push_accepts_def SendPushNotificationTask_Run_def)

section \<open>What an accepted message does\<close>

lemma externals_simps [simp]:
  "externals [] = []"
  "externals (e # es) = (if is_external e then e # externals es else externals es)"
  "externals (xs @ ys) = externals xs @ externals ys"
  by (simp_all add: externals_def)

text \<open>One update of the database: the statement is sent once, whatever it answers.\<close>

lemma ExecContext_usable:
  "usable conn \<Longrightarrow> run_state (ExecContext E conn q a) w =
     (Returned (e_error E (hist w @ [SqlExec q a])), w\<lparr>hist := hist w @ [SqlExec q a]\<rparr>)"
  by (simp add: ExecContext_def)

lemma ExecContext_unusable: "\<not> usable conn \<Longrightarrow> run_state (ExecContext E conn q a) w = (Panicked, w)"
  by (simp add: ExecContext_def)

lemma status_update_run:
  assumes "usable conn"
  shows "\<exists>v s. run_state (status_update E conn q a f g) w = (Returned (), w\<lparr>hist := hist w @ [SqlExec q a, LogLine v s]\<rparr>)"
  by (cases "e_error E (hist w @ [SqlExec q a])")
    (auto simp: status_update_def ExecContext_usable [OF assms])

lemma logged_update_run:
  assumes "usable conn"
  shows "value_of (logged_update E conn q a f) w = Returned ()"
    and "externals (effects (logged_update E conn q a f) w) = [SqlExec q a]"
  by (cases "e_error E (hist w @ [SqlExec q a])";
      simp add: value_of_def effects_run logged_update_def ExecContext_usable [OF assms])+

definition status_statements :: "int \<Rightarrow> IotMessage \<Rightarrow> event list" where
  "status_statements i m =
     [SqlExec gateway_status_query [SqlStr (Status m), SqlStr (GatewayId m)],
      SqlExec devices_status_query [SqlInt i, SqlStr (GatewayId m)]]
     @ (if i = 0 then [SqlExec cameras_status_query [SqlInt i, SqlStr (GatewayId m)]] else [])"

lemma status_task_run:
  assumes "usable conn" and "e_uuid_ok E (GatewayId m)" and "status_int (Status m) = Some i"
  shows "value_of (UpdateGatewayStatusTask_Run E conn m) w = Returned ()
    \<and> externals (effects (UpdateGatewayStatusTask_Run E conn m) w) = status_statements i m"
proof -
  obtain v1 s1 where 1: "run_state (status_update E conn gateway_status_query [SqlStr (Status m), SqlStr (GatewayId m)]
      ''error updating gateway status in database'' ''Gateway status updated in database'') w =
      (Returned (), w\<lparr>hist := hist w @ [SqlExec gateway_status_query [SqlStr (Status m), SqlStr (GatewayId m)], LogLine v1 s1]\<rparr>)"
    using status_update_run [OF assms(1)] by blast
  define w1 where "w1 = w\<lparr>hist := hist w @ [SqlExec gateway_status_query [SqlStr (Status m), SqlStr (GatewayId m)], LogLine v1 s1]\<rparr>"
  obtain v2 s2 where 2: "run_state (status_update E conn devices_status_query [SqlInt i, SqlStr (GatewayId m)]
      ''error updating devices statuses in database'' ''Devices statuses updated in database'') w1 =
      (Returned (), w1\<lparr>hist := hist w1 @ [SqlExec devices_status_query [SqlInt i, SqlStr (GatewayId m)], LogLine v2 s2]\<rparr>)"
    using status_update_run [OF assms(1)] by blast
  define w2 where "w2 = w1\<lparr>hist := hist w1 @ [SqlExec devices_status_query [SqlInt i, SqlStr (GatewayId m)], LogLine v2 s2]\<rparr>"
  obtain v3 s3 where 3: "run_state (status_update E conn cameras_status_query [SqlInt i, SqlStr (GatewayId m)]
      ''error updating cameras off statuses in database'' ''Cameras statuses updated in database'') w2 =
      (Returned (), w2\<lparr>hist := hist w2 @ [SqlExec cameras_status_query [SqlInt i, SqlStr (GatewayId m)], LogLine v3 s3]\<rparr>)"
    using status_update_run [OF assms(1)] by blast
  show ?thesis
  proof (cases "i = 0")
    case True
    then have "run_state (UpdateGatewayStatusTask_Run E conn m) w =
        (Returned (), w2\<lparr>hist := hist w2 @ [SqlExec cameras_status_query [SqlInt i, SqlStr (GatewayId m)], LogLine v3 s3]\<rparr>)"
      using assms(2,3) 1 [folded w1_def] 2 [folded w2_def] 3
      by (simp add: UpdateGatewayStatusTask_Run_def)
    with True show ?thesis
      by (simp add: value_of_def effects_run status_statements_def w2_def w1_def)
  next
    case False
    then have "run_state (UpdateGatewayStatusTask_Run E conn m) w = (Returned (), w2)"
      using assms(2,3) 1 [folded w1_def] 2 [folded w2_def] by (simp add: UpdateGatewayStatusTask_Run_def)
    with False show ?thesis
      by (simp add: value_of_def effects_run status_statements_def w2_def w1_def)
  qed
qed

text \<open>A request is sent exactly once, or not at all when it cannot be built; the answer changes nothing.\<close>

lemma send_request_run:
  shows "value_of (send_request E req f s) w = Returned ()"
    and "externals (effects (send_request E req f s) w) = (if e_new_request E req = None then [HttpDo req] else [])"
proof -
  show "value_of (send_request E req f s) w = Returned ()"
    by (cases "e_new_request E req"; cases "e_http E (hist w @ [HttpDo req])")
      (auto simp: value_of_def send_request_def split: sum.split)
  show "externals (effects (send_request E req f s) w) = (if e_new_request E req = None then [HttpDo req] else [])"
    by (cases "e_new_request E req"; cases "e_http E (hist w @ [HttpDo req])")
      (auto simp: effects_run send_request_def split: sum.split)
qed

lemma effects_then_talks:
  "talks m \<Longrightarrow> (\<And>x. talks (f x)) \<Longrightarrow> effects (State_Monad.bind m f) w =
     effects m w @ effects (f (value_of m w)) (world_after m w)"
  by (simp add: effects_append talks_appends)

lemma value_bind: "value_of (State_Monad.bind m f) w = value_of (f (value_of m w)) (world_after m w)"
  by (simp add: value_of_def world_after_def split_beta)

lemma value_simps [simp]:
  "value_of (ret x) w = x" "value_of (emit e) w = ()" "value_of (ask e f) w = f (hist w @ [e])"
  "value_of (Debug s) w = ()" "value_of (Error s) w = ()"
  "world_after (ask e f) w = w\<lparr>hist := hist w @ [e]\<rparr>" "world_after (Debug s) w = w\<lparr>hist := hist w @ [LogLine DebugLevel s]\<rparr>"
  "effects (ret x) w = []" "effects (emit e) w = [e]" "effects (ask e f) w = [e]"
  "effects (Debug s) w = [LogLine DebugLevel s]" "effects (Error s) w = [LogLine ErrorLevel s]"
  by (simp_all add: value_of_def effects_run world_after_def)

lemma record_task_run:
  assumes "DeviceId m \<noteq> []"
  shows "externals (effects (RecordMediaStreamTask_Run E t m) w) =
      (if e_new_request E (recorder_request t m) = None then [HttpDo (recorder_request t m)] else [])"
    and "value_of (RecordMediaStreamTask_Run E t m) w = Returned ()"
  using assms by (simp_all add: RecordMediaStreamTask_Run_def effects_then_talks talks_send_request
      send_request_run value_bind)

text \<open>The player ids that could be read, in order.\<close>

fun readable :: "string rows \<Rightarrow> string list" where
  "readable (RowsEnd err) = []"
| "readable (NextRow (Inl e) rows) = readable rows"
| "readable (NextRow (Inr pid) rows) = pid # readable rows"

lemma read_players_run:
  "value_of (read_players rows ids) w = ids @ readable rows \<and> externals (effects (read_players rows ids) w) = []"
proof (induction rows ids arbitrary: w rule: read_players.induct)
  case (2 e rows ids)
  then show ?case
    by (simp add: value_bind effects_then_talks talks_read_players)
qed (simp_all add: effects_run)

text \<open>The log lines for the rows that could not be read.\<close>

fun scan_errors :: "string rows \<Rightarrow> event list" where
  "scan_errors (RowsEnd err) = []"
| "scan_errors (NextRow (Inl e) rows) = LogLine ErrorLevel ''error reading player id'' # scan_errors rows"
| "scan_errors (NextRow (Inr pid) rows) = scan_errors rows"

lemma read_players_hist: "hist (world_after (read_players rows ids) w) = hist w @ scan_errors rows"
  by (induction rows ids arbitrary: w rule: read_players.induct) (simp_all add: world_after_def)

lemma push_task_failed_query:
  assumes "push_accepts m" and "usable (psh_conn t)"
    and "e_players E (hist w @ [SqlQuery players_query [SqlU64 (UserId m)]]) = Inl e"
  shows "value_of (SendPushNotificationTask_Run E t m) w = Panicked"
  using assms by (auto simp: push_accepts_def SendPushNotificationTask_Run_def value_bind)

lemma push_task_run:
  assumes "push_accepts m" and "usable (psh_conn t)"
    and "e_players E (hist w @ [SqlQuery players_query [SqlU64 (UserId m)]]) = Inr rows"
    and "hms = e_hms E (hist w @ [SqlQuery players_query [SqlU64 (UserId m)]] @ scan_errors rows @ [ClockRead])"
  shows "value_of (SendPushNotificationTask_Run E t m) w = Returned ()
    \<and> externals (effects (SendPushNotificationTask_Run E t m) w) =
      SqlQuery players_query [SqlU64 (UserId m)] #
      (let req = push_request t (push_body t (hms @ ''   '' @ Content m) (replicate 8 [] @ readable rows) m)
       in if e_new_request E req = None then [HttpDo req] else [])"
proof -
  let ?q = "SqlQuery players_query [SqlU64 (UserId m)]"
  let ?w1 = "w\<lparr>hist := hist w @ [?q]\<rparr>"
  let ?ids = "replicate 8 [] @ readable rows"
  let ?w2 = "world_after (read_players rows (replicate 8 [])) ?w1"
  have hms: "e_hms E (hist ?w2 @ [ClockRead]) = hms"
    unfolding read_players_hist assms(4) by simp
  have run: "SendPushNotificationTask_Run E t m = do {
      res \<leftarrow> ask ?q (e_players E);
      (case res of
         Inl e \<Rightarrow> do { Error ''error selecting player ids''; ret Panicked }
       | Inr rows \<Rightarrow> do {
           playerIds \<leftarrow> read_players rows (replicate 8 []);
           (if length playerIds = 0 then do {
              Debug ''Skip sending message. No player Ids for user''; emit RowsClose; ret (Returned ()) }
            else do {
              hms \<leftarrow> ask ClockRead (e_hms E);
              let content = hms @ ''   '' @ Content m;
              sent \<leftarrow> send_request E (push_request t (push_body t content playerIds m))
                ''error while sending Push notification'' ''Received response status code'';
              emit RowsClose;
              ret sent })
         }) }"
    using assms(1,2) by (auto simp: push_accepts_def SendPushNotificationTask_Run_def)
  show ?thesis
    unfolding run
    apply (subst value_bind)
    apply (subst effects_then_talks)
      apply simp
     apply (auto intro!: talks_intros simp: Let_def)[1]
    using assms(3) read_players_run [of rows "replicate 8 []" ?w1]
    by (simp add: value_bind effects_then_talks talks_read_players talks_send_request talks_intros send_request_run Let_def hms)
qed

text \<open>The client of the time series database is closed on every path, after at most one write.\<close>

lemma effects_write_point:
  "externals (effects (write_point E m) w) =
     (let pt = sensor_point (e_now E (hist w @ [ClockRead])) m
      in if e_influx_batch E ''ms'' = None \<and> e_influx_point E pt = None then [InfluxWrite pt] else [])"
  by (auto simp: effects_run write_point_def Let_def split: option.split)

lemma influx_task_run:
  assumes "influx_accepts m" and "e_error E (hist w @ [InfluxClient (inf_connURL t) (inf_username t) (inf_password t)]) = None"
    and "pt = sensor_point (e_now E (hist w @ [InfluxClient (inf_connURL t) (inf_username t) (inf_password t), ClockRead])) m"
  shows "value_of (StoreSensorDataInfluxTask_Run E t m) w = Returned ()
    \<and> last (effects (StoreSensorDataInfluxTask_Run E t m) w) = InfluxClose
    \<and> externals (effects (StoreSensorDataInfluxTask_Run E t m) w) =
      (if e_influx_batch E ''ms'' = None \<and> e_influx_point E pt = None then [InfluxWrite pt] else [])"
proof -
  let ?c = "InfluxClient (inf_connURL t) (inf_username t) (inf_password t)"
  have run: "StoreSensorDataInfluxTask_Run E t m = do {
      err \<leftarrow> ask ?c (e_error E);
      (case err of
         Some e \<Rightarrow> do { Error ''error creating InfluxDB client''; ret (Returned ()) }
       | None \<Rightarrow> do { write_point E m; emit InfluxClose; ret (Returned ()) }) }"
    using assms(1) by (auto simp: influx_accepts_def named_sender_def StoreSensorDataInfluxTask_Run_def)
  have eff: "effects (StoreSensorDataInfluxTask_Run E t m) w =
      ?c # effects (write_point E m) (w\<lparr>hist := hist w @ [?c]\<rparr>) @ [InfluxClose]"
    unfolding run
    apply (subst effects_then_talks)
      apply simp
     apply (auto intro!: talks_intros)[1]
    using assms(2) by (simp add: effects_then_talks talks_write_point talks_intros)
  show ?thesis
    unfolding eff using assms(2,3)
    by (simp add: effects_write_point run value_bind Let_def)
qed

lemma mysql_task_run:
  assumes "usable conn" and "mysql_accepts m"
  shows "externals (effects (StoreSensorDataMySqlTask_Run E conn m) w) =
    [SqlExec sensors_query [SqlStr (stored_value (SensorData m)), SqlU64 (DeviceTableId m), SqlStr (GetLabel m)]]"
  using assms by (simp add: StoreSensorDataMySqlTask_Run_def mysql_accepts_def named_sender_def logged_update_run)

lemma camera_state_task_run:
  assumes "usable conn" and "named_sender m"
  shows "externals (effects (UpdateCameraStateTask_Run E conn m) w) =
    (let onair = (if DeviceState m \<in> {''on'', ''streamingOn''} then 1 else 0) in
     if contains_str ''streaming'' (DeviceState m)
     then [SqlExec camera_stream_query [SqlInt onair, SqlStr (MediaserverIp m), SqlStr (MediaserverIp m),
             SqlStr (ApplicationName m), SqlStr (DeviceId m)]]
     else [SqlExec camera_onair_query [SqlInt onair, SqlStr (DeviceId m)]])"
  using assms by (auto simp: UpdateCameraStateTask_Run_def named_sender_def logged_update_run Let_def)

end
