(* ===== verification/TaskClaims.thy ===== *)
theory TaskClaims
  imports TaskProps
begin

text \<open>
  What the tasks promise, alone and at the end of the business logic that starts them: which
  statements and requests reach the database, the recorder and the push service.
\<close>

section \<open>Requests of the recorder\<close>

definition recorder_url :: "RecordMediaStreamTask \<Rightarrow> string \<Rightarrow> string \<Rightarrow> string \<Rightarrow> string" where
  "recorder_url t server app stream = ''http://'' @ server @ '':'' @ Itoa (rec_port t)
     @ ''/v2/servers/_defaultServer_/vhosts/_defaultVHost_/applications/'' @ app
     @ ''/instances/_definst_/streamrecorders/'' @ stream"

lemma recorder_request_sel [simp]:
  "http_url (recorder_request t m) = recorder_url t (MediaserverIp m) (ApplicationName m) (DeviceId m)
     @ (if Recording m = ''on'' then [] else ''/actions/stopRecording'')"
  "http_method (recorder_request t m) = (if Recording m = ''on'' then ''POST'' else ''PUT'')"
  by (simp_all add: recorder_request_def recorder_url_def Let_def)

section \<open>Properties\<close>

text \<open>C30: a gateway status is stored by exactly these statements, in this order and whatever the database answers to each: the
  gateway's status, the state of its devices and, when it went off, the state of its cameras. A status other than on and off,
  or a gateway id that is no UUID, reaches the database with no statement.\<close>

theorem gateway_status_statements:
  assumes "usable conn"
  shows "value_of (UpdateGatewayStatusTask_Run E conn m) w = Returned ()
    \<and> externals (effects (UpdateGatewayStatusTask_Run E conn m) w) =
      (case status_int (Status m) of
         Some i \<Rightarrow> if e_uuid_ok E (GatewayId m) then status_statements i m else []
       | None \<Rightarrow> [])"
proof (cases "status_accepts E m")
  case True
  then show ?thesis
    using status_task_run [OF assms] by (auto simp: status_accepts_def)
next
  case False
  then show ?thesis
    using status_task.rejected_returns [OF False] status_task.rejected_silent [OF False]
    by (auto simp: status_accepts_def split: option.split)
qed

definition sample_conn :: conn_ptr where
  "sample_conn = Some \<lparr>dsn = [], Db = True\<rparr>"

lemma sample_conn_usable [simp]: "usable sample_conn"
  by (simp add: sample_conn_def usable_def)

theorem gateway_status_statements_witness:
  "externals (effects (UpdateGatewayStatusTask_Run sample_env sample_conn
     (NewStatusMessage 0 ''6ba7b810-9dad-11d1-80b4-00c04fd430c8'' ''off'')) (sample_world zero_IotMessage)) =
     status_statements 0 (NewStatusMessage 0 ''6ba7b810-9dad-11d1-80b4-00c04fd430c8'' ''off'')"
proof -
  have "e_uuid_ok sample_env ''6ba7b810-9dad-11d1-80b4-00c04fd430c8''"
    by (simp add: sample_env_def)
  then show ?thesis
    using gateway_status_statements [OF sample_conn_usable, of sample_env
        "NewStatusMessage 0 ''6ba7b810-9dad-11d1-80b4-00c04fd430c8'' ''off''" "sample_world zero_IotMessage"]
    by (simp add: status_int_def)
qed

text \<open>C28: what a known sensor reports is stored in the row of its own device and label, from the message to the SQL statement:
  a MySQL task that \<open>Process\<close> starts belongs to the data of a sensor it knows, and sends one update, with the device's table id, the label in
  its database form, and the value, rounded to two decimals when it is a number of more than ten bytes; it sends
  nothing for a message without a gateway id or a device id.\<close>

theorem sensor_value_reaches_row:
  assumes "(StoreSensorDataMySqlTask, q) \<in> set (started (effects (Process E l (Some r)) w))" and "m = heap w r" and "usable conn"
  shows "MessageType m = ''sensorData'' \<and> DeviceType m = ''sensor'' \<and>
    (\<exists>d inner. getSensorLogicParams l (DeviceId m) = Inr (d, inner)
      \<and> externals (effects (StoreSensorDataMySqlTask_Run E conn q) w') =
        (if GatewayId m = [] \<or> DeviceId m = [] then []
         else [SqlExec sensors_query [SqlStr (stored_value (SensorData m)), SqlU64 (dev_DeviceTableId d), SqlStr (GetLabel m)]]))"
proof -
  have kind: "MessageType m = ''sensorData''" "DeviceType m = ''sensor''"
    and here: "(StoreSensorDataMySqlTask, q) \<in> set (started (effects (processSensorData l r) w))"
    using Process_mysql_started [OF assms(1)] assms(2) by simp_all
  obtain d inner where d: "getSensorLogicParams l (DeviceId m) = Inr (d, inner)" "q = m\<lparr>DeviceTableId := dev_DeviceTableId d\<rparr>"
    using sensor_data_tasks [OF here] assms(2) by blast
  then have "mysql_accepts q \<longleftrightarrow> GatewayId m \<noteq> [] \<and> DeviceId m \<noteq> []"
    using kind by (simp add: mysql_accepts_def named_sender_def)
  then have "externals (effects (StoreSensorDataMySqlTask_Run E conn q) w') =
        (if GatewayId m = [] \<or> DeviceId m = [] then []
         else [SqlExec sensors_query [SqlStr (stored_value (SensorData m)), SqlU64 (dev_DeviceTableId d), SqlStr (GetLabel m)]])"
    using mysql_task_run [OF assms(3), of q E w'] mysql_task.rejected_silent [of q E conn w'] d(2) by (auto simp: GetLabel_def)
  with kind d(1) show ?thesis by blast
qed

theorem sensor_value_reaches_row_witness:
  "\<exists>d inner. getSensorLogicParams sample_logic ''dev1'' = Inr (d, inner)
    \<and> externals (effects (StoreSensorDataMySqlTask_Run sample_env sample_conn
         (smoke_event\<lparr>GatewayId := ''gw1'', DeviceTableId := 4\<rparr>)) (sample_world zero_IotMessage)) =
      [SqlExec sensors_query [SqlStr ''on'', SqlU64 (dev_DeviceTableId d), SqlStr ''smoke'']]"
proof -
  let ?m = "smoke_event\<lparr>GatewayId := ''gw1''\<rparr>"
  have label: "GetLabel ?m = ''smoke''"
    by (simp add: GetLabel_def replace_char_def)
  have "(StoreSensorDataMySqlTask, ?m\<lparr>DeviceTableId := 4\<rparr>) \<in> set (started (effects (Process sample_env sample_logic (Some 0)) (sample_world ?m)))"
    using processSensorData_effects(2) [of "sample_world ?m" 0 ?m sample_logic "device_of_row sample_sensor_row"
        "GuardedParamsMap_Add ''smoke'' (InnerP sample_inner) NewGuardedParamsMap" sample_inner "?m\<lparr>DeviceTableId := 4\<rparr>"] label
    by (simp add: Process_effects device_of_row_def sample_sensor_row_def)
  from sensor_value_reaches_row [OF this refl sample_conn_usable, of "sample_world zero_IotMessage"] label
  show ?thesis
    by (simp add: stored_value_def)
qed



text \<open>A \<open>setRecording\<close> command reaches the recorder of the camera: whenever the rule gives an
  order, the task that was started sends one request, a POST to start and a PUT to stop, to the media server,
  application and stream of that camera.\<close>

theorem command_reaches_recorder:
  assumes "getCameraLogicParams l (DeviceId m) = Inr p" and "heap w r = m" and "Command m = ''setRecording''"
    and "recording_order (RecordingMode p) (ConvertRecordingMode (Attribute m)) (usr_TarifId (gl_UserParams l))
           (command_user m (gl_UserParams l)) = Some on"
    and "dev_DeviceId p \<noteq> []" and "\<forall>req. e_new_request E req = None"
  shows "\<exists>q req. started (effects (processCameraCommand E l r) w) = [(RecordMediaStreamTask, q)]
    \<and> externals (effects (RecordMediaStreamTask_Run E t q) w') = [HttpDo req]
    \<and> http_method req = (if on then ''POST'' else ''PUT'')
    \<and> http_url req = recorder_url t (cl_MediaserverIp p) (cl_ApplicationName p) (dev_DeviceId p)
        @ (if on then [] else ''/actions/stopRecording'')"
  using assms by (simp add: processCameraCommand_effects [OF _ _ _ refl refl] started_sendRecording record_task_run)

theorem command_reaches_recorder_witness:
  "\<exists>q req. started (effects (processCameraCommand sample_env sample_logic 0) (sample_world (set_recording ''continuous'' 2))) =
      [(RecordMediaStreamTask, q)]
    \<and> externals (effects (RecordMediaStreamTask_Run sample_env (NewRecordMediaStreamTask sample_env) q) (sample_world zero_IotMessage)) = [HttpDo req]
    \<and> http_method req = ''POST''"
proof -
  let ?m = "set_recording ''continuous'' 2"
  have "recording_order (RecordingMode sample_camera) (ConvertRecordingMode (Attribute ?m))
      (usr_TarifId (gl_UserParams sample_logic)) (command_user ?m (gl_UserParams sample_logic)) = Some True"
    by (simp add: recording_order_def CanBeRecorded_def command_user_def UserTarifOnline_def)
      (simp add: set_recording_def)
  moreover have "\<forall>req. e_new_request sample_env req = None"
    by (simp add: sample_env_def)
  ultimately show ?thesis
    using command_reaches_recorder [of sample_logic ?m sample_camera "sample_world ?m" 0 True sample_env
        "NewRecordMediaStreamTask sample_env" "sample_world zero_IotMessage"]
    by simp blast
qed

text \<open>A motion that is recorded is sent to the media server and application named in the sensor's own message, not to
  those the camera's stream was announced on: the two agree only if the gateway repeats them in
  every motion message.\<close>

theorem motion_recorder_address:
  assumes "getCameraLogicParams l (DeviceId m) = Inr p" and "motion_message p m" and "heap w r = m"
    and "DeviceId m \<noteq> []" and "\<forall>req. e_new_request E req = None"
  shows "\<exists>q req. (RecordMediaStreamTask, q) \<in> set (started (effects (processCameraData l r) w))
    \<and> externals (effects (RecordMediaStreamTask_Run E t q) w') = [HttpDo req]
    \<and> http_url req = recorder_url t (MediaserverIp m) (ApplicationName m) (DeviceId m)
        @ (if SensorData m = ''on'' then [] else ''/actions/stopRecording'')"
  using assms by (intro exI [of _ "m\<lparr>Recording := SensorData m\<rparr>"] exI [of _ "recorder_request t (m\<lparr>Recording := SensorData m\<rparr>)"])
    (simp add: processCameraData_effects [OF _ _ refl] record_task_run motion_record_message_def)

theorem motion_recorder_address_witness:
  "\<exists>q req. (RecordMediaStreamTask, q) \<in> set (started (effects (processCameraData
        (set_camera ''cam1'' (stream_on_camera (camera_message ''deviceState'' ''streamingOn'') sample_camera) sample_logic) 0) (sample_world motion_event)))
    \<and> externals (effects (RecordMediaStreamTask_Run sample_env (NewRecordMediaStreamTask sample_env) q) (sample_world motion_event)) = [HttpDo req]
    \<and> http_url req = recorder_url (NewRecordMediaStreamTask sample_env) [] [] ''cam1''"
proof -
  let ?p = "stream_on_camera (camera_message ''deviceState'' ''streamingOn'') sample_camera"
  let ?l = "set_camera ''cam1'' ?p sample_logic"
  have "getCameraLogicParams ?l ''cam1'' = Inr ?p"
    by (simp add: getCamera_set_camera [OF sample_camera_known])
  moreover have "\<forall>req. e_new_request sample_env req = None"
    by (simp add: sample_env_def)
  moreover have "MediaserverIp motion_event = []" "ApplicationName motion_event = []"
    by (simp_all add: motion_event_def zero_IotMessage_def)
  ultimately show ?thesis
    using motion_recorder_address [of ?l motion_event ?p "sample_world motion_event" 0 sample_env
        "NewRecordMediaStreamTask sample_env" "sample_world motion_event"]
    by (simp add: motion_message_def stream_on_camera_def)
qed

text \<open>C39: an accepted push notification panics, which ends the server, exactly when the query for the
  user's devices fails; otherwise it sends one request to every player id that could be read, and
  eight empty ones, even for a user without devices, with the time of the clock before the text.\<close>

theorem push_notification_outcome:
  assumes "push_accepts m" and "usable (psh_conn t)" and "\<forall>req. e_new_request E req = None"
  shows "case e_players E (hist w @ [SqlQuery players_query [SqlU64 (UserId m)]]) of
      Inl e \<Rightarrow> value_of (SendPushNotificationTask_Run E t m) w = Panicked
    | Inr rows \<Rightarrow> value_of (SendPushNotificationTask_Run E t m) w = Returned ()
        \<and> (let hms = e_hms E (hist w @ [SqlQuery players_query [SqlU64 (UserId m)]] @ scan_errors rows @ [ClockRead])
           in externals (effects (SendPushNotificationTask_Run E t m) w) =
             [SqlQuery players_query [SqlU64 (UserId m)],
              HttpDo (push_request t (push_body t (hms @ ''   '' @ Content m) (replicate 8 [] @ readable rows) m))])"
proof (cases "e_players E (hist w @ [SqlQuery players_query [SqlU64 (UserId m)]])")
  case (Inl e)
  then show ?thesis
    using push_task_failed_query [OF assms(1,2) Inl] by simp
next
  case (Inr rows)
  then show ?thesis
    using push_task_run [OF assms(1,2) Inr refl] assms(3) by (simp add: Let_def)
qed

theorem push_notification_outcome_witness:
  "externals (effects (SendPushNotificationTask_Run sample_env
       \<lparr>psh_conn = sample_conn, psh_host = [], psh_requestUri = [], psh_appId = [], psh_restApiKey = []\<rparr>
       (NewPushMessage ''sensor'' ''Hall'' ''smoke'' 4 7)) (sample_world zero_IotMessage)) =
     [SqlQuery players_query [SqlU64 7],
      HttpDo (push_request \<lparr>psh_conn = sample_conn, psh_host = [], psh_requestUri = [], psh_appId = [], psh_restApiKey = []\<rparr>
        (push_body \<lparr>psh_conn = sample_conn, psh_host = [], psh_requestUri = [], psh_appId = [], psh_restApiKey = []\<rparr>
          (''12:00:00   smoke'') (replicate 8 []) (NewPushMessage ''sensor'' ''Hall'' ''smoke'' 4 7)))]"
proof -
  let ?t = "\<lparr>psh_conn = sample_conn, psh_host = [], psh_requestUri = [], psh_appId = [], psh_restApiKey = []\<rparr>"
  let ?m = "NewPushMessage ''sensor'' ''Hall'' ''smoke'' 4 7"
  have "push_accepts ?m" "usable (psh_conn ?t)" "\<forall>req. e_new_request sample_env req = None"
    by (simp_all add: push_accepts_def sample_env_def)
  moreover have "e_players sample_env es = Inr (RowsEnd None)" "e_hms sample_env es = ''12:00:00''" for es
    by (simp_all add: sample_env_def)
  ultimately show ?thesis
    using push_notification_outcome [of ?m ?t sample_env "sample_world zero_IotMessage"] by simp
qed

text \<open>A measurement that is accepted ends in at most one point, written to the database of its
  gateway and device type under the name of its device, and the client is closed last, whatever fails in between.\<close>

theorem influx_point_written:
  assumes "influx_accepts m" and "e_error E (hist w @ [InfluxClient (inf_connURL t) (inf_username t) (inf_password t)]) = None"
    and "pt = sensor_point (e_now E (hist w @ [InfluxClient (inf_connURL t) (inf_username t) (inf_password t), ClockRead])) m"
  shows "value_of (StoreSensorDataInfluxTask_Run E t m) w = Returned ()
    \<and> last (effects (StoreSensorDataInfluxTask_Run E t m) w) = InfluxClose
    \<and> externals (effects (StoreSensorDataInfluxTask_Run E t m) w) =
      (if e_influx_batch E ''ms'' = None \<and> e_influx_point E pt = None then [InfluxWrite pt] else [])"
  by (rule influx_task_run [OF assms])

theorem influx_point_written_witness:
  "externals (effects (StoreSensorDataInfluxTask_Run sample_env (NewStoreSensorDataInfluxTask sample_env)
     (smoke_event\<lparr>GatewayId := ''gw1''\<rparr>)) (sample_world zero_IotMessage)) =
   [InfluxWrite (sensor_point 1583064000000000000 (smoke_event\<lparr>GatewayId := ''gw1''\<rparr>))]"
proof -
  have "influx_accepts (smoke_event\<lparr>GatewayId := ''gw1''\<rparr>)"
    by (simp add: influx_accepts_def named_sender_def)
  moreover have "e_error sample_env es = None" "e_now sample_env es = 1583064000000000000"
    "e_influx_batch sample_env s = None" "e_influx_point sample_env pt = None" for es s pt
    by (simp_all add: sample_env_def)
  ultimately show ?thesis
    using influx_point_written [of "smoke_event\<lparr>GatewayId := ''gw1''\<rparr>" sample_env "sample_world zero_IotMessage"
        "NewStoreSensorDataInfluxTask sample_env" _, OF _ _ refl] by simp
qed

end
