(* ===== verification/ProcessSteps.thy ===== *)
theory ProcessSteps
  imports GatewaySessions
begin

text \<open>
  \<open>Process\<close> statement by statement. The channel starts one goroutine per message, all on the same
  logic object and without a lock, so that their statements interleave. Here the handlers are
  threads: a \<open>thread\<close> has ended with the error of \<open>Process\<close>, or it takes one more turn on the shared logic and the world
  and then goes on. A turn is one access to a shared field: a read or a write of a parameter, a
  method of the guarded map, a write to the message, a \<open>go\<close> statement.
\<close>

section \<open>Threads\<close>

datatype thread =
    Ended "err option"
  | Turn "GatewayLogic \<times> world \<Rightarrow> thread \<times> (GatewayLogic \<times> world)"

fun thread_turn :: "thread \<Rightarrow> GatewayLogic \<times> world \<Rightarrow> thread \<times> (GatewayLogic \<times> world)" where
  "thread_turn (Ended e) s = (Ended e, s)"
| "thread_turn (Turn f) s = f s"

text \<open>A thread that runs to its end with no other thread in between.\<close>

primrec run_thread :: "thread \<Rightarrow> GatewayLogic \<times> world \<Rightarrow> err option \<times> (GatewayLogic \<times> world)" where
  "run_thread (Ended e) = (\<lambda>s. (e, s))"
| "run_thread (Turn f) = (\<lambda>s. case (map_prod run_thread id \<circ> f) s of (rest, s') \<Rightarrow> rest s')"

definition doing :: "'a io \<Rightarrow> ('a \<Rightarrow> thread) \<Rightarrow> thread" where
  "doing m k = Turn (\<lambda>(l, w). case run_state m w of (x, w') \<Rightarrow> (k x, (l, w')))"

definition reading :: "(GatewayLogic \<Rightarrow> 'a) \<Rightarrow> ('a \<Rightarrow> thread) \<Rightarrow> thread" where
  "reading f k = Turn (\<lambda>(l, w). (k (f l), (l, w)))"

definition writing :: "(GatewayLogic \<Rightarrow> GatewayLogic) \<Rightarrow> thread \<Rightarrow> thread" where
  "writing f t = Turn (\<lambda>(l, w). (t, (f l, w)))"

lemma thread_turn_simps [simp]:
  "thread_turn (doing m k) (l, w) = (k (fst (run_state m w)), (l, snd (run_state m w)))"
  "thread_turn (reading f k') (l, w) = (k' (f l), (l, w))"
  "thread_turn (writing g t) (l, w) = (t, (g l, w))"
  by (simp_all add: doing_def reading_def writing_def split: prod.split)

lemma run_thread_simps [simp]:
  "run_thread (doing m k) (l, w) = run_thread (k (fst (run_state m w))) (l, snd (run_state m w))"
  "run_thread (reading f k') (l, w) = run_thread (k' (f l)) (l, w)"
  "run_thread (writing g t) (l, w) = run_thread t (g l, w)"
  by (simp_all add: doing_def reading_def writing_def split: prod.split)

declare run_thread.simps(2) [simp del]

section \<open>The handlers\<close>

text \<open>
  The pointer that \<open>getCameraLogicParams\<close> returned is the key of the camera: the entry is never
  replaced or removed while messages are processed, and a read or write of a field goes through it.
\<close>

definition camera_at :: "string \<Rightarrow> GatewayLogic \<Rightarrow> CameraLogicParams" where
  "camera_at d l = (case getCameraLogicParams l d of Inr p \<Rightarrow> p | Inl _ \<Rightarrow> zero_CameraLogicParams)"

definition update_camera :: "string \<Rightarrow> (CameraLogicParams \<Rightarrow> CameraLogicParams) \<Rightarrow> GatewayLogic \<Rightarrow> GatewayLogic" where
  "update_camera d f l = (case getCameraLogicParams l d of Inr p \<Rightarrow> set_camera d (f p) l | Inl _ \<Rightarrow> l)"

definition update_user :: "(UserLogicParams \<Rightarrow> UserLogicParams) \<Rightarrow> GatewayLogic \<Rightarrow> GatewayLogic" where
  "update_user f l = l\<lparr>gl_UserParams := f (gl_UserParams l)\<rparr>"

definition find_camera :: "string \<Rightarrow> thread \<Rightarrow> thread" where
  "find_camera d t = reading (\<lambda>l. getCameraLogicParams l d) (\<lambda>found. case found of Inl e \<Rightarrow> Ended (Some e) | Inr _ \<Rightarrow> t)"

text \<open>\<open>CanBeRecorded\<close> reads the fields from left to right, and only as far as it needs.\<close>

definition can_be_recorded :: "(bool \<Rightarrow> thread) \<Rightarrow> thread" where
  "can_be_recorded k =
     (let status = reading (\<lambda>l. usr_Vip (gl_UserParams l)) (\<lambda>vip.
        if vip then k True else reading (\<lambda>l. usr_LegalEntity (gl_UserParams l)) k)
      in reading (\<lambda>l. usr_TarifId (gl_UserParams l)) (\<lambda>tarif.
        if tarif > UserTarifOnline then reading (\<lambda>l. usr_Money (gl_UserParams l)) (\<lambda>money.
          if money > 0 then k True else status)
        else status))"

definition record_by_mode :: "string \<Rightarrow> ref \<Rightarrow> thread" where
  "record_by_mode d r = reading (RecordingMode \<circ> camera_at d) (\<lambda>mode.
     case mode of
       RecordingModeContinuous \<Rightarrow> doing (go_task RecordMediaStreamTask r) (\<lambda>_. Ended None)
     | RecordingModeMotion \<Rightarrow> reading (MotionInProcess \<circ> camera_at d) (\<lambda>motion.
         if motion then doing (go_task RecordMediaStreamTask r) (\<lambda>_. Ended None) else Ended None)
     | _ \<Rightarrow> Ended None)"

definition camera_state_body :: "ref \<Rightarrow> IotMessage \<Rightarrow> thread" where
  "camera_state_body r message =
     (let d = DeviceId message in
     find_camera d (
     doing (go_task UpdateCameraStateTask r) (\<lambda>_.
       if DeviceState message = ''on'' then Ended None
       else if DeviceState message = ''off'' then Ended None
       else if DeviceState message = ''streamingOn'' then
         can_be_recorded (\<lambda>can.
           if \<not> can then Ended None
           else
             doing (modify r (Recording_update (\<lambda>_. ''on''))) (\<lambda>_.
             writing (update_camera d (cl_MediaserverIp_update (\<lambda>_. MediaserverIp message))) (
             writing (update_camera d (cl_ApplicationName_update (\<lambda>_. ApplicationName message))) (
             writing (update_camera d (MediaserverParamsSet_update (\<lambda>_. True))) (
             record_by_mode d r)))))
       else if DeviceState message = ''streamingOff'' then
         doing (modify r (Recording_update (\<lambda>_. ''off''))) (\<lambda>_.
         reading (cl_MediaserverIp \<circ> camera_at d) (\<lambda>ip.
         doing (modify r (MediaserverIp_update (\<lambda>_. ip))) (\<lambda>_.
         reading (cl_ApplicationName \<circ> camera_at d) (\<lambda>name.
         doing (modify r (ApplicationName_update (\<lambda>_. name))) (\<lambda>_.
         writing (update_camera d (cl_MediaserverIp_update (\<lambda>_. []))) (
         writing (update_camera d (cl_ApplicationName_update (\<lambda>_. []))) (
         writing (update_camera d (MediaserverParamsSet_update (\<lambda>_. False))) (
         record_by_mode d r))))))))
       else Ended (Some (''wrong deviceState: '' @ DeviceState message)))))"

definition camera_state_thread :: "ref \<Rightarrow> thread" where
  "camera_state_thread r = doing (deref r) (camera_state_body r)"

lemmas camera_state_code = camera_state_thread_def [unfolded camera_state_body_def]

text \<open>Title and ids of a device are never written, so one turn reads them all.\<close>

definition push_thread :: "(GatewayLogic \<Rightarrow> IotMessage) \<Rightarrow> thread" where
  "push_thread push = reading (\<lambda>l. usr_Push (gl_UserParams l)) (\<lambda>on.
     if on then reading push (\<lambda>q.
       doing (alloc q) (\<lambda>a.
       doing (go_task SendPushNotificationTask a) (\<lambda>_. Ended None)))
     else Ended None)"

definition camera_push :: "string \<Rightarrow> GatewayLogic \<Rightarrow> IotMessage" where
  "camera_push d l = NewPushMessage ''camera'' (dev_Title (camera_at d l)) motion_text
     (dev_DeviceTableId (camera_at d l)) (dev_UserId (camera_at d l))"

definition camera_data_thread :: "ref \<Rightarrow> thread" where
  "camera_data_thread r = doing (deref r) (\<lambda>message.
     let d = DeviceId message;
         rest = doing (go_task StoreSensorDataInfluxTask r) (\<lambda>_.
           if Label message = ''motionDetector'' \<and> SensorData message = ''on'' then push_thread (camera_push d)
           else Ended None)
     in find_camera d (
        if Label message = ''motionDetector'' then
          reading (RecordingMode \<circ> camera_at d) (\<lambda>mode.
            if mode = RecordingModeMotion then
              writing (update_camera d (MotionInProcess_update (\<lambda>_. SensorData message = ''on''))) (
              doing (modify r (\<lambda>m. m\<lparr>Recording := SensorData m\<rparr>)) (\<lambda>_.
              doing (go_task RecordMediaStreamTask r) (\<lambda>_. rest)))
            else rest)
        else rest))"

text \<open>\<open>ToMessage\<close> has a value receiver: the struct is copied, in one turn, before its clock is read.\<close>

definition send_recording :: "env \<Rightarrow> string \<Rightarrow> bool \<Rightarrow> thread \<Rightarrow> thread" where
  "send_recording E d on t = reading (camera_at d) (\<lambda>p.
     doing (ask ClockRead (e_now E)) (\<lambda>now.
     doing (alloc (ToMessage now p on)) (\<lambda>a.
     doing (go_task RecordMediaStreamTask a) (\<lambda>_. t))))"

definition switch_recording_thread ::
    "env \<Rightarrow> string \<Rightarrow> CloudCameraRecordingMode \<Rightarrow> CloudCameraRecordingMode \<Rightarrow> u64 \<Rightarrow> u64 \<Rightarrow> thread" where
  "switch_recording_thread E d current new prevTariffId newTariffId =
     (let start = send_recording E d True; stop = send_recording E d False (Ended None);
          stop_if_online =
            (if prevTariffId > UserTarifOnline \<and> newTariffId = UserTarifOnline then stop else Ended None);
          otherwise =
            (if current = RecordingModeContinuous \<and> new = RecordingModeMotion then stop
             else if current = new then
               (if prevTariffId = UserTarifOnline then
                  can_be_recorded (\<lambda>can. if can then start stop_if_online else stop_if_online)
                else stop_if_online)
             else Ended None)
      in if current = RecordingModeMotion \<and> new = RecordingModeContinuous then
           can_be_recorded (\<lambda>can. if can then start (Ended None) else otherwise)
         else otherwise)"

definition camera_command_thread :: "env \<Rightarrow> ref \<Rightarrow> thread" where
  "camera_command_thread E r = doing (deref r) (\<lambda>message.
     let d = DeviceId message in
     find_camera d (
     if Command message = ''setRecording'' then
       reading (RecordingMode \<circ> camera_at d) (\<lambda>mode.
       reading (\<lambda>l. usr_TarifId (gl_UserParams l)) (\<lambda>prevTariffId.
       writing (update_user (usr_TarifId_update (\<lambda>_. TariffId message))) (
       writing (update_user (usr_Money_update (\<lambda>_. Money message))) (
       writing (update_user (usr_Vip_update (\<lambda>_. Vip message))) (
       writing (update_user (usr_LegalEntity_update (\<lambda>_. LegalEntity message))) (
       switch_recording_thread E d mode (ConvertRecordingMode (Attribute message)) prevTariffId (TariffId message)))))))
     else Ended None))"

definition sensor_push_of :: "DeviceLogicParams \<Rightarrow> InnerParams \<Rightarrow> IotMessage" where
  "sensor_push_of d ip = NewPushMessage ''sensor'' (dev_Title d) (Desc ip) (dev_DeviceTableId d) (dev_UserId d)"

definition sensor_inner_thread :: "ref \<Rightarrow> IotMessage \<Rightarrow> DeviceLogicParams \<Rightarrow> iface option \<Rightarrow> thread" where
  "sensor_inner_thread r message d something =
     (case something of
        None \<Rightarrow> Ended (Some (''no params for sensor: '' @ GetLabel message))
      | Some (InnerP ip) \<Rightarrow>
          (let rest =
             (if SensorData message = ''on'' \<and> Notify ip then push_thread (\<lambda>_. sensor_push_of d ip)
              else Ended None)
           in doing (modify r (DeviceTableId_update (\<lambda>_. dev_DeviceTableId d))) (\<lambda>_.
              doing (go_task StoreSensorDataMySqlTask r) (\<lambda>_.
              if Influx ip then doing (go_task StoreSensorDataInfluxTask r) (\<lambda>_. rest) else rest)))
      | Some _ \<Rightarrow> Ended (Some ''error casting interface to InnerParams''))"

definition sensor_data_thread :: "ref \<Rightarrow> thread" where
  "sensor_data_thread r = doing (deref r) (\<lambda>message.
     reading (\<lambda>l. getSensorLogicParams l (DeviceId message)) (\<lambda>found.
     case found of
       Inl e \<Rightarrow> Ended (Some e)
     | Inr (d, inner) \<Rightarrow>
         reading (\<lambda>_. GuardedParamsMap_Get inner (GetLabel message)) (sensor_inner_thread r message d)))"

definition Process_thread :: "env \<Rightarrow> ref option \<Rightarrow> thread" where
  "Process_thread E message =
     (case message of
        None \<Rightarrow> Ended (Some ''wrong input parameter'')
      | Some r \<Rightarrow>
          reading (\<lambda>l. usr_Blocked (gl_UserParams l)) (\<lambda>blocked.
          if blocked then
            doing (Info ''Gateway owner's account is blocked in cloud database'') (\<lambda>_. Ended None)
          else doing (deref r) (\<lambda>m.
            let start = (\<lambda>t. doing (go_task t r) (\<lambda>_. Ended None)) in
            if MessageType m = ''status'' then start UpdateGatewayStatusTask
            else if MessageType m = ''sensorData'' then
              (if DeviceType m = ''camera'' then camera_data_thread r
               else if DeviceType m = ''sensor'' then sensor_data_thread r
               else Ended None)
            else if MessageType m = ''preview'' then start StorePreviewTask
            else if MessageType m = ''command'' then camera_command_thread E r
            else if MessageType m = ''deviceState'' then
              (if DeviceType m = ''camera'' then camera_state_thread r else Ended None)
            else if MessageType m = ''cloudStreaming'' then
              (if DeviceType m = ''camera'' then start UpdateCameraStreamingStateTask else Ended None)
            else Ended None)))"

text \<open>\<open>SetPush\<close>, called by a REST handler.\<close>

definition SetPush_thread :: "bool \<Rightarrow> thread" where
  "SetPush_thread state = writing (update_user (usr_Push_update (\<lambda>_. state))) (Ended None)"

section \<open>Running alone\<close>

text \<open>Read by no other thread in between, a thread does what the handler does in one step.\<close>

definition as_thread :: "((err option \<times> GatewayLogic) \<times> world) \<Rightarrow> err option \<times> (GatewayLogic \<times> world)" where
  "as_thread = (\<lambda>((e, l), w). (e, (l, w)))"

lemma as_thread_simp [simp]: "as_thread ((e, l), w) = (e, (l, w))"
  by (simp add: as_thread_def)

lemma camera_at_Inr [simp]: "getCameraLogicParams l d = Inr p \<Longrightarrow> camera_at d l = p"
  by (simp add: camera_at_def)

lemma update_camera_Inr [simp]: "getCameraLogicParams l d = Inr p \<Longrightarrow> update_camera d f l = set_camera d (f p) l"
  by (simp add: update_camera_def)

lemma set_camera_twice [simp]: "set_camera d q (set_camera d p l) = set_camera d q l"
  by (cases "gl_CameraParams l") (simp_all add: set_camera_def GuardedParamsMap_Add_def)

lemma set_camera_same [simp]: "getCameraLogicParams l d = Inr p \<Longrightarrow> set_camera d p l = l"
  by (auto simp: getCamera_Inr set_camera_def GuardedParamsMap_Add_def GuardedParamsMap_Get_def fun_upd_idem)

lemma camera_set_same [simp]:
  "getCameraLogicParams l d = Inr p \<Longrightarrow> getCameraLogicParams (set_camera d q l) d = Inr q"
  by (simp add: getCamera_set_camera)

lemma run_can_be_recorded [simp]:
  "run_thread (can_be_recorded k) (l, w) = run_thread (k (CanBeRecorded (gl_UserParams l))) (l, w)"
  by (auto simp: can_be_recorded_def CanBeRecorded_def Let_def)

lemma run_find_camera [simp]:
  "run_thread (find_camera d t) (l, w) =
     (case getCameraLogicParams l d of Inl e \<Rightarrow> (Some e, (l, w)) | Inr _ \<Rightarrow> run_thread t (l, w))"
  by (simp add: find_camera_def split: sum.split)

lemma run_record_by_mode [simp]:
  "getCameraLogicParams l d = Inr p \<Longrightarrow>
   run_thread (record_by_mode d r) (l, w) = (None, (l, snd (run_state (recordByMode p r) w)))"
  by (simp add: record_by_mode_def recordByMode_def split: CloudCameraRecordingMode.split)

lemma run_camera_state:
  "run_thread (camera_state_thread r) (l, w) = as_thread (run_state (processCameraState l r) w)"
proof (cases "getCameraLogicParams l (DeviceId (heap w r))")
  case (Inr p)
  consider "DeviceState (heap w r) = ''streamingOn''" | "DeviceState (heap w r) = ''streamingOff''"
    | "DeviceState (heap w r) \<notin> {''streamingOn'', ''streamingOff''}"
    by blast
  then show ?thesis
  proof cases
    case 1
    with Inr show ?thesis
      by (cases "CanBeRecorded (gl_UserParams l)") (simp_all add: camera_state_code processCameraState_def Let_def recordByMode_records)
  next
    case 2
    with Inr show ?thesis
      by (simp add: camera_state_code processCameraState_def Let_def recordByMode_records)
  next
    case 3
    with Inr show ?thesis
      by (simp add: camera_state_code processCameraState_def Let_def)
  qed
qed (simp add: camera_state_code processCameraState_def Let_def)

lemma run_push [simp]:
  "run_thread (push_thread q) (l, w) =
     (None, (l, snd (run_state (if usr_Push (gl_UserParams l) then
        do { a \<leftarrow> alloc (q l); go_task SendPushNotificationTask a } else ret ()) w)))"
  by (simp add: push_thread_def)

lemma run_camera_data:
  "run_thread (camera_data_thread r) (l, w) = as_thread (run_state (processCameraData l r) w)"
proof (cases "getCameraLogicParams l (DeviceId (heap w r))")
  case (Inr p)
  then show ?thesis
    by (simp add: camera_data_thread_def processCameraData_def Let_def camera_push_def)
qed (simp add: camera_data_thread_def processCameraData_def Let_def)

lemma run_send_recording [simp]:
  "getCameraLogicParams l d = Inr p \<Longrightarrow>
   run_thread (send_recording E d on t) (l, w) = run_thread t (l, snd (run_state (sendRecording E p on) w))"
  by (simp add: send_recording_def sendRecording_def)

lemma getCamera_user [simp]: "getCameraLogicParams (l\<lparr>gl_UserParams := u\<rparr>) d = getCameraLogicParams l d"
  by (simp add: getCameraLogicParams_def)

lemma run_switch_recording [simp]:
  assumes "getCameraLogicParams l d = Inr p"
  shows "run_thread (switch_recording_thread E d (RecordingMode p) new prev tariff) (l, w) =
     (None, (l, snd (run_state (switchRecording E p new prev tariff (gl_UserParams l)) w)))"
  using assms
  by (cases "RecordingMode p"; cases new; cases "CanBeRecorded (gl_UserParams l)"; cases "prev = UserTarifOnline")
    (simp_all add: switch_recording_thread_def switchRecording_def Let_def)

lemma run_camera_command:
  "run_thread (camera_command_thread E r) (l, w) = as_thread (run_state (processCameraCommand E l r) w)"
proof (cases "getCameraLogicParams l (DeviceId (heap w r))")
  case (Inr p)
  then show ?thesis
    by (simp add: camera_command_thread_def processCameraCommand_def Let_def update_user_def split: prod.split)
qed (simp add: camera_command_thread_def processCameraCommand_def Let_def)

lemma run_sensor_data:
  "run_thread (sensor_data_thread r) (l, w) =
     as_thread (run_state (do { err \<leftarrow> processSensorData l r; ret (err, l) }) w)"
proof (cases "getSensorLogicParams l (DeviceId (heap w r))")
  case (Inr found)
  obtain d inner where found: "found = (d, inner)" by (cases found)
  show ?thesis
  proof (cases "GuardedParamsMap_Get inner (GetLabel (heap w r))")
    case (Some i)
    with Inr found show ?thesis
      by (cases i) (simp_all add: sensor_data_thread_def sensor_inner_thread_def processSensorData_def Let_def sensor_push_of_def)
  qed (use Inr found in \<open>simp add: sensor_data_thread_def sensor_inner_thread_def processSensorData_def Let_def\<close>)
qed (simp add: sensor_data_thread_def processSensorData_def Let_def)

lemma run_Process:
  "run_thread (Process_thread E m) (l, w) = as_thread (run_state (Process E l m) w)"
proof (cases m)
  case (Some r)
  have "run_thread (Process_thread E (Some r)) (l, w) = as_thread (run_state (Process E l (Some r)) w)"
    if "MessageType (heap w r) \<notin> {''sensorData'', ''command'', ''deviceState''}"
    using that by (simp add: Process_thread_def Process_def Let_def)
  moreover have "run_thread (Process_thread E (Some r)) (l, w) = as_thread (run_state (Process E l (Some r)) w)"
    if "MessageType (heap w r) \<in> {''sensorData'', ''command'', ''deviceState''}"
    using that by (auto simp: Process_thread_def Process_def Let_def run_camera_state run_camera_data run_camera_command
      run_sensor_data)
  ultimately show ?thesis using Some by blast
qed (simp add: Process_thread_def Process_def)

end
