(* ===== verification/ProcessPool.thy ===== *)
theory ProcessPool
  imports ProcessSteps
begin

text \<open>
  The goroutines of one gateway side by side: a pool of threads on one logic object and one world, run by a schedule that
  says whose turn it is. The locale \<open>pool_guarantee\<close> turns what every turn of every thread guarantees into what any
  schedule guarantees; it is interpreted for the types and the configuration of the parameters, and for the cameras that
  no message names. Every thread ends after a bounded number of its own turns.
\<close>

section \<open>Threads side by side\<close>

record pool =
  po_logic :: GatewayLogic
  po_world :: world
  po_threads :: "nat \<Rightarrow> thread"

definition pool_state :: "pool \<Rightarrow> GatewayLogic \<times> world" where
  "pool_state P = (po_logic P, po_world P)"

definition pool_turn :: "nat \<Rightarrow> pool \<Rightarrow> pool" where
  "pool_turn g P = (case thread_turn (po_threads P g) (po_logic P, po_world P) of
     (t, (l, w)) \<Rightarrow> \<lparr>po_logic = l, po_world = w, po_threads = (po_threads P)(g := t)\<rparr>)"

definition run_pool :: "nat list \<Rightarrow> pool \<Rightarrow> pool" where
  "run_pool gs P = fold pool_turn gs P"

lemma run_pool_simps [simp]:
  "run_pool [] P = P" "run_pool (g # gs) P = run_pool gs (pool_turn g P)"
  "run_pool (gs @ hs) P = run_pool hs (run_pool gs P)"
  by (simp_all add: run_pool_def)

lemma pool_turn_sel:
  "pool_state (pool_turn g P) = snd (thread_turn (po_threads P g) (pool_state P))"
  "po_threads (pool_turn g P) = (po_threads P)(g := fst (thread_turn (po_threads P g) (pool_state P)))"
  by (simp_all add: pool_turn_def pool_state_def split_beta)

section \<open>What every turn of a thread guarantees\<close>

text \<open>
  From a state with the invariant \<open>I\<close>, every turn keeps \<open>I\<close> and relates the states before and after it by \<open>R\<close>;
  a thread that has ended has returned an error with \<open>Q\<close>.
\<close>

inductive guarantees ::
    "(GatewayLogic \<times> world \<Rightarrow> bool) \<Rightarrow> (GatewayLogic \<times> world \<Rightarrow> GatewayLogic \<times> world \<Rightarrow> bool)
      \<Rightarrow> (err option \<Rightarrow> bool) \<Rightarrow> thread \<Rightarrow> bool"
  for I R Q where
  guarantees_Finished: "Q e \<Longrightarrow> guarantees I R Q (Ended e)"
| guarantees_Turn: "(\<And>s. I s \<Longrightarrow> I (snd (f s)) \<and> R s (snd (f s)) \<and> guarantees I R Q (fst (f s))) \<Longrightarrow> guarantees I R Q (Turn f)"

lemma guarantees_step:
  "guarantees I R Q t \<Longrightarrow> I s \<Longrightarrow> (\<And>s. R s s) \<Longrightarrow>
   I (snd (thread_turn t s)) \<and> R s (snd (thread_turn t s)) \<and> guarantees I R Q (fst (thread_turn t s))"
  by (erule guarantees.cases) (auto intro: guarantees.intros)

locale pool_guarantee =
  fixes I :: "GatewayLogic \<times> world \<Rightarrow> bool"
    and R :: "GatewayLogic \<times> world \<Rightarrow> GatewayLogic \<times> world \<Rightarrow> bool"
    and Q :: "err option \<Rightarrow> bool"
  assumes R_refl: "R s s"
    and R_trans: "R s s' \<Longrightarrow> R s' s'' \<Longrightarrow> R s s''"
begin

lemma pool_turn_keeps:
  assumes "\<forall>g. guarantees I R Q (po_threads P g)" and "I (pool_state P)"
  shows "I (pool_state (pool_turn g P)) \<and> R (pool_state P) (pool_state (pool_turn g P))
    \<and> (\<forall>h. guarantees I R Q (po_threads (pool_turn g P) h))"
  using guarantees_step [of I R Q "po_threads P g" "pool_state P"] assms R_refl by (simp add: pool_turn_sel)

lemma run_pool_keeps:
  "\<forall>g. guarantees I R Q (po_threads P g) \<Longrightarrow> I (pool_state P) \<Longrightarrow>
   I (pool_state (run_pool gs P)) \<and> R (pool_state P) (pool_state (run_pool gs P))
   \<and> (\<forall>h. guarantees I R Q (po_threads (run_pool gs P) h))"
proof (induction gs arbitrary: P)
  case (Cons g gs)
  from pool_turn_keeps [OF Cons.prems] Cons.IH [of "pool_turn g P"] show ?case
    unfolding run_pool_simps by (meson R_trans)
qed (simp add: R_refl)

end

lemma guarantees_doing:
  "(\<And>l w. I (l, w) \<Longrightarrow> I (l, snd (run_state m w)) \<and> R (l, w) (l, snd (run_state m w)) \<and> guarantees I R Q (k (fst (run_state m w)))) \<Longrightarrow>
   guarantees I R Q (doing m k)"
  unfolding doing_def by (rule guarantees_Turn) (auto simp: split_beta)

lemma guarantees_reading:
  "(\<And>s. R s s) \<Longrightarrow> (\<And>l w. I (l, w) \<Longrightarrow> guarantees I R Q (k (f l))) \<Longrightarrow> guarantees I R Q (reading f k)"
  unfolding reading_def by (rule guarantees_Turn) auto

lemma guarantees_writing:
  "(\<And>l w. I (l, w) \<Longrightarrow> I (f l, w) \<and> R (l, w) (f l, w)) \<Longrightarrow> guarantees I R Q t \<Longrightarrow> guarantees I R Q (writing f t)"
  unfolding writing_def by (rule guarantees_Turn) auto

section \<open>Every thread ends\<close>

fun ends_within :: "nat \<Rightarrow> thread \<Rightarrow> bool" where
  "ends_within n (Ended e) \<longleftrightarrow> True"
| "ends_within 0 (Turn f) \<longleftrightarrow> False"
| "ends_within (Suc n) (Turn f) \<longleftrightarrow> (\<forall>s. ends_within n (fst (f s)))"

lemma ends_within_mono: "ends_within n t \<Longrightarrow> n \<le> n' \<Longrightarrow> ends_within n' t"
proof (induction n t arbitrary: n' rule: ends_within.induct)
  case (3 n f)
  then show ?case by (cases n') auto
qed simp_all

lemma ends_within_Suc: "ends_within n t \<Longrightarrow> ends_within (Suc n) t"
  by (erule ends_within_mono) simp

lemma ends_within_simps [simp]:
  "ends_within (Suc n) (doing m k) \<longleftrightarrow> (\<forall>w. ends_within n (k (fst (run_state m w))))"
  "ends_within (Suc n) (reading f k') \<longleftrightarrow> (\<forall>l. ends_within n (k' (f l)))"
  "ends_within (Suc n) (writing g t) \<longleftrightarrow> ends_within n t"
  by (simp_all add: doing_def reading_def writing_def split_beta)

lemma ends_within_turn: "ends_within n t \<Longrightarrow> ends_within (n - 1) (fst (thread_turn t s))"
  by (cases n; cases t; cases s) auto

lemma ends_within_0: "ends_within 0 t \<Longrightarrow> \<exists>e. t = Ended e"
  by (cases t) auto

lemma run_pool_ends:
  "ends_within n (po_threads P g) \<Longrightarrow> n \<le> count_list gs g \<Longrightarrow> \<exists>e. po_threads (run_pool gs P) g = Ended e"
proof (induction gs arbitrary: P n)
  case (Cons h gs)
  have "ends_within (if h = g then n - 1 else n) (po_threads (pool_turn h P) g)"
    using Cons.prems(1) ends_within_turn [of n "po_threads P g" "pool_state P"] by (cases "g = h") (simp_all add: pool_turn_sel)
  from Cons.IH [OF this] Cons.prems(2) show ?case
    by (auto split: if_splits)
qed (simp add: ends_within_0)

lemma ends_can_be_recorded: "(\<And>b. ends_within n (k b)) \<Longrightarrow> ends_within (4 + n) (can_be_recorded k)"
  unfolding can_be_recorded_def Let_def by (auto simp: eval_nat_numeral intro: ends_within_Suc)

lemma ends_send_recording: "ends_within n t \<Longrightarrow> ends_within (4 + n) (send_recording E d on t)"
  unfolding send_recording_def by (simp add: eval_nat_numeral)

lemma ends_push: "ends_within 4 (push_thread q)"
  unfolding push_thread_def by (simp add: eval_nat_numeral)

lemma ends_record_by_mode: "ends_within 3 (record_by_mode d r)"
  unfolding record_by_mode_def by (simp add: eval_nat_numeral split: CloudCameraRecordingMode.split)

lemma ends_find_camera: "ends_within n t \<Longrightarrow> ends_within (Suc n) (find_camera d t)"
  unfolding find_camera_def by (simp split: sum.split)

lemma ends_camera_state: "ends_within 14 (camera_state_thread r)"
proof -
  have "ends_within (4 + 7) (can_be_recorded (\<lambda>can. if \<not> can then Ended None else
     doing (modify r f) (\<lambda>_. writing g1 (writing g2 (writing g3 (record_by_mode d r))))))" for f g1 g2 g3 d
    by (rule ends_can_be_recorded) (use ends_record_by_mode [of d r] in \<open>simp add: eval_nat_numeral\<close>)
  then show ?thesis
    unfolding camera_state_code Let_def
    using ends_record_by_mode [of _ r] by (simp add: eval_nat_numeral ends_find_camera)
qed

lemma ends_camera_data: "ends_within 11 (camera_data_thread r)"
  unfolding camera_data_thread_def Let_def using ends_push ends_push [THEN ends_within_mono, of 7]
  by (auto simp: eval_nat_numeral intro!: ends_find_camera intro: ends_within_Suc)

lemma ends_switch_recording: "ends_within 8 (switch_recording_thread E d cur new prev tariff)"
proof -
  have send: "ends_within 4 (send_recording E d on (Ended e))" for on e
    using ends_send_recording [of 0 "Ended e"] by simp
  have can: "ends_within (4 + 4) (can_be_recorded (\<lambda>can. if can then send_recording E d True (Ended None) else t))"
    if "ends_within 4 t" for t
    using that send by (intro ends_can_be_recorded) simp
  show ?thesis
    unfolding switch_recording_thread_def Let_def
    using send can [of "Ended None"] send [THEN ends_within_mono, of 8] can by auto
qed

lemma ends_camera_command: "ends_within 16 (camera_command_thread E r)"
  unfolding camera_command_thread_def Let_def using ends_switch_recording
  by (auto simp: eval_nat_numeral intro!: ends_find_camera)

lemma ends_sensor_data: "ends_within 10 (sensor_data_thread r)"
  unfolding sensor_data_thread_def sensor_inner_thread_def Let_def using ends_push
  by (auto simp: eval_nat_numeral intro: ends_within_Suc split: sum.split option.split iface.split)

lemma ends_Process: "ends_within 18 (Process_thread E m)"
proof (cases m)
  case (Some r)
  note parts = ends_camera_state ends_camera_data ends_camera_command ends_sensor_data
  have "ends_within 16 (camera_state_thread r)" "ends_within 16 (camera_data_thread r)"
    "ends_within 16 (camera_command_thread E r)" "ends_within 16 (sensor_data_thread r)"
    by (rule parts [THEN ends_within_mono]; simp)+
  with Some show ?thesis
    by (simp add: Process_thread_def Let_def eval_nat_numeral)
qed (simp add: Process_thread_def)

section \<open>Types and configuration\<close>

text \<open>Every value of the camera map is a camera of that key; the sensor map holds sensors with inner parameters only.\<close>

definition typed_logic :: "GatewayLogic \<Rightarrow> bool" where
  "typed_logic l \<longleftrightarrow> (\<exists>cams. gl_CameraParams l = Some cams \<and>
       (\<forall>k v. GuardedParamsMap_Get cams k = Some v \<longrightarrow> (\<exists>p. v = CameraP p \<and> dev_DeviceId p = k)))
     \<and> (\<exists>sens. gl_SensorParams l = Some sens \<and> sensors_ok sens)"

definition same_config :: "GatewayLogic \<Rightarrow> GatewayLogic \<Rightarrow> bool" where
  "same_config l l' \<longleftrightarrow> (\<forall>k. map_option camera_config (camera_of l' k) = map_option camera_config (camera_of l k))
     \<and> gl_SensorParams l' = gl_SensorParams l \<and> gl_gatewayId l' = gl_gatewayId l"

definition cast_errors :: "err set" where
  "cast_errors = {''error casting interface to CameraLogicParams'', ''error casting interface to SensorLogicParams'',
     ''error casting interface to InnerParams'', ''no camera logic params loaded'', ''no sensor logic params loaded''}"

definition no_cast_error :: "err option \<Rightarrow> bool" where
  "no_cast_error e \<longleftrightarrow> (\<forall>s. e = Some s \<longrightarrow> s \<notin> cast_errors)"

definition type_guarantee :: "thread \<Rightarrow> bool" where
  "type_guarantee = guarantees (\<lambda>(l, w). typed_logic l) (\<lambda>(l, w) (l', w'). same_config l l') no_cast_error"

interpretation types: pool_guarantee "\<lambda>(l, w). typed_logic l" "\<lambda>(l, w) (l', w'). same_config l l'" no_cast_error
  by unfold_locales (auto simp: same_config_def)

lemma same_config_refl [simp]: "same_config l l"
  by (simp add: same_config_def)

lemma no_cast_error_simps [simp]: "no_cast_error None"
  "no_cast_error (Some (''no logic params for camera '' @ d))" "no_cast_error (Some (''no logic params for sensor '' @ d))"
  "no_cast_error (Some (''no params for sensor: '' @ d))" "no_cast_error (Some (''wrong deviceState: '' @ d))"
  "no_cast_error (Some ''wrong input parameter'')"
  by (simp_all add: no_cast_error_def cast_errors_def)

lemma type_Finished: "no_cast_error e \<Longrightarrow> type_guarantee (Ended e)"
  unfolding type_guarantee_def by (rule guarantees_Finished)

lemma type_doing: "(\<And>x. type_guarantee (k x)) \<Longrightarrow> type_guarantee (doing m k)"
  unfolding type_guarantee_def by (rule guarantees_doing) auto

lemma type_reading: "(\<And>l. typed_logic l \<Longrightarrow> type_guarantee (k (f l))) \<Longrightarrow> type_guarantee (reading f k)"
  unfolding type_guarantee_def by (rule guarantees_reading) auto

lemma type_writing: "(\<And>l. typed_logic l \<Longrightarrow> typed_logic (f l) \<and> same_config l (f l)) \<Longrightarrow> type_guarantee t \<Longrightarrow> type_guarantee (writing f t)"
  unfolding type_guarantee_def by (rule guarantees_writing) auto

lemma type_update_user [simp]: "typed_logic (update_user f l) = typed_logic l" "same_config l (update_user f l)"
  by (simp_all add: update_user_def typed_logic_def same_config_def)

lemma typed_set_camera: "typed_logic l \<Longrightarrow> dev_DeviceId p = d \<Longrightarrow> typed_logic (set_camera d p l)"
  by (auto simp: typed_logic_def set_camera_def)

lemma typed_camera: "typed_logic l \<Longrightarrow> getCameraLogicParams l d = Inr p \<Longrightarrow> dev_DeviceId p = d"
  unfolding typed_logic_def getCamera_Inr by fastforce

lemma type_update_camera:
  assumes "typed_logic l" and "\<And>p. camera_config (f p) = camera_config p"
  shows "typed_logic (update_camera d f l)" and "same_config l (update_camera d f l)"
proof -
  have "dev_DeviceId (f p) = dev_DeviceId p" for p
    using assms(2) [of p] by (cases "f p"; cases p) (simp add: camera_config_def DeviceLogicParams.truncate_def)
  then show "typed_logic (update_camera d f l)"
    using assms(1) by (auto simp: update_camera_def typed_set_camera typed_camera split: sum.split)
  show "same_config l (update_camera d f l)"
  proof (cases "getCameraLogicParams l d")
    case (Inr p)
    then show ?thesis
      using assms(2) [of p] by (simp add: same_config_def camera_of_set_camera) (simp add: camera_of_def)
  qed (simp add: update_camera_def)
qed

lemma camera_config_fields [simp]:
  "camera_config (cl_MediaserverIp_update a p) = camera_config p" "camera_config (cl_ApplicationName_update b p) = camera_config p"
  "camera_config (MediaserverParamsSet_update c p) = camera_config p" "camera_config (MotionInProcess_update c p) = camera_config p"
  by (simp_all add: camera_config_def DeviceLogicParams.truncate_def)

lemma getCamera_typed: "typed_logic l \<Longrightarrow> getCameraLogicParams l d = Inl e \<Longrightarrow> no_cast_error (Some e)"
  by (auto simp: typed_logic_def getCameraLogicParams_def no_cast_error_def cast_errors_def split: option.splits iface.splits)

lemma getSensor_typed: "typed_logic l \<Longrightarrow> getSensorLogicParams l d = Inl e \<Longrightarrow> no_cast_error (Some e)"
  by (auto simp: typed_logic_def getSensorLogicParams_def sensors_ok_def no_cast_error_def cast_errors_def split: option.splits iface.splits)

lemma getSensor_inner: "typed_logic l \<Longrightarrow> getSensorLogicParams l d = Inr (dv, inner) \<Longrightarrow>
    GuardedParamsMap_Get inner k = Some i \<Longrightarrow> \<exists>ip. i = InnerP ip"
  unfolding typed_logic_def getSensor_Inr sensors_ok_def inner_ok_def by fastforce

lemma type_find_camera: "type_guarantee t \<Longrightarrow> type_guarantee (find_camera d t)"
  unfolding find_camera_def by (rule type_reading) (auto split: sum.split intro: type_Finished getCamera_typed)

lemma type_can_be_recorded: "(\<And>b. type_guarantee (k b)) \<Longrightarrow> type_guarantee (can_be_recorded k)"
  unfolding can_be_recorded_def Let_def by (auto intro!: type_reading)

lemma type_if: "(b \<Longrightarrow> type_guarantee t) \<Longrightarrow> (\<not> b \<Longrightarrow> type_guarantee u) \<Longrightarrow> type_guarantee (if b then t else u)"
  by simp

lemma type_done [simp]: "type_guarantee (Ended None)"
  by (rule type_Finished) simp

lemmas type_intros = type_find_camera type_can_be_recorded type_doing type_writing type_reading type_if

lemma type_parts:
  "type_guarantee (record_by_mode d r)" "type_guarantee (push_thread q)" "type_guarantee t \<Longrightarrow> type_guarantee (send_recording E d on t)"
  unfolding record_by_mode_def push_thread_def send_recording_def
  by (auto intro!: type_intros split: CloudCameraRecordingMode.split)

lemma type_camera_state: "type_guarantee (camera_state_thread r)"
  unfolding camera_state_code Let_def
  by (intro type_intros type_parts type_done) (simp_all add: type_update_camera type_Finished no_cast_error_def cast_errors_def)

lemma type_camera_data: "type_guarantee (camera_data_thread r)"
  unfolding camera_data_thread_def Let_def
  by (intro type_intros type_parts type_done) (simp_all add: type_update_camera)

lemma type_camera_command: "type_guarantee (camera_command_thread E r)"
  unfolding camera_command_thread_def switch_recording_thread_def Let_def
  by (intro type_intros type_parts type_done) simp_all

lemma type_sensor_inner:
  "(\<And>i. something = Some i \<Longrightarrow> \<exists>ip. i = InnerP ip) \<Longrightarrow> type_guarantee (sensor_inner_thread r m d something)"
  unfolding sensor_inner_thread_def Let_def
  by (auto intro!: type_intros type_parts type_Finished simp: no_cast_error_def cast_errors_def split: option.split)

lemma type_sensor_data: "type_guarantee (sensor_data_thread r)"
  unfolding sensor_data_thread_def
proof (rule type_doing, rule type_reading)
  fix m l
  assume typed: "typed_logic l"
  show "type_guarantee (case getSensorLogicParams l (DeviceId m) of
      Inl e \<Rightarrow> Ended (Some e)
    | Inr (d, inner) \<Rightarrow> reading (\<lambda>_. GuardedParamsMap_Get inner (GetLabel m)) (sensor_inner_thread r m d))"
  proof (cases "getSensorLogicParams l (DeviceId m)")
    case (Inr found)
    then show ?thesis
      using getSensor_inner [OF typed] by (cases found) (auto intro!: type_reading type_sensor_inner)
  qed (use getSensor_typed [OF typed] in \<open>auto intro: type_Finished\<close>)
qed

lemma type_Process: "type_guarantee (Process_thread E m)"
  by (cases m) (auto simp: Process_thread_def Let_def type_Finished
    intro!: type_intros type_camera_state type_camera_data type_camera_command type_sensor_data)

section \<open>Devices of other messages\<close>

text \<open>The goroutines whose messages are at \<open>rs\<close> all name devices other than \<open>d\<close>.\<close>

definition other_messages :: "ref set \<Rightarrow> string \<Rightarrow> world \<Rightarrow> bool" where
  "other_messages rs d w \<longleftrightarrow> (\<forall>r \<in> rs. r < next_ref w \<and> DeviceId (heap w r) \<noteq> d)"

definition spares :: "ref set \<Rightarrow> string \<Rightarrow> thread \<Rightarrow> bool" where
  "spares rs d = guarantees (\<lambda>(l, w). other_messages rs d w) (\<lambda>(l, w) (l', w'). camera_of l' d = camera_of l d) (\<lambda>_. True)"

interpretation sparing: pool_guarantee "\<lambda>(l, w). other_messages rs d w" "\<lambda>(l, w) (l', w'). camera_of l' d = camera_of l d" "\<lambda>_. True"
  for rs d
  by unfold_locales auto

lemma spares_Finished [simp]: "spares rs d (Ended e)"
  unfolding spares_def by (rule guarantees_Finished) simp

lemma spares_doing:
  assumes "\<And>w. other_messages rs d w \<Longrightarrow> other_messages rs d (snd (run_state m w)) \<and> spares rs d (k (fst (run_state m w)))"
  shows "spares rs d (doing m k)"
  using assms unfolding spares_def by (intro guarantees_doing) auto

lemma spares_reading: "(\<And>l. spares rs d (k (f l))) \<Longrightarrow> spares rs d (reading f k)"
  unfolding spares_def by (rule guarantees_reading) auto

lemma spares_writing: "(\<And>l. camera_of (f l) d = camera_of l d) \<Longrightarrow> spares rs d t \<Longrightarrow> spares rs d (writing f t)"
  unfolding spares_def by (rule guarantees_writing) auto

lemma spares_world:
  "spares rs d (k ()) \<Longrightarrow> spares rs d (doing (go_task t r) k)"
  "spares rs d (k ()) \<Longrightarrow> spares rs d (doing (Info s) k)"
  "(\<And>m. DeviceId (f m) = DeviceId m) \<Longrightarrow> spares rs d (k ()) \<Longrightarrow> spares rs d (doing (modify r f) k)"
  "(\<And>x. spares rs d (k' x)) \<Longrightarrow> spares rs d (doing (alloc m) k')"
  "(\<And>x. spares rs d (k'' x)) \<Longrightarrow> spares rs d (doing (ask e g) k'')"
  by (rule spares_doing; auto simp: other_messages_def)+

lemma spares_deref: "r \<in> rs \<Longrightarrow> (\<And>m. DeviceId m \<noteq> d \<Longrightarrow> spares rs d (k m)) \<Longrightarrow> spares rs d (doing (deref r) k)"
  by (rule spares_doing) (auto simp: other_messages_def)

lemma spares_update [simp]:
  "camera_of (update_user f l) d = camera_of l d" "e \<noteq> d \<Longrightarrow> camera_of (update_camera e g l) d = camera_of l d"
  by (auto simp: update_user_def update_camera_def camera_of_set_camera split: sum.split)

lemma spares_if: "(b \<Longrightarrow> spares rs d t) \<Longrightarrow> (\<not> b \<Longrightarrow> spares rs d u) \<Longrightarrow> spares rs d (if b then t else u)"
  by simp

lemma spares_find_camera: "spares rs d t \<Longrightarrow> spares rs d (find_camera e t)"
  unfolding find_camera_def by (rule spares_reading) (simp split: sum.split)

lemma spares_can_be_recorded: "(\<And>b. spares rs d (k b)) \<Longrightarrow> spares rs d (can_be_recorded k)"
  unfolding can_be_recorded_def Let_def by (auto intro!: spares_reading)

lemmas spares_intros = spares_find_camera spares_can_be_recorded spares_world spares_deref spares_writing spares_reading spares_if

lemma spares_parts:
  "spares rs d (record_by_mode e r)" "spares rs d (push_thread q)" "spares rs d t \<Longrightarrow> spares rs d (send_recording E e on t)"
  "spares rs d (sensor_inner_thread r m dv something)"
  unfolding record_by_mode_def push_thread_def send_recording_def sensor_inner_thread_def Let_def
  by (auto intro!: spares_intros split: CloudCameraRecordingMode.split option.split iface.split)

lemma spares_handlers:
  assumes "r \<in> rs"
  shows "spares rs d (camera_state_thread r)" and "spares rs d (camera_data_thread r)"
    and "spares rs d (camera_command_thread E r)" and "spares rs d (sensor_data_thread r)"
  unfolding camera_state_code camera_data_thread_def camera_command_thread_def switch_recording_thread_def sensor_data_thread_def Let_def
  by (intro spares_intros spares_parts assms; auto split: sum.split intro!: spares_intros spares_parts)+

lemma spares_Process: "r \<in> rs \<Longrightarrow> spares rs d (Process_thread E (Some r))"
  unfolding Process_thread_def Let_def option.case by (intro spares_intros spares_handlers spares_Finished)

lemma spares_SetPush: "spares rs d (SetPush_thread b)"
  unfolding SetPush_thread_def by (intro spares_intros) simp_all

lemma type_SetPush: "type_guarantee (SetPush_thread b)"
  unfolding SetPush_thread_def by (intro type_intros) simp_all

lemma ends_SetPush: "ends_within 1 (SetPush_thread b)"
  unfolding SetPush_thread_def by simp

section \<open>Some turns of one thread\<close>

fun advance :: "nat \<Rightarrow> thread \<Rightarrow> GatewayLogic \<times> world \<Rightarrow> thread \<times> (GatewayLogic \<times> world)" where
  "advance 0 t s = (t, s)"
| "advance (Suc n) t s = (case thread_turn t s of (t', s') \<Rightarrow> advance n t' s')"

lemma run_pool_replicate:
  "run_pool (replicate n g) P =
     (case advance n (po_threads P g) (po_logic P, po_world P) of
        (t, (l, w)) \<Rightarrow> \<lparr>po_logic = l, po_world = w, po_threads = (po_threads P)(g := t)\<rparr>)"
proof (induction n arbitrary: P)
  case (Suc n)
  show ?case
    by (simp add: Suc.IH) (simp add: pool_turn_def split_beta fun_eq_iff)
qed simp

lemma advance_add: "advance (m + n) t s = (case advance m t s of (t', s') \<Rightarrow> advance n t' s')"
  by (induction m t s rule: advance.induct) (simp_all split: prod.split)

definition pool_effects :: "nat list \<Rightarrow> pool \<Rightarrow> event list" where
  "pool_effects gs P = drop (length (hist (po_world P))) (hist (po_world (run_pool gs P)))"

lemma advance_command:
  assumes "heap w r = m" and "MessageType m = ''command''" and "Command m = ''setRecording''"
    and "getCameraLogicParams l (DeviceId m) = Inr p" and "\<not> usr_Blocked (gl_UserParams l)"
  shows "advance 7 (Process_thread E (Some r)) (l, w) =
    (writing (update_user (usr_Money_update (\<lambda>_. Money m))) (
     writing (update_user (usr_Vip_update (\<lambda>_. Vip m))) (
     writing (update_user (usr_LegalEntity_update (\<lambda>_. LegalEntity m))) (
     switch_recording_thread E (DeviceId m) (RecordingMode p) (ConvertRecordingMode (Attribute m)) (usr_TarifId (gl_UserParams l)) (TariffId m)))),
     (update_user (usr_TarifId_update (\<lambda>_. TariffId m)) l, w))"
  using assms by (simp add: eval_nat_numeral Process_thread_def camera_command_thread_def find_camera_def Let_def)

lemma advance_stream_on:
  assumes "heap w r = m" and "stream_message d m" and "DeviceState m = ''streamingOn''"
    and "getCameraLogicParams l d = Inr p" and "RecordingMode p = RecordingModeContinuous"
    and "\<not> usr_Blocked (gl_UserParams l)" and "usr_TarifId (gl_UserParams l) > UserTarifOnline" and "usr_Money (gl_UserParams l) > 0"
  shows "advance 13 (Process_thread E (Some r)) (l, w) =
    (Ended None, (set_camera d (stream_on_camera m p) l,
       w\<lparr>heap := (heap w)(r := m\<lparr>Recording := ''on''\<rparr>),
         hist := hist w @ [Go (RunTask UpdateCameraStateTask r m), MsgStored r (m\<lparr>Recording := ''on''\<rparr>),
           Go (RunTask RecordMediaStreamTask r (m\<lparr>Recording := ''on''\<rparr>))]\<rparr>))"
  using assms
  by (simp add: eval_nat_numeral Process_thread_def camera_state_code find_camera_def can_be_recorded_def record_by_mode_def Let_def
      stream_message_def stream_on_camera_def)

lemma advance_stream_on_parts:
  assumes "heap w r = m" and "stream_message d m" and "DeviceState m = ''streamingOn''"
    and "getCameraLogicParams l d = Inr p"
    and "\<not> usr_Blocked (gl_UserParams l)" and "usr_TarifId (gl_UserParams l) > UserTarifOnline" and "usr_Money (gl_UserParams l) > 0"
  shows "advance 9 (Process_thread E (Some r)) (l, w) =
    (writing (update_camera d (cl_ApplicationName_update (\<lambda>_. ApplicationName m))) (
     writing (update_camera d (MediaserverParamsSet_update (\<lambda>_. True))) (record_by_mode d r)),
     (set_camera d (p\<lparr>cl_MediaserverIp := MediaserverIp m\<rparr>) l,
       w\<lparr>heap := (heap w)(r := m\<lparr>Recording := ''on''\<rparr>),
         hist := hist w @ [Go (RunTask UpdateCameraStateTask r m), MsgStored r (m\<lparr>Recording := ''on''\<rparr>)]\<rparr>))"
  using assms
  by (simp add: eval_nat_numeral Process_thread_def camera_state_code find_camera_def can_be_recorded_def Let_def stream_message_def)

lemma advance_stream_off:
  assumes "heap w r = m" and "stream_message d m" and "DeviceState m = ''streamingOff''"
    and "getCameraLogicParams l d = Inr p" and "RecordingMode p = RecordingModeContinuous" and "\<not> usr_Blocked (gl_UserParams l)"
  shows "\<exists>w'. advance 15 (Process_thread E (Some r)) (l, w) = (Ended None, (set_camera d (stream_off_camera p) l, w'))
    \<and> started (drop (length (hist w)) (hist w')) =
        [(UpdateCameraStateTask, m), (RecordMediaStreamTask, stream_off_message p m)]
    \<and> (\<exists>es. hist w' = hist w @ es) \<and> heap w' = (heap w)(r := stream_off_message p m)"
  using assms
  by (simp add: eval_nat_numeral Process_thread_def camera_state_code find_camera_def record_by_mode_def Let_def
      stream_message_def stream_off_camera_def stream_off_message_def)

lemma advance_ends:
  "ends_within n t \<Longrightarrow> advance n t s = (Ended (fst (run_thread t s)), snd (run_thread t s))"
proof (induction n arbitrary: t s)
  case 0
  then show ?case using ends_within_0 by fastforce
next
  case (Suc n)
  show ?case
  proof (cases t)
    case (Ended e)
    then show ?thesis using Suc.IH [of "Ended e" s] by simp
  next
    case (Turn f)
    with Suc.prems have "ends_within n (fst (f s))" by (cases s) simp
    from Suc.IH [OF this, of "snd (f s)"] show ?thesis
      by (simp add: Turn run_thread.simps(2) split_beta)
  qed
qed

text \<open>The threads that the server starts on a gateway's logic: for a message at one of \<open>rs\<close>, or for a push switch.\<close>

definition server_thread :: "ref set \<Rightarrow> thread \<Rightarrow> bool" where
  "server_thread rs t \<longleftrightarrow> t = Ended None \<or> (\<exists>b. t = SetPush_thread b) \<or> (\<exists>E. \<exists>r \<in> rs. t = Process_thread E (Some r))"

lemma server_thread_guarantees:
  assumes "server_thread rs t"
  shows "type_guarantee t" and "spares rs d t" and "ends_within 18 t"
  using assms ends_within_mono [OF ends_SetPush, of 18]
  by (auto simp: server_thread_def type_Process type_SetPush spares_Process spares_SetPush ends_Process)

end
