(* ===== verification/Amqp.thy ===== *)
theory Amqp
  imports Tasks
begin

text \<open>
  The ends of a gateway's queues (\<open>amqpmetadata.go\<close>, \<open>channelqueue.go\<close>, \<open>amqpreader.go\<close>,
  \<open>amqpwriter.go\<close> of \<open>internal/infrastructure/broker\<close>). The RabbitMQ client is outside the process:
  its calls are events; the connection handle is not nil, since the manager opens it first. What a
  \<open>select\<close> of a reader received is an argument of the reading operation.
\<close>

section \<open>Envelopes\<close>

record AmqpMetadata =
  md_CorrelationID :: string
  md_ReplyTo :: string

record AmqpEnvelope =
  env_Message :: IotMessage
  env_Metadata :: AmqpMetadata

definition CreateCorrelationID :: "env \<Rightarrow> string io" where
  "CreateCorrelationID E = ask UuidNew (e_uuid E)"

section \<open>A channel with its queue\<close>

definition exchangeName :: string where
  "exchangeName = ''veedo.gateways''"

record ChannelWithQueue =
  cwq_Ch :: "chan option"
  cwq_Que :: string

definition NewChannelWithQueue :: "env \<Rightarrow> string option \<Rightarrow> ChannelWithQueue result io" where
  "NewChannelWithQueue E queueName = do {
     opened \<leftarrow> ask (Amqp OpenChannel) (e_channel E);
     (case opened of
        Inl e \<Rightarrow> ret (Inl (wrap e ''failed to open a channel''))
      | Inr ch \<Rightarrow> do {
          err \<leftarrow> ask (Amqp (ExchangeDeclare ch exchangeName ''topic'')) (e_error E);
          (case err of
             Some e \<Rightarrow> ret (Inl (wrap e ''failed to declare an exchange''))
           | None \<Rightarrow>
               (case queueName of
                  None \<Rightarrow> ret (Inr \<lparr>cwq_Ch = Some ch, cwq_Que = []\<rparr>)
                | Some name \<Rightarrow> do {
                    declared \<leftarrow> ask (Amqp (QueueDeclare ch name True)) (e_queue E);
                    (case declared of
                       Inl e \<Rightarrow> ret (Inl (wrap e ''failed to declare a queue''))
                     | Inr que \<Rightarrow> do {
                         let routingKey = ''gateway.'' @ name;
                         Debug ''Binding queue to exchange with routing key'';
                         err \<leftarrow> ask (Amqp (QueueBind ch que routingKey exchangeName)) (e_error E);
                         (case err of
                            Some e \<Rightarrow> ret (Inl (wrap e ''failed to bind a queue''))
                          | None \<Rightarrow> ret (Inr \<lparr>cwq_Ch = Some ch, cwq_Que = que\<rparr>))
                       })
                  }))
        })
   }"

text \<open>Closing dereferences the channel, so a nil one would panic; the result of deleting the queue is ignored.\<close>

definition ChannelWithQueue_Close :: "env \<Rightarrow> ChannelWithQueue \<Rightarrow> err option outcome io" where
  "ChannelWithQueue_Close E cwq =
     (case cwq_Ch cwq of
        None \<Rightarrow> ret Panicked
      | Some ch \<Rightarrow> do {
          (if length (cwq_Que cwq) > 0
           then do { _ \<leftarrow> ask (Amqp (QueueDelete ch (cwq_Que cwq))) (e_error E); ret () }
           else ret ());
          err \<leftarrow> ask (Amqp (CloseChannel ch)) (e_error E);
          ret (Returned (map_option (\<lambda>e. wrap e ''failed closing channel'') err))
        })"

section \<open>Reading\<close>

record AmqpReader =
  ar_gatewayID :: gateway_id
  ar_cwq :: ChannelWithQueue

record delivery =
  dl_CorrelationId :: string
  dl_Body :: string

text \<open>
  What a \<open>select\<close> between the context and the deliveries received: the cancellation, a message, or
  the closed channel of deliveries.
\<close>

datatype selected = CtxDone | Received delivery | MsgsClosed

definition NewAmqpReader :: "env \<Rightarrow> gateway_id \<Rightarrow> AmqpReader option io" where
  "NewAmqpReader E gatewayID = do {
     let queueName = gatewayID @ ''.out'';
     ch \<leftarrow> NewChannelWithQueue E (Some queueName);
     (case ch of
        Inl e \<Rightarrow> do { Error ''failed creating amqp channel and queue''; ret None }
      | Inr cwq \<Rightarrow> do {
          err \<leftarrow> ask (Amqp (Consume (the (cwq_Ch cwq)) (cwq_Que cwq) True)) (e_error E);
          (case err of
             Some e \<Rightarrow> do { Error ''failed to register a consumer''; ret None }
           | None \<Rightarrow> ret (Some \<lparr>ar_gatewayID = gatewayID, ar_cwq = cwq\<rparr>))
        })
   }"

text \<open>\<open>copy(p, s)\<close>: the bytes that fit, and how many they are.\<close>

definition copy_bytes :: "string \<Rightarrow> string \<Rightarrow> nat \<times> string" where
  "copy_bytes p s = (let n = min (length p) (length s) in (n, take n s @ drop n p))"

definition AmqpReader_Read :: "selected \<Rightarrow> string \<Rightarrow> (nat \<times> string) io" where
  "AmqpReader_Read sel p =
     (case sel of
        CtxDone \<Rightarrow> do { Debug ''Context cancelled''; ret (0, p) }
      | Received message \<Rightarrow> ret (copy_bytes p (dl_Body message))
      | MsgsClosed \<Rightarrow> ret (0, p))"

text \<open>The message that is logged has a long preview cut; the log fields themselves are not modelled.\<close>

definition slim_message :: "IotMessage \<Rightarrow> IotMessage" where
  "slim_message message =
     (if length (Preview message) > 0 then message\<lparr>Preview := ''Some Base64 code ;)''\<rparr> else message)"

definition PrintMessage :: "IotMessage \<Rightarrow> unit io" where
  "PrintMessage message = (let slim = slim_message message in Debug ''Message from gateway'')"

definition ReadEnvelope :: "selected \<Rightarrow> (AmqpEnvelope option \<times> bool \<times> err option) io" where
  "ReadEnvelope sel =
     (case sel of
        CtxDone \<Rightarrow> do { Debug ''Context cancelled''; ret (None, True, None) }
      | MsgsClosed \<Rightarrow> ret (None, False, None)
      | Received message \<Rightarrow>
          (let bodyLength = length (dl_Body message);
               (n, buffer) = copy_bytes (replicate bodyLength CHR 0x00) (dl_Body message)
           in if n \<noteq> bodyLength then ret (None, False, None)
              else case json_Unmarshal buffer of
                Inl e \<Rightarrow> ret (None, False, Some (wrap e ''can not unmarshal incoming gateway message''))
              | Inr inputMessage \<Rightarrow> do {
                  PrintMessage inputMessage;
                  ret (Some \<lparr>env_Message = inputMessage,
                    env_Metadata = \<lparr>md_CorrelationID = dl_CorrelationId message, md_ReplyTo = []\<rparr>\<rparr>, False, None)
                }))"

definition AmqpReader_Close :: "env \<Rightarrow> AmqpReader \<Rightarrow> err option outcome io" where
  "AmqpReader_Close E r = do {
     res \<leftarrow> ChannelWithQueue_Close E (ar_cwq r);
     (case res of
        Panicked \<Rightarrow> ret Panicked
      | Returned err \<Rightarrow> ret (Returned (map_option (\<lambda>e. wrap e ''failed closing gateway output channel'') err)))
   }"

section \<open>Writing\<close>

record AmqpWriter =
  aw_cwq :: ChannelWithQueue
  aw_routingKey :: string

definition NewAmqpWriter :: "env \<Rightarrow> gateway_id \<Rightarrow> AmqpWriter option io" where
  "NewAmqpWriter E gatewayID = do {
     ch \<leftarrow> NewChannelWithQueue E None;
     (case ch of
        Inl e \<Rightarrow> do { Error ''failed creating amqp channel and queue''; ret None }
      | Inr cwq \<Rightarrow> ret (Some \<lparr>aw_cwq = cwq, aw_routingKey = ''gateway.'' @ gatewayID @ ''.in''\<rparr>))
   }"

definition AmqpWriter_Write :: "env \<Rightarrow> AmqpWriter \<Rightarrow> writer" where
  "AmqpWriter_Write E w p =
     (case cwq_Ch (aw_cwq w) of
        None \<Rightarrow> ret (0, Some ''no output channel defined'')
      | Some ch \<Rightarrow> do {
          err \<leftarrow> ask (Amqp (Publish ch exchangeName (aw_routingKey w)
            \<lparr>pub_ContentType = ''application/json'', pub_CorrelationId = [], pub_ReplyTo = [], pub_Body = p\<rparr>)) (e_error E);
          (case err of
             Some e \<Rightarrow> ret (0, Some (wrap e ''failed to publish a message''))
           | None \<Rightarrow> ret (length p, None))
        })"

definition WriteEnvelope :: "env \<Rightarrow> AmqpWriter \<Rightarrow> AmqpEnvelope \<Rightarrow> err option io" where
  "WriteEnvelope E w envelope =
     (case cwq_Ch (aw_cwq w) of
        None \<Rightarrow> ret (Some ''no output channel defined'')
      | Some ch \<Rightarrow> do {
          let buffer = json_Marshal (env_Message envelope);
          err \<leftarrow> ask (Amqp (Publish ch exchangeName (aw_routingKey w)
            \<lparr>pub_ContentType = ''application/json'', pub_CorrelationId = md_CorrelationID (env_Metadata envelope),
             pub_ReplyTo = md_ReplyTo (env_Metadata envelope), pub_Body = buffer\<rparr>)) (e_error E);
          ret (map_option (\<lambda>e. wrap e ''failed to publish a message'') err)
        })"

definition AmqpWriter_Close :: "env \<Rightarrow> AmqpWriter \<Rightarrow> err option outcome io" where
  "AmqpWriter_Close E w = do {
     res \<leftarrow> ChannelWithQueue_Close E (aw_cwq w);
     (case res of
        Panicked \<Rightarrow> ret Panicked
      | Returned err \<Rightarrow> ret (Returned (map_option (\<lambda>e. wrap e ''failed closing gateway input channel'') err)))
   }"

end
