(* ===== verification/GatewayChannel.thy ===== *)
theory GatewayChannel
  imports Amqp
begin

text \<open>
  The channel of one gateway (\<open>gatewaychannel.go\<close>): its construction and its end, one turn of its
  reader, the business logic applied to a message, and the stages of a remote call. The methods
  are given one after the other; the interleaving of callers, reader and closing is the subject of
  the theory \<open>GatewayRpc\<close>. The configured RPC timeout decides only how long a caller waits.
\<close>

section \<open>State\<close>

text \<open>
  A pending call: whether its \<open>done\<close> channel is closed, and the response stored for its caller.
  \<open>rpcCalls\<close> is a map, kept as a list of its entries; the order of the list is one of those in
  which \<open>range\<close> may visit them.
\<close>

record rpcPendingCall =
  call_closed :: bool
  call_data :: "IotMessage option"

type_synonym rpcPendingCallMap = "(string \<times> rpcPendingCall) list"

record GatewayChannel =
  gc_serverID :: string
  gc_gatewayID :: gateway_id
  gc_conn :: conn_ptr
  gc_out :: AmqpReader
  gc_in :: AmqpWriter
  gc_cancelled :: bool
  gc_rpcCalls :: rpcPendingCallMap
  gc_bl :: "GatewayLogic option"

definition NewGatewayChannel :: "env \<Rightarrow> conn_ptr \<Rightarrow> string \<Rightarrow> gateway_id \<Rightarrow> GatewayChannel option io" where
  "NewGatewayChannel E dbConn serverID gatewayID = do {
     out \<leftarrow> NewAmqpReader E gatewayID;
     (case out of
        None \<Rightarrow> ret None
      | Some reader \<Rightarrow> do {
          inp \<leftarrow> NewAmqpWriter E gatewayID;
          (case inp of
             None \<Rightarrow> ret None
           | Some writer \<Rightarrow> ret (Some \<lparr>gc_serverID = serverID, gc_gatewayID = gatewayID, gc_conn = dbConn,
               gc_out = reader, gc_in = writer, gc_cancelled = False, gc_rpcCalls = [], gc_bl = None\<rparr>))
        })
   }"

definition GatewayChannel_Read :: "GatewayChannel \<Rightarrow> selected \<Rightarrow> string \<Rightarrow> (nat \<times> string) io" where
  "GatewayChannel_Read c sel p = AmqpReader_Read sel p"

definition GatewayChannel_Write :: "env \<Rightarrow> GatewayChannel \<Rightarrow> writer" where
  "GatewayChannel_Write E c p = AmqpWriter_Write E (gc_in c) p"

section \<open>Applying the logic\<close>

definition count_query :: string where
  "count_query = ''select count(*) from v3_gateways where gateway_id = ?''"

definition CheckGatewayExistence :: "env \<Rightarrow> GatewayChannel \<Rightarrow> IotMessage \<Rightarrow> (bool result) outcome io" where
  "CheckGatewayExistence E c message =
     (if \<not> usable (gc_conn c) then ret Panicked
      else do {
        value \<leftarrow> ask (SqlQuery count_query [SqlStr (GatewayId message)]) (e_count E);
        (case value of
           Inl e \<Rightarrow> ret (Returned (Inl (wrap e ''failed searching gateway in database'')))
         | Inr n \<Rightarrow> ret (Returned (Inr (n \<noteq> 0))))
      })"

definition CreateLogic :: "env \<Rightarrow> GatewayChannel \<Rightarrow> (GatewayLogic result) outcome io" where
  "CreateLogic E c = do {
     res \<leftarrow> LoadParams E (Some (AmqpWriter_Write E (gc_in c))) (NewGatewayLogic (gc_gatewayID c));
     (case res of
        Panicked \<Rightarrow> ret Panicked
      | Returned (Some e, _) \<Rightarrow> ret (Returned (Inl e))
      | Returned (None, bl) \<Rightarrow> ret (Returned (Inr bl)))
   }"

text \<open>The second half of \<open>ApplyLogic\<close>, on the channel's own copy of the message.\<close>

definition process_loaded :: "env \<Rightarrow> GatewayChannel \<Rightarrow> ref \<Rightarrow> GatewayChannel outcome io" where
  "process_loaded E c iotmessage =
     (case gc_bl c of
        None \<Rightarrow> do { Error ''business logic is not loaded''; ret (Returned c) }
      | Some bl \<Rightarrow> do {
          (err, bl') \<leftarrow> Process E bl (Some iotmessage);
          (if err \<noteq> None then Error ''error processing message'' else ret ());
          ret (Returned (c\<lparr>gc_bl := Some bl'\<rparr>))
        })"

definition ApplyLogic :: "env \<Rightarrow> GatewayChannel \<Rightarrow> IotMessage \<Rightarrow> GatewayChannel outcome io" where
  "ApplyLogic E c message = do {
     iotmessage \<leftarrow> alloc message;
     (if gc_bl c \<noteq> None then process_loaded E c iotmessage
      else do {
        exists \<leftarrow> CheckGatewayExistence E c message;
        (case exists of
           Panicked \<Rightarrow> ret Panicked
         | Returned (Inl e) \<Rightarrow> do { Error ''error checking gateway in database''; ret (Returned c) }
         | Returned (Inr False) \<Rightarrow> do { Warn ''Gateway is not registered in cloud database''; ret (Returned c) }
         | Returned (Inr True) \<Rightarrow> do {
             res \<leftarrow> CreateLogic E c;
             (case res of
                Panicked \<Rightarrow> ret Panicked
              | Returned (Inl e) \<Rightarrow> do {
                  Error ''cannot load business logic params'';
                  process_loaded E (c\<lparr>gc_bl := None\<rparr>) iotmessage
                }
              | Returned (Inr bl) \<Rightarrow> process_loaded E (c\<lparr>gc_bl := Some bl\<rparr>) iotmessage)
           })
      })
   }"

definition GetLogic :: "GatewayChannel \<Rightarrow> GatewayLogic option" where
  "GetLogic c = gc_bl c"

section \<open>The reader\<close>

text \<open>
  One turn of the loop of \<open>Start\<close>: what the reader does next is to go on, to end, or to send on the
  unbuffered \<open>done\<close> channel of a pending call, which blocks it until the caller receives; sending
  on a closed channel panics. A \<open>go\<close> statement names the channel by its address \<open>cp\<close>.
\<close>

datatype reader_flow = NextTurn | ReaderEnds | SendsDone string

definition store_response :: "string \<Rightarrow> IotMessage \<Rightarrow> rpcPendingCallMap \<Rightarrow> rpcPendingCallMap" where
  "store_response correlationID message calls =
     map (\<lambda>(k, call). if k = correlationID then (k, call\<lparr>call_data := Some message\<rparr>) else (k, call)) calls"

definition reader_turn ::
    "chan_ptr \<Rightarrow> GatewayChannel \<Rightarrow> selected \<Rightarrow> (reader_flow \<times> GatewayChannel) outcome io" where
  "reader_turn cp c sel =
     (if gc_cancelled c then ret (Returned (ReaderEnds, c))
      else do {
        (inputEnvelope, toBeClosed, err) \<leftarrow> ReadEnvelope sel;
        (if err \<noteq> None then do { Error ''error reading channel''; ret (Returned (NextTurn, c)) }
         else if toBeClosed then ret (Returned (NextTurn, c))
         else case inputEnvelope of
           None \<Rightarrow> ret Panicked
         | Some envelope \<Rightarrow>
             (let correlationID = md_CorrelationID (env_Metadata envelope) in
              if length correlationID > 0 then
                (case map_of (gc_rpcCalls c) correlationID of
                   None \<Rightarrow> ret (Returned (NextTurn, c))
                 | Some call \<Rightarrow>
                     (let c' = c\<lparr>gc_rpcCalls := store_response correlationID (env_Message envelope) (gc_rpcCalls c)\<rparr>
                      in if call_closed call then ret Panicked
                         else ret (Returned (SendsDone correlationID, c'))))
              else do {
                emit (Go (RunApplyLogic cp (env_Message envelope)));
                ret (Returned (NextTurn, c))
              }))
      })"

section \<open>Remote calls\<close>

text \<open>
  \<open>DoRPC\<close> in its three stages: publishing and registering the call, the wait, which ends with a
  receive on \<open>done\<close> or with the timeout, and the release of the call.
\<close>

datatype rpc_wait = DoneReceived | TimeElapsed

definition rpc_envelope :: "GatewayChannel \<Rightarrow> string \<Rightarrow> IotMessage \<Rightarrow> AmqpEnvelope" where
  "rpc_envelope c correlationID request = \<lparr>env_Message = request,
     env_Metadata = \<lparr>md_CorrelationID = correlationID, md_ReplyTo = gc_gatewayID c @ ''.out''\<rparr>\<rparr>"

definition register_call :: "string \<Rightarrow> GatewayChannel \<Rightarrow> GatewayChannel" where
  "register_call correlationID c = c\<lparr>gc_rpcCalls :=
     (correlationID, \<lparr>call_closed = False, call_data = None\<rparr>) # filter (\<lambda>(k, _). k \<noteq> correlationID) (gc_rpcCalls c)\<rparr>"

definition release_call :: "string \<Rightarrow> GatewayChannel \<Rightarrow> GatewayChannel" where
  "release_call correlationID c = c\<lparr>gc_rpcCalls := filter (\<lambda>(k, _). k \<noteq> correlationID) (gc_rpcCalls c)\<rparr>"

definition DoRPC_begin :: "env \<Rightarrow> GatewayChannel \<Rightarrow> IotMessage \<Rightarrow> ((string \<times> GatewayChannel) result) io" where
  "DoRPC_begin E c request = do {
     correlationID \<leftarrow> CreateCorrelationID E;
     err \<leftarrow> WriteEnvelope E (gc_in c) (rpc_envelope c correlationID request);
     (case err of
        Some e \<Rightarrow> ret (Inl (wrap e ''error writing RPC buffer to broker''))
      | None \<Rightarrow> ret (Inr (correlationID, register_call correlationID c)))
   }"

definition DoRPC_end :: "string \<Rightarrow> rpc_wait \<Rightarrow> GatewayChannel \<Rightarrow> (IotMessage option) result \<times> GatewayChannel" where
  "DoRPC_end correlationID wait c =
     (let response = (case wait of
            DoneReceived \<Rightarrow> (case map_of (gc_rpcCalls c) correlationID of
                None \<Rightarrow> Inr None | Some call \<Rightarrow> Inr (call_data call))
          | TimeElapsed \<Rightarrow> Inl ''timeout elapsed on RPC request sending'')
      in (response, release_call correlationID c))"

text \<open>
  A whole call: \<open>during\<close> is what the rest of the server does to the channel while the caller waits.
\<close>

definition DoRPC ::
    "env \<Rightarrow> (string \<Rightarrow> GatewayChannel \<Rightarrow> (rpc_wait \<times> GatewayChannel) io) \<Rightarrow> GatewayChannel \<Rightarrow> IotMessage
      \<Rightarrow> ((IotMessage option) result \<times> GatewayChannel) io" where
  "DoRPC E during c request = do {
     begun \<leftarrow> DoRPC_begin E c request;
     (case begun of
        Inl e \<Rightarrow> ret (Inl e, c)
      | Inr (correlationID, c1) \<Rightarrow> do {
          (wait, c2) \<leftarrow> during correlationID c1;
          ret (DoRPC_end correlationID wait c2)
        })
   }"

section \<open>The end of a channel\<close>

definition Stop :: "env \<Rightarrow> GatewayChannel \<Rightarrow> GatewayChannel io" where
  "Stop E c = do {
     now \<leftarrow> ask ClockRead (e_now E);
     statusMessage \<leftarrow> alloc (NewStatusMessage now (gc_gatewayID c) ''off'');
     go_task UpdateGatewayStatusTask statusMessage;
     ret (c\<lparr>gc_cancelled := True\<rparr>)
   }"

text \<open>Closing a \<open>done\<close> channel a second time would panic.\<close>

definition close_calls :: "rpcPendingCallMap \<Rightarrow> rpcPendingCallMap outcome" where
  "close_calls calls =
     (if list_ex (\<lambda>(k, call). call_closed call) calls then Panicked
      else Returned (map (\<lambda>(k, call). (k, call\<lparr>call_closed := True\<rparr>)) calls))"

definition log_close_error :: "err option outcome \<Rightarrow> string \<Rightarrow> unit outcome io" where
  "log_close_error res msg =
     (case res of
        Panicked \<Rightarrow> ret Panicked
      | Returned (Some e) \<Rightarrow> do { Error msg; ret (Returned ()) }
      | Returned None \<Rightarrow> ret (Returned ()))"

definition close_ends :: "env \<Rightarrow> GatewayChannel \<Rightarrow> rpcPendingCallMap \<Rightarrow> GatewayChannel outcome io" where
  "close_ends E c calls = do {
     res \<leftarrow> AmqpReader_Close E (gc_out c);
     r1 \<leftarrow> log_close_error res ''error closing gateway output channel'';
     (case r1 of Panicked \<Rightarrow> ret Panicked | Returned _ \<Rightarrow> do {
        res \<leftarrow> AmqpWriter_Close E (gc_in c);
        r2 \<leftarrow> log_close_error res ''error closing gateway input channel'';
        (case r2 of Panicked \<Rightarrow> ret Panicked
         | Returned _ \<Rightarrow> ret (Returned (c\<lparr>gc_rpcCalls := calls\<rparr>)))
      })
   }"

definition GatewayChannel_Close :: "env \<Rightarrow> GatewayChannel \<Rightarrow> GatewayChannel outcome io" where
  "GatewayChannel_Close E c = do {
     stopped \<leftarrow> Stop E c;
     (case close_calls (gc_rpcCalls stopped) of
        Panicked \<Rightarrow> ret Panicked
      | Returned calls \<Rightarrow> close_ends E stopped calls)
   }"

end
