(* ===== verification/Manager.thy ===== *)
theory Manager
  imports GatewayChannel "HOL-Library.AList"
begin

text \<open>
  The broker manager (\<open>gatewaychannelsmap.go\<close>, \<open>manager.go\<close>): the map of gateway channels, the
  connection to RabbitMQ and the loop over its exchange events. Channels are objects shared by the
  manager, their readers, message goroutines and the REST server, so they live in a store and are
  reached by address.
\<close>

section \<open>The channel map\<close>

text \<open>
  A map from gateway ids to channels, kept as a list of entries whose order is one of those
  in which \<open>range\<close> may visit the map. Every method holds the mutex for its whole body.
\<close>

type_synonym ChannelsMap = "(gateway_id \<times> chan_ptr) list"

definition NewGatewayChannelsMap :: ChannelsMap where
  "NewGatewayChannelsMap = []"

definition ChannelsMap_Add :: "gateway_id \<Rightarrow> chan_ptr \<Rightarrow> ChannelsMap \<Rightarrow> ChannelsMap" where
  "ChannelsMap_Add gatewayID ch gc = AList.update gatewayID ch gc"

definition ChannelsMap_Get :: "ChannelsMap \<Rightarrow> gateway_id \<Rightarrow> chan_ptr option" where
  "ChannelsMap_Get gc gatewayID = map_of gc gatewayID"

definition ChannelsMap_Remove :: "gateway_id \<Rightarrow> ChannelsMap \<Rightarrow> ChannelsMap" where
  "ChannelsMap_Remove gatewayID gc = AList.delete gatewayID gc"

text \<open>The slice starts with as many nil channels as the map has entries.\<close>

definition GetChannels :: "ChannelsMap \<Rightarrow> (chan_ptr option) list" where
  "GetChannels gc = replicate (length gc) None @ map (\<lambda>(_, ch). Some ch) gc"

interpretation channels_map: registry NewGatewayChannelsMap ChannelsMap_Add ChannelsMap_Get ChannelsMap_Remove
  by unfold_locales (auto simp: NewGatewayChannelsMap_def ChannelsMap_Add_def ChannelsMap_Get_def
      ChannelsMap_Remove_def update_conv' delete_conv')

section \<open>The manager and the server's objects\<close>

record Manager =
  mg_ServerID :: string
  mg_Protocol :: string
  mg_User :: string
  mg_Password :: string
  mg_Host :: string
  mg_Port :: int
  mg_CtlPort :: int
  mg_Conn :: bool
  mg_Ch :: "chan option"
  mg_evQue :: string
  mg_evChan :: bool
  mg_gwChans :: ChannelsMap

record server =
  sv_mgr :: Manager
  sv_chans :: "chan_ptr \<Rightarrow> GatewayChannel"
  sv_next :: chan_ptr

definition NewManager :: "string \<Rightarrow> string \<Rightarrow> string \<Rightarrow> string \<Rightarrow> string \<Rightarrow> int \<Rightarrow> int \<Rightarrow> Manager" where
  "NewManager ServerID protocol user password host port ctlPort =
     \<lparr>mg_ServerID = ServerID, mg_Protocol = protocol, mg_User = user, mg_Password = password,
      mg_Host = host, mg_Port = port, mg_CtlPort = ctlPort, mg_Conn = False, mg_Ch = None,
      mg_evQue = [], mg_evChan = False, mg_gwChans = NewGatewayChannelsMap\<rparr>"

definition Manager_Open :: "env \<Rightarrow> Manager \<Rightarrow> (err option \<times> Manager) io" where
  "Manager_Open E m = do {
     let connURL = mg_Protocol m @ ''://'' @ mg_User m @ '':'' @ mg_Password m @ ''@'' @ mg_Host m @ '':''
       @ Itoa (mg_Port m) @ ''/'';
     err \<leftarrow> ask (Amqp (Dial connURL)) (e_error E);
     (case err of
        Some e \<Rightarrow> ret (Some (wrap e ''failed connecting to RabbitMQ''), m\<lparr>mg_Conn := False\<rparr>)
      | None \<Rightarrow> do {
          opened \<leftarrow> ask (Amqp OpenChannel) (e_channel E);
          (case opened of
             Inl e \<Rightarrow> ret (Some (wrap e ''failed to open a channel''), m\<lparr>mg_Conn := True, mg_Ch := None\<rparr>)
           | Inr ch \<Rightarrow> ret (None, m\<lparr>mg_Conn := True, mg_Ch := Some ch\<rparr>))
        })
   }"

text \<open>Closing the stored channels: nil entries are skipped, and a channel's \<open>Close\<close> never fails.\<close>

fun close_channels :: "env \<Rightarrow> (chan_ptr option) list \<Rightarrow> server \<Rightarrow> server outcome io" where
  "close_channels E [] s = ret (Returned s)"
| "close_channels E (None # chs) s = close_channels E chs s"
| "close_channels E (Some cp # chs) s = do {
     res \<leftarrow> GatewayChannel_Close E (sv_chans s cp);
     (case res of
        Panicked \<Rightarrow> ret Panicked
      | Returned c \<Rightarrow> close_channels E chs (s\<lparr>sv_chans := (sv_chans s)(cp := c)\<rparr>))
   }"

definition close_connection :: "env \<Rightarrow> server \<Rightarrow> (err option \<times> server) outcome io" where
  "close_connection E s =
     (if mg_Conn (sv_mgr s) then do {
        err \<leftarrow> ask (Amqp CloseConnection) (e_error E);
        ret (Returned (map_option (\<lambda>e. wrap e ''error closing connection to broker'') err, s))
      }
      else ret (Returned (None, s)))"

definition close_management :: "env \<Rightarrow> server \<Rightarrow> (err option \<times> server) outcome io" where
  "close_management E s =
     (case mg_Ch (sv_mgr s) of
        None \<Rightarrow> close_connection E s
      | Some ch \<Rightarrow> do {
          err \<leftarrow> ask (Amqp (CloseChannel ch)) (e_error E);
          (case err of
             Some e \<Rightarrow> ret (Returned (Some (wrap e ''error closing management channel''), s))
           | None \<Rightarrow> close_connection E s)
        })"

definition Manager_Close :: "env \<Rightarrow> server \<Rightarrow> (err option \<times> server) outcome io" where
  "Manager_Close E s = do {
     closed \<leftarrow> close_channels E (GetChannels (mg_gwChans (sv_mgr s))) s;
     (case closed of
        Panicked \<Rightarrow> ret Panicked
      | Returned s' \<Rightarrow>
          (if length (mg_evQue (sv_mgr s')) > 0 then
             (case mg_Ch (sv_mgr s') of
                None \<Rightarrow> ret Panicked
              | Some ch \<Rightarrow> do {
                  err \<leftarrow> ask (Amqp (QueueDelete ch (mg_evQue (sv_mgr s')))) (e_error E);
                  (if err \<noteq> None then Error ''failed deleting queue'' else ret ());
                  close_management E s'
                })
           else close_management E s'))
   }"

definition EventExchangeInit :: "env \<Rightarrow> Manager \<Rightarrow> (err option \<times> Manager) io" where
  "EventExchangeInit E m =
     (case (mg_Conn m, mg_Ch m) of
        (True, Some ch) \<Rightarrow> do {
          declared \<leftarrow> ask (Amqp (QueueDeclare ch (mg_ServerID m) True)) (e_queue E);
          (case declared of
             Inl e \<Rightarrow> do { Error ''Failed to declare an event queue''; ret (Some e, m\<lparr>mg_evQue := []\<rparr>) }
           | Inr que \<Rightarrow> do {
               let m' = m\<lparr>mg_evQue := que\<rparr>;
               Debug ''Binding queue to exchange with routing key'';
               err \<leftarrow> ask (Amqp (QueueBind ch que ''queue.*'' ''amq.rabbitmq.event'')) (e_error E);
               (case err of
                  Some e \<Rightarrow> do { Error ''Failed to bind an event queue''; ret (Some e, m') }
                | None \<Rightarrow> do {
                    err \<leftarrow> ask (Amqp (Consume ch que False)) (e_error E);
                    (case err of
                       Some e \<Rightarrow> do { Error ''Failed to register an event consumer''; ret (Some e, m'\<lparr>mg_evChan := False\<rparr>) }
                     | None \<Rightarrow> do { Info ''Event exchange manager started''; ret (None, m'\<lparr>mg_evChan := True\<rparr>) })
                  })
             })
        }
      | _ \<Rightarrow> ret (Some ''no connection to RabbitMQ broker'', m))"

section \<open>Exchange events\<close>

text \<open>
  An event of the exchange: its routing key and its \<open>name\<close> header when that is a string. Again the
  choice of a \<open>select\<close> is an argument.
\<close>

record ev_delivery =
  ev_RoutingKey :: string
  ev_name :: "string option"

datatype ev_selected = EvCtxDone | EvReceived ev_delivery | EvClosed

type_synonym exchangeEvent = "string \<rightharpoonup> string"

text \<open>The unchecked type assertion on the header panics when it is missing or no string.\<close>

definition Manager_Read :: "ev_delivery option \<Rightarrow> string \<Rightarrow> (nat \<times> string) outcome" where
  "Manager_Read received p =
     (case received of
        None \<Rightarrow> Returned (0, p)
      | Some d \<Rightarrow> (case ev_name d of None \<Rightarrow> Panicked | Some name \<Rightarrow> Returned (copy_bytes p name)))"

definition readExchangeEvent :: "ev_selected \<Rightarrow> (exchangeEvent result) outcome" where
  "readExchangeEvent sel =
     (case sel of
        EvCtxDone \<Rightarrow> Returned (Inl ''interrupted reading exchange'')
      | EvClosed \<Rightarrow> Returned (Inl ''error reading exchange event'')
      | EvReceived d \<Rightarrow>
          (case ev_name d of
             None \<Rightarrow> Panicked
           | Some name \<Rightarrow> Returned (Inr [''eventType'' \<mapsto> ev_RoutingKey d, ''queueName'' \<mapsto> name])))"

definition queue_created :: "env \<Rightarrow> conn_ptr \<Rightarrow> server \<Rightarrow> gateway_id \<Rightarrow> server outcome io" where
  "queue_created E dbConn s gatewayID = do {
     ch \<leftarrow> NewGatewayChannel E dbConn (mg_ServerID (sv_mgr s)) gatewayID;
     (case ch of
        None \<Rightarrow> ret Panicked
      | Some c \<Rightarrow> do {
          let cp = sv_next s;
          emit (Go (RunReader cp));
          ret (Returned (s\<lparr>sv_chans := (sv_chans s)(cp := c), sv_next := Suc cp,
            sv_mgr := (sv_mgr s)\<lparr>mg_gwChans := ChannelsMap_Add gatewayID cp (mg_gwChans (sv_mgr s))\<rparr>\<rparr>))
        })
   }"

definition queue_deleted :: "env \<Rightarrow> server \<Rightarrow> gateway_id \<Rightarrow> server outcome io" where
  "queue_deleted E s gatewayID =
     (case ChannelsMap_Get (mg_gwChans (sv_mgr s)) gatewayID of
        None \<Rightarrow> do { Error ''no stored gateway info''; ret (Returned s) }
      | Some cp \<Rightarrow> do {
          res \<leftarrow> GatewayChannel_Close E (sv_chans s cp);
          (case res of
             Panicked \<Rightarrow> ret Panicked
           | Returned c \<Rightarrow> ret (Returned (s\<lparr>sv_chans := (sv_chans s)(cp := c),
               sv_mgr := (sv_mgr s)\<lparr>mg_gwChans := ChannelsMap_Remove gatewayID (mg_gwChans (sv_mgr s))\<rparr>\<rparr>)))
        })"

text \<open>One turn of \<open>ProcessExchangeEvents\<close>; the loop has no exit, so it is a turn for every choice.\<close>

definition event_turn :: "env \<Rightarrow> conn_ptr \<Rightarrow> server \<Rightarrow> ev_selected \<Rightarrow> server outcome io" where
  "event_turn E dbConn s sel =
     (case readExchangeEvent sel of
        Panicked \<Rightarrow> ret Panicked
      | Returned (Inl e) \<Rightarrow> ret (Returned s)
      | Returned (Inr ee) \<Rightarrow> do {
          Debug ''RabbitMQ event'';
          (case ee ''eventType'' of
             None \<Rightarrow> ret (Returned s)
           | Some eventType \<Rightarrow>
               (case ee ''queueName'' of
                  None \<Rightarrow> do { Error ''error reading queue name from event exchange''; ret (Returned s) }
                | Some queueName \<Rightarrow>
                    (let strArr = split_on CHR ''.'' queueName; gatewayID = strArr ! 0 in
                     if length strArr > 1 \<and> strArr ! 1 = ''in'' then
                       (if eventType = ''queue.created'' then queue_created E dbConn s gatewayID
                        else if eventType = ''queue.deleted'' then queue_deleted E s gatewayID
                        else ret (Returned s))
                     else ret (Returned s))))
        })"

fun ProcessExchangeEvents :: "env \<Rightarrow> conn_ptr \<Rightarrow> ev_selected list \<Rightarrow> server \<Rightarrow> server outcome io" where
  "ProcessExchangeEvents E dbConn [] s = ret (Returned s)"
| "ProcessExchangeEvents E dbConn (sel # sels) s = do {
     res \<leftarrow> event_turn E dbConn s sel;
     (case res of Panicked \<Rightarrow> ret Panicked | Returned s' \<Rightarrow> ProcessExchangeEvents E dbConn sels s')
   }"

section \<open>Calls to gateways\<close>

definition GetGatewayChannel :: "server \<Rightarrow> gateway_id \<Rightarrow> chan_ptr option" where
  "GetGatewayChannel s gatewayID = ChannelsMap_Get (mg_gwChans (sv_mgr s)) gatewayID"

definition DoGatewayRPC ::
    "env \<Rightarrow> (string \<Rightarrow> GatewayChannel \<Rightarrow> (rpc_wait \<times> GatewayChannel) io) \<Rightarrow> server \<Rightarrow> gateway_id \<Rightarrow> IotMessage
      \<Rightarrow> ((IotMessage option) result \<times> server) io" where
  "DoGatewayRPC E during s gatewayID request =
     (case ChannelsMap_Get (mg_gwChans (sv_mgr s)) gatewayID of
        None \<Rightarrow> ret (Inl ''error getting channel with specified gatewayID'', s)
      | Some cp \<Rightarrow> do {
          (response, c) \<leftarrow> DoRPC E during (sv_chans s cp) request;
          let s' = s\<lparr>sv_chans := (sv_chans s)(cp := c)\<rparr>;
          (case response of
             Inl e \<Rightarrow> ret (Inl (wrap e ''failed making RPC to gateway channel''), s')
           | Inr r \<Rightarrow> ret (Inr r, s'))
        })"

section \<open>Restarting the gateways\<close>

text \<open>
  The queues of the management plugin's answer: the first JSON value of the body, decoded into a
  slice of \<open>amqp.Queue\<close> of which only \<open>Name\<close> is used; the error of decoding is ignored.
\<close>

record amqp_Queue =
  q_Name :: string

definition queue_fields :: "amqp_Queue json_field list" where
  "queue_fields = [(''Name'', False, StrAcc q_Name (\<lambda>v. q_Name_update (\<lambda>_. v)))]"

definition decode_queues :: "string result \<Rightarrow> amqp_Queue list" where
  "decode_queues body =
     (case body of
        Inl _ \<Rightarrow> []
      | Inr text \<Rightarrow>
          (case parse_value (2 * length text + 1) text of
             Some (JArr js, _) \<Rightarrow> snd (decode_slice queue_fields \<lparr>q_Name = []\<rparr> js [])
           | _ \<Rightarrow> []))"

definition restart_message :: "i64 \<Rightarrow> gateway_id \<Rightarrow> IotMessage" where
  "restart_message now gatewayID = (CreateCloudIotMessage now gatewayID [])
     \<lparr>Protocol := ''amqp'', MessageType := ''command'', Command := ''restart''\<rparr>"

text \<open>One queue of the loop: whether its gateway counts as restarted; a nil writer panics.\<close>

definition restart_queue :: "env \<Rightarrow> amqp_Queue \<Rightarrow> bool outcome io" where
  "restart_queue E que =
     (let nameArr = split_on CHR ''.'' (q_Name que) in
      if length nameArr > 1 \<and> nameArr ! 1 = ''in'' then do {
        let gatewayID = nameArr ! 0;
        now \<leftarrow> ask ClockRead (e_now E);
        let buffer = json_Marshal (restart_message now gatewayID);
        wr \<leftarrow> NewAmqpWriter E gatewayID;
        (case wr of
           None \<Rightarrow> ret Panicked
         | Some writer \<Rightarrow> do {
             (n, err) \<leftarrow> AmqpWriter_Write E writer buffer;
             (if err \<noteq> None \<or> n \<noteq> length buffer then do {
                Error ''error sending message to broker'';
                ret (Returned False)
              }
              else do {
                res \<leftarrow> AmqpWriter_Close E writer;
                (case res of
                   Panicked \<Rightarrow> ret Panicked
                 | Returned err \<Rightarrow> do {
                     (if err \<noteq> None then Error ''error closing gateway input channel'' else ret ());
                     ret (Returned True)
                   })
              })
           })
      }
      else ret (Returned False))"

fun restart_queues :: "env \<Rightarrow> amqp_Queue list \<Rightarrow> nat \<Rightarrow> nat outcome io" where
  "restart_queues E [] gwCounter = ret (Returned gwCounter)"
| "restart_queues E (que # queues) gwCounter = do {
     res \<leftarrow> restart_queue E que;
     (case res of
        Panicked \<Rightarrow> ret Panicked
      | Returned restarted \<Rightarrow> restart_queues E queues (if restarted then Suc gwCounter else gwCounter))
   }"

definition queues_request :: "Manager \<Rightarrow> http_request" where
  "queues_request m = \<lparr>http_method = ''GET'',
     http_url = ''http://'' @ mg_Host m @ '':'' @ Itoa (mg_CtlPort m) @ ''/api/queues/'', http_body = [],
     http_auth = Some (mg_User m, mg_Password m), http_headers = []\<rparr>"

definition RestartGateways :: "env \<Rightarrow> Manager \<Rightarrow> unit outcome io" where
  "RestartGateways E m =
     (case e_new_request E (queues_request m) of
        Some e \<Rightarrow> do { Error ''failed creating http request''; ret (Returned ()) }
      | None \<Rightarrow> do {
          resp \<leftarrow> ask (HttpDo (queues_request m)) (e_http E);
          (case resp of
             HttpFailed e \<Rightarrow> do { Error ''error sending http request''; ret (Returned ()) }
           | HttpReply code body \<Rightarrow>
               (if code = 200 then do {
                  res \<leftarrow> restart_queues E (decode_queues body) 0;
                  (case res of
                     Panicked \<Rightarrow> ret Panicked
                   | Returned gwCounter \<Rightarrow> do {
                       (if gwCounter > 0 then Info ''Restarted gateways'' else ret ());
                       ret (Returned ())
                     })
                }
                else ret (Returned ())))
        })"

end
