(* ===== verification/Rest.thy ===== *)
theory Rest
  imports Manager
begin

text \<open>
  The REST server (\<open>internal/infrastructure/rest\<close>) and its handlers. Routing, authentication and the
  HTTP server itself belong to the web framework; a handler takes what the framework hands it (the
  path parameter, the request body) and returns its reply, and starting and stopping take what the framework returned.
\<close>

datatype rest_reply = JsonReply int json | TextReply int string

section \<open>The server object\<close>

datatype handler = HandleInfo | HandleGatewayConfigure | HandleCommand

text \<open>The account and the routes it may use; \<open>srv\<close> is nil until \<open>Start\<close> has made it with its address.\<close>

record Server =
  sr_account :: "string \<times> string"
  sr_routes :: "(string \<times> string \<times> handler) list"
  sr_srv :: "string option"

definition NewServer :: "env \<Rightarrow> Server" where
  "NewServer E = \<lparr>sr_account = (e_cfg_str E ''rest.user'', e_cfg_str E ''rest.password''),
     sr_routes = [(''GET'', ''/api/v3/info'', HandleInfo),
       (''GET'', ''/api/v3/gateway/configure/:gatewayId'', HandleGatewayConfigure),
       (''POST'', ''/api/v3/command'', HandleCommand)],
     sr_srv = None\<rparr>"

text \<open>How \<open>ListenAndServe\<close>, which always ends with an error, ended.\<close>

datatype listen_error = ErrServerClosed | ListenError err

definition Server_Start :: "env \<Rightarrow> Server \<Rightarrow> listen_error \<Rightarrow> err option \<times> Server" where
  "Server_Start E s ended =
     (case ended of ErrServerClosed \<Rightarrow> None | ListenError e \<Rightarrow> Some (wrap e ''failed starting RESTful API server''),
      s\<lparr>sr_srv := Some ('':'' @ Itoa (e_cfg_int E ''rest.port''))\<rparr>)"

definition Server_Stop :: "Server \<Rightarrow> err option \<Rightarrow> err option" where
  "Server_Stop s shutdown =
     (if sr_srv s = None then Some ''server object is not created''
      else map_option (\<lambda>e. wrap e ''failed shutting down RESTful API server'') shutdown)"

section \<open>Server information\<close>

definition handleInfo :: rest_reply where
  "handleInfo = JsonReply 200 (JObj (sort_key fst
     [(''vendor'', JStr VendorName), (''version'', JStr VeedoVersion), (''serviceName'', JStr ServiceName)]))"

section \<open>Configuration of a gateway\<close>

definition configure_request :: "i64 \<Rightarrow> gateway_id \<Rightarrow> IotMessage" where
  "configure_request now gatewayID = (CreateCloudIotMessage now gatewayID [])
     \<lparr>DeviceType := ''gateway'', Protocol := ''amqp'', MessageType := ''configurationData'', Command := ''get''\<rparr>"

definition handleGatewayConfigure ::
    "env \<Rightarrow> (string \<Rightarrow> GatewayChannel \<Rightarrow> (rpc_wait \<times> GatewayChannel) io) \<Rightarrow> server \<Rightarrow> gateway_id
      \<Rightarrow> (rest_reply \<times> server) io" where
  "handleGatewayConfigure E during s gatewayID = do {
     Debug ''Getting gateway configure'';
     now \<leftarrow> ask ClockRead (e_now E);
     (res, s') \<leftarrow> DoGatewayRPC E during s gatewayID (configure_request now gatewayID);
     (case res of
        Inl e \<Rightarrow> do {
          Error ''gateway RPC request failed'';
          ret (TextReply 400 ''gateway RPC request failed'', s')
        }
      | Inr None \<Rightarrow> do {
          Error ''no gateway configuration returned'';
          ret (TextReply 400 ''no gateway configuration returned'', s')
        }
      | Inr (Some response) \<Rightarrow> ret (JsonReply 200 (encode_IotMessage response), s'))
   }"

section \<open>Commands\<close>

record commandData =
  cd_Command :: string
  cd_Attribute :: string
  cd_GatewayIds :: "string list"
  cd_DeviceID :: string
  cd_TariffID :: u64
  cd_Money :: u64
  cd_Vip :: bool
  cd_LegalEntity :: bool
  cd_UserID :: u64

definition zero_commandData :: commandData where
  "zero_commandData = \<lparr>cd_Command = [], cd_Attribute = [], cd_GatewayIds = [], cd_DeviceID = [],
     cd_TariffID = 0, cd_Money = 0, cd_Vip = False, cd_LegalEntity = False, cd_UserID = 0\<rparr>"

text \<open>A slice of strings: a \<open>null\<close> element is the empty string, any other kind is an error.\<close>

fun decode_strings :: "json list \<Rightarrow> err option \<times> string list" where
  "decode_strings [] = (None, [])"
| "decode_strings (j # js) =
     (let (e, s) = (case j of JStr s \<Rightarrow> (None, s) | JNull \<Rightarrow> (None, []) | _ \<Rightarrow> (Some type_error, []));
          (e', ss) = decode_strings js
      in (first_error e e', s # ss))"

definition commandData_fields :: "commandData json_field list" where
  "commandData_fields =
    [(''command'', True, StrAcc cd_Command (\<lambda>v. cd_Command_update (\<lambda>_. v))),
     (''attribute'', True, StrAcc cd_Attribute (\<lambda>v. cd_Attribute_update (\<lambda>_. v))),
     (''gatewayIds'', True, ListAcc (\<lambda>d. map JStr (cd_GatewayIds d))
        (\<lambda>js d. case decode_strings js of (e, ss) \<Rightarrow> (e, d\<lparr>cd_GatewayIds := ss\<rparr>))),
     (''deviceId'', True, StrAcc cd_DeviceID (\<lambda>v. cd_DeviceID_update (\<lambda>_. v))),
     (''tariffId'', True, U64Acc cd_TariffID (\<lambda>v. cd_TariffID_update (\<lambda>_. v))),
     (''money'', True, U64Acc cd_Money (\<lambda>v. cd_Money_update (\<lambda>_. v))),
     (''vip'', True, BoolAcc cd_Vip (\<lambda>v. cd_Vip_update (\<lambda>_. v))),
     (''isLegalEntity'', True, BoolAcc cd_LegalEntity (\<lambda>v. cd_LegalEntity_update (\<lambda>_. v))),
     (''userId'', True, U64Acc cd_UserID (\<lambda>v. cd_UserID_update (\<lambda>_. v)))]"

text \<open>Binding the body: its first JSON value, decoded into a zero \<open>commandData\<close>.\<close>

definition ShouldBindJSON :: "string \<Rightarrow> commandData result" where
  "ShouldBindJSON body =
     (case parse_value (2 * length body + 1) body of
        None \<Rightarrow> Inl syntax_error
      | Some (j, _) \<Rightarrow>
          (case decode_struct commandData_fields j zero_commandData of
             (None, d) \<Rightarrow> Inr d | (Some e, _) \<Rightarrow> Inl e))"

definition switch_message :: "i64 \<Rightarrow> commandData \<Rightarrow> gateway_id \<Rightarrow> IotMessage" where
  "switch_message now data gatewayID = (CreateCloudIotMessage now gatewayID (cd_DeviceID data))
     \<lparr>DeviceType := ''sensor'', Protocol := ''zwave'', MessageType := ''command'',
      Command := cd_Command data, Attribute := cd_Attribute data\<rparr>"

definition recording_message :: "i64 \<Rightarrow> commandData \<Rightarrow> gateway_id \<Rightarrow> IotMessage" where
  "recording_message now data gatewayID = (CreateCloudIotMessage now gatewayID (cd_DeviceID data))
     \<lparr>DeviceType := ''camera'', Protocol := ''onvif'', MessageType := ''command'',
      Command := cd_Command data, Attribute := cd_Attribute data, TariffId := cd_TariffID data,
      Money := cd_Money data, Vip := cd_Vip data, LegalEntity := cd_LegalEntity data\<rparr>"

text \<open>
  The command for one gateway, whose channel is at address \<open>cp\<close>. The type assertion cannot fail:
  the map holds gateway channels only.
\<close>

definition run_command :: "env \<Rightarrow> commandData \<Rightarrow> gateway_id \<Rightarrow> chan_ptr \<Rightarrow> server \<Rightarrow> server io" where
  "run_command E data gatewayID cp s =
     (if cd_Command data = ''push'' then
        (case GetLogic (sv_chans s cp) of
           None \<Rightarrow> do { Error ''no business logic loaded''; ret s }
         | Some bl \<Rightarrow> ret (s\<lparr>sv_chans := (sv_chans s)(cp := (sv_chans s cp)
             \<lparr>gc_bl := Some (SetPush (cd_Attribute data = ''on'') bl)\<rparr>)\<rparr>))
      else if cd_Command data = ''switch'' then do {
        now \<leftarrow> ask ClockRead (e_now E);
        message \<leftarrow> alloc (switch_message now data gatewayID);
        go_task (SendGatewayMessageTask (Some cp)) message;
        ret s
      }
      else if cd_Command data = ''setRecording'' then do {
        now \<leftarrow> ask ClockRead (e_now E);
        emit (Go (RunApplyLogic cp (recording_message now data gatewayID)));
        ret s
      }
      else ret s)"

fun command_loop :: "env \<Rightarrow> commandData \<Rightarrow> gateway_id list \<Rightarrow> bool \<Rightarrow> server \<Rightarrow> (bool \<times> server) io" where
  "command_loop E data [] gwFound s = ret (gwFound, s)"
| "command_loop E data (gatewayID # ids) gwFound s =
     (case GetGatewayChannel s gatewayID of
        None \<Rightarrow> do { Warn ''Channel map returned nil object''; command_loop E data ids gwFound s }
      | Some cp \<Rightarrow> do {
          s' \<leftarrow> run_command E data gatewayID cp s;
          command_loop E data ids True s'
        })"

definition handleCommand :: "env \<Rightarrow> server \<Rightarrow> string \<Rightarrow> (rest_reply \<times> server) io" where
  "handleCommand E s body =
     (case ShouldBindJSON body of
        Inl e \<Rightarrow> ret (JsonReply 400 (JObj [(''error'', JStr e)]), s)
      | Inr data \<Rightarrow> do {
          Debug ''Command data'';
          (gwFound, s') \<leftarrow> command_loop E data (cd_GatewayIds data) False s;
          (if \<not> gwFound then do {
             Error ''no gateways found'';
             ret (TextReply 404 ''no gateways found'', s')
           }
           else ret (TextReply 200 ''OK'', s'))
        })"

end
