(* ===== verification/Application.thy ===== *)
theory Application
  imports Runtime
begin

text \<open>
  The set-up before \<open>main\<close>: \<open>internal/infrastructure/logger\<close> and \<open>internal/infrastructure/application\<close>.
  What zap, lumberjack, pflag and viper do is a parameter; a logger is known by how it was constructed, since the server only
  builds it and hands it lines.
\<close>

section \<open>What the libraries provide\<close>

datatype level_encoder = LowercaseLevelEncoder | OtherLevelEncoder
datatype time_encoder = ISO8601TimeEncoder | OtherTimeEncoder

record encoder_config =
  ec_MessageKey :: string
  ec_LevelKey :: string
  ec_EncodeLevel :: "level_encoder option"
  ec_TimeKey :: string
  ec_EncodeTime :: "time_encoder option"

text \<open>The fields of \<open>zap.Config\<close> that the server sets or reads; a level is the number of a \<open>zapcore.Level\<close>.\<close>

record zap_config =
  zc_Level :: int
  zc_Encoding :: string
  zc_EncoderConfig :: encoder_config
  zc_OutputPaths :: "string list"
  zc_ErrorOutputPaths :: "string list"

record lumberjack =
  lj_Filename :: string
  lj_MaxSize :: nat
  lj_MaxBackups :: nat
  lj_MaxAge :: nat

datatype encoder = JSONEncoder encoder_config | ConsoleEncoder encoder_config

text \<open>The core behind a logger: the one that \<open>Build\<close> makes of a configuration, or one that writes to a rotated file.\<close>

datatype log_core = BuiltCore zap_config | NewCore encoder lumberjack int

text \<open>
  \<open>zap_production\<close> is what \<open>NewProductionConfig\<close> returns, \<open>zap_level\<close> decodes the name of a level, \<open>zap_build\<close>
  is the error of \<open>Build\<close>. \<open>flag_config\<close> is the value of the flag \<open>config\<close> for its default, \<open>None\<close> when parsing the command line
  ended the process; \<open>read_config\<close> is the error of reading the file, and the two others read its values.
\<close>

record libraries =
  zap_production :: zap_config
  zap_level :: "string \<Rightarrow> int option"
  zap_build :: "zap_config \<Rightarrow> err option"
  flag_config :: "string \<Rightarrow> string option"
  read_config :: "string \<Rightarrow> err option"
  config_str :: "string \<Rightarrow> string"
  config_bool :: "string \<Rightarrow> bool"

section \<open>The logger\<close>

text \<open>The package variables: \<open>sugar\<close> is nil until \<open>Init\<close> has set it, \<open>once\<close> remembers that it ran.\<close>

record logger_state =
  lg_sugar :: "log_core option"
  lg_once :: bool

definition logger_start :: logger_state where
  "logger_start = \<lparr>lg_sugar = None, lg_once = False\<rparr>"

datatype 'a init_result = Initialised 'a | LogFatal string | FlagsExit | InitPanic string

definition SetOutput :: "lumberjack \<Rightarrow> zap_config \<Rightarrow> (string, log_core) sum" where
  "SetOutput ws conf =
     (if zc_Encoding conf = ''json'' then Inr (NewCore (JSONEncoder (zc_EncoderConfig conf)) ws (zc_Level conf))
      else if zc_Encoding conf = ''console'' then Inr (NewCore (ConsoleEncoder (zc_EncoderConfig conf)) ws (zc_Level conf))
      else Inl ''unknown encoding'')"

definition logger_config :: "libraries \<Rightarrow> string \<Rightarrow> zap_config" where
  "logger_config L filePath = (zap_production L)
     \<lparr>zc_OutputPaths := [filePath, ''stderr''],
      zc_ErrorOutputPaths := [filePath, ''stderr''],
      zc_EncoderConfig := \<lparr>ec_MessageKey = ''message'',
        ec_LevelKey = ''level'', ec_EncodeLevel = Some LowercaseLevelEncoder,
        ec_TimeKey = ''time'', ec_EncodeTime = Some ISO8601TimeEncoder\<rparr>\<rparr>"

definition rotated_file :: "string \<Rightarrow> lumberjack" where
  "rotated_file filePath = \<lparr>lj_Filename = filePath, lj_MaxSize = 1, lj_MaxBackups = 5, lj_MaxAge = 28\<rparr>"

definition logger_Init :: "libraries \<Rightarrow> string \<Rightarrow> string \<Rightarrow> bool \<Rightarrow> logger_state \<Rightarrow> logger_state init_result" where
  "logger_Init L logLevel filePath logRotate s =
     (if lg_once s then Initialised s
      else case zap_level L logLevel of
        None \<Rightarrow> LogFatal (''can't marshal level string: '' @ logLevel)
      | Some level \<Rightarrow>
          (let config = (logger_config L filePath)\<lparr>zc_Level := level\<rparr> in
           case zap_build L config of
             Some err \<Rightarrow> LogFatal (''can't initialize zap logger: '' @ err)
           | None \<Rightarrow>
               (if logRotate then
                  (case SetOutput (rotated_file filePath) config of
                     Inl panic \<Rightarrow> InitPanic panic
                   | Inr core \<Rightarrow> Initialised \<lparr>lg_sugar = Some core, lg_once = True\<rparr>)
                else Initialised \<lparr>lg_sugar = Some (BuiltCore config), lg_once = True\<rparr>)))"

section \<open>The application\<close>

definition application_Init :: "libraries \<Rightarrow> string \<Rightarrow> logger_state \<Rightarrow> logger_state init_result" where
  "application_Init L defaultConfigPath s =
     (case flag_config L defaultConfigPath of
        None \<Rightarrow> FlagsExit
      | Some configFile \<Rightarrow>
          (case read_config L configFile of
             Some err \<Rightarrow> LogFatal (''Couldn't read configuration file: '' @ err)
           | None \<Rightarrow>
               logger_Init L (config_str L ''log.log_level'') (config_str L ''log.log_file'')
                 (config_bool L ''log.log_rotate'') s))"

section \<open>Properties\<close>

definition sample_libraries :: libraries where
  "sample_libraries = \<lparr>zap_production = \<lparr>zc_Level = 0, zc_Encoding = ''json'',
       zc_EncoderConfig = \<lparr>ec_MessageKey = ''msg'', ec_LevelKey = ''level'', ec_EncodeLevel = Some LowercaseLevelEncoder,
         ec_TimeKey = ''ts'', ec_EncodeTime = Some OtherTimeEncoder\<rparr>,
       zc_OutputPaths = [''stderr''], zc_ErrorOutputPaths = [''stderr'']\<rparr>,
     zap_level = (\<lambda>s. if s = ''debug'' then Some (- 1) else if s = ''info'' then Some 0 else None),
     zap_build = (\<lambda>_. None), flag_config = Some, read_config = (\<lambda>_. None),
     config_str = (\<lambda>k. if k = ''log.log_level'' then ''debug'' else ''server.log''), config_bool = (\<lambda>_. True)\<rparr>"

text \<open>C37: the set-up of the application either ends the process or leaves a logger that every later line can use, and it never
  panics: it ends for a bad command line, an unreadable file, an unknown level or a failed build, with the error; otherwise the logger has the
  configured level, and with rotation it writes JSON to the rotated file only, no longer to the standard error stream. A second
  initialisation changes nothing. (zap documents that its production configuration encodes JSON.)\<close>

theorem logger_ready:
  assumes "zc_Encoding (zap_production L) = ''json''" and "file = config_str L ''log.log_file''"
  shows "case application_Init L path logger_start of
      FlagsExit \<Rightarrow> flag_config L path = None
    | LogFatal s \<Rightarrow> \<exists>err.
          (\<exists>f. flag_config L path = Some f \<and> read_config L f = Some err \<and> s = ''Couldn't read configuration file: '' @ err)
        \<or> zap_level L (config_str L ''log.log_level'') = None
            \<and> s = ''can't marshal level string: '' @ config_str L ''log.log_level''
        \<or> (\<exists>level. zap_level L (config_str L ''log.log_level'') = Some level
            \<and> zap_build L ((logger_config L file)\<lparr>zc_Level := level\<rparr>) = Some err \<and> s = ''can't initialize zap logger: '' @ err)
    | InitPanic s \<Rightarrow> False
    | Initialised s \<Rightarrow> (\<exists>level. zap_level L (config_str L ''log.log_level'') = Some level
        \<and> lg_sugar s = Some (if config_bool L ''log.log_rotate''
            then NewCore (JSONEncoder (zc_EncoderConfig (logger_config L file))) (rotated_file file) level
            else BuiltCore ((logger_config L file)\<lparr>zc_Level := level\<rparr>)))
        \<and> (\<forall>L' logLevel filePath logRotate. logger_Init L' logLevel filePath logRotate s = Initialised s)"
  using assms
  by (auto simp: application_Init_def logger_Init_def logger_start_def SetOutput_def logger_config_def Let_def
      split: option.split if_split)

theorem logger_ready_witness:
  "\<exists>s. application_Init sample_libraries ''server.yaml'' logger_start = Initialised s
     \<and> (\<exists>ec. lg_sugar s = Some (NewCore (JSONEncoder ec) (rotated_file ''server.log'') (- 1)))"
proof -
  have "zc_Encoding (zap_production sample_libraries) = ''json''" "config_str sample_libraries ''log.log_file'' = ''server.log''"
    "config_bool sample_libraries ''log.log_rotate''" "zap_level sample_libraries (config_str sample_libraries ''log.log_level'') = Some (- 1)"
    by (simp_all add: sample_libraries_def)
  moreover obtain s where "application_Init sample_libraries ''server.yaml'' logger_start = Initialised s"
    by (simp add: application_Init_def logger_Init_def logger_start_def SetOutput_def logger_config_def sample_libraries_def)
  ultimately show ?thesis
    using logger_ready [of sample_libraries "''server.log''" "''server.yaml''"] by auto
qed

end
