(* ===== verification/App.thy ===== *)
theory App
  imports Rest Application
begin

text \<open>
  The command (\<open>cmd/gocloudserver\<close>): how the server is assembled, waits and is taken down. \<open>logger.Fatal\<close>
  writes its line and ends the process. What interrupts the server and how the HTTP server ended are arguments.
\<close>

text \<open>\<open>init\<close>, which runs before \<open>main\<close>.\<close>

definition main_init :: "libraries \<Rightarrow> logger_state \<Rightarrow> logger_state init_result" where
  "main_init L s = application_Init L ''../../configs/gocloudserver.dev.yaml'' s"

datatype 'a started = Running 'a | FatalExit | Crashed

definition Fatal :: "string \<Rightarrow> 'a started io" where
  "Fatal msg = do { emit (LogLine FatalLevel msg); ret FatalExit }"

definition config_connection :: "env \<Rightarrow> Connection" where
  "config_connection E = NewDatabaseConnection (e_cfg_str E ''db.cloud.user'') (e_cfg_str E ''db.cloud.password'')
     (e_cfg_str E ''db.cloud.host'') (e_cfg_str E ''db.cloud.database'') (e_cfg_int E ''db.cloud.port'')"

definition config_manager :: "env \<Rightarrow> Manager" where
  "config_manager E = NewManager (''iot-cloud-server-'' @ e_cfg_str E ''server_id'') (e_cfg_str E ''amqp.protocol'')
     (e_cfg_str E ''amqp.user'') (e_cfg_str E ''amqp.password'') (e_cfg_str E ''amqp.host'')
     (e_cfg_int E ''amqp.port'') (e_cfg_int E ''amqp.ctlPort'')"

text \<open>Everything up to the wait for an interrupt. \<open>NewServer\<close> returns the address of a server it made, so the
  nil check after it never holds.\<close>

definition main_start :: "env \<Rightarrow> (Connection \<times> Manager \<times> Server) started io" where
  "main_start E = do {
     Info []; Info [];
     Info ''********************************************************************************'';
     Info ''Starting application'';
     (err, conn) \<leftarrow> Connection_Init E (config_connection E);
     (case err of
        Some e \<Rightarrow> Fatal ''error connecting to database''
      | None \<Rightarrow> do {
          (err, manager) \<leftarrow> Manager_Open E (config_manager E);
          (case err of
             Some e \<Rightarrow> Fatal ''could not open broker''
           | None \<Rightarrow> do {
               restarted \<leftarrow> RestartGateways E manager;
               (case restarted of
                  Panicked \<Rightarrow> ret Crashed
                | Returned _ \<Rightarrow> do {
                    (err, manager') \<leftarrow> EventExchangeInit E manager;
                    (case err of
                       Some e \<Rightarrow> Fatal ''could not initialize event exchange''
                     | None \<Rightarrow> do {
                         emit (Go RunEventLoop);
                         emit (Go RunRestServer);
                         emit SignalNotify;
                         Info ''Application started. Press Ctrl+C to exit...'';
                         ret (Running (conn, manager', NewServer E))
                       })
                  })
             })
        })
   }"

text \<open>The goroutine of the REST server; \<open>ended\<close> is how the HTTP server ended.\<close>

definition rest_goroutine :: "env \<Rightarrow> Server \<Rightarrow> listen_error \<Rightarrow> Server started io" where
  "rest_goroutine E restAPI ended =
     (case Server_Start E restAPI ended of
        (Some err, _) \<Rightarrow> Fatal ''could not start RESTful API server''
      | (None, restAPI') \<Rightarrow> ret (Running restAPI'))"

text \<open>The \<open>select\<close> that main waits in: which case it took. The result says whether main cancels its context.\<close>

datatype wakeup = ContextDone | Interrupted

definition main_wait :: "wakeup \<Rightarrow> bool io" where
  "main_wait wake =
     (case wake of
        ContextDone \<Rightarrow> do { Info ''Main context cancelled''; ret False }
      | Interrupted \<Rightarrow> do { Info ''User or OS interrupted program''; ret True })"

text \<open>The shutdown after the interrupt; \<open>shutdown\<close> is what shutting down the HTTP server returned.\<close>

definition main_stop :: "env \<Rightarrow> Server \<Rightarrow> err option \<Rightarrow> Connection \<Rightarrow> server \<Rightarrow> server outcome io" where
  "main_stop E restAPI shutdown conn s = do {
     closed \<leftarrow> Manager_Close E s;
     (case closed of
        Panicked \<Rightarrow> ret Panicked
      | Returned (err, s') \<Rightarrow> do {
          (if err \<noteq> None then Error ''error while closing connection'' else ret ());
          (if Server_Stop restAPI shutdown \<noteq> None then Error ''could not stop RESTful API server'' else ret ());
          db \<leftarrow> Connection_Close E conn;
          (case db of
             Panicked \<Rightarrow> ret Panicked
           | Returned err \<Rightarrow> do {
               (if err \<noteq> None then Error ''failed closing database connection'' else ret ());
               Info ''Application exited properly'';
               ret (Returned s')
             })
        })
   }"

text \<open>
  The whole of \<open>main\<close>. While it waits, the REST server starts and the event loop takes the exchange events \<open>sels\<close>, on the
  manager that main made and with \<open>store\<close> for the channels it will make; an error of the REST server ends the process.
\<close>

definition main :: "env \<Rightarrow> (chan_ptr \<Rightarrow> GatewayChannel) \<Rightarrow> ev_selected list \<Rightarrow> listen_error \<Rightarrow> wakeup \<Rightarrow> err option \<Rightarrow> server started io" where
  "main E store sels ended wake shutdown = do {
     up \<leftarrow> main_start E;
     (case up of
        FatalExit \<Rightarrow> ret FatalExit
      | Crashed \<Rightarrow> ret Crashed
      | Running (conn, manager, restAPI) \<Rightarrow> do {
          rest \<leftarrow> rest_goroutine E restAPI ended;
          (case rest of
             FatalExit \<Rightarrow> ret FatalExit
           | Crashed \<Rightarrow> ret Crashed
           | Running restAPI' \<Rightarrow> do {
               looped \<leftarrow> ProcessExchangeEvents E (Some conn) sels \<lparr>sv_mgr = manager, sv_chans = store, sv_next = 0\<rparr>;
               (case looped of
                  Panicked \<Rightarrow> ret Crashed
                | Returned s \<Rightarrow> do {
                    _ \<leftarrow> main_wait wake;
                    stopped \<leftarrow> main_stop E restAPI' shutdown conn s;
                    (case stopped of Panicked \<Rightarrow> ret Crashed | Returned s' \<Rightarrow> ret (Running s'))
                  })
             })
        })
   }"

end
