(* ===== verification/GatewayRpc.thy ===== *)
theory GatewayRpc
  imports App TaskProps
begin

text \<open>
  Remote calls under concurrency: any number of goroutines in \<open>DoRPC\<close>, the reader goroutine of
  \<open>Start\<close> and \<open>Close\<close> share the pending calls of a channel. A step of the relation is a section
  that the code executes under the mutex, a turn of the reader, or a communication on the
  unbuffered \<open>done\<close> channel of a call. Calls are named by their correlation ids, which are fresh UUIDs:
  a name is used by one caller only.
\<close>

section \<open>Steps\<close>

text \<open>A caller: before the call, after publishing, after registering, after the wait, after releasing.\<close>

datatype caller =
    Idle
  | Published
  | Waiting
  | Woken "(IotMessage option) result"
  | Finished "(IotMessage option) result"

datatype rpc_reader = Reading | Sending string | ReaderDone | ReaderCrashed

record rpc_state =
  rs_chan :: GatewayChannel
  rs_callers :: "string \<Rightarrow> caller"
  rs_reader :: rpc_reader

datatype rpc_action =
    PublishCall string
  | RegisterCall string
  | ReaderTurn selected
  | HandOver string
  | WakeClosed string
  | TimeoutCall string
  | ReleaseCall string
  | SendOnClosed string
  | CloseChannelCalls

text \<open>What a turn of the reader leaves.\<close>

definition after_turn :: "(reader_flow \<times> GatewayChannel) outcome \<Rightarrow> rpc_state \<Rightarrow> rpc_state" where
  "after_turn res s =
     (case res of
        Panicked \<Rightarrow> s\<lparr>rs_reader := ReaderCrashed\<rparr>
      | Returned (NextTurn, c) \<Rightarrow> s\<lparr>rs_chan := c\<rparr>
      | Returned (ReaderEnds, c) \<Rightarrow> s\<lparr>rs_chan := c, rs_reader := ReaderDone\<rparr>
      | Returned (SendsDone k, c) \<Rightarrow> s\<lparr>rs_chan := c, rs_reader := Sending k\<rparr>)"

definition set_caller :: "string \<Rightarrow> caller \<Rightarrow> rpc_state \<Rightarrow> rpc_state" where
  "set_caller k ph s = s\<lparr>rs_callers := (rs_callers s)(k := ph)\<rparr>"

definition is_closed :: "rpc_state \<Rightarrow> string \<Rightarrow> bool" where
  "is_closed s k = (case map_of (gc_rpcCalls (rs_chan s)) k of None \<Rightarrow> False | Some call \<Rightarrow> call_closed call)"

text \<open>
  Closing closes the \<open>done\<close> channel of every pending call; a second \<open>Close\<close> would close one twice
  and end the process.
\<close>

definition after_close :: "rpc_state \<Rightarrow> rpc_state" where
  "after_close s =
     (case close_calls (gc_rpcCalls (rs_chan s)) of
        Panicked \<Rightarrow> s\<lparr>rs_reader := ReaderCrashed\<rparr>
      | Returned calls \<Rightarrow> s\<lparr>rs_chan := (rs_chan s)\<lparr>gc_cancelled := True, gc_rpcCalls := calls\<rparr>\<rparr>)"

inductive rpc_step :: "rpc_state \<Rightarrow> rpc_action \<Rightarrow> rpc_state \<Rightarrow> bool" where
  publish: "rs_callers s k = Idle \<Longrightarrow> rpc_step s (PublishCall k) (set_caller k Published s)"
| register: "rs_callers s k = Published \<Longrightarrow>
    rpc_step s (RegisterCall k) (set_caller k Waiting (s\<lparr>rs_chan := register_call k (rs_chan s)\<rparr>))"
| turn: "rs_reader s = Reading \<Longrightarrow>
    rpc_step s (ReaderTurn sel) (after_turn (value_of (reader_turn cp (rs_chan s) sel) w) s)"
| hand_over: "rs_reader s = Sending k \<Longrightarrow> rs_callers s k = Waiting \<Longrightarrow> \<not> is_closed s k \<Longrightarrow>
    rpc_step s (HandOver k)
      (set_caller k (Woken (fst (DoRPC_end k DoneReceived (rs_chan s)))) (s\<lparr>rs_reader := Reading\<rparr>))"
| wake_closed: "rs_callers s k = Waiting \<Longrightarrow> is_closed s k \<Longrightarrow>
    rpc_step s (WakeClosed k) (set_caller k (Woken (fst (DoRPC_end k DoneReceived (rs_chan s)))) s)"
| timeout: "rs_callers s k = Waiting \<Longrightarrow>
    rpc_step s (TimeoutCall k) (set_caller k (Woken (fst (DoRPC_end k TimeElapsed (rs_chan s)))) s)"
| release: "rs_callers s k = Woken r \<Longrightarrow>
    rpc_step s (ReleaseCall k) (set_caller k (Finished r) (s\<lparr>rs_chan := release_call k (rs_chan s)\<rparr>))"
| send_on_closed: "rs_reader s = Sending k \<Longrightarrow> is_closed s k \<Longrightarrow>
    rpc_step s (SendOnClosed k) (s\<lparr>rs_reader := ReaderCrashed\<rparr>)"
| close: "rpc_step s CloseChannelCalls (after_close s)"

inductive rpc_run :: "rpc_state \<Rightarrow> rpc_action list \<Rightarrow> rpc_state \<Rightarrow> bool" where
  nil: "rpc_run s [] s"
| step: "rpc_step s a s' \<Longrightarrow> rpc_run s' as s'' \<Longrightarrow> rpc_run s (a # as) s''"

inductive_cases rpc_stepE:
  "rpc_step s (PublishCall k) s'" "rpc_step s (RegisterCall k) s'" "rpc_step s (ReaderTurn sel) s'"
  "rpc_step s (HandOver k) s'" "rpc_step s (WakeClosed k) s'" "rpc_step s (TimeoutCall k) s'"
  "rpc_step s (ReleaseCall k) s'" "rpc_step s (SendOnClosed k) s'" "rpc_step s CloseChannelCalls s'"

inductive_simps rpc_run_simps: "rpc_run s [] s'" "rpc_run s (a # as) s'"

definition rpc_start :: "GatewayChannel \<Rightarrow> rpc_state" where
  "rpc_start c = \<lparr>rs_chan = c, rs_callers = (\<lambda>_. Idle), rs_reader = Reading\<rparr>"

section \<open>One turn of the reader\<close>

text \<open>The response a delivery carries, for which call.\<close>

definition response_in :: "selected \<Rightarrow> (string \<times> IotMessage) option" where
  "response_in sel =
     (case sel of
        Received d \<Rightarrow> (case json_Unmarshal (dl_Body d) of
            Inr m \<Rightarrow> if dl_CorrelationId d = [] then None else Some (dl_CorrelationId d, m)
          | Inl _ \<Rightarrow> None)
      | _ \<Rightarrow> None)"

lemma copy_bytes_all: "copy_bytes (replicate (length s) z) s = (length s, s)"
  by (simp add: copy_bytes_def Let_def)

lemma ReadEnvelope_value:
  "value_of (ReadEnvelope sel) w =
     (case sel of
        CtxDone \<Rightarrow> (None, True, None)
      | MsgsClosed \<Rightarrow> (None, False, None)
      | Received d \<Rightarrow> (case json_Unmarshal (dl_Body d) of
            Inl e \<Rightarrow> (None, False, Some (wrap e ''can not unmarshal incoming gateway message''))
          | Inr m \<Rightarrow> (Some \<lparr>env_Message = m,
              env_Metadata = \<lparr>md_CorrelationID = dl_CorrelationId d, md_ReplyTo = []\<rparr>\<rparr>, False, None)))"
  by (auto simp: ReadEnvelope_def value_of_def copy_bytes_all Let_def PrintMessage_def split: selected.split sum.split)

definition turn_result :: "GatewayChannel \<Rightarrow> selected \<Rightarrow> (reader_flow \<times> GatewayChannel) outcome" where
  "turn_result c sel =
     (if gc_cancelled c then Returned (ReaderEnds, c)
      else if sel = MsgsClosed then Panicked
      else case response_in sel of
        None \<Rightarrow> Returned (NextTurn, c)
      | Some (k, m) \<Rightarrow>
          (case map_of (gc_rpcCalls c) k of
             None \<Rightarrow> Returned (NextTurn, c)
           | Some call \<Rightarrow> if call_closed call then Panicked
               else Returned (SendsDone k, c\<lparr>gc_rpcCalls := store_response k m (gc_rpcCalls c)\<rparr>)))"

lemma reader_turn_value: "value_of (reader_turn cp c sel) w = turn_result c sel"
proof (cases "gc_cancelled c")
  case False
  note defs = reader_turn_def value_bind ReadEnvelope_value turn_result_def response_in_def Let_def
  show ?thesis
  proof (cases sel)
    case (Received d)
    then show ?thesis
      using False by (cases "json_Unmarshal (dl_Body d)") (simp_all add: defs split: option.split)
  qed (use False in \<open>simp_all add: defs\<close>)
qed (simp add: reader_turn_def turn_result_def)

section \<open>The pending calls\<close>

definition call_of :: "rpc_state \<Rightarrow> string \<Rightarrow> rpcPendingCall option" where
  "call_of s k = map_of (gc_rpcCalls (rs_chan s)) k"

lemma map_of_filter_key: "map_of (filter (\<lambda>(k', _). k' \<noteq> c) xs) k = (if k = c then None else map_of xs k)"
  by (induction xs) auto

lemma calls_register:
  "map_of (gc_rpcCalls (register_call c g)) k =
     (if k = c then Some \<lparr>call_closed = False, call_data = None\<rparr> else map_of (gc_rpcCalls g) k)"
  by (simp add: register_call_def map_of_filter_key)

lemma calls_release:
  "map_of (gc_rpcCalls (release_call c g)) k = (if k = c then None else map_of (gc_rpcCalls g) k)"
  by (simp add: release_call_def map_of_filter_key)

lemma calls_store:
  "map_of (store_response c m xs) k =
     map_option (\<lambda>call. if k = c then call\<lparr>call_data := Some m\<rparr> else call) (map_of xs k)"
  by (induction xs) (auto simp: store_response_def)

lemma calls_close:
  "close_calls xs = Returned ys \<Longrightarrow> map_of ys k = map_option (\<lambda>call. call\<lparr>call_closed := True\<rparr>) (map_of xs k)"
proof -
  assume "close_calls xs = Returned ys"
  then have "ys = map (\<lambda>(k, call). (k, call\<lparr>call_closed := True\<rparr>)) xs"
    by (simp add: close_calls_def split: if_splits)
  then show ?thesis by (induction xs arbitrary: ys) auto
qed

lemmas call_of_simps = call_of_def calls_register calls_release calls_store

lemma set_caller_sel [simp]:
  "rs_chan (set_caller k ph s) = rs_chan s" "rs_reader (set_caller k ph s) = rs_reader s"
  "rs_callers (set_caller k ph s) = (rs_callers s)(k := ph)"
  "set_caller k ph s\<lparr>rs_reader := rd\<rparr> = set_caller k ph (s\<lparr>rs_reader := rd\<rparr>)"
  by (simp_all add: set_caller_def)

text \<open>A call holds its entry while its caller waits or has been woken, and only then.\<close>

definition holds_entry :: "caller \<Rightarrow> bool" where
  "holds_entry ph = (case ph of Waiting \<Rightarrow> True | Woken _ \<Rightarrow> True | _ \<Rightarrow> False)"

definition answer_of :: "caller \<Rightarrow> IotMessage option" where
  "answer_of ph = (case ph of Woken (Inr a) \<Rightarrow> a | Finished (Inr a) \<Rightarrow> a | _ \<Rightarrow> None)"

text \<open>The invariant, over the set \<open>R\<close> of responses the reader has received.\<close>

definition rpc_inv :: "(string \<times> IotMessage) set \<Rightarrow> rpc_state \<Rightarrow> bool" where
  "rpc_inv R s \<longleftrightarrow>
     (\<forall>k. (call_of s k \<noteq> None) = holds_entry (rs_callers s k))
     \<and> (\<forall>k call m. call_of s k = Some call \<longrightarrow> call_data call = Some m \<longrightarrow> (k, m) \<in> R)
     \<and> (\<forall>k m. answer_of (rs_callers s k) = Some m \<longrightarrow> (k, m) \<in> R)
     \<and> (\<forall>k. rs_reader s = Sending k \<longrightarrow> rs_callers s k \<notin> {Idle, Published}
          \<and> (\<forall>call. call_of s k = Some call \<longrightarrow> call_data call \<noteq> None))"

definition responses_of :: "rpc_action \<Rightarrow> (string \<times> IotMessage) set" where
  "responses_of a = (case a of ReaderTurn sel \<Rightarrow> set_option (response_in sel) | _ \<Rightarrow> {})"

lemma after_turn_cases:
  assumes "rs_reader s = Reading"
  obtains "after_turn (turn_result (rs_chan s) sel) s = s"
  | rd where "rd \<in> {ReaderDone, ReaderCrashed}" "after_turn (turn_result (rs_chan s) sel) s = s\<lparr>rs_reader := rd\<rparr>"
  | k m call where "response_in sel = Some (k, m)" "call_of s k = Some call" "\<not> call_closed call"
      "after_turn (turn_result (rs_chan s) sel) s =
         s\<lparr>rs_chan := (rs_chan s)\<lparr>gc_rpcCalls := store_response k m (gc_rpcCalls (rs_chan s))\<rparr>, rs_reader := Sending k\<rparr>"
proof -
  note defs = turn_result_def after_turn_def call_of_def
  consider "gc_cancelled (rs_chan s)" | "\<not> gc_cancelled (rs_chan s)" "sel = MsgsClosed"
    | "\<not> gc_cancelled (rs_chan s)" "sel \<noteq> MsgsClosed" "response_in sel = None"
    | k m where "\<not> gc_cancelled (rs_chan s)" "sel \<noteq> MsgsClosed" "response_in sel = Some (k, m)"
    by (cases "response_in sel") auto
  then show ?thesis
  proof cases
    case 1
    then show ?thesis by (intro that(2) [of ReaderDone]) (simp_all add: defs)
  next
    case 2
    then show ?thesis by (intro that(2) [of ReaderCrashed]) (simp_all add: defs)
  next
    case 3
    then show ?thesis by (intro that(1)) (simp add: defs)
  next
    case (4 k m)
    show ?thesis
    proof (cases "map_of (gc_rpcCalls (rs_chan s)) k")
      case None
      with 4 show ?thesis by (intro that(1)) (simp add: defs)
    next
      case (Some call)
      show ?thesis
      proof (cases "call_closed call")
        case True
        with 4 Some show ?thesis by (intro that(2) [of ReaderCrashed]) (simp_all add: defs)
      next
        case False
        with 4 Some show ?thesis by (intro that(3) [of k m call]) (simp_all add: defs)
      qed
    qed
  qed
qed

lemma rpc_inv_step:
  assumes "rpc_step s a s'" and "rpc_inv R s"
  shows "rpc_inv (R \<union> responses_of a) s'"
  using assms
proof (induction rule: rpc_step.induct)
  case (publish s k)
  then show ?case
    by (auto simp: rpc_inv_def responses_of_def call_of_def holds_entry_def answer_of_def)
next
  case (register s k)
  then show ?case
    by (auto simp: rpc_inv_def responses_of_def call_of_simps holds_entry_def answer_of_def)
next
  case (turn s sel cp w)
  from after_turn_cases [OF turn(1), of sel] show ?case
  proof cases
    case 1
    with turn show ?thesis by (auto simp: reader_turn_value rpc_inv_def)
  next
    case (2 rd)
    with turn show ?thesis by (auto simp: reader_turn_value rpc_inv_def call_of_def)
  next
    case (3 k m call)
    moreover have "holds_entry (rs_callers s k)"
      using 3 turn by (force simp: rpc_inv_def)
    ultimately show ?thesis
      using turn
      by (auto simp: reader_turn_value rpc_inv_def call_of_simps responses_of_def holds_entry_def split: if_splits)
  qed
next
  case (hand_over s k)
  then show ?case
    by (auto simp: rpc_inv_def responses_of_def call_of_def holds_entry_def answer_of_def DoRPC_end_def Let_def split: option.splits)
next
  case (wake_closed s k)
  then show ?case
    by (auto simp: rpc_inv_def responses_of_def call_of_def holds_entry_def answer_of_def DoRPC_end_def Let_def split: option.splits)
next
  case (timeout s k)
  then show ?case
    by (auto simp: rpc_inv_def responses_of_def call_of_def holds_entry_def answer_of_def DoRPC_end_def Let_def)
next
  case (release s k r)
  then show ?case
    by (auto simp: rpc_inv_def responses_of_def call_of_simps holds_entry_def answer_of_def split: if_splits)
next
  case (send_on_closed s k)
  then show ?case
    by (auto simp: rpc_inv_def responses_of_def call_of_def)
next
  case (close s)
  show ?case
  proof (cases "close_calls (gc_rpcCalls (rs_chan s))")
    case (Returned calls)
    with close show ?thesis
      by (auto simp: rpc_inv_def after_close_def responses_of_def call_of_def calls_close [OF Returned])
  next
    case Panicked
    with close show ?thesis
      by (auto simp: rpc_inv_def after_close_def responses_of_def call_of_def)
  qed
qed

definition responses :: "rpc_action list \<Rightarrow> (string \<times> IotMessage) set" where
  "responses as = (\<Union>a \<in> set as. responses_of a)"

lemma rpc_inv_run: "rpc_run s as s' \<Longrightarrow> rpc_inv R s \<Longrightarrow> rpc_inv (R \<union> responses as) s'"
proof (induction arbitrary: R rule: rpc_run.induct)
  case (step s a s' as s'')
  from step.IH [OF rpc_inv_step [OF step.hyps(1) step.prems]] show ?case
    by (simp add: responses_def Un_assoc)
qed (simp add: responses_def)

lemma rpc_inv_start: "gc_rpcCalls c = [] \<Longrightarrow> rpc_inv {} (rpc_start c)"
  by (simp add: rpc_inv_def rpc_start_def call_of_def holds_entry_def answer_of_def)

section \<open>A reader that cannot go on\<close>

definition stuck :: "string \<Rightarrow> rpc_state \<Rightarrow> bool" where
  "stuck k s \<longleftrightarrow> rs_reader s = Sending k \<and> (\<exists>r. rs_callers s k = Finished r) \<and> call_of s k = None"

lemma after_close_keeps:
  "rs_callers (after_close s) = rs_callers s"
  "rs_reader (after_close s) = rs_reader s \<or> rs_reader (after_close s) = ReaderCrashed"
  "call_of s k = None \<Longrightarrow> call_of (after_close s) k = None"
proof -
  show "rs_callers (after_close s) = rs_callers s"
    "rs_reader (after_close s) = rs_reader s \<or> rs_reader (after_close s) = ReaderCrashed"
    by (simp_all add: after_close_def split: outcome.split)
  show "call_of (after_close s) k = None" if "call_of s k = None"
    using that calls_close by (cases "close_calls (gc_rpcCalls (rs_chan s))") (auto simp: after_close_def call_of_def)
qed

lemma stuck_step:
  assumes "rpc_step s a s'" and "stuck k s \<or> rs_reader s = ReaderCrashed"
  shows "(stuck k s' \<or> rs_reader s' = ReaderCrashed) \<and> (\<forall>sel. a \<noteq> ReaderTurn sel)"
  using assms
proof (induction rule: rpc_step.induct)
  case (send_on_closed s k')
  then show ?case by simp
next
  case (close s)
  then show ?case
    using after_close_keeps [of s] by (auto simp: stuck_def)
qed (auto simp: stuck_def call_of_simps)

lemma stuck_run:
  "rpc_run s as s' \<Longrightarrow> stuck k s \<or> rs_reader s = ReaderCrashed \<Longrightarrow>
   (stuck k s' \<or> rs_reader s' = ReaderCrashed) \<and> (\<forall>sel. ReaderTurn sel \<notin> set as)"
proof (induction rule: rpc_run.induct)
  case (step s a s' as s'')
  from stuck_step [OF step.hyps(1) step.prems] step.IH show ?case by auto
qed simp

section \<open>A response that comes too early\<close>

definition rpc_timeout_error :: err where
  "rpc_timeout_error = ''timeout elapsed on RPC request sending''"

text \<open>The caller \<open>k\<close> has no response, and none is on its way.\<close>

definition unanswered :: "string \<Rightarrow> rpc_state \<Rightarrow> bool" where
  "unanswered k s \<longleftrightarrow> rs_reader s \<noteq> Sending k
     \<and> (\<forall>call. call_of s k = Some call \<longrightarrow> call_data call = None)
     \<and> (\<forall>r. rs_callers s k = Woken r \<or> rs_callers s k = Finished r \<longrightarrow> r \<in> {Inl rpc_timeout_error, Inr None})"

lemma unanswered_step:
  assumes "rpc_step s a s'" and "unanswered k s" and "k \<notin> fst ` responses_of a"
  shows "unanswered k s'"
  using assms
proof (induction rule: rpc_step.induct)
  case (turn s sel cp w)
  from after_turn_cases [OF turn(1), of sel] show ?case
  proof cases
    case 1
    with turn show ?thesis by (simp add: reader_turn_value)
  next
    case (2 rd)
    with turn show ?thesis by (auto simp: reader_turn_value unanswered_def call_of_def)
  next
    case (3 k' m call)
    with turn show ?thesis
      by (auto simp: reader_turn_value unanswered_def call_of_simps responses_of_def split: if_splits)
  qed
next
  case (close s)
  show ?case
  proof (cases "close_calls (gc_rpcCalls (rs_chan s))")
    case (Returned calls)
    with close show ?thesis
      by (auto simp: unanswered_def after_close_def call_of_def calls_close [OF Returned])
  next
    case Panicked
    with close show ?thesis by (auto simp: unanswered_def after_close_def call_of_def)
  qed
qed (auto simp: unanswered_def call_of_simps DoRPC_end_def Let_def rpc_timeout_error_def split: option.splits if_splits)

lemma unanswered_run:
  "rpc_run s as s' \<Longrightarrow> unanswered k s \<Longrightarrow> k \<notin> fst ` responses as \<Longrightarrow> unanswered k s'"
proof (induction rule: rpc_run.induct)
  case (step s a s' as s'')
  then show ?case
    using unanswered_step [of s a s' k] by (auto simp: responses_def)
qed

lemma early_response:
  assumes "rpc_inv R s" and "rs_callers s k = Published" and "rpc_step s (ReaderTurn sel) s'"
    and "response_in sel = Some (k, m)"
  shows "unanswered k s'"
proof -
  have "(call_of s k \<noteq> None) = holds_entry (rs_callers s k)"
    using assms(1) by (simp add: rpc_inv_def)
  then have none: "call_of s k = None"
    using assms(2) by (simp add: holds_entry_def)
  from assms(3) obtain cp w where s': "s' = after_turn (value_of (reader_turn cp (rs_chan s) sel) w) s" and r: "rs_reader s = Reading"
    by (auto elim: rpc_stepE)
  from after_turn_cases [OF r, of sel] show ?thesis
  proof cases
    case 1
    with s' r none assms(2) show ?thesis by (simp add: reader_turn_value unanswered_def)
  next
    case (2 rd)
    with s' none assms(2) show ?thesis by (auto simp: reader_turn_value unanswered_def call_of_def)
  next
    case (3 k' m' call)
    with none assms(4) show ?thesis by simp
  qed
qed

section \<open>A response in time\<close>

lemma response_delivered:
  assumes "rs_reader s = Reading" and "rs_callers s k = Waiting" and "\<not> gc_cancelled (rs_chan s)"
    and "call_of s k = Some call" and "\<not> call_closed call" and "response_in sel = Some (k, m)"
  shows "\<exists>s'. rpc_run s [ReaderTurn sel, HandOver k, ReleaseCall k] s' \<and> rs_callers s' k = Finished (Inr (Some m))
    \<and> call_of s' k = None \<and> rs_reader s' = Reading"
proof -
  let ?c = "(rs_chan s)\<lparr>gc_rpcCalls := store_response k m (gc_rpcCalls (rs_chan s))\<rparr>"
  let ?s1 = "s\<lparr>rs_chan := ?c, rs_reader := Sending k\<rparr>"
  have sel: "sel \<noteq> MsgsClosed"
    using assms(6) by (auto simp: response_in_def)
  have "after_turn (turn_result (rs_chan s) sel) s = ?s1"
    using assms sel by (simp add: turn_result_def after_turn_def call_of_def)
  then have 1: "rpc_step s (ReaderTurn sel) ?s1"
    using rpc_step.turn [OF assms(1)] by (metis reader_turn_value)
  have data: "map_of (gc_rpcCalls ?c) k = Some (call\<lparr>call_data := Some m\<rparr>)"
    using assms(4) by (simp add: call_of_def calls_store)
  have "fst (DoRPC_end k DoneReceived (rs_chan ?s1)) = Inr (Some m)"
    using data by (simp add: DoRPC_end_def)
  moreover have "\<not> is_closed ?s1 k"
    using data assms(5) by (simp add: is_closed_def)
  ultimately have 2: "rpc_step ?s1 (HandOver k) (set_caller k (Woken (Inr (Some m))) (?s1\<lparr>rs_reader := Reading\<rparr>))"
    using rpc_step.hand_over [of ?s1 k] assms(2) by simp
  let ?s2 = "set_caller k (Woken (Inr (Some m))) (?s1\<lparr>rs_reader := Reading\<rparr>)"
  define s3 where "s3 = set_caller k (Finished (Inr (Some m))) (?s2\<lparr>rs_chan := release_call k (rs_chan ?s2)\<rparr>)"
  have "rpc_step ?s2 (ReleaseCall k) s3"
    unfolding s3_def by (rule rpc_step.release) simp
  with 1 2 have "rpc_run s [ReaderTurn sel, HandOver k, ReleaseCall k] s3"
    by (meson rpc_run.intros)
  moreover have "rs_callers s3 k = Finished (Inr (Some m)) \<and> call_of s3 k = None \<and> rs_reader s3 = Reading"
    by (simp add: s3_def set_caller_def call_of_simps)
  ultimately show ?thesis by blast
qed

end
