(* ===== verification/RpcClaims.thy ===== *)
theory RpcClaims
  imports TaskClaims GatewayRpc
begin

text \<open>
  What a remote call to a gateway promises when its callers, the reader and the closing of the
  channel interleave: whose response a caller gets, when it gets it, and what can go wrong.
\<close>

section \<open>A sample channel\<close>

definition sample_writer :: AmqpWriter where
  "sample_writer = \<lparr>aw_cwq = \<lparr>cwq_Ch = Some 2, cwq_Que = []\<rparr>, aw_routingKey = ''gateway.gw1.in''\<rparr>"

definition sample_reader :: AmqpReader where
  "sample_reader = \<lparr>ar_gatewayID = ''gw1'', ar_cwq = \<lparr>cwq_Ch = Some 1, cwq_Que = ''gw1.out''\<rparr>\<rparr>"

definition sample_channel :: GatewayChannel where
  "sample_channel = \<lparr>gc_serverID = ''srv'', gc_gatewayID = ''gw1'', gc_conn = sample_conn, gc_out = sample_reader,
     gc_in = sample_writer, gc_cancelled = False, gc_rpcCalls = [], gc_bl = None\<rparr>"

definition config_reply :: IotMessage where
  "config_reply = zero_IotMessage\<lparr>GatewayId := ''gw1'', MessageType := ''configurationData''\<rparr>"

definition config_delivery :: delivery where
  "config_delivery = \<lparr>dl_CorrelationId = ''call-1'', dl_Body = json_Marshal config_reply\<rparr>"

lemma config_reply_valid: "valid_text config_reply"
  by code_simp

lemma config_response: "response_in (Received config_delivery) = Some (''call-1'', config_reply)"
  by (simp add: response_in_def config_delivery_def json_roundtrip config_reply_valid)

lemma sample_channel_sel [simp]:
  "gc_rpcCalls sample_channel = []" "gc_cancelled sample_channel = False" "gc_bl sample_channel = None"
  "gc_gatewayID sample_channel = ''gw1''" "gc_conn sample_channel = sample_conn" "gc_in sample_channel = sample_writer"
  "gc_out sample_channel = sample_reader"
  by (simp_all add: sample_channel_def)

section \<open>Properties\<close>

text \<open>C2: a caller only ever gets a response that the reader received for its own correlation id, and a call is kept in the
  map of pending calls exactly while its caller waits or is about to release it: no answer is mixed up
  and no entry is left behind, however callers, responses, timeouts and closing interleave.\<close>

theorem rpc_answers_sound:
  assumes "rpc_run (rpc_start c) as s" and "gc_rpcCalls c = []"
  shows "(answer_of (rs_callers s k) = Some m \<longrightarrow> (k, m) \<in> responses as)
    \<and> (call_of s k \<noteq> None) = holds_entry (rs_callers s k)"
  using rpc_inv_run [OF assms(1) rpc_inv_start [OF assms(2)]] by (simp add: rpc_inv_def)

text \<open>A response that is received while its caller waits in the map is handed to that caller, which
  returns it without an error; afterwards the call is released and the reader goes on.\<close>

theorem rpc_response_in_time:
  assumes "rs_reader s = Reading" and "rs_callers s k = Waiting" and "\<not> gc_cancelled (rs_chan s)"
    and "call_of s k = Some call" and "\<not> call_closed call" and "response_in sel = Some (k, m)"
  shows "\<exists>s'. rpc_run s [ReaderTurn sel, HandOver k, ReleaseCall k] s' \<and> rs_callers s' k = Finished (Inr (Some m))
    \<and> call_of s' k = None \<and> rs_reader s' = Reading"
  by (rule response_delivered [OF assms])

text \<open>C31: a response that the reader receives after the request was published but before the call is registered is lost: unless
  another one comes, the call ends with the timeout, or with no response at all when the channel is closed.\<close>

theorem rpc_early_response_lost:
  assumes "rpc_run (rpc_start c) as s" and "gc_rpcCalls c = []" and "rs_callers s k = Published"
    and "rpc_step s (ReaderTurn sel) s1" and "response_in sel = Some (k, m)"
    and "rpc_run s1 bs s2" and "k \<notin> fst ` responses bs" and "rs_callers s2 k = Finished r"
  shows "r = Inl rpc_timeout_error \<or> r = Inr None"
proof -
  have "rpc_inv ({} \<union> responses as) s"
    by (rule rpc_inv_run [OF assms(1) rpc_inv_start [OF assms(2)]])
  from early_response [OF this assms(3-5)] have "unanswered k s1" .
  from unanswered_run [OF assms(6) this assms(7)] assms(8) show ?thesis
    by (auto simp: unanswered_def)
qed

text \<open>C32: when a caller gives up between the reader's lookup of its call and the hand-over, the reader
  blocks for ever: whatever happens, no later message of the gateway is read, not even after the channel is closed (closing it
  twice ends the process).\<close>

theorem rpc_reader_stuck:
  assumes "rpc_run (rpc_start c) as s" and "gc_rpcCalls c = []" and "rs_reader s = Sending k"
    and "rs_callers s k = Finished r" and "rpc_run s bs s'"
  shows "rs_reader s' \<in> {Sending k, ReaderCrashed} \<and> (\<forall>sel. ReaderTurn sel \<notin> set bs)"
proof -
  have "rpc_inv ({} \<union> responses as) s"
    by (rule rpc_inv_run [OF assms(1) rpc_inv_start [OF assms(2)]])
  then have "(call_of s k \<noteq> None) = holds_entry (rs_callers s k)"
    by (simp add: rpc_inv_def)
  then have "stuck k s"
    using assms(3,4) by (simp add: stuck_def holds_entry_def)
  then show ?thesis
    using stuck_run [OF assms(5)] by (auto simp: stuck_def)
qed

text \<open>C33: closing a channel while its reader is about to hand over a response ends the server: \<open>Close\<close> closes the channel the reader sends
  on, and a send on a closed channel panics.\<close>

theorem rpc_close_crashes:
  assumes "rs_reader s = Sending k" and "call_of s k = Some call" and "\<forall>(k', call') \<in> set (gc_rpcCalls (rs_chan s)). \<not> call_closed call'"
  shows "\<exists>s'. rpc_run s [CloseChannelCalls, SendOnClosed k] s' \<and> rs_reader s' = ReaderCrashed"
proof -
  have "\<not> list_ex (\<lambda>(k, call). call_closed call) (gc_rpcCalls (rs_chan s))"
    using assms(3) by (auto simp: list_ex_iff)
  then obtain calls where calls: "close_calls (gc_rpcCalls (rs_chan s)) = Returned calls"
    by (simp add: close_calls_def)
  let ?s1 = "after_close s"
  have s1: "rs_reader ?s1 = Sending k" "is_closed ?s1 k"
    using assms(1,2) calls_close [OF calls, of k] by (simp_all add: after_close_def calls is_closed_def call_of_def)
  from rpc_step.send_on_closed [OF this] rpc_step.close [of s] show ?thesis
    by (intro exI [of _ "?s1\<lparr>rs_reader := ReaderCrashed\<rparr>"]) (auto intro: rpc_run.intros)
qed

section \<open>A run\<close>

text \<open>A caller registers, its response arrives, and it gives up before the hand-over.\<close>

definition waiting_state :: rpc_state where
  "waiting_state = set_caller ''call-1'' Waiting
     (set_caller ''call-1'' Published (rpc_start sample_channel)\<lparr>rs_chan := register_call ''call-1'' sample_channel\<rparr>)"

lemma waiting_run: "rpc_run (rpc_start sample_channel) [PublishCall ''call-1'', RegisterCall ''call-1''] waiting_state"
proof -
  have "rpc_step (rpc_start sample_channel) (PublishCall ''call-1'') (set_caller ''call-1'' Published (rpc_start sample_channel))"
    by (rule rpc_step.publish) (simp add: rpc_start_def)
  moreover have "rpc_step (set_caller ''call-1'' Published (rpc_start sample_channel)) (RegisterCall ''call-1'') waiting_state"
    using rpc_step.register [of "set_caller ''call-1'' Published (rpc_start sample_channel)" "''call-1''"]
    by (simp add: waiting_state_def rpc_start_def)
  ultimately show ?thesis by (meson rpc_run.intros)
qed

lemma waiting_state_sel [simp]:
  "rs_reader waiting_state = Reading" "rs_callers waiting_state ''call-1'' = Waiting"
  "gc_cancelled (rs_chan waiting_state) = False"
  "call_of waiting_state ''call-1'' = Some \<lparr>call_closed = False, call_data = None\<rparr>"
  by (simp_all add: waiting_state_def rpc_start_def set_caller_def call_of_simps) (simp add: register_call_def)

definition sending_state :: rpc_state where
  "sending_state = after_turn (turn_result (rs_chan waiting_state) (Received config_delivery)) waiting_state"

lemma sending_state_eq: "sending_state = waiting_state\<lparr>rs_chan := (rs_chan waiting_state)
     \<lparr>gc_rpcCalls := store_response ''call-1'' config_reply (gc_rpcCalls (rs_chan waiting_state))\<rparr>, rs_reader := Sending ''call-1''\<rparr>"
  using waiting_state_sel(4)
  by (simp add: sending_state_def turn_result_def after_turn_def config_response call_of_def del: waiting_state_sel(4))

lemma sending_run: "rpc_step waiting_state (ReaderTurn (Received config_delivery)) sending_state"
  unfolding sending_state_def by (metis rpc_step.turn [OF waiting_state_sel(1)] reader_turn_value)

definition gave_up :: rpc_state where
  "gave_up = (let s = set_caller ''call-1'' (Woken (Inl rpc_timeout_error)) sending_state
     in set_caller ''call-1'' (Finished (Inl rpc_timeout_error)) (s\<lparr>rs_chan := release_call ''call-1'' (rs_chan s)\<rparr>))"

lemma gave_up_run: "rpc_run sending_state [TimeoutCall ''call-1'', ReleaseCall ''call-1''] gave_up"
proof -
  let ?s = "set_caller ''call-1'' (Woken (Inl rpc_timeout_error)) sending_state"
  have "rs_callers sending_state ''call-1'' = Waiting"
    by (simp add: sending_state_eq)
  from rpc_step.timeout [OF this] have "rpc_step sending_state (TimeoutCall ''call-1'') ?s"
    by (simp add: DoRPC_end_def rpc_timeout_error_def)
  moreover have "rpc_step ?s (ReleaseCall ''call-1'') gave_up"
    using rpc_step.release [of ?s "''call-1''" "Inl rpc_timeout_error"] by (simp add: gave_up_def Let_def)
  ultimately show ?thesis by (meson rpc_run.intros)
qed

lemma rpc_run_append: "rpc_run s as s' \<Longrightarrow> rpc_run s' bs s'' \<Longrightarrow> rpc_run s (as @ bs) s''"
  by (induction rule: rpc_run.induct) (auto intro: rpc_run.intros)

lemma gave_up_reachable: "\<exists>as. rpc_run (rpc_start sample_channel) as gave_up"
  using rpc_run_append [OF waiting_run] rpc_run.step [OF sending_run gave_up_run] by blast

lemma gave_up_sel:
  "rs_reader gave_up = Sending ''call-1''" "rs_callers gave_up ''call-1'' = Finished (Inl rpc_timeout_error)"
  by (simp_all add: gave_up_def Let_def sending_state_eq)

theorem rpc_answers_sound_witness: "call_of waiting_state ''call-1'' \<noteq> None"
  using rpc_answers_sound [OF waiting_run sample_channel_sel(1), of "''call-1''"] by (simp add: holds_entry_def)

theorem rpc_response_in_time_witness:
  "\<exists>s :: rpc_state. rs_callers s ''call-1'' = Finished (Inr (Some config_reply)) \<and> rs_reader s = Reading"
  using rpc_response_in_time [OF waiting_state_sel(1,2) _ waiting_state_sel(4) _ config_response] by auto

theorem rpc_reader_stuck_witness:
  "\<not> (\<exists>bs s. rpc_run gave_up bs s \<and> rs_reader s = Reading)"
  using gave_up_reachable rpc_reader_stuck [OF _ sample_channel_sel(1) gave_up_sel] by force

text \<open>The response arrives before the caller has registered; the caller gives up in the end.\<close>

theorem rpc_early_response_lost_witness:
  "\<exists>(s :: rpc_state) r. rs_callers s ''call-1'' = Finished r \<and> (r = Inl rpc_timeout_error \<or> r = Inr None)"
proof -
  let ?k = "''call-1''"
  let ?p = "set_caller ?k Published (rpc_start sample_channel)"
  let ?s1 = "set_caller ?k (Woken (Inl rpc_timeout_error)) waiting_state"
  let ?s2 = "set_caller ?k (Finished (Inl rpc_timeout_error)) (?s1\<lparr>rs_chan := release_call ?k (rs_chan ?s1)\<rparr>)"
  have p: "rpc_step (rpc_start sample_channel) (PublishCall ?k) ?p"
    by (rule rpc_step.publish) (simp add: rpc_start_def)
  have t: "rpc_step ?p (ReaderTurn (Received config_delivery)) ?p"
  proof -
    have "rs_reader ?p = Reading" by (simp add: rpc_start_def)
    moreover have "after_turn (turn_result (rs_chan ?p) (Received config_delivery)) ?p = ?p"
      by (simp add: turn_result_def after_turn_def config_response rpc_start_def)
    ultimately show ?thesis by (metis rpc_step.turn reader_turn_value)
  qed
  have r: "rpc_step ?p (RegisterCall ?k) waiting_state"
    using rpc_step.register [of ?p ?k] by (simp add: waiting_state_def rpc_start_def)
  have w: "rpc_step waiting_state (TimeoutCall ?k) ?s1"
    using rpc_step.timeout [of waiting_state ?k] by (simp add: DoRPC_end_def rpc_timeout_error_def)
  have e: "rpc_step ?s1 (ReleaseCall ?k) ?s2"
    by (rule rpc_step.release) simp
  have "rpc_run ?p [RegisterCall ?k, TimeoutCall ?k, ReleaseCall ?k] ?s2"
    using r w e by (meson rpc_run.intros)
  moreover have "?k \<notin> fst ` responses [RegisterCall ?k, TimeoutCall ?k, ReleaseCall ?k]"
    by (simp add: responses_def responses_of_def)
  moreover have "rs_callers ?s2 ?k = Finished (Inl rpc_timeout_error)"
    by simp
  moreover have "rs_callers ?p ?k = Published"
    by simp
  ultimately have "Inl rpc_timeout_error = (Inl rpc_timeout_error :: (IotMessage option) result) \<or> Inl rpc_timeout_error = (Inr None :: (IotMessage option) result)"
    by (intro rpc_early_response_lost [OF rpc_run.step [OF p rpc_run.nil] sample_channel_sel(1) _ t config_response])
  with \<open>rs_callers ?s2 ?k = Finished (Inl rpc_timeout_error)\<close> show ?thesis
    by blast
qed

theorem rpc_close_crashes_witness:
  "\<exists>as s. rpc_run (rpc_start sample_channel) as s \<and> rs_reader s = ReaderCrashed"
proof -
  have sending: "rs_reader sending_state = Sending ''call-1''"
    "call_of sending_state ''call-1'' = Some \<lparr>call_closed = False, call_data = Some config_reply\<rparr>"
    using waiting_state_sel(4) by (simp_all add: sending_state_eq call_of_def calls_store del: waiting_state_sel(4))
  have "\<forall>(k', call') \<in> set (gc_rpcCalls (rs_chan sending_state)). \<not> call_closed call'"
    by (simp add: sending_state_eq waiting_state_def rpc_start_def register_call_def store_response_def set_caller_def)
  from rpc_close_crashes [OF sending this] obtain s where
    "rpc_run sending_state [CloseChannelCalls, SendOnClosed ''call-1''] s" "rs_reader s = ReaderCrashed"
    by blast
  then show ?thesis
    using rpc_run_append [OF waiting_run rpc_run.step [OF sending_run]] by blast
qed

end
