(* ===== verification/Loops.thy ===== *)
theory Loops
  imports TaskProps
begin

text \<open>
  Loops that take one turn per input (a message, an exchange event) and end when a turn panics. The
  locale \<open>turn_loop\<close> is the contract of one turn, a forward simulation of an abstract step that
  keeps an invariant; \<open>total_loop\<close> adds that a turn never panics. Both give the loop from the turn.
\<close>

fun run_turns :: "('s \<Rightarrow> 'e \<Rightarrow> 's outcome io) \<Rightarrow> 'e list \<Rightarrow> 's \<Rightarrow> 's outcome io" where
  "run_turns turn [] s = ret (Returned s)"
| "run_turns turn (e # es) s = do {
     res \<leftarrow> turn s e;
     (case res of Panicked \<Rightarrow> ret Panicked | Returned s' \<Rightarrow> run_turns turn es s')
   }"

lemma run_turns_Cons_value:
  "value_of (run_turns turn (e # es) s) w =
     (case value_of (turn s e) w of
        Panicked \<Rightarrow> Panicked | Returned s' \<Rightarrow> value_of (run_turns turn es s') (world_after (turn s e) w))"
  by (simp add: value_bind split: outcome.split)

lemma run_turns_Nil_value [simp]: "value_of (run_turns turn [] s) w = Returned s"
  by simp

locale turn_loop =
  fixes turn :: "'s \<Rightarrow> 'e \<Rightarrow> 's outcome io"
    and inv :: "'s \<Rightarrow> bool"
    and abs :: "'s \<Rightarrow> 'a"
    and aturn :: "'e \<Rightarrow> 'a \<Rightarrow> 'a"
  assumes turn_refines: "inv s \<Longrightarrow> value_of (turn s e) w = Returned s' \<Longrightarrow> inv s' \<and> abs s' = aturn e (abs s)"
begin

lemma run_refines:
  "inv s \<Longrightarrow> value_of (run_turns turn es s) w = Returned s' \<Longrightarrow> inv s' \<and> abs s' = fold aturn es (abs s)"
proof (induction es arbitrary: s w)
  case (Cons e es)
  from Cons.prems(2) obtain s1 where s1: "value_of (turn s e) w = Returned s1"
      "value_of (run_turns turn es s1) (world_after (turn s e) w) = Returned s'"
    by (auto simp: run_turns_Cons_value simp del: run_turns.simps split: outcome.splits)
  from turn_refines [OF Cons.prems(1) s1(1)] Cons.IH [OF _ s1(2)] show ?case
    by simp
qed simp

end

locale total_loop = turn_loop +
  assumes turn_returns: "inv s \<Longrightarrow> \<exists>s'. value_of (turn s e) w = Returned s'"
begin

lemma run_returns: "inv s \<Longrightarrow> \<exists>s'. value_of (run_turns turn es s) w = Returned s'"
proof (induction es arbitrary: s w)
  case (Cons e es)
  obtain s1 where s1: "value_of (turn s e) w = Returned s1"
    using turn_returns [OF Cons.prems] by blast
  with turn_refines [OF Cons.prems] Cons.IH [of s1] show ?case
    by (simp add: run_turns_Cons_value del: run_turns.simps)
qed simp

lemma run_total:
  assumes "inv s"
  shows "\<exists>s'. value_of (run_turns turn es s) w = Returned s' \<and> inv s' \<and> abs s' = fold aturn es (abs s)"
  using run_returns [OF assms, of es w] run_refines [OF assms] by blast

end

end
