(* ===== verification/ChannelProps.thy ===== *)
theory ChannelProps
  imports RpcClaims Loops
begin

text \<open>
  Facts about one gateway channel: what opening, closing and publishing do, that loading the
  parameters only talks, and what \<open>ApplyLogic\<close> leaves in the channel.
\<close>

section \<open>AMQP channels\<close>

lemma NewChannelWithQueue_ch: "value_of (NewChannelWithQueue E q) w = Inr cwq \<Longrightarrow> cwq_Ch cwq \<noteq> None"
  by (auto simp: NewChannelWithQueue_def value_of_def Let_def split_beta split: sum.splits option.splits)

lemma NewAmqpReader_ok: "value_of (NewAmqpReader E g) w = Some r \<Longrightarrow> cwq_Ch (ar_cwq r) \<noteq> None \<and> ar_gatewayID r = g"
  using NewChannelWithQueue_ch [of E "Some (g @ ''.out'')" w]
  by (auto simp: NewAmqpReader_def value_of_def Let_def split_beta split: sum.splits option.splits)

lemma NewAmqpWriter_ok:
  "value_of (NewAmqpWriter E g) w = Some wr \<Longrightarrow> cwq_Ch (aw_cwq wr) \<noteq> None \<and> aw_routingKey wr = ''gateway.'' @ g @ ''.in''"
  using NewChannelWithQueue_ch [of E None w]
  by (auto simp: NewAmqpWriter_def value_of_def Let_def split_beta split: sum.splits option.splits)

definition channel_open :: "GatewayChannel \<Rightarrow> bool" where
  "channel_open c \<longleftrightarrow> cwq_Ch (ar_cwq (gc_out c)) \<noteq> None \<and> cwq_Ch (aw_cwq (gc_in c)) \<noteq> None
     \<and> \<not> gc_cancelled c \<and> list_all (\<lambda>(k, call). \<not> call_closed call) (gc_rpcCalls c)"

lemma NewGatewayChannel_ok:
  "value_of (NewGatewayChannel E conn srv g) w = Some c \<Longrightarrow>
   gc_gatewayID c = g \<and> gc_conn c = conn \<and> gc_bl c = None \<and> gc_rpcCalls c = [] \<and> channel_open c"
proof -
  assume *: "value_of (NewGatewayChannel E conn srv g) w = Some c"
  then obtain r where r: "value_of (NewAmqpReader E g) w = Some r"
    by (cases "value_of (NewAmqpReader E g) w") (auto simp: NewGatewayChannel_def value_bind)
  with * obtain wr v where wr: "value_of (NewAmqpWriter E g) v = Some wr"
      "c = \<lparr>gc_serverID = srv, gc_gatewayID = g, gc_conn = conn, gc_out = r, gc_in = wr, gc_cancelled = False, gc_rpcCalls = [], gc_bl = None\<rparr>"
    by (cases "value_of (NewAmqpWriter E g) (world_after (NewAmqpReader E g) w)") (auto simp: NewGatewayChannel_def value_bind)
  show ?thesis
    using NewAmqpReader_ok [OF r] NewAmqpWriter_ok [OF wr(1)] by (simp add: wr(2) channel_open_def)
qed

section \<open>Loading only talks\<close>

lemma talks_AmqpWriter_Write [intro]: "talks (AmqpWriter_Write E wr p)"
  unfolding AmqpWriter_Write_def by (auto intro!: talks_intros)

lemma talks_load_sensors: "talks (load_sensors E rows m)"
proof (induction rows arbitrary: m)
  case (NextRow x rows)
  then show ?case
    by (cases x) (auto intro!: talks_intros split: prod.split option.split)
qed simp

lemma talks_LoadParams: "talks (LoadParams E (Some (AmqpWriter_Write E wr)) l)"
  unfolding LoadParams_def loadCameraParams_def loadSensorParams_def announceRegistered_def Let_def
  by (auto intro!: talks_intros talks_load_sensors split: outcome.split prod.split option.split)

lemma talks_CreateLogic: "talks (CreateLogic E c)"
  unfolding CreateLogic_def
  by (auto intro!: talks_bind talks_LoadParams split: outcome.split prod.split option.split)

lemma talks_CheckGatewayExistence: "talks (CheckGatewayExistence E c m)"
  unfolding CheckGatewayExistence_def by (auto intro!: talks_intros)

section \<open>Applying the logic\<close>

definition channel_ok :: "GatewayChannel \<Rightarrow> bool" where
  "channel_ok c \<longleftrightarrow> (\<forall>l. gc_bl c = Some l \<longrightarrow> logic_ok l \<and> gl_gatewayId l = gc_gatewayID c)"

lemma CreateLogic_result:
  "\<exists>res. value_of (CreateLogic E c) w = Returned res
     \<and> (\<forall>bl. res = Inr bl \<longrightarrow> logic_ok bl \<and> gl_gatewayId bl = gc_gatewayID c)"
proof -
  obtain e l where "value_of (LoadParams E (Some (AmqpWriter_Write E (gc_in c))) (NewGatewayLogic (gc_gatewayID c))) w = Returned (e, l)"
    "logic_ok l" "gl_gatewayId l = gc_gatewayID c"
    using LoadParams_result by metis
  then show ?thesis
    by (cases e) (auto simp: CreateLogic_def value_bind)
qed

lemma process_loaded_value:
  "value_of (process_loaded E c r) w = Returned (case gc_bl c of None \<Rightarrow> c
     | Some bl \<Rightarrow> c\<lparr>gc_bl := Some (logic_after (Process E bl (Some r)) w)\<rparr>)"
  by (auto simp: process_loaded_def value_bind logic_after_def split: option.split prod.split)

lemma Process_identity: "gl_gatewayId (logic_after (Process E l m) w) = gl_gatewayId l"
  using logic_step_config [OF Process_step] by blast

lemma process_loaded_ok:
  "channel_ok c \<Longrightarrow> \<exists>c'. value_of (process_loaded E c r) w = Returned c' \<and> channel_ok c' \<and> c' = c\<lparr>gc_bl := gc_bl c'\<rparr>"
  by (auto simp: process_loaded_value channel_ok_def Process_identity dest: Process_ok split: option.split)

text \<open>The stages of \<open>ApplyLogic\<close> on a channel without logic.\<close>

abbreviation checked :: "env \<Rightarrow> GatewayChannel \<Rightarrow> IotMessage \<Rightarrow> world \<Rightarrow> (bool result) outcome" where
  "checked E c m w \<equiv> value_of (CheckGatewayExistence E c m) (world_after (alloc m) w)"

abbreviation after_check :: "env \<Rightarrow> GatewayChannel \<Rightarrow> IotMessage \<Rightarrow> world \<Rightarrow> world" where
  "after_check E c m w \<equiv> world_after (CheckGatewayExistence E c m) (world_after (alloc m) w)"

lemma alloc_value [simp]: "value_of (alloc m) w = next_ref w"
  by (simp add: value_of_def)

lemma channel_id: "gc_bl c = None \<Longrightarrow> c\<lparr>gc_bl := None\<rparr> = c"
  by simp

lemma ApplyLogic_unloaded:
  assumes "gc_bl c = None"
  shows "value_of (ApplyLogic E c m) w =
    (case checked E c m w of
       Panicked \<Rightarrow> Panicked
     | Returned (Inl e) \<Rightarrow> Returned c
     | Returned (Inr False) \<Rightarrow> Returned c
     | Returned (Inr True) \<Rightarrow>
         (case value_of (CreateLogic E c) (after_check E c m w) of
            Panicked \<Rightarrow> Panicked
          | Returned (Inl e) \<Rightarrow> Returned c
          | Returned (Inr bl) \<Rightarrow> Returned (c\<lparr>gc_bl := Some (logic_after (Process E bl (Some (next_ref w)))
              (world_after (CreateLogic E c) (after_check E c m w)))\<rparr>)))"
  using assms channel_id [OF assms]
  by (simp add: ApplyLogic_def value_bind process_loaded_value split: outcome.split sum.split bool.split)

lemma ApplyLogic_loaded:
  "gc_bl c = Some bl \<Longrightarrow> value_of (ApplyLogic E c m) w =
     Returned (c\<lparr>gc_bl := Some (logic_after (Process E bl (Some (next_ref w))) (world_after (alloc m) w))\<rparr>)"
  by (simp add: ApplyLogic_def value_bind process_loaded_value)

lemma CheckGatewayExistence_value:
  "usable (gc_conn c) \<Longrightarrow> value_of (CheckGatewayExistence E c m) w =
     (case e_count E (hist w @ [SqlQuery count_query [SqlStr (GatewayId m)]]) of
        Inl e \<Rightarrow> Returned (Inl (wrap e ''failed searching gateway in database''))
      | Inr n \<Rightarrow> Returned (Inr (n \<noteq> 0)))"
  by (simp add: CheckGatewayExistence_def value_bind split: sum.split)

lemma ApplyLogic_ok:
  assumes "usable (gc_conn c)" and "channel_ok c"
  shows "\<exists>c'. value_of (ApplyLogic E c m) w = Returned c' \<and> channel_ok c' \<and> c' = c\<lparr>gc_bl := gc_bl c'\<rparr>"
proof (cases "gc_bl c")
  case (Some bl)
  with assms(2) show ?thesis
    by (auto simp: ApplyLogic_loaded channel_ok_def Process_identity dest: Process_ok)
next
  case None
  obtain res where res: "value_of (CreateLogic E c) (after_check E c m w) = Returned res"
      "\<forall>bl. res = Inr bl \<longrightarrow> logic_ok bl \<and> gl_gatewayId bl = gc_gatewayID c"
    using CreateLogic_result by blast
  then show ?thesis
    using assms None channel_id [OF None]
    by (cases res) (auto simp: ApplyLogic_unloaded CheckGatewayExistence_value channel_ok_def Process_identity
        dest: Process_ok split: sum.split bool.split)
qed

text \<open>Any number of messages: the channel stays what it was but for its logic, which stays well formed.\<close>

interpretation applied: total_loop "ApplyLogic E" "\<lambda>c. usable (gc_conn c) \<and> channel_ok c" "\<lambda>c. c\<lparr>gc_bl := None\<rparr>" "\<lambda>m c. c" for E
proof unfold_locales
  fix c m w
  assume "usable (gc_conn c) \<and> channel_ok c"
  then obtain c1 where c1: "value_of (ApplyLogic E c m) w = Returned c1" "channel_ok c1" "c1 = c\<lparr>gc_bl := gc_bl c1\<rparr>"
    using ApplyLogic_ok by blast
  then show "\<exists>c'. value_of (ApplyLogic E c m) w = Returned c'" by blast
  have same: "gc_conn c1 = gc_conn c" "c1\<lparr>gc_bl := None\<rparr> = c\<lparr>gc_bl := None\<rparr>"
    by (subst c1(3), simp)+
  fix c' assume "value_of (ApplyLogic E c m) w = Returned c'"
  with c1(1,2) same \<open>usable (gc_conn c) \<and> channel_ok c\<close>
  show "(usable (gc_conn c') \<and> channel_ok c') \<and> c'\<lparr>gc_bl := None\<rparr> = c\<lparr>gc_bl := None\<rparr>"
    by simp
qed

lemma channel_session:
  assumes "usable (gc_conn c)" and "channel_ok c"
  shows "\<exists>c'. value_of (run_turns (ApplyLogic E) ms c) w = Returned c' \<and> channel_ok c' \<and> c' = c\<lparr>gc_bl := gc_bl c'\<rparr>"
proof -
  have same: "fold (\<lambda>m c. c) ms a = a" for a :: GatewayChannel
    by (induction ms) simp_all
  obtain c' where c': "value_of (run_turns (ApplyLogic E) ms c) w = Returned c'" "channel_ok c'" "c'\<lparr>gc_bl := None\<rparr> = c\<lparr>gc_bl := None\<rparr>"
    using applied.run_total [of c E ms w] assms same by auto
  from c'(3) have "c' = c\<lparr>gc_bl := gc_bl c'\<rparr>"
    by (cases c; cases c') simp
  with c' show ?thesis by blast
qed

lemma appends_process_loaded [intro]: "appends (process_loaded E c r)"
  unfolding process_loaded_def by (auto split: option.split prod.split intro!: appends_bind)

text \<open>While a channel has no logic, a message starts no task.\<close>

lemma quiet_parts:
  "talks m \<Longrightarrow> started (effects m w) = []"
  using talks_effects(2) no_go_views by blast

lemma effects_bind:
  "appends m \<Longrightarrow> (\<And>x. appends (f x)) \<Longrightarrow> started (effects (State_Monad.bind m f) w) =
     started (effects m w) @ started (effects (f (value_of m w)) (world_after m w))"
  by (simp add: effects_append)

lemma started_process_unloaded: "gc_bl c = None \<Longrightarrow> started (effects (process_loaded E c r) w) = []"
  by (simp add: process_loaded_def quiet_parts talks_intros)

definition load_then_process :: "env \<Rightarrow> GatewayChannel \<Rightarrow> ref \<Rightarrow> (bool result) outcome \<Rightarrow> GatewayChannel outcome io" where
  "load_then_process E c r exists =
     (case exists of
        Panicked \<Rightarrow> ret Panicked
      | Returned (Inl e) \<Rightarrow> do { Error ''error checking gateway in database''; ret (Returned c) }
      | Returned (Inr False) \<Rightarrow> do { Warn ''Gateway is not registered in cloud database''; ret (Returned c) }
      | Returned (Inr True) \<Rightarrow> do {
          res \<leftarrow> CreateLogic E c;
          (case res of
             Panicked \<Rightarrow> ret Panicked
           | Returned (Inl e) \<Rightarrow> do {
               Error ''cannot load business logic params'';
               process_loaded E (c\<lparr>gc_bl := None\<rparr>) r
             }
           | Returned (Inr bl) \<Rightarrow> process_loaded E (c\<lparr>gc_bl := Some bl\<rparr>) r)
        })"

lemma appends_load_then_process [intro]: "appends (load_then_process E c r x)"
  unfolding load_then_process_def
  by (auto split: outcome.split sum.split bool.split intro!: appends_bind talks_appends [OF talks_CreateLogic])

lemma ApplyLogic_stages:
  "gc_bl c = None \<Longrightarrow> ApplyLogic E c m = do {
     r \<leftarrow> alloc m; exists \<leftarrow> CheckGatewayExistence E c m; load_then_process E c r exists }"
  by (simp add: ApplyLogic_def load_then_process_def)

lemma ApplyLogic_quiet:
  assumes "gc_bl c = None" and "value_of (ApplyLogic E c m) w = Returned c'" and "gc_bl c' = None"
  shows "started (effects (ApplyLogic E c m) w) = []"
proof -
  let ?r = "next_ref w" and ?w2 = "after_check E c m w" and ?x = "checked E c m w"
  have split: "started (effects (ApplyLogic E c m) w) = started (effects (load_then_process E c ?r ?x) ?w2)"
    unfolding ApplyLogic_stages [OF assms(1)]
    by (simp add: effects_bind talks_appends [OF talks_CheckGatewayExistence] appends_load_then_process appends_bind
        quiet_parts [OF talks_CheckGatewayExistence]) (simp add: effects_run)
  show ?thesis
  proof (cases "?x = Returned (Inr True)")
    case True
    obtain res where res: "value_of (CreateLogic E c) ?w2 = Returned res"
      using CreateLogic_result by blast
    with True assms obtain e where "res = Inl e"
      by (cases res) (auto simp: ApplyLogic_unloaded)
    with True res show ?thesis
      unfolding split
      by (simp add: load_then_process_def effects_bind talks_appends [OF talks_CreateLogic] quiet_parts [OF talks_CreateLogic]
          started_process_unloaded appends_process_loaded appends_bind split: outcome.split sum.split)
  next
    case False
    have "talks (load_then_process E c ?r ?x)"
      using False unfolding load_then_process_def
      by (auto split: outcome.split sum.split bool.split intro!: talks_bind)
    then show ?thesis
      unfolding split by (rule quiet_parts)
  qed
qed

end
