(* ===== verification/ChannelClaims.thy ===== *)
theory ChannelClaims
  imports ChannelProps
begin

text \<open>
  What a gateway channel promises: messages are processed only by a loaded, well-formed logic,
  envelopes survive the broker, and closing releases everything and takes the gateway offline.
\<close>

section \<open>Closing\<close>

lemma talks_cwq_Close [intro]: "talks (ChannelWithQueue_Close E q)"
  unfolding ChannelWithQueue_Close_def by (auto intro!: talks_intros)

lemma talks_end_Close [intro]: "talks (AmqpReader_Close E r)" "talks (AmqpWriter_Close E wr)" "talks (log_close_error res s)"
  unfolding AmqpReader_Close_def AmqpWriter_Close_def log_close_error_def
  by (auto intro!: talks_intros split: outcome.split option.split)

lemma cwq_Close_run:
  assumes "cwq_Ch q = Some ch"
  shows "\<exists>err. value_of (ChannelWithQueue_Close E q) w = Returned err"
    and "Amqp (CloseChannel ch) \<in> set (effects (ChannelWithQueue_Close E q) w)"
  using assms by (auto simp: ChannelWithQueue_Close_def value_bind effects_run)

lemma end_Close_run:
  shows "cwq_Ch (ar_cwq r) = Some ch \<Longrightarrow> (\<exists>err. value_of (AmqpReader_Close E r) w = Returned err)
      \<and> Amqp (CloseChannel ch) \<in> set (effects (AmqpReader_Close E r) w)"
    and "cwq_Ch (aw_cwq wr) = Some ch \<Longrightarrow> (\<exists>err. value_of (AmqpWriter_Close E wr) w = Returned err)
      \<and> Amqp (CloseChannel ch) \<in> set (effects (AmqpWriter_Close E wr) w)"
proof -
  have t: "talks (case res of Panicked \<Rightarrow> ret Panicked | Returned err \<Rightarrow> ret (Returned (f err)))" for res :: "err option outcome" and f :: "err option \<Rightarrow> err option"
    by (auto split: outcome.split)
  show "cwq_Ch (ar_cwq r) = Some ch \<Longrightarrow> (\<exists>err. value_of (AmqpReader_Close E r) w = Returned err)
      \<and> Amqp (CloseChannel ch) \<in> set (effects (AmqpReader_Close E r) w)"
    using cwq_Close_run [of "ar_cwq r" ch E w]
    by (auto simp: AmqpReader_Close_def value_bind effects_append talks_appends talks_cwq_Close t)
  show "cwq_Ch (aw_cwq wr) = Some ch \<Longrightarrow> (\<exists>err. value_of (AmqpWriter_Close E wr) w = Returned err)
      \<and> Amqp (CloseChannel ch) \<in> set (effects (AmqpWriter_Close E wr) w)"
    using cwq_Close_run [of "aw_cwq wr" ch E w]
    by (auto simp: AmqpWriter_Close_def value_bind effects_append talks_appends talks_cwq_Close t)
qed

lemma log_close_error_value: "value_of (log_close_error (Returned err) s) w = Returned ()"
  by (cases err) (simp_all add: log_close_error_def value_bind)

definition closed_calls :: "rpcPendingCallMap \<Rightarrow> rpcPendingCallMap" where
  "closed_calls calls = map (\<lambda>(k, call). (k, call\<lparr>call_closed := True\<rparr>)) calls"

lemma close_calls_open: "channel_open c \<Longrightarrow> close_calls (gc_rpcCalls c) = Returned (closed_calls (gc_rpcCalls c))"
  by (auto simp: channel_open_def close_calls_def closed_calls_def list_all_iff list_ex_iff)

lemma talks_close_ends [intro]: "talks (close_ends E c calls)"
  unfolding close_ends_def by (auto intro!: talks_intros)

lemma close_ends_run:
  assumes "cwq_Ch (ar_cwq (gc_out c)) = Some co" and "cwq_Ch (aw_cwq (gc_in c)) = Some ci"
  shows "value_of (close_ends E c calls) w = Returned (c\<lparr>gc_rpcCalls := calls\<rparr>)
    \<and> {Amqp (CloseChannel co), Amqp (CloseChannel ci)} \<subseteq> set (effects (close_ends E c calls) w)"
proof -
  obtain e1 where e1: "value_of (AmqpReader_Close E (gc_out c)) w = Returned e1"
    and m1: "Amqp (CloseChannel co) \<in> set (effects (AmqpReader_Close E (gc_out c)) w)"
    using end_Close_run(1) [OF assms(1)] by blast
  have *: "\<exists>e2. value_of (AmqpWriter_Close E (gc_in c)) v = Returned e2" "Amqp (CloseChannel ci) \<in> set (effects (AmqpWriter_Close E (gc_in c)) v)" for v
    using end_Close_run(2) [OF assms(2)] by blast+
  define v where "v = world_after (log_close_error (Returned e1) ''error closing gateway output channel'') (world_after (AmqpReader_Close E (gc_out c)) w)"
  obtain e2 where e2: "value_of (AmqpWriter_Close E (gc_in c)) v = Returned e2"
    using *(1) by blast
  have "value_of (close_ends E c calls) w = Returned (c\<lparr>gc_rpcCalls := calls\<rparr>)"
    using e1 e2 by (simp add: close_ends_def value_bind log_close_error_value v_def)
  moreover have "{Amqp (CloseChannel co), Amqp (CloseChannel ci)} \<subseteq> set (effects (close_ends E c calls) w)"
    unfolding close_ends_def using e1 m1 *(2) [of v]
    by (simp add: effects_then_talks talks_end_Close talks_intros log_close_error_value v_def)
  ultimately show ?thesis by blast
qed

lemma Stop_run:
  "value_of (Stop E c) w = c\<lparr>gc_cancelled := True\<rparr>"
  "effects (Stop E c) w = (let q = NewStatusMessage (e_now E (hist w @ [ClockRead])) (gc_gatewayID c) ''off''
     in [ClockRead, MsgStored (next_ref w) q, Go (RunTask UpdateGatewayStatusTask (next_ref w) q)])"
  "appends (Stop E c)"
  unfolding Stop_def by (simp_all add: value_of_def effects_run Let_def appends_bind)

lemma Close_run:
  assumes "channel_open c" and "cwq_Ch (ar_cwq (gc_out c)) = Some co" and "cwq_Ch (aw_cwq (gc_in c)) = Some ci"
  shows "value_of (GatewayChannel_Close E c) w = Returned (c\<lparr>gc_cancelled := True, gc_rpcCalls := closed_calls (gc_rpcCalls c)\<rparr>)"
    and "started (effects (GatewayChannel_Close E c) w) =
      [(UpdateGatewayStatusTask, NewStatusMessage (e_now E (hist w @ [ClockRead])) (gc_gatewayID c) ''off'')]"
    and "{Amqp (CloseChannel co), Amqp (CloseChannel ci)} \<subseteq> set (effects (GatewayChannel_Close E c) w)"
proof -
  let ?s = "c\<lparr>gc_cancelled := True\<rparr>"
  let ?calls = "closed_calls (gc_rpcCalls c)"
  have calls: "close_calls (gc_rpcCalls ?s) = Returned ?calls"
    using close_calls_open [OF assms(1)] by simp
  have ends: "cwq_Ch (ar_cwq (gc_out ?s)) = Some co" "cwq_Ch (aw_cwq (gc_in ?s)) = Some ci"
    using assms(2,3) by simp_all
  have app: "appends (case close_calls (gc_rpcCalls st) of Panicked \<Rightarrow> ret Panicked | Returned calls \<Rightarrow> close_ends E st calls)" for st
    by (auto split: outcome.split intro!: talks_appends)
  have eff: "effects (GatewayChannel_Close E c) w = effects (Stop E c) w @ effects (close_ends E ?s ?calls) (world_after (Stop E c) w)"
    unfolding GatewayChannel_Close_def using app calls by (simp add: effects_append Stop_run)
  show "value_of (GatewayChannel_Close E c) w = Returned (c\<lparr>gc_cancelled := True, gc_rpcCalls := ?calls\<rparr>)"
    unfolding GatewayChannel_Close_def using calls close_ends_run [OF ends] by (simp add: value_bind Stop_run)
  show "started (effects (GatewayChannel_Close E c) w) =
      [(UpdateGatewayStatusTask, NewStatusMessage (e_now E (hist w @ [ClockRead])) (gc_gatewayID c) ''off'')]"
    unfolding eff by (simp add: Stop_run Let_def quiet_parts [OF talks_close_ends])
  show "{Amqp (CloseChannel co), Amqp (CloseChannel ci)} \<subseteq> set (effects (GatewayChannel_Close E c) w)"
    unfolding eff using close_ends_run [OF ends] by auto
qed

lemma sample_channel_open: "channel_open sample_channel"
  by (simp add: channel_open_def sample_reader_def sample_writer_def)

lemma sample_channel_ok: "channel_ok sample_channel"
  by (simp add: channel_ok_def)

section \<open>Properties\<close>

text \<open>C19: whatever the database and the broker answer, a channel takes any sequence of messages without a panic (given an open
  database connection): \<open>ApplyLogic\<close> changes nothing of the channel but its logic, and leaves there no logic or a
  well-formed one for its own gateway.\<close>

theorem apply_logic_well_formed:
  assumes "usable (gc_conn c)" and "channel_ok c"
  shows "\<exists>c'. value_of (run_turns (ApplyLogic E) ms c) w = Returned c' \<and> channel_ok c' \<and> c' = c\<lparr>gc_bl := gc_bl c'\<rparr>"
  by (rule channel_session [OF assms])

theorem apply_logic_well_formed_witness:
  "\<exists>c'. value_of (run_turns (ApplyLogic sample_env) [motion_event, smoke_event] sample_channel) (sample_world zero_IotMessage) = Returned c'
     \<and> channel_ok c'"
  using apply_logic_well_formed [of sample_channel sample_env "[motion_event, smoke_event]" "sample_world zero_IotMessage"] sample_channel_ok
  by (auto simp del: run_turns.simps)

text \<open>No message is processed without a loaded logic: when a channel without logic still has none after a message (the database
  failed, the gateway is not registered, or its parameters could not be loaded or announced), the message started no task.\<close>

theorem unloaded_channel_quiet:
  assumes "gc_bl c = None" and "value_of (ApplyLogic E c m) w = Returned c'" and "gc_bl c' = None"
  shows "started (effects (ApplyLogic E c m) w) = []"
  by (rule ApplyLogic_quiet [OF assms])

theorem unloaded_channel_quiet_witness:
  "started (effects (ApplyLogic (sample_env\<lparr>e_count := \<lambda>_. Inr 0\<rparr>) sample_channel motion_event) (sample_world zero_IotMessage)) = []"
proof -
  have "value_of (ApplyLogic (sample_env\<lparr>e_count := \<lambda>_. Inr 0\<rparr>) sample_channel motion_event) (sample_world zero_IotMessage) = Returned sample_channel"
    by (simp add: ApplyLogic_unloaded CheckGatewayExistence_value)
  from unloaded_channel_quiet [OF sample_channel_sel(3) this] show ?thesis by simp
qed

text \<open>C18: closing an open channel returns, closes both of its AMQP channels even when the broker reports errors, closes every pending call,
  and starts one task: it stores the status off, and for a gateway named by a UUID exactly
  the three statements that take the gateway, its devices and its cameras offline.\<close>

theorem close_takes_gateway_offline:
  assumes "channel_open c" and "cwq_Ch (ar_cwq (gc_out c)) = Some co" and "cwq_Ch (aw_cwq (gc_in c)) = Some ci"
    and "usable conn" and "e_uuid_ok E (gc_gatewayID c)"
  shows "value_of (GatewayChannel_Close E c) w = Returned (c\<lparr>gc_cancelled := True, gc_rpcCalls := closed_calls (gc_rpcCalls c)\<rparr>)
    \<and> {Amqp (CloseChannel co), Amqp (CloseChannel ci)} \<subseteq> set (effects (GatewayChannel_Close E c) w)
    \<and> (\<exists>q. started (effects (GatewayChannel_Close E c) w) = [(UpdateGatewayStatusTask, q)]
         \<and> externals (effects (UpdateGatewayStatusTask_Run E conn q) w') =
           [SqlExec gateway_status_query [SqlStr ''off'', SqlStr (gc_gatewayID c)],
            SqlExec devices_status_query [SqlInt 0, SqlStr (gc_gatewayID c)],
            SqlExec cameras_status_query [SqlInt 0, SqlStr (gc_gatewayID c)]])"
proof -
  let ?q = "NewStatusMessage (e_now E (hist w @ [ClockRead])) (gc_gatewayID c) ''off''"
  have "externals (effects (UpdateGatewayStatusTask_Run E conn ?q) w') = status_statements 0 ?q"
    using status_task_run [OF assms(4), of E ?q 0 w'] assms(5) by (simp add: status_int_def)
  then show ?thesis
    using Close_run [OF assms(1-3), of E w] by (simp add: status_statements_def)
qed

theorem close_takes_gateway_offline_witness:
  "\<exists>q. started (effects (GatewayChannel_Close sample_env (sample_channel\<lparr>gc_gatewayID := ''6ba7b810-9dad-11d1-80b4-00c04fd430c8''\<rparr>)) (sample_world zero_IotMessage)) =
     [(UpdateGatewayStatusTask, q)]"
proof -
  let ?c = "sample_channel\<lparr>gc_gatewayID := ''6ba7b810-9dad-11d1-80b4-00c04fd430c8''\<rparr>"
  have "channel_open ?c"
    by (simp add: channel_open_def sample_reader_def sample_writer_def)
  moreover have "cwq_Ch (ar_cwq (gc_out ?c)) = Some 1" "cwq_Ch (aw_cwq (gc_in ?c)) = Some 2"
    by (simp_all add: sample_reader_def sample_writer_def)
  moreover have "e_uuid_ok sample_env (gc_gatewayID ?c)"
    by (simp add: sample_env_def)
  ultimately show ?thesis
    using close_takes_gateway_offline [of ?c 1 2 sample_conn sample_env "sample_world zero_IotMessage" "sample_world zero_IotMessage"]
    by auto
qed

text \<open>C16: an envelope survives the broker: what \<open>WriteEnvelope\<close> publishes for a message whose strings are
  valid UTF-8, delivered as it is, is read back by \<open>ReadEnvelope\<close> as the same message with the same correlation id.\<close>

theorem envelope_roundtrip:
  assumes "valid_text (env_Message envelope)" and "cwq_Ch (aw_cwq wr) = Some ch"
  shows "\<exists>p. effects (WriteEnvelope E wr envelope) w = [Amqp (Publish ch exchangeName (aw_routingKey wr) p)]
    \<and> value_of (ReadEnvelope (Received \<lparr>dl_CorrelationId = pub_CorrelationId p, dl_Body = pub_Body p\<rparr>)) w' =
      (Some \<lparr>env_Message = env_Message envelope,
         env_Metadata = \<lparr>md_CorrelationID = md_CorrelationID (env_Metadata envelope), md_ReplyTo = []\<rparr>\<rparr>, False, None)"
  using assms by (simp add: WriteEnvelope_def effects_run ReadEnvelope_value json_roundtrip)

theorem envelope_roundtrip_witness:
  "\<exists>p :: publishing. value_of (ReadEnvelope (Received \<lparr>dl_CorrelationId = pub_CorrelationId p, dl_Body = pub_Body p\<rparr>)) (sample_world zero_IotMessage) =
      (Some \<lparr>env_Message = config_reply, env_Metadata = \<lparr>md_CorrelationID = ''call-1'', md_ReplyTo = []\<rparr>\<rparr>, False, None)"
  using envelope_roundtrip [of "\<lparr>env_Message = config_reply, env_Metadata = \<lparr>md_CorrelationID = ''call-1'', md_ReplyTo = ''gw1.out''\<rparr>\<rparr>"
      sample_writer 2 sample_env "sample_world zero_IotMessage" "sample_world zero_IotMessage"] config_reply_valid
  by (auto simp: sample_writer_def)

text \<open>C34: one turn of the reader: a cancelled channel ends it, a closed stream of deliveries (a lost connection) panics, a
  response is stored in its pending call, and everything else leaves the channel as it is. It starts exactly one goroutine, which applies the message to the logic, for a delivery without
  a correlation id whose body is a message, and none otherwise; it starts no task.\<close>

theorem reader_turn_outcome:
  "value_of (reader_turn cp c sel) w =
     (if gc_cancelled c then Returned (ReaderEnds, c)
      else case sel of
        CtxDone \<Rightarrow> Returned (NextTurn, c)
      | MsgsClosed \<Rightarrow> Panicked
      | Received d \<Rightarrow>
          (case response_in sel of
             None \<Rightarrow> Returned (NextTurn, c)
           | Some (k, m) \<Rightarrow>
               (case map_of (gc_rpcCalls c) k of
                  None \<Rightarrow> Returned (NextTurn, c)
                | Some call \<Rightarrow> if call_closed call then Panicked
                    else Returned (SendsDone k, c\<lparr>gc_rpcCalls := store_response k m (gc_rpcCalls c)\<rparr>))))
   \<and> tasks_of (effects (reader_turn cp c sel) w) = []
   \<and> filter is_go (effects (reader_turn cp c sel) w) =
       (case sel of
          Received d \<Rightarrow> if gc_cancelled c \<or> dl_CorrelationId d \<noteq> [] then []
            else (case json_Unmarshal (dl_Body d) of Inl e \<Rightarrow> [] | Inr m \<Rightarrow> [Go (RunApplyLogic cp m)])
        | _ \<Rightarrow> [])"
proof (intro conjI)
  show "tasks_of (effects (reader_turn cp c sel) w) = []"
    by (cases sel) (auto simp: reader_turn_def effects_run tasks_of_def ReadEnvelope_def copy_bytes_all PrintMessage_def Let_def
        split: sum.split option.split)
  show "filter is_go (effects (reader_turn cp c sel) w) =
       (case sel of
          Received d \<Rightarrow> if gc_cancelled c \<or> dl_CorrelationId d \<noteq> [] then []
            else (case json_Unmarshal (dl_Body d) of Inl e \<Rightarrow> [] | Inr m \<Rightarrow> [Go (RunApplyLogic cp m)])
        | _ \<Rightarrow> [])"
    by (cases sel) (auto simp: reader_turn_def effects_run ReadEnvelope_def copy_bytes_all PrintMessage_def Let_def
        split: sum.split option.split)
qed (cases sel; simp add: reader_turn_value turn_result_def response_in_def)

theorem reader_turn_outcome_witness:
  "value_of (reader_turn 0 sample_channel MsgsClosed) (sample_world zero_IotMessage) = Panicked"
  using reader_turn_outcome [of 0 sample_channel MsgsClosed "sample_world zero_IotMessage"] by simp

end
