(* ===== verification/GatewayThreads.thy ===== *)
theory GatewayThreads
  imports ProcessPool ChannelClaims
begin

text \<open>
  All goroutines of a gateway's messages on one channel, each from the first statement of \<open>ApplyLogic\<close> to the last one of
  \<open>Process\<close>. The channel points to a logic object; a second load makes a second object, and a goroutine that has called \<open>Process\<close>
  goes on with the object it called it on. Three facts hold for every schedule: the objects keep their types, no goroutine
  dies once the logic is loaded or as long as no load fails, and every goroutine ends within 25 turns of its own; a goroutine on its own does what \<open>ApplyLogic\<close> says.
\<close>

section \<open>Turns\<close>

text \<open>
  A goroutine for a message is \<open>Arriving\<close> before its first statement; it looks the gateway up, loads a logic, stores it, tests
  the channel's pointer, calls \<open>Process\<close> on it, and is then handling the message on the object it called. A goroutine
  that is \<open>Switching\<close> is a REST handler about to set the push switch. \<open>Dead\<close> is a panic.
\<close>

datatype phase =
    Arriving IotMessage
  | LookingUp ref IotMessage
  | Loading ref
  | Storing ref "err + GatewayLogic"
  | Testing ref
  | Calling ref
  | Switching bool
  | Handling nat thread
  | Handled
  | Dead

text \<open>The logic objects made so far, in the order in which they were stored, and the one the channel points to, or nil.\<close>

type_synonym objects = "nat option \<times> GatewayLogic list"

text \<open>A statement of the handler \<open>t\<close> on the object \<open>i\<close>.\<close>

definition handle_turn :: "nat \<Rightarrow> thread \<Rightarrow> objects \<Rightarrow> (phase \<times> objects) io" where
  "handle_turn i t = (\<lambda>(bl, ls). State (\<lambda>w.
     case thread_turn t (ls ! i, w) of (t', (l', w')) \<Rightarrow> ((Handling i t', (bl, ls[i := l'])), w')))"

text \<open>The push switch of a REST handler, which reads the channel's pointer once.\<close>

definition switch_turn :: "bool \<Rightarrow> objects \<Rightarrow> (phase \<times> objects) io" where
  "switch_turn push obs =
     (case fst obs of
        None \<Rightarrow> do { Error ''no business logic loaded''; ret (Handled, obs) }
      | Some i \<Rightarrow> ret (Handling i (SetPush_thread push), obs))"

fun phase_turn :: "env \<Rightarrow> GatewayChannel \<Rightarrow> phase \<Rightarrow> objects \<Rightarrow> (phase \<times> objects) io" where
  "phase_turn E c (Arriving message) obs = do {
     iotmessage \<leftarrow> alloc message;
     ret (if fst obs = None then LookingUp iotmessage message else Testing iotmessage, obs)
   }"
| "phase_turn E c (LookingUp iotmessage message) obs = do {
     exists \<leftarrow> CheckGatewayExistence E c message;
     (case exists of
        Panicked \<Rightarrow> ret (Dead, obs)
      | Returned (Inl e) \<Rightarrow> do { Error ''error checking gateway in database''; ret (Handled, obs) }
      | Returned (Inr False) \<Rightarrow> do { Warn ''Gateway is not registered in cloud database''; ret (Handled, obs) }
      | Returned (Inr True) \<Rightarrow> ret (Loading iotmessage, obs))
   }"
| "phase_turn E c (Loading iotmessage) obs = do {
     res \<leftarrow> CreateLogic E c;
     (case res of
        Panicked \<Rightarrow> ret (Dead, obs)
      | Returned x \<Rightarrow> ret (Storing iotmessage x, obs))
   }"
| "phase_turn E c (Storing iotmessage (Inl e)) obs = do {
     Error ''cannot load business logic params'';
     ret (Testing iotmessage, (None, snd obs))
   }"
| "phase_turn E c (Storing iotmessage (Inr bl)) obs =
     ret (Testing iotmessage, (Some (length (snd obs)), snd obs @ [bl]))"
| "phase_turn E c (Testing iotmessage) obs =
     (if fst obs = None then do { Error ''business logic is not loaded''; ret (Handled, obs) }
      else ret (Calling iotmessage, obs))"
| "phase_turn E c (Calling iotmessage) obs =
     (case fst obs of
        None \<Rightarrow> ret (Dead, obs)
      | Some i \<Rightarrow> ret (Handling i (Process_thread E (Some iotmessage)), obs))"
| "phase_turn E c (Switching push) obs = switch_turn push obs"
| "phase_turn E c (Handling i (Ended err)) obs = do {
     (if err \<noteq> None then Error ''error processing message'' else ret ());
     ret (Handled, obs)
   }"
| "phase_turn E c (Handling i (Turn f)) obs = handle_turn i (Turn f) obs"
| "phase_turn E c Handled obs = ret (Handled, obs)"
| "phase_turn E c Dead obs = ret (Dead, obs)"

record gateway =
  gw_objects :: objects
  gw_world :: world
  gw_phases :: "nat \<Rightarrow> phase"

definition gateway_turn :: "env \<Rightarrow> GatewayChannel \<Rightarrow> nat \<Rightarrow> gateway \<Rightarrow> gateway" where
  "gateway_turn E c g S =
     (case run_state (phase_turn E c (gw_phases S g) (gw_objects S)) (gw_world S) of
        ((phase, obs), w) \<Rightarrow> \<lparr>gw_objects = obs, gw_world = w, gw_phases = (gw_phases S)(g := phase)\<rparr>)"

definition run_gateway :: "env \<Rightarrow> GatewayChannel \<Rightarrow> nat list \<Rightarrow> gateway \<Rightarrow> gateway" where
  "run_gateway E c gs S = fold (gateway_turn E c) gs S"

lemma run_gateway_simps [simp]:
  "run_gateway E c [] S = S" "run_gateway E c (g # gs) S = run_gateway E c gs (gateway_turn E c g S)"
  by (simp_all add: run_gateway_def)

lemma gateway_turn_sel:
  "gw_objects (gateway_turn E c g S) = snd (value_of (phase_turn E c (gw_phases S g) (gw_objects S)) (gw_world S))"
  "gw_world (gateway_turn E c g S) = world_after (phase_turn E c (gw_phases S g) (gw_objects S)) (gw_world S)"
  "gw_phases (gateway_turn E c g S) = (gw_phases S)(g := fst (value_of (phase_turn E c (gw_phases S g) (gw_objects S)) (gw_world S)))"
  by (simp_all add: gateway_turn_def value_of_def world_after_def split_beta)

section \<open>The invariant\<close>

definition logic_of_channel :: "GatewayChannel \<Rightarrow> GatewayLogic \<Rightarrow> bool" where
  "logic_of_channel c l \<longleftrightarrow> typed_logic l \<and> gl_gatewayId l = gc_gatewayID c"

definition points_inside :: "objects \<Rightarrow> bool" where
  "points_inside obs \<longleftrightarrow> (\<forall>i. fst obs = Some i \<longrightarrow> i < length (snd obs))"

definition objects_ok :: "GatewayChannel \<Rightarrow> objects \<Rightarrow> bool" where
  "objects_ok c obs \<longleftrightarrow> (\<forall>l \<in> set (snd obs). logic_of_channel c l) \<and> points_inside obs"

fun phase_ok :: "GatewayChannel \<Rightarrow> objects \<Rightarrow> phase \<Rightarrow> bool" where
  "phase_ok c obs (Handling i t) \<longleftrightarrow> i < length (snd obs) \<and> type_guarantee t"
| "phase_ok c obs (Storing r (Inr l)) \<longleftrightarrow> logic_of_channel c l"
| "phase_ok c obs phase \<longleftrightarrow> True"

lemma logic_ok_typed: "logic_ok l \<Longrightarrow> typed_logic l"
  unfolding typed_logic_def logic_ok_def cameras_ok_def by fastforce

lemma type_turn:
  assumes "type_guarantee t" and "typed_logic l" and "thread_turn t (l, w) = (t', (l', w'))"
  shows "type_guarantee t' \<and> typed_logic l' \<and> same_config l l'"
  using guarantees_step [OF assms(1) [unfolded type_guarantee_def], of "(l, w)"] assms(2,3)
  by (auto simp: type_guarantee_def)

text \<open>A turn of a handler changes the object it runs on and nothing else.\<close>

lemma handling_turn:
  "thread_turn (Turn f) (ls ! i, w) = (t', (l', w')) \<Longrightarrow>
   run_state (phase_turn E c (Handling i (Turn f)) (bl, ls)) w = ((Handling i t', (bl, ls[i := l'])), w')"
  by (simp add: handle_turn_def)

lemma phase_turn_ok:
  assumes "objects_ok c obs" and "phase_ok c obs p" and "value_of (phase_turn E c p obs) w = (p', obs')"
  shows "objects_ok c obs' \<and> phase_ok c obs' p' \<and> length (snd obs) \<le> length (snd obs')"
proof (cases p)
  case (LookingUp r m)
  with assms show ?thesis
    by (auto simp: value_bind split: outcome.splits sum.splits bool.splits)
next
  case (Loading r)
  obtain res where res: "value_of (CreateLogic E c) w = Returned res"
      "\<forall>bl. res = Inr bl \<longrightarrow> logic_ok bl \<and> gl_gatewayId bl = gc_gatewayID c"
    using CreateLogic_result by blast
  with Loading assms show ?thesis
    by (cases res) (auto simp: value_bind logic_of_channel_def logic_ok_typed)
next
  case (Storing r x)
  with assms show ?thesis
    by (cases x) (auto simp: value_bind objects_ok_def points_inside_def)
next
  case (Calling r)
  with assms show ?thesis
    by (auto simp: objects_ok_def points_inside_def type_Process split: option.splits)
next
  case (Switching push)
  with assms show ?thesis
    by (auto simp: switch_turn_def value_bind objects_ok_def points_inside_def type_SetPush split: option.splits)
next
  case (Handling i t)
  show ?thesis
  proof (cases t)
    case (Ended e)
    with Handling assms show ?thesis by (auto simp: value_bind)
  next
    case (Turn f)
    obtain bl ls where obs: "obs = (bl, ls)" by (cases obs)
    obtain t' l' w' where turn: "thread_turn t (ls ! i, w) = (t', (l', w'))" by (metis prod.collapse)
    have i: "i < length ls" "type_guarantee t" "logic_of_channel c (ls ! i)"
      using assms(1,2) Handling by (simp_all add: obs objects_ok_def)
    have "p' = Handling i t'" "obs' = (bl, ls[i := l'])"
      using assms(3) handling_turn [OF turn [unfolded Turn]] unfolding Handling Turn obs by (simp_all add: value_of_def)
    with type_turn [OF i(2) _ turn] i assms(1) show ?thesis
      by (auto simp: objects_ok_def points_inside_def logic_of_channel_def obs same_config_def dest: set_update_subset_insert [THEN subsetD])
  qed
qed (use assms in \<open>auto simp: value_bind split: if_splits\<close>)

definition gateway_ok :: "GatewayChannel \<Rightarrow> gateway \<Rightarrow> bool" where
  "gateway_ok c S \<longleftrightarrow> objects_ok c (gw_objects S) \<and> (\<forall>g. phase_ok c (gw_objects S) (gw_phases S g))"

lemma phase_ok_more: "phase_ok c obs p \<Longrightarrow> length (snd obs) \<le> length (snd obs') \<Longrightarrow> phase_ok c obs' p"
  by (induction c obs p rule: phase_ok.induct) auto

lemma gateway_turn_ok: "gateway_ok c S \<Longrightarrow> gateway_ok c (gateway_turn E c g S)"
proof -
  assume ok: "gateway_ok c S"
  obtain p' obs' where turn: "value_of (phase_turn E c (gw_phases S g) (gw_objects S)) (gw_world S) = (p', obs')"
    by (metis prod.collapse)
  from phase_turn_ok [OF _ _ turn] ok have "objects_ok c obs'" "phase_ok c obs' p'" "length (snd (gw_objects S)) \<le> length (snd obs')"
    by (simp_all add: gateway_ok_def)
  with ok show ?thesis
    by (auto simp: gateway_ok_def gateway_turn_sel turn intro: phase_ok_more)
qed

lemma run_gateway_ok: "gateway_ok c S \<Longrightarrow> gateway_ok c (run_gateway E c gs S)"
  by (induction gs arbitrary: S) (simp_all add: gateway_turn_ok)

section \<open>No goroutine dies\<close>

text \<open>While no load fails, or none is under way or to come, a logic that is there stays there.\<close>

definition never_fails :: "env \<Rightarrow> GatewayChannel \<Rightarrow> bool" where
  "never_fails E c \<longleftrightarrow> (\<forall>w e. value_of (CreateLogic E c) w \<noteq> Returned (Inl e))"

fun phase_alive :: "bool \<Rightarrow> objects \<Rightarrow> phase \<Rightarrow> bool" where
  "phase_alive loads obs (LookingUp r m) \<longleftrightarrow> loads"
| "phase_alive loads obs (Loading r) \<longleftrightarrow> loads"
| "phase_alive loads obs (Storing r x) \<longleftrightarrow> loads \<and> (\<exists>l. x = Inr l)"
| "phase_alive loads obs (Calling r) \<longleftrightarrow> fst obs \<noteq> None"
| "phase_alive loads obs Dead \<longleftrightarrow> False"
| "phase_alive loads obs phase \<longleftrightarrow> True"

lemma phase_turn_alive:
  assumes "usable (gc_conn c)" and "loads \<longrightarrow> never_fails E c" and "\<not> loads \<longrightarrow> fst obs \<noteq> None"
    and "phase_alive loads obs p" and "value_of (phase_turn E c p obs) w = (p', obs')"
  shows "phase_alive loads obs' p' \<and> (fst obs \<noteq> None \<longrightarrow> fst obs' \<noteq> None)"
proof (cases p)
  case (LookingUp r m)
  with assms show ?thesis
    by (auto simp: value_bind CheckGatewayExistence_value split: outcome.splits sum.splits bool.splits if_splits)
next
  case (Loading r)
  obtain res where "value_of (CreateLogic E c) w = Returned res"
    using CreateLogic_result by blast
  with Loading assms show ?thesis
    by (cases res) (auto simp: value_bind never_fails_def)
next
  case (Handling i t)
  with assms(5) show ?thesis
    by (cases t; cases obs) (auto simp: value_bind handle_turn_def value_of_def split: prod.splits)
qed (use assms in \<open>auto simp: switch_turn_def value_bind split: if_splits option.splits\<close>)

definition gateway_alive :: "bool \<Rightarrow> gateway \<Rightarrow> bool" where
  "gateway_alive loads S \<longleftrightarrow> (\<not> loads \<longrightarrow> fst (gw_objects S) \<noteq> None) \<and> (\<forall>g. phase_alive loads (gw_objects S) (gw_phases S g))"

lemma phase_alive_more: "phase_alive loads obs p \<Longrightarrow> fst obs \<noteq> None \<longrightarrow> fst obs' \<noteq> None \<Longrightarrow> phase_alive loads obs' p"
  by (cases p) auto

lemma gateway_turn_alive:
  assumes "usable (gc_conn c)" and "loads \<longrightarrow> never_fails E c" and "gateway_alive loads S"
  shows "gateway_alive loads (gateway_turn E c g S)"
proof -
  obtain p' obs' where turn: "value_of (phase_turn E c (gw_phases S g) (gw_objects S)) (gw_world S) = (p', obs')"
    by (metis prod.collapse)
  from phase_turn_alive [OF assms(1,2) _ _ turn] assms(3)
  have "phase_alive loads obs' p'" "fst (gw_objects S) \<noteq> None \<longrightarrow> fst obs' \<noteq> None"
    by (simp_all add: gateway_alive_def)
  with assms(3) show ?thesis
    by (auto simp: gateway_alive_def gateway_turn_sel turn intro: phase_alive_more)
qed

lemma run_gateway_alive:
  "usable (gc_conn c) \<Longrightarrow> loads \<longrightarrow> never_fails E c \<Longrightarrow> gateway_alive loads S \<Longrightarrow> gateway_alive loads (run_gateway E c gs S)"
  by (induction gs arbitrary: S) (simp_all add: gateway_turn_alive)

section \<open>Every goroutine ends\<close>

text \<open>What is left of a goroutine, at most: a turn for each phase, 18 for the handlers, one for the error they return.\<close>

fun done_within :: "nat \<Rightarrow> phase \<Rightarrow> bool" where
  "done_within n (Arriving m) \<longleftrightarrow> 25 \<le> n"
| "done_within n (LookingUp r m) \<longleftrightarrow> 24 \<le> n"
| "done_within n (Loading r) \<longleftrightarrow> 23 \<le> n"
| "done_within n (Storing r x) \<longleftrightarrow> 22 \<le> n"
| "done_within n (Testing r) \<longleftrightarrow> 21 \<le> n"
| "done_within n (Calling r) \<longleftrightarrow> 20 \<le> n"
| "done_within n (Switching push) \<longleftrightarrow> 3 \<le> n"
| "done_within n (Handling i t) \<longleftrightarrow> 1 \<le> n \<and> ends_within (n - 1) t"
| "done_within n Handled \<longleftrightarrow> True"
| "done_within n Dead \<longleftrightarrow> True"

lemma done_within_turn:
  assumes "done_within n p"
  shows "done_within (n - 1) (fst (value_of (phase_turn E c p obs) w))"
proof (cases p)
  case (Calling r)
  with assms show ?thesis
    by (auto split: option.split intro: ends_within_mono [OF ends_Process])
next
  case (Switching push)
  with assms show ?thesis
    by (auto simp: switch_turn_def value_bind split: option.split intro: ends_within_mono [OF ends_SetPush])
next
  case (Handling i t)
  show ?thesis
  proof (cases t)
    case (Turn f)
    obtain bl ls where obs: "obs = (bl, ls)" by (cases obs)
    obtain t' l' w' where turn: "thread_turn t (ls ! i, w) = (t', (l', w'))" by (metis prod.collapse)
    have "n - 1 \<noteq> 0" using assms Handling Turn by (cases "n - 1") simp_all
    with assms ends_within_turn [of "n - 1" t "(ls ! i, w)"] turn show ?thesis
      using handling_turn [OF turn [unfolded Turn]] by (simp add: Handling Turn obs value_of_def)
  qed (simp add: Handling value_bind)
next
  case (Storing r x)
  with assms show ?thesis by (cases x) (auto simp: value_bind)
qed (use assms in \<open>auto simp: value_bind split: outcome.split sum.split bool.split\<close>)

lemma run_gateway_done:
  "done_within n (gw_phases S g) \<Longrightarrow> n \<le> count_list gs g \<Longrightarrow> gw_phases (run_gateway E c gs S) g \<in> {Handled, Dead}"
proof (induction gs arbitrary: S n)
  case Nil
  then show ?case by (cases "gw_phases S g") auto
next
  case (Cons h gs)
  have "done_within (if h = g then n - 1 else n) (gw_phases (gateway_turn E c h S) g)"
    using Cons.prems(1) done_within_turn [of n "gw_phases S g" E c "gw_objects S" "gw_world S"] by (auto simp: gateway_turn_sel)
  from Cons.IH [OF this] Cons.prems(2) show ?case
    by (auto split: if_splits)
qed

section \<open>A goroutine on its own\<close>

text \<open>What is still to do in a phase, in the code's own terms: it is the same before and after every turn.\<close>

definition channel_with :: "GatewayChannel \<Rightarrow> objects \<Rightarrow> GatewayChannel" where
  "channel_with c obs = c\<lparr>gc_bl := map_option ((!) (snd obs)) (fst obs)\<rparr>"

definition finish_handling :: "GatewayChannel \<Rightarrow> err option \<Rightarrow> GatewayChannel outcome io" where
  "finish_handling c err = do { (if err \<noteq> None then Error ''error processing message'' else ret ()); ret (Returned c) }"

definition switch_push :: "bool \<Rightarrow> GatewayChannel \<Rightarrow> GatewayChannel io" where
  "switch_push push c =
     (case GetLogic c of
        None \<Rightarrow> do { Error ''no business logic loaded''; ret c }
      | Some bl \<Rightarrow> ret (c\<lparr>gc_bl := Some (SetPush push bl)\<rparr>))"

fun completed :: "env \<Rightarrow> GatewayChannel \<Rightarrow> phase \<Rightarrow> objects \<Rightarrow> world \<Rightarrow> GatewayChannel outcome \<times> world" where
  "completed E c (Arriving m) obs w = run_state (ApplyLogic E (channel_with c obs) m) w"
| "completed E c (LookingUp r m) obs w =
     run_state (do { exists \<leftarrow> CheckGatewayExistence E c m; load_then_process E (channel_with c obs) r exists }) w"
| "completed E c (Loading r) obs w = run_state (load_then_process E (channel_with c obs) r (Returned (Inr True))) w"
| "completed E c (Storing r (Inl e)) obs w =
     run_state (do { Error ''cannot load business logic params''; process_loaded E (c\<lparr>gc_bl := None\<rparr>) r }) w"
| "completed E c (Storing r (Inr bl)) obs w = run_state (process_loaded E (c\<lparr>gc_bl := Some bl\<rparr>) r) w"
| "completed E c (Testing r) obs w = run_state (process_loaded E (channel_with c obs) r) w"
| "completed E c (Calling r) obs w =
     (if fst obs = None then (Panicked, w) else run_state (process_loaded E (channel_with c obs) r) w)"
| "completed E c (Switching push) obs w = run_state (do { c' \<leftarrow> switch_push push (channel_with c obs); ret (Returned c') }) w"
| "completed E c (Handling i t) obs w =
     (case run_thread t (snd obs ! i, w) of
        (err, (l, w')) \<Rightarrow> run_state (finish_handling (channel_with c (fst obs, (snd obs)[i := l])) err) w')"
| "completed E c Handled obs w = (Returned (channel_with c obs), w)"
| "completed E c Dead obs w = (Panicked, w)"

lemma CreateLogic_any: "CreateLogic E (c\<lparr>gc_bl := b\<rparr>) = CreateLogic E c"
  by (simp add: CreateLogic_def)

lemma CheckGatewayExistence_any: "CheckGatewayExistence E (c\<lparr>gc_bl := b\<rparr>) m = CheckGatewayExistence E c m"
  by (simp add: CheckGatewayExistence_def)

lemma channel_with_sel [simp]:
  "gc_bl (channel_with c obs) = map_option ((!) (snd obs)) (fst obs)"
  "CreateLogic E (channel_with c obs) = CreateLogic E c"
  "CheckGatewayExistence E (channel_with c obs) m = CheckGatewayExistence E c m"
  "(channel_with c obs)\<lparr>gc_bl := b\<rparr> = c\<lparr>gc_bl := b\<rparr>"
  "channel_with c (None, ls) = c\<lparr>gc_bl := None\<rparr>"
  "channel_with c (Some (length ls), ls @ [l]) = c\<lparr>gc_bl := Some l\<rparr>"
  by (simp_all add: channel_with_def CreateLogic_any CheckGatewayExistence_any)

lemma completed_turn:
  assumes "objects_ok c obs" and "phase_ok c obs p" and "run_state (phase_turn E c p obs) w = ((p', obs'), w')"
  shows "completed E c p' obs' w' = completed E c p obs w"
proof (cases p)
  case (Arriving m)
  have "ApplyLogic E (channel_with c obs) m = do { r \<leftarrow> alloc m; process_loaded E (channel_with c obs) r }" if "fst obs \<noteq> None"
    using that by (auto simp: ApplyLogic_def)
  moreover have "ApplyLogic E (channel_with c obs) m = do {
      r \<leftarrow> alloc m; exists \<leftarrow> CheckGatewayExistence E c m; load_then_process E (channel_with c obs) r exists }" if "fst obs = None"
    using that ApplyLogic_stages [of "channel_with c obs" E m] by simp
  ultimately show ?thesis
    using Arriving assms(3) by (cases "fst obs = None") auto
next
  case (LookingUp r m)
  obtain x w1 where "run_state (CheckGatewayExistence E c m) w = (x, w1)" by (metis prod.collapse)
  with LookingUp assms show ?thesis
    by (auto simp: load_then_process_def split: outcome.splits sum.splits bool.splits)
next
  case (Loading r)
  obtain x w1 where "run_state (CreateLogic E c) w = (x, w1)" by (metis prod.collapse)
  with Loading assms show ?thesis
    by (auto simp: load_then_process_def split: outcome.splits sum.splits)
next
  case (Storing r x)
  with assms show ?thesis by (cases x) auto
next
  case (Testing r)
  with assms show ?thesis by (cases "fst obs") (auto simp: process_loaded_def)
next
  case (Calling r)
  with assms show ?thesis
    by (cases "fst obs"; cases obs)
       (auto simp: process_loaded_def run_Process finish_handling_def objects_ok_def points_inside_def channel_with_def split: prod.splits)
next
  case (Switching push)
  with assms show ?thesis
    by (cases "fst obs"; cases obs)
       (auto simp: switch_turn_def switch_push_def GetLogic_def SetPush_thread_def update_user_def SetPush_def finish_handling_def objects_ok_def
         points_inside_def channel_with_def split: prod.splits)
next
  case (Handling i t)
  show ?thesis
  proof (cases t)
    case (Ended e)
    with Handling assms show ?thesis by (auto simp: finish_handling_def)
  next
    case (Turn f)
    obtain bl ls where obs: "obs = (bl, ls)" by (cases obs)
    obtain t' l1 w1 where turn: "thread_turn t (ls ! i, w) = (t', (l1, w1))" by (metis prod.collapse)
    from assms(2,3) handling_turn [OF turn [unfolded Turn]] turn show ?thesis
      by (auto simp: Handling Turn obs run_thread.simps(2) split: prod.splits)
  qed
qed (use assms in auto)

lemma completed_alone:
  "objects_ok c (gw_objects S) \<Longrightarrow> phase_ok c (gw_objects S) (gw_phases S g) \<Longrightarrow>
   completed E c (gw_phases (run_gateway E c (replicate n g) S) g) (gw_objects (run_gateway E c (replicate n g) S))
       (gw_world (run_gateway E c (replicate n g) S))
     = completed E c (gw_phases S g) (gw_objects S) (gw_world S)"
proof (induction n arbitrary: S)
  case (Suc n)
  obtain p' obs' w' where turn: "run_state (phase_turn E c (gw_phases S g) (gw_objects S)) (gw_world S) = ((p', obs'), w')"
    by (metis prod.collapse)
  from phase_turn_ok [OF Suc.prems, of E "gw_world S" p' obs'] turn have "objects_ok c obs'" "phase_ok c obs' p'"
    by (simp_all add: value_of_def)
  with Suc.IH [of "gateway_turn E c g S"] completed_turn [OF Suc.prems turn] turn show ?case
    by (simp add: gateway_turn_def)
qed simp

end
