(* ===== verification/ProcessIsolation.thy ===== *)
theory ProcessIsolation
  imports ProcessPool
begin

text \<open>
  A message of a camera among messages of other devices: what its goroutine sees and does is the same as if it ran alone.
  \<open>view d r\<close> is what a handler of a camera's stream can see (the camera \<open>d\<close>, the user, the message at \<open>r\<close>) with what happened to
  that message; the turns of the others do not change it, and the turns of the handler are determined by it.
\<close>

section \<open>Views\<close>

definition about :: "ref \<Rightarrow> event \<Rightarrow> bool" where
  "about r e = (case e of Go (RunTask t r' m) \<Rightarrow> r' = r | MsgStored r' m \<Rightarrow> r' = r | _ \<Rightarrow> False)"

definition user_view :: "UserLogicParams \<Rightarrow> bool \<times> u64 \<times> u64 \<times> bool \<times> bool" where
  "user_view u = (usr_Blocked u, usr_TarifId u, usr_Money u, usr_Vip u, usr_LegalEntity u)"

type_synonym view = "CameraLogicParams result \<times> (bool \<times> u64 \<times> u64 \<times> bool \<times> bool) \<times> IotMessage \<times> event list"

definition view :: "string \<Rightarrow> ref \<Rightarrow> GatewayLogic \<times> world \<Rightarrow> view" where
  "view d r = (\<lambda>(l, w). (getCameraLogicParams l d, user_view (gl_UserParams l), heap w r, filter (about r) (hist w)))"

text \<open>The message at \<open>r\<close> is a stream message of \<open>d\<close>; those of the other goroutines, at \<open>rs\<close>, name other devices and are no commands.\<close>

definition isolated :: "ref set \<Rightarrow> string \<Rightarrow> ref \<Rightarrow> world \<Rightarrow> bool" where
  "isolated rs d r w \<longleftrightarrow> r < next_ref w \<and> r \<notin> rs \<and> stream_message d (heap w r) \<and>
     (\<forall>r' \<in> rs. r' < next_ref w \<and> DeviceId (heap w r') \<noteq> d \<and> MessageType (heap w r') \<noteq> ''command'')"

definition ignores :: "ref set \<Rightarrow> string \<Rightarrow> ref \<Rightarrow> thread \<Rightarrow> bool" where
  "ignores rs d r = guarantees (\<lambda>(l, w). isolated rs d r w) (\<lambda>s s'. view d r s' = view d r s) (\<lambda>_. True)"

interpretation ignoring: pool_guarantee "\<lambda>(l, w). isolated rs d r w" "\<lambda>s s'. view d r s' = view d r s" "\<lambda>_. True"
  for rs d r
  by unfold_locales auto

section \<open>The others\<close>

lemma ignores_Ended [simp]: "ignores rs d r (Ended e)"
  unfolding ignores_def by (rule guarantees_Finished) simp

lemma ignores_doing:
  assumes "\<And>l w. isolated rs d r w \<Longrightarrow> isolated rs d r (snd (run_state m w)) \<and> view d r (l, snd (run_state m w)) = view d r (l, w)
     \<and> ignores rs d r (k (fst (run_state m w)))"
  shows "ignores rs d r (doing m k)"
  using assms unfolding ignores_def by (intro guarantees_doing) auto

lemma ignores_reading: "(\<And>l. ignores rs d r (k (f l))) \<Longrightarrow> ignores rs d r (reading f k)"
  unfolding ignores_def by (rule guarantees_reading) auto

lemma ignores_writing:
  "(\<And>l. getCameraLogicParams (f l) d = getCameraLogicParams l d \<and> user_view (gl_UserParams (f l)) = user_view (gl_UserParams l)) \<Longrightarrow>
   ignores rs d r t \<Longrightarrow> ignores rs d r (writing f t)"
  unfolding ignores_def by (rule guarantees_writing) (auto simp: view_def)

lemma ignores_world:
  "r' \<noteq> r \<Longrightarrow> ignores rs d r (k ()) \<Longrightarrow> ignores rs d r (doing (go_task t r') k)"
  "ignores rs d r (k ()) \<Longrightarrow> ignores rs d r (doing (Info s) k)"
  "r' \<noteq> r \<Longrightarrow> (\<And>m. DeviceId (f m) = DeviceId m \<and> MessageType (f m) = MessageType m) \<Longrightarrow> ignores rs d r (k ()) \<Longrightarrow> ignores rs d r (doing (modify r' f) k)"
  "(\<And>a. a \<noteq> r \<Longrightarrow> ignores rs d r (k' a)) \<Longrightarrow> ignores rs d r (doing (alloc m) k')"
  by (rule ignores_doing; auto simp: isolated_def view_def about_def)+

lemma ignores_deref:
  "r' \<in> rs \<Longrightarrow> (\<And>m. DeviceId m \<noteq> d \<Longrightarrow> MessageType m \<noteq> ''command'' \<Longrightarrow> ignores rs d r (k m)) \<Longrightarrow> ignores rs d r (doing (deref r') k)"
  by (rule ignores_doing) (auto simp: isolated_def view_def)

lemma getCamera_update_other: "e \<noteq> d \<Longrightarrow> getCameraLogicParams (update_camera e f l) d = getCameraLogicParams l d"
  by (auto simp: update_camera_def getCamera_set_camera split: sum.split)

lemma ignores_updates:
  "e \<noteq> d \<Longrightarrow> getCameraLogicParams (update_camera e f l) d = getCameraLogicParams l d \<and> user_view (gl_UserParams (update_camera e f l)) = user_view (gl_UserParams l)"
  "getCameraLogicParams (update_user (usr_Push_update g) l) d = getCameraLogicParams l d \<and> user_view (gl_UserParams (update_user (usr_Push_update g) l)) = user_view (gl_UserParams l)"
  by (simp_all add: getCamera_update_other update_user_def user_view_def) (simp add: update_camera_def split: sum.split)

lemma ignores_if: "(b \<Longrightarrow> ignores rs d r t) \<Longrightarrow> (\<not> b \<Longrightarrow> ignores rs d r u) \<Longrightarrow> ignores rs d r (if b then t else u)"
  by simp

lemma ignores_find_camera: "ignores rs d r t \<Longrightarrow> ignores rs d r (find_camera e t)"
  unfolding find_camera_def by (rule ignores_reading) (simp split: sum.split)

lemma ignores_can_be_recorded: "(\<And>b. ignores rs d r (k b)) \<Longrightarrow> ignores rs d r (can_be_recorded k)"
  unfolding can_be_recorded_def Let_def by (auto intro!: ignores_reading)

lemmas ignores_intros = ignores_find_camera ignores_can_be_recorded ignores_world ignores_deref ignores_writing ignores_reading ignores_if

lemma ignores_parts:
  "r' \<noteq> r \<Longrightarrow> ignores rs d r (record_by_mode e r')" "ignores rs d r (push_thread q)"
  "r' \<noteq> r \<Longrightarrow> ignores rs d r (sensor_inner_thread r' m dv something)"
  unfolding record_by_mode_def push_thread_def sensor_inner_thread_def Let_def
  by (auto intro!: ignores_intros split: CloudCameraRecordingMode.split option.split iface.split)

lemma ignores_handlers:
  assumes "r' \<in> rs" and "r \<notin> rs"
  shows "ignores rs d r (camera_state_thread r')" and "ignores rs d r (camera_data_thread r')" and "ignores rs d r (sensor_data_thread r')"
proof -
  have "r' \<noteq> r" using assms by blast
  then show "ignores rs d r (camera_state_thread r')" "ignores rs d r (camera_data_thread r')" "ignores rs d r (sensor_data_thread r')"
    unfolding camera_state_code camera_data_thread_def sensor_data_thread_def Let_def
    by (intro ignores_intros ignores_parts assms; auto split: sum.split intro!: ignores_intros ignores_parts ignores_updates)+
qed

lemma ignores_Process:
  assumes "r' \<in> rs" and "r \<notin> rs"
  shows "ignores rs d r (Process_thread E (Some r'))"
proof -
  have "r' \<noteq> r" using assms by blast
  then show ?thesis
    unfolding Process_thread_def Let_def option.case
    by (intro ignores_intros ignores_handlers assms ignores_Ended) auto
qed

lemma ignores_SetPush: "ignores rs d r (SetPush_thread b)"
  unfolding SetPush_thread_def by (intro ignores_intros ignores_updates) simp

section \<open>The handler\<close>

text \<open>From states with the same view, every turn goes on with the same thread and leaves the same view.\<close>

definition same_turn :: "ref set \<Rightarrow> string \<Rightarrow> ref \<Rightarrow> thread \<times> (GatewayLogic \<times> world) \<Rightarrow> thread \<times> (GatewayLogic \<times> world) \<Rightarrow> bool" where
  "same_turn rs d r x y \<longleftrightarrow> isolated rs d r (snd (snd x)) \<and> fst x = fst y \<and> view d r (snd x) = view d r (snd y)"

inductive sees :: "ref set \<Rightarrow> string \<Rightarrow> ref \<Rightarrow> thread \<Rightarrow> bool" for rs d r where
  sees_Ended: "sees rs d r (Ended e)"
| sees_Turn: "(\<And>s s'. isolated rs d r (snd s) \<Longrightarrow> view d r s = view d r s' \<Longrightarrow> same_turn rs d r (f s) (f s')) \<Longrightarrow>
    (\<And>s. isolated rs d r (snd s) \<Longrightarrow> sees rs d r (fst (f s))) \<Longrightarrow> sees rs d r (Turn f)"

lemma sees_step:
  "sees rs d r t \<Longrightarrow> isolated rs d r (snd s) \<Longrightarrow> view d r s = view d r s' \<Longrightarrow>
   same_turn rs d r (thread_turn t s) (thread_turn t s') \<and> sees rs d r (fst (thread_turn t s))"
proof (erule sees.cases)
  fix e assume "t = Ended e" "isolated rs d r (snd s)" "view d r s = view d r s'"
  then show ?thesis by (simp only: thread_turn.simps same_turn_def fst_conv snd_conv sees_Ended simp_thms)
next
  fix f
  assume "t = Turn f" "isolated rs d r (snd s)" "view d r s = view d r s'"
    and "\<And>s s'. isolated rs d r (snd s) \<Longrightarrow> view d r s = view d r s' \<Longrightarrow> same_turn rs d r (f s) (f s')"
    and "\<And>s. isolated rs d r (snd s) \<Longrightarrow> sees rs d r (fst (f s))"
  then show ?thesis by (simp only: thread_turn.simps)
qed

lemma sees_doing:
  assumes "\<And>l w l' w'. isolated rs d r w \<Longrightarrow> view d r (l, w) = view d r (l', w') \<Longrightarrow>
     isolated rs d r (snd (run_state m w)) \<and> fst (run_state m w) = fst (run_state m w')
     \<and> view d r (l, snd (run_state m w)) = view d r (l', snd (run_state m w'))"
    and "\<And>w. isolated rs d r w \<Longrightarrow> sees rs d r (k (fst (run_state m w)))"
  shows "sees rs d r (doing m k)"
  unfolding doing_def
proof (rule sees_Turn; clarify)
  fix l w l' w'
  assume "isolated rs d r (snd (l, w))" "view d r (l, w) = view d r (l', w')"
  with assms(1) [of w l l' w'] show "same_turn rs d r (case run_state m w of (x, w') \<Rightarrow> (k x, l, w')) (case run_state m w' of (x, w'') \<Rightarrow> (k x, l', w''))"
    by (simp add: same_turn_def split_beta)
qed (use assms(2) in \<open>simp add: split_beta\<close>)

lemma sees_reading:
  assumes "\<And>l w l' w'. view d r (l, w) = view d r (l', w') \<Longrightarrow> f l = f l'" and "\<And>l. sees rs d r (k (f l))"
  shows "sees rs d r (reading f k)"
  unfolding reading_def
proof (rule sees_Turn; clarify)
  fix l w l' w'
  assume "isolated rs d r (snd (l, w))" "view d r (l, w) = view d r (l', w')"
  with assms(1) [of l w l' w'] show "same_turn rs d r (k (f l), l, w) (k (f l'), l', w')"
    by (simp add: same_turn_def)
qed (use assms(2) in simp)

lemma sees_writing:
  assumes "\<And>l w l' w'. view d r (l, w) = view d r (l', w') \<Longrightarrow> view d r (f l, w) = view d r (f l', w')" and "sees rs d r t"
  shows "sees rs d r (writing f t)"
  unfolding writing_def
proof (rule sees_Turn; clarify)
  fix l w l' w'
  assume "isolated rs d r (snd (l, w))" "view d r (l, w) = view d r (l', w')"
  with assms(1) [of l w l' w'] show "same_turn rs d r (t, f l, w) (t, f l', w')"
    by (simp add: same_turn_def)
qed (use assms(2) in simp)

lemma sees_world:
  "sees rs d r (k ()) \<Longrightarrow> sees rs d r (doing (go_task t r) k)"
  "sees rs d r (k ()) \<Longrightarrow> sees rs d r (doing (Info s) k)"
  "(\<And>m. stream_message d (f m) = stream_message d m) \<Longrightarrow> sees rs d r (k ()) \<Longrightarrow> sees rs d r (doing (modify r f) k)"
  "(\<And>m. stream_message d m \<Longrightarrow> sees rs d r (k' m)) \<Longrightarrow> sees rs d r (doing (deref r) k')"
  by (rule sees_doing; auto simp: isolated_def view_def about_def)+

lemma view_eqD:
  assumes "view d r (l, w) = view d r (l', w')"
  shows "getCameraLogicParams l d = getCameraLogicParams l' d" and "user_view (gl_UserParams l) = user_view (gl_UserParams l')"
    and "camera_at d l = camera_at d l'"
  using assms by (auto simp: view_def camera_at_def)

lemma sees_if: "(b \<Longrightarrow> sees rs d r t) \<Longrightarrow> (\<not> b \<Longrightarrow> sees rs d r u) \<Longrightarrow> sees rs d r (if b then t else u)"
  by simp

lemma sees_find_camera: "sees rs d r t \<Longrightarrow> sees rs d r (find_camera d t)"
  unfolding find_camera_def by (rule sees_reading) (auto dest: view_eqD(1) split: sum.split intro: sees_Ended)

lemma user_view_fields:
  "user_view u = user_view u' \<longleftrightarrow> usr_Blocked u = usr_Blocked u' \<and> usr_TarifId u = usr_TarifId u' \<and> usr_Money u = usr_Money u'
     \<and> usr_Vip u = usr_Vip u' \<and> usr_LegalEntity u = usr_LegalEntity u'"
  by (simp add: user_view_def)

lemma sees_can_be_recorded: "(\<And>b. sees rs d r (k b)) \<Longrightarrow> sees rs d r (can_be_recorded k)"
  unfolding can_be_recorded_def Let_def
  by (intro sees_reading sees_if) (auto dest!: view_eqD(2) simp: user_view_fields)

lemma view_update_camera: "view d r (l, w) = view d r (l', w') \<Longrightarrow> view d r (update_camera d f l, w) = view d r (update_camera d f l', w')"
proof -
  assume v: "view d r (l, w) = view d r (l', w')"
  show ?thesis
  proof (cases "getCameraLogicParams l d")
    case (Inr p)
    with view_eqD(1) [OF v] have p': "getCameraLogicParams l' d = Inr p" by simp
    from Inr p' v show ?thesis by (simp add: view_def)
  next
    case (Inl e)
    with view_eqD(1) [OF v] have "getCameraLogicParams l' d = Inl e" by simp
    with Inl v show ?thesis by (simp add: update_camera_def)
  qed
qed

lemma sees_camera: "(\<And>x. sees rs d r (k x)) \<Longrightarrow> sees rs d r (reading (f \<circ> camera_at d) k)"
  by (rule sees_reading) (auto dest: view_eqD(3))

lemma sees_record_by_mode: "sees rs d r (record_by_mode d r)"
  unfolding record_by_mode_def
  by (auto intro!: sees_camera sees_if sees_world sees_Ended split: CloudCameraRecordingMode.split)

lemma sees_camera_state: "stream_message d m \<Longrightarrow> sees rs d r (camera_state_body r m)"
  unfolding camera_state_body_def Let_def stream_message_def
  by (elim conjE, hypsubst, intro sees_find_camera sees_world sees_if sees_Ended sees_can_be_recorded sees_writing
      view_update_camera sees_record_by_mode sees_camera) (simp_all add: stream_message_def)

lemma sees_blocked: "(\<And>b. sees rs d r (k b)) \<Longrightarrow> sees rs d r (reading (\<lambda>l. usr_Blocked (gl_UserParams l)) k)"
  by (rule sees_reading) (drule view_eqD(2), simp add: user_view_fields)

lemma sees_Process: "sees rs d r (Process_thread E (Some r))"
  unfolding Process_thread_def option.case Let_def
  by (intro sees_blocked sees_if sees_world sees_Ended)
    (auto simp: stream_message_def camera_state_thread_def intro!: sees_world sees_camera_state)

section \<open>Every schedule\<close>

lemma run_pool_isolated:
  assumes "\<forall>h. h \<noteq> g \<longrightarrow> ignores rs d r (po_threads P h)" and "sees rs d r t" and "po_threads P g = t"
    and "isolated rs d r (po_world P)" and "view d r (pool_state P) = view d r s"
  shows "po_threads (run_pool gs P) g = fst (advance (count_list gs g) t s)
    \<and> view d r (pool_state (run_pool gs P)) = view d r (snd (advance (count_list gs g) t s))"
  using assms
proof (induction gs arbitrary: P t s)
  case (Cons h gs)
  let ?P = "pool_turn h P"
  have inv: "isolated rs d r (snd (pool_state P))"
    using Cons.prems(4) by (simp add: pool_state_def)
  have world: "po_world Q = snd (pool_state Q)" for Q
    by (simp add: pool_state_def)
  show ?case
  proof (cases "h = g")
    case True
    note step = sees_step [OF Cons.prems(2) inv Cons.prems(5)]
    have "view d r (pool_state ?P) = view d r (snd (thread_turn t s))" "isolated rs d r (po_world ?P)"
        "po_threads ?P g = fst (thread_turn t s)" "sees rs d r (fst (thread_turn t s))"
      using conjunct1 [OF step] conjunct2 [OF step] Cons.prems(1,3) True unfolding world same_turn_def
      by (simp_all only: pool_turn_sel fun_upd_same fun_upd_other simp_thms)
    moreover have "\<forall>h. h \<noteq> g \<longrightarrow> ignores rs d r (po_threads ?P h)"
      using Cons.prems(1) True by (simp add: pool_turn_sel)
    ultimately have "po_threads (run_pool gs ?P) g = fst (advance (count_list gs g) (fst (thread_turn t s)) (snd (thread_turn t s)))
      \<and> view d r (pool_state (run_pool gs ?P)) = view d r (snd (advance (count_list gs g) (fst (thread_turn t s)) (snd (thread_turn t s))))"
      by (intro Cons.IH)
    with True show ?thesis
      by (simp add: split_beta)
  next
    case False
    have "ignores rs d r (po_threads P h)" using Cons.prems(1) False by blast
    from guarantees_step [OF this [unfolded ignores_def], of "pool_state P"] inv
    have others: "isolated rs d r (po_world ?P)" "view d r (pool_state ?P) = view d r (pool_state P)"
        "ignores rs d r (po_threads ?P h)"
      unfolding world by (auto simp: pool_turn_sel ignores_def split_beta)
    have "\<forall>h'. h' \<noteq> g \<longrightarrow> ignores rs d r (po_threads ?P h')" "po_threads ?P g = t"
      using others(3) Cons.prems(1,3) False by (auto simp: pool_turn_sel)
    from Cons.IH [OF this(1) Cons.prems(2) this(2) others(1) trans [OF others(2) Cons.prems(5)]] False show ?thesis
      by simp
  qed
qed simp

end
