(* ===== verification/ProcessRaces.thy ===== *)
theory ProcessRaces
  imports ProcessIsolation Samples
begin

text \<open>
  What holds when the messages of a gateway are processed at the same time, in any interleaving of their statements, and
  what two interleavings break.
\<close>

section \<open>Samples\<close>

definition sample_pool :: "GatewayLogic \<Rightarrow> IotMessage \<Rightarrow> IotMessage \<Rightarrow> pool" where
  "sample_pool l m1 m2 = \<lparr>po_logic = l,
     po_world = \<lparr>hist = [], heap = (\<lambda>_. m1)(1 := m2), next_ref = 2\<rparr>,
     po_threads = (\<lambda>_. Ended None)(1 := Process_thread sample_env (Some 0), 2 := Process_thread sample_env (Some 1))\<rparr>"

lemma sample_pool_sel [simp]:
  "po_logic (sample_pool l m1 m2) = l" "heap (po_world (sample_pool l m1 m2)) 0 = m1" "heap (po_world (sample_pool l m1 m2)) 1 = m2"
  "po_threads (sample_pool l m1 m2) 1 = Process_thread sample_env (Some 0)"
  "po_threads (sample_pool l m1 m2) 2 = Process_thread sample_env (Some 1)"
  "server_thread {0, 1} (po_threads (sample_pool l m1 m2) g)"
  by (auto simp: sample_pool_def server_thread_def)

lemma sample_logic_typed: "typed_logic sample_logic"
  using sample_logic_ok unfolding typed_logic_def logic_ok_def cameras_ok_def by fastforce

definition continuous_camera :: CameraLogicParams where
  "continuous_camera = sample_camera\<lparr>RecordingMode := RecordingModeContinuous\<rparr>"

definition continuous_logic :: "UserLogicParams \<Rightarrow> GatewayLogic" where
  "continuous_logic u = (set_camera ''cam1'' continuous_camera sample_logic)\<lparr>gl_UserParams := u\<rparr>"

lemma continuous_logic_sel [simp]:
  "getCameraLogicParams (continuous_logic u) ''cam1'' = Inr continuous_camera" "gl_UserParams (continuous_logic u) = u"
  "RecordingMode continuous_camera = RecordingModeContinuous" "cl_ApplicationName continuous_camera = []"
  using camera_set_same [OF sample_camera_known] by (simp_all add: continuous_logic_def continuous_camera_def)

section \<open>Properties\<close>

text \<open>The handlers cut into single statements do the same as the handlers in one piece: a message that is processed with no
  other goroutine in between ends after at most 18 turns, with the error, the logic and the world of \<open>Process\<close>.\<close>

theorem process_turns_alone:
  assumes "po_threads P g = Process_thread E (Some r)" and "P' = run_pool (replicate 18 g) P"
    and "run_state (Process E (po_logic P) (Some r)) (po_world P) = ((e, l), w)"
  shows "P' = \<lparr>po_logic = l, po_world = w, po_threads = (po_threads P)(g := Ended e)\<rparr>"
  using assms by (simp add: run_pool_replicate advance_ends [OF ends_Process] run_Process)

theorem process_turns_alone_witness:
  "\<exists>e l w. run_pool (replicate 18 1) (sample_pool sample_logic motion_event smoke_event) = \<lparr>po_logic = l, po_world = w,
     po_threads = (po_threads (sample_pool sample_logic motion_event smoke_event))(1 := Ended e)\<rparr>"
  using process_turns_alone [OF sample_pool_sel(4) refl, of sample_logic motion_event smoke_event]
  by (cases "run_state (Process sample_env sample_logic (Some 0)) (po_world (sample_pool sample_logic motion_event smoke_event))") auto

text \<open>C10: whatever the interleaving of the messages and push switches of a gateway, the parameters keep their types and their
  configuration (which cameras there are, their identity, schedule and mode, the sensors and the name), and no type assertion fails:
  a goroutine that has ended returned no cast error.\<close>

theorem interleaving_type_safe:
  assumes "typed_logic (po_logic P)" and "\<forall>g. server_thread rs (po_threads P g)" and "P' = run_pool gs P"
  shows "typed_logic (po_logic P') \<and> same_config (po_logic P) (po_logic P')
    \<and> (\<forall>g e. po_threads P' g = Ended (Some e) \<longrightarrow> e \<notin> cast_errors)"
proof -
  have "\<forall>g. type_guarantee (po_threads P g)"
    using assms(2) server_thread_guarantees(1) by blast
  then have run: "typed_logic (po_logic P') \<and> same_config (po_logic P) (po_logic P') \<and> (\<forall>g. type_guarantee (po_threads P' g))"
    using types.run_pool_keeps [of P gs] assms(1,3) by (simp add: pool_state_def type_guarantee_def)
  have "no_cast_error e" if "type_guarantee (Ended e)" for e
    using that unfolding type_guarantee_def by (cases rule: guarantees.cases)
  then have "no_cast_error (Some e)" if "po_threads P' g = Ended (Some e)" for g e
    using run that by metis
  with run show ?thesis
    by (auto simp: no_cast_error_def)
qed

theorem interleaving_type_safe_witness:
  "typed_logic (po_logic (run_pool [1, 2, 1, 1, 2, 2, 1, 2, 1] (sample_pool sample_logic motion_event smoke_event)))"
  using interleaving_type_safe [OF _ _ refl, of "sample_pool sample_logic motion_event smoke_event" "{0, 1}"] sample_logic_typed
  by (simp del: run_pool_simps One_nat_def)

text \<open>No schedule can keep a message from being processed but by never running its goroutine: after 18 turns of its own, at
  whatever places among the turns of the others, it has ended.\<close>

theorem interleaving_ends:
  assumes "server_thread rs (po_threads P g)" and "18 \<le> count_list gs g"
  shows "\<exists>e. po_threads (run_pool gs P) g = Ended e"
  using run_pool_ends [OF server_thread_guarantees(3)] assms by blast

theorem interleaving_ends_witness:
  "\<exists>e. po_threads (run_pool (concat (replicate 18 [2, 1])) (sample_pool sample_logic motion_event smoke_event)) 1 = Ended e"
  by (rule interleaving_ends [OF sample_pool_sel(6)]) (simp add: eval_nat_numeral)

text \<open>C9: a stream message is not disturbed by messages of other devices that are no commands, nor by switches of the push
  notifications (a command of another device can disturb it: \<open>torn_tariff\<close>): whatever the schedule of their goroutines, once its own has had 18 turns it
  has ended with the error of \<open>Process\<close> on its own, the camera is as \<open>Process\<close> leaves it, and what was done to the message and with it (its
  writes and the tasks started on it, in order) is the same.\<close>

theorem stream_message_undisturbed:
  assumes "po_threads P g = Process_thread E (Some r)" and "stream_message d (heap (po_world P) r)"
    and "r < next_ref (po_world P)" and "r \<notin> rs" and "\<forall>h. h \<noteq> g \<longrightarrow> server_thread rs (po_threads P h)"
    and "\<forall>r' \<in> rs. r' < next_ref (po_world P) \<and> DeviceId (heap (po_world P) r') \<noteq> d \<and> MessageType (heap (po_world P) r') \<noteq> ''command''"
    and "18 \<le> count_list gs g" and "run_state (Process E (po_logic P) (Some r)) (po_world P) = ((e, l), w)"
  shows "po_threads (run_pool gs P) g = Ended e
    \<and> camera_of (po_logic (run_pool gs P)) d = camera_of l d
    \<and> heap (po_world (run_pool gs P)) r = heap w r
    \<and> filter (about r) (hist (po_world (run_pool gs P))) = filter (about r) (hist w)"
proof -
  have others: "\<forall>h. h \<noteq> g \<longrightarrow> ignores rs d r (po_threads P h)"
    using assms(4,5) by (auto simp: server_thread_def ignores_SetPush ignores_Process)
  have isolated: "isolated rs d r (po_world P)"
    using assms(2-4,6) by (simp add: isolated_def)
  have ends: "ends_within (count_list gs g) (Process_thread E (Some r))"
    by (rule ends_within_mono [OF ends_Process assms(7)])
  have "run_thread (Process_thread E (Some r)) (pool_state P) = (e, (l, w))"
    using assms(8) by (simp add: pool_state_def run_Process)
  then have "advance (count_list gs g) (Process_thread E (Some r)) (pool_state P) = (Ended e, (l, w))"
    by (simp add: advance_ends [OF ends])
  with run_pool_isolated [OF others sees_Process assms(1) isolated refl, of gs] show ?thesis
    by (simp add: view_def pool_state_def camera_of_def)
qed

theorem stream_message_undisturbed_witness:
  "camera_of (po_logic (run_pool (concat (replicate 18 [2, 1]))
      (sample_pool sample_logic (camera_message ''deviceState'' ''streamingOn'') smoke_event))) ''cam1''
    = Some (stream_on_camera (camera_message ''deviceState'' ''streamingOn'') sample_camera)"
proof -
  let ?on = "camera_message ''deviceState'' ''streamingOn''" and ?gs = "concat (replicate 18 [2, 1])"
  let ?P = "sample_pool sample_logic ?on smoke_event"
  have on: "stream_message ''cam1'' ?on" by (simp add: stream_message_def)
  have fresh: "next_ref (po_world ?P) = 2" by (simp add: sample_pool_def)
  obtain e l w where run: "run_state (Process sample_env sample_logic (Some 0)) (po_world ?P) = ((e, l), w)"
    by (metis prod.collapse)
  moreover have "value_of (Process sample_env sample_logic (Some 0)) (po_world ?P) = (None, set_camera ''cam1'' (stream_on_camera ?on sample_camera) sample_logic)"
    by (rule stream_on_value [OF on]) simp_all
  ultimately have "l = set_camera ''cam1'' (stream_on_camera ?on sample_camera) sample_logic"
    by (simp add: value_of_def)
  then have camera: "camera_of l ''cam1'' = Some (stream_on_camera ?on sample_camera)"
    by (simp add: camera_of_set_camera [OF sample_camera_known])
  have others: "\<forall>h. h \<noteq> 1 \<longrightarrow> server_thread {1} (po_threads ?P h)"
    by (auto simp: sample_pool_def server_thread_def)
  have strange: "\<forall>r' \<in> {1}. r' < next_ref (po_world ?P) \<and> DeviceId (heap (po_world ?P) r') \<noteq> ''cam1'' \<and> MessageType (heap (po_world ?P) r') \<noteq> ''command''"
    using fresh sample_pool_sel(3) [of sample_logic ?on smoke_event] by simp
  have turns: "18 \<le> count_list ?gs 1" by (simp add: eval_nat_numeral)
  have "stream_message ''cam1'' (heap (po_world ?P) 0)" "0 < next_ref (po_world ?P)" "0 \<notin> {1 :: ref}"
    using on fresh by simp_all
  from stream_message_undisturbed [OF sample_pool_sel(4) this others strange turns, unfolded sample_pool_sel(1), OF run] camera
  show ?thesis by simp
qed

text \<open>Messages that name other devices do not disturb a camera: whatever their interleaving, its parameters stay exactly
  as they were.\<close>

theorem interleaving_spares_others:
  assumes "\<forall>g. server_thread rs (po_threads P g)"
    and "\<forall>r \<in> rs. r < next_ref (po_world P) \<and> DeviceId (heap (po_world P) r) \<noteq> d"
  shows "camera_of (po_logic (run_pool gs P)) d = camera_of (po_logic P) d"
proof -
  have "\<forall>g. spares rs d (po_threads P g)"
    using assms(1) server_thread_guarantees(2) by blast
  then show ?thesis
    using sparing.run_pool_keeps [of rs d P gs] assms(2) by (simp add: pool_state_def spares_def other_messages_def)
qed

theorem interleaving_spares_others_witness:
  "camera_of (po_logic (run_pool [1, 2, 1, 2, 1] (sample_pool sample_logic (motion_event\<lparr>DeviceId := ''cam2''\<rparr>) smoke_event))) ''cam1''
     = Some sample_camera"
proof -
  let ?P = "sample_pool sample_logic (motion_event\<lparr>DeviceId := ''cam2''\<rparr>) smoke_event"
  have "next_ref (po_world ?P) = 2"
    by (simp add: sample_pool_def)
  then have "camera_of (po_logic (run_pool [1, 2, 1, 2, 1] ?P)) ''cam1'' = camera_of (po_logic ?P) ''cam1''"
    using interleaving_spares_others [of "{0, 1}" ?P "''cam1''" "[1, 2, 1, 2, 1]"] by (simp del: run_pool_simps One_nat_def)
  then show ?thesis by (simp add: camera_of_Inr del: run_pool_simps One_nat_def)
qed

text \<open>C20: the check whether a user may be recorded can fall between the writes of a command: a recorder is started for a
  user who may be recorded neither before nor after the command (an online tariff with money becomes a recording
  tariff without), when \<open>streamingOn\<close> runs after the tariff and before the money is written.\<close>

theorem torn_tariff:
  assumes threads: "po_threads P 1 = Process_thread E (Some r1)" "po_threads P 2 = Process_thread E (Some r2)"
    and on: "heap (po_world P) r1 = m1" "stream_message d m1" "DeviceState m1 = ''streamingOn''"
    and camera: "getCameraLogicParams (po_logic P) d = Inr p" "RecordingMode p = RecordingModeContinuous"
    and cmd: "heap (po_world P) r2 = m2" "MessageType m2 = ''command''" "Command m2 = ''setRecording''"
      "getCameraLogicParams (po_logic P) (DeviceId m2) = Inr p2"
    and user: "u = gl_UserParams (po_logic P)" "\<not> usr_Blocked u" "usr_TarifId u = UserTarifOnline" "usr_Money u > 0" "\<not> usr_Vip u" "\<not> usr_LegalEntity u"
    and new: "TariffId m2 > UserTarifOnline" "Money m2 = 0" "\<not> Vip m2" "\<not> LegalEntity m2"
  shows "\<not> CanBeRecorded u \<and> \<not> CanBeRecorded (command_user m2 u)
    \<and> (RecordMediaStreamTask, m1\<lparr>Recording := ''on''\<rparr>) \<in> set (started (pool_effects (replicate 7 2 @ replicate 13 1) P))"
proof -
  let ?l1 = "update_user (usr_TarifId_update (\<lambda>_. TariffId m2)) (po_logic P)"
  have "run_pool (replicate 7 2) P = P\<lparr>po_logic := ?l1, po_threads := po_threads (run_pool (replicate 7 2) P)\<rparr>"
      "po_threads (run_pool (replicate 7 2) P) 1 = Process_thread E (Some r1)"
    using threads cmd user by (simp_all add: run_pool_replicate advance_command [OF cmd(1-4)])
  then obtain ts where P1: "run_pool (replicate 7 2) P = P\<lparr>po_logic := ?l1, po_threads := ts\<rparr>" "ts 1 = Process_thread E (Some r1)"
    by metis
  have user1: "\<not> usr_Blocked (gl_UserParams ?l1)" "usr_TarifId (gl_UserParams ?l1) > UserTarifOnline" "usr_Money (gl_UserParams ?l1) > 0"
    and camera1: "getCameraLogicParams ?l1 d = Inr p"
    using user new camera by (simp_all add: update_user_def)
  have "(RecordMediaStreamTask, m1\<lparr>Recording := ''on''\<rparr>) \<in> set (started (pool_effects (replicate 7 2 @ replicate 13 1) P))"
    unfolding pool_effects_def run_pool_simps(3) P1(1)
    using P1(2) by (simp add: run_pool_replicate advance_stream_on [OF on camera1 camera(2) user1])
  then show ?thesis
    using user new by (simp add: CanBeRecorded_def command_user_def)
qed

theorem torn_tariff_witness:
  "\<exists>m. m \<in> set (started (pool_effects (replicate 7 2 @ replicate 13 1)
       (sample_pool (continuous_logic (sample_user\<lparr>usr_TarifId := UserTarifOnline\<rparr>))
          (camera_message ''deviceState'' ''streamingOn'') ((set_recording ''continuous'' 2)\<lparr>Money := 0\<rparr>)))) \<and> fst m = RecordMediaStreamTask"
proof -
  let ?on = "camera_message ''deviceState'' ''streamingOn''" and ?cmd = "(set_recording ''continuous'' 2)\<lparr>Money := 0\<rparr>"
  let ?u = "sample_user\<lparr>usr_TarifId := UserTarifOnline\<rparr>"
  have "stream_message ''cam1'' ?on" by (simp add: stream_message_def)
  moreover have "\<not> Vip ?cmd" "\<not> LegalEntity ?cmd" by (simp_all add: set_recording_def zero_IotMessage_def)
  moreover have "usr_Money ?u > 0" "\<not> usr_Vip ?u" "\<not> usr_LegalEntity ?u" by (simp_all add: sample_user_def)
  moreover have "UserTarifOnline < 2" by (simp add: UserTarifOnline_def)
  ultimately have "(RecordMediaStreamTask, ?on\<lparr>Recording := ''on''\<rparr>) \<in> set (started (pool_effects (replicate 7 2 @ replicate 13 1)
      (sample_pool (continuous_logic ?u) ?on ?cmd)))"
    using torn_tariff [OF sample_pool_sel(4,5) sample_pool_sel(2) _ _ _ _ sample_pool_sel(3), of "''cam1''" ?on "continuous_logic ?u" ?cmd continuous_camera continuous_camera ?u]
    by simp
  then show ?thesis by force
qed

text \<open>C21: a \<open>streamingOff\<close> that runs between the writes of a \<open>streamingOn\<close> of the same camera stops a recorder that never was: it
  names the new media server with the old application; and it leaves the camera marked as announced, with the new application and no
  media server.\<close>

theorem torn_media_server:
  assumes threads: "po_threads P 1 = Process_thread E (Some r1)" "po_threads P 2 = Process_thread E (Some r2)" "r1 \<noteq> r2"
    and on: "heap (po_world P) r1 = m1" "stream_message d m1" "DeviceState m1 = ''streamingOn''"
    and off: "heap (po_world P) r2 = m2" "stream_message d m2" "DeviceState m2 = ''streamingOff''"
    and camera: "getCameraLogicParams (po_logic P) d = Inr p" "RecordingMode p = RecordingModeContinuous"
    and user: "u = gl_UserParams (po_logic P)" "\<not> usr_Blocked u" "usr_TarifId u > UserTarifOnline" "usr_Money u > 0"
    and gs: "gs = replicate 9 1 @ replicate 15 2 @ replicate 4 1"
  shows "(RecordMediaStreamTask, m2\<lparr>Recording := ''off'', MediaserverIp := MediaserverIp m1, ApplicationName := cl_ApplicationName p\<rparr>)
      \<in> set (started (pool_effects gs P))
    \<and> camera_of (po_logic (run_pool gs P)) d =
        Some (p\<lparr>cl_MediaserverIp := [], cl_ApplicationName := ApplicationName m1, MediaserverParamsSet := True\<rparr>)
    \<and> po_threads (run_pool gs P) 1 = Ended None \<and> po_threads (run_pool gs P) 2 = Ended None"
proof -
  let ?rest = "writing (update_camera d (cl_ApplicationName_update (\<lambda>_. ApplicationName m1))) (
     writing (update_camera d (MediaserverParamsSet_update (\<lambda>_. True))) (record_by_mode d r1))"
  let ?p1 = "p\<lparr>cl_MediaserverIp := MediaserverIp m1\<rparr>"
  let ?l1 = "set_camera d ?p1 (po_logic P)"
  let ?w1 = "(po_world P)\<lparr>heap := (heap (po_world P))(r1 := m1\<lparr>Recording := ''on''\<rparr>),
     hist := hist (po_world P) @ [Go (RunTask UpdateCameraStateTask r1 m1), MsgStored r1 (m1\<lparr>Recording := ''on''\<rparr>)]\<rparr>"
  have P1: "run_pool (replicate 9 1) P = \<lparr>po_logic = ?l1, po_world = ?w1, po_threads = (po_threads P)(1 := ?rest)\<rparr>"
    unfolding run_pool_replicate threads(1) advance_stream_on_parts [OF on camera(1) user(2-4) [unfolded user(1)]] by simp
  obtain w2 es where off_run: "advance 15 (Process_thread E (Some r2)) (?l1, ?w1) = (Ended None, (set_camera d (stream_off_camera ?p1) ?l1, w2))"
      "started (drop (length (hist ?w1)) (hist w2)) = [(UpdateCameraStateTask, m2), (RecordMediaStreamTask, stream_off_message ?p1 m2)]"
      "hist w2 = hist ?w1 @ es"
  proof -
    have "heap ?w1 r2 = m2" "getCameraLogicParams ?l1 d = Inr ?p1" "RecordingMode ?p1 = RecordingModeContinuous"
      "\<not> usr_Blocked (gl_UserParams ?l1)"
      using off(1) camera user(1,2) threads(3) by simp_all
    from advance_stream_off [OF this(1) off(2,3) this(2-4), of E] that show thesis by blast
  qed
  let ?l2 = "set_camera d (stream_off_camera ?p1) (po_logic P)"
  have P2: "run_pool (replicate 15 2) (run_pool (replicate 9 1) P) =
      \<lparr>po_logic = ?l2, po_world = w2, po_threads = (po_threads P)(1 := ?rest, 2 := Ended None)\<rparr>"
    unfolding P1 using threads off_run(1) by (simp add: run_pool_replicate)
  have c2: "getCameraLogicParams ?l2 d = Inr (stream_off_camera ?p1)" "RecordingMode (stream_off_camera ?p1) = RecordingModeContinuous"
    using camera by (simp_all add: stream_off_camera_def)
  let ?p3 = "(stream_off_camera ?p1)\<lparr>cl_ApplicationName := ApplicationName m1, MediaserverParamsSet := True\<rparr>"
  have "\<exists>w3 es'. advance 4 ?rest (?l2, w2) = (Ended None, (set_camera d ?p3 (po_logic P), w3)) \<and> hist w3 = hist w2 @ es'"
    using c2 camera by (simp add: eval_nat_numeral record_by_mode_def)
  then obtain w3 es' where rest_run: "advance 4 ?rest (?l2, w2) = (Ended None, (set_camera d ?p3 (po_logic P), w3))" "hist w3 = hist w2 @ es'"
    by blast
  have P3: "run_pool gs P = \<lparr>po_logic = set_camera d ?p3 (po_logic P), po_world = w3,
      po_threads = (po_threads P)(1 := Ended None, 2 := Ended None)\<rparr>"
    unfolding gs run_pool_simps(3) P2 using rest_run(1) by (simp add: run_pool_replicate fun_upd_twist)
  have "started (pool_effects gs P) = (UpdateCameraStateTask, m1) # started es @ started es'"
    by (simp add: pool_effects_def P3 rest_run(2) off_run(3))
  moreover have "started es = [(UpdateCameraStateTask, m2), (RecordMediaStreamTask, stream_off_message ?p1 m2)]"
    using off_run(2,3) by simp
  ultimately show ?thesis
    unfolding P3 using camera by (simp add: camera_of_Inr stream_off_camera_def stream_off_message_def)
qed

theorem torn_media_server_witness:
  "camera_of (po_logic (run_pool (replicate 9 1 @ replicate 15 2 @ replicate 4 1)
      (sample_pool (continuous_logic sample_user) (camera_message ''deviceState'' ''streamingOn'') (camera_message ''deviceState'' ''streamingOff'')))) ''cam1'' =
    Some (continuous_camera\<lparr>cl_MediaserverIp := [], cl_ApplicationName := ''live'', MediaserverParamsSet := True\<rparr>)"
proof -
  let ?on = "camera_message ''deviceState'' ''streamingOn''" and ?off = "camera_message ''deviceState'' ''streamingOff''"
  have "stream_message ''cam1'' ?on" "stream_message ''cam1'' ?off" by (simp_all add: stream_message_def)
  moreover have "usr_TarifId sample_user > UserTarifOnline" "usr_Money sample_user > 0"
    by (simp_all add: sample_user_def UserTarifOnline_def)
  ultimately show ?thesis
    using torn_media_server [OF sample_pool_sel(4,5) _ sample_pool_sel(2) _ _ sample_pool_sel(3),
        of "''cam1''" ?on ?off "continuous_logic sample_user" continuous_camera sample_user]
    by simp
qed

end
