(* ===== verification/GatewayRaces.thy ===== *)
theory GatewayRaces
  imports GatewayThreads ProcessRaces
begin

text \<open>
  What holds when the messages of a gateway are handled at the same time, from the first statement of \<open>ApplyLogic\<close> to the last
  one of \<open>Process\<close>, and how two first messages of a gateway end the server.
\<close>

section \<open>Two first messages\<close>

lemma turn_arriving:
  "gw_phases S g = Arriving m \<Longrightarrow> fst (gw_objects S) = None \<Longrightarrow>
   gw_objects (gateway_turn E c g S) = gw_objects S
   \<and> gw_phases (gateway_turn E c g S) = (gw_phases S)(g := LookingUp (next_ref (gw_world S)) m)"
  by (simp add: gateway_turn_sel value_bind)

lemma turn_looking_up:
  "gw_phases S g = LookingUp r m \<Longrightarrow> usable (gc_conn c) \<Longrightarrow> \<forall>es. e_count E es = Inr 1 \<Longrightarrow>
   gw_objects (gateway_turn E c g S) = gw_objects S \<and> gw_phases (gateway_turn E c g S) = (gw_phases S)(g := Loading r)"
  by (simp add: gateway_turn_sel value_bind CheckGatewayExistence_value)

lemma turn_loading:
  "gw_phases S g = Loading r \<Longrightarrow> value_of (CreateLogic E c) (gw_world S) = Returned x \<Longrightarrow>
   gw_objects (gateway_turn E c g S) = gw_objects S \<and> gw_phases (gateway_turn E c g S) = (gw_phases S)(g := Storing r x)"
  by (simp add: gateway_turn_sel value_bind)

lemma turn_storing:
  "gw_phases S g = Storing r (Inr bl) \<Longrightarrow> gw_objects S = (b, ls) \<Longrightarrow>
   gw_objects (gateway_turn E c g S) = (Some (length ls), ls @ [bl]) \<and> gw_phases (gateway_turn E c g S) = (gw_phases S)(g := Testing r)"
  "gw_phases S g = Storing r (Inl e) \<Longrightarrow> gw_objects S = (b, ls) \<Longrightarrow>
   gw_objects (gateway_turn E c g S) = (None, ls) \<and> gw_phases (gateway_turn E c g S) = (gw_phases S)(g := Testing r)"
  by (simp_all add: gateway_turn_sel value_bind)

lemma turn_testing:
  "gw_phases S g = Testing r \<Longrightarrow> gw_objects S = (Some i, ls) \<Longrightarrow>
   gw_objects (gateway_turn E c g S) = (Some i, ls) \<and> gw_phases (gateway_turn E c g S) = (gw_phases S)(g := Calling r)"
  by (simp add: gateway_turn_sel)

lemma turn_calling:
  "gw_phases S g = Calling r \<Longrightarrow> gw_objects S = (Some i, ls) \<Longrightarrow>
   gw_objects (gateway_turn E c g S) = (Some i, ls)
   \<and> gw_phases (gateway_turn E c g S) = (gw_phases S)(g := Handling i (Process_thread E (Some r)))"
  "gw_phases S g = Calling r \<Longrightarrow> gw_objects S = (None, ls) \<Longrightarrow>
   gw_objects (gateway_turn E c g S) = (None, ls) \<and> gw_phases (gateway_turn E c g S) = (gw_phases S)(g := Dead)"
  by (simp_all add: gateway_turn_sel)

lemmas turns = turn_storing turn_testing turn_calling

text \<open>Both goroutines have looked at the channel and found no logic, and both are about to load it.\<close>

lemma both_loading:
  assumes "gw_phases S 1 = Arriving m1" and "gw_phases S 2 = Arriving m2" and "fst (gw_objects S) = None"
    and "usable (gc_conn c)" and "\<forall>es. e_count E es = Inr 1"
  shows "gw_objects (run_gateway E c [1, 2, 1, 2] S) = gw_objects S
    \<and> (\<exists>r1 r2. gw_phases (run_gateway E c [1, 2, 1, 2] S) = (gw_phases S)(1 := Loading r1, 2 := Loading r2))"
proof -
  let ?S1 = "gateway_turn E c 1 S" let ?S2 = "gateway_turn E c 2 ?S1" let ?S3 = "gateway_turn E c 1 ?S2"
  note S1 = turn_arriving [OF assms(1,3), of E c]
  have S2: "gw_objects ?S2 = gw_objects S \<and> gw_phases ?S2 = (gw_phases S)(1 := LookingUp (next_ref (gw_world S)) m1, 2 := LookingUp (next_ref (gw_world ?S1)) m2)"
    using turn_arriving [of ?S1 2 m2 E c] S1 assms by simp
  have S3: "gw_objects ?S3 = gw_objects S \<and> gw_phases ?S3 = (gw_phases S)(1 := Loading (next_ref (gw_world S)), 2 := LookingUp (next_ref (gw_world ?S1)) m2)"
    using turn_looking_up [of ?S2 1 _ _ c E] S2 assms by (auto simp: fun_upd_twist)
  show ?thesis
    using turn_looking_up [of ?S3 2 _ _ c E] S3 assms by (auto simp: fun_upd_twist)
qed

lemma both_loaded:
  assumes "gw_phases S 1 = Arriving m1" and "gw_phases S 2 = Arriving m2" and "fst (gw_objects S) = None"
    and "usable (gc_conn c)" and "\<forall>es. e_count E es = Inr 1"
    and "value_of (CreateLogic E c) (gw_world (run_gateway E c [1, 2, 1, 2] S)) = Returned x1"
    and "value_of (CreateLogic E c) (gw_world (run_gateway E c [1, 2, 1, 2, 1] S)) = Returned x2"
  shows "gw_objects (run_gateway E c [1, 2, 1, 2, 1, 2] S) = gw_objects S
    \<and> (\<exists>r1 r2. gw_phases (run_gateway E c [1, 2, 1, 2, 1, 2] S) = (gw_phases S)(1 := Storing r1 x1, 2 := Storing r2 x2))"
proof -
  let ?S4 = "run_gateway E c [1, 2, 1, 2] S" let ?S5 = "gateway_turn E c 1 ?S4"
  obtain r1 r2 where S4: "gw_objects ?S4 = gw_objects S" "gw_phases ?S4 = (gw_phases S)(1 := Loading r1, 2 := Loading r2)"
    using both_loading [OF assms(1-5)] by blast
  have more: "run_gateway E c [1, 2, 1, 2, 1] S = ?S5" "run_gateway E c [1, 2, 1, 2, 1, 2] S = gateway_turn E c 2 ?S5"
    by simp_all
  have "gw_objects ?S5 = gw_objects S \<and> gw_phases ?S5 = (gw_phases S)(1 := Storing r1 x1, 2 := Loading r2)"
    using turn_loading [of ?S4 1 r1 E c x1] S4 assms(6) by (simp add: fun_upd_twist del: run_gateway_simps)
  with turn_loading [of ?S5 2 r2 E c x2] assms(7) show ?thesis
    unfolding more by (auto simp: fun_upd_twist simp del: run_gateway_simps)
qed

section \<open>A replaced logic\<close>

text \<open>The channel points to the second object while the first goroutine handles its message on the first one.\<close>

definition replaced :: "GatewayLogic \<Rightarrow> gateway \<Rightarrow> bool" where
  "replaced bl S \<longleftrightarrow> (\<exists>l. gw_objects S = (Some 1, [l, bl])) \<and> (gw_phases S 1 = Handled \<or> (\<exists>t. gw_phases S 1 = Handling 0 t))"

lemma replaced_turn:
  assumes "replaced bl S"
  shows "replaced bl (gateway_turn E c 1 S)"
proof -
  obtain l where obs: "gw_objects S = (Some 1, [l, bl])"
    using assms by (auto simp: replaced_def)
  consider "gw_phases S 1 = Handled" | e where "gw_phases S 1 = Handling 0 (Ended e)" | f where "gw_phases S 1 = Handling 0 (Turn f)"
    using assms by (metis replaced_def thread.exhaust)
  then show ?thesis
  proof cases
    case (3 f)
    obtain t' l' w' where "thread_turn (Turn f) ([l, bl] ! 0, gw_world S) = (t', (l', w'))" by (metis prod.collapse)
    from handling_turn [OF this, of E c "Some 1"] 3 obs show ?thesis
      by (simp add: replaced_def gateway_turn_def)
  qed (auto simp: replaced_def gateway_turn_sel obs value_bind)
qed

lemma replaced_turns: "replaced bl S \<Longrightarrow> replaced bl (run_gateway E c (replicate n 1) S)"
  by (induction n arbitrary: S) (simp_all add: replaced_turn del: One_nat_def)

text \<open>From two loaded logics that are still to be stored.\<close>

lemma reset_while_called:
  assumes "gw_phases S 1 = Storing r1 (Inr bl)" and "gw_phases S 2 = Storing r2 (Inl e)"
  shows "gw_phases (run_gateway E c [1, 1, 2, 1] S) 1 = Dead"
proof -
  obtain b ls where "gw_objects S = (b, ls)" by (cases "gw_objects S")
  with assms show ?thesis by (simp add: turns del: One_nat_def)
qed

lemma replaced_while_handled:
  assumes "gw_phases S 1 = Storing r1 (Inr bl)" and "gw_phases S 2 = Storing r2 (Inr bl2)" and "gw_objects S = (None, [])"
  shows "replaced bl2 (run_gateway E c [1, 1, 1, 2] S)"
  using assms by (simp add: turns replaced_def del: One_nat_def)

lemma run_gateway_append: "run_gateway E c (gs @ hs) S = run_gateway E c hs (run_gateway E c gs S)"
  by (simp add: run_gateway_def)

section \<open>Samples\<close>

definition first_messages :: gateway where
  "first_messages = \<lparr>gw_objects = (None, []), gw_world = \<lparr>hist = [], heap = (\<lambda>_. zero_IotMessage), next_ref = 0\<rparr>,
     gw_phases = (\<lambda>_. Handled)(1 := Arriving motion_event, 2 := Arriving smoke_event)\<rparr>"

definition loaded_messages :: gateway where
  "loaded_messages = first_messages\<lparr>gw_objects := (Some 0, [sample_logic])\<rparr>"

lemma first_messages_sel [simp]:
  "gw_objects first_messages = (None, [])" "gw_phases first_messages 1 = Arriving motion_event"
  "gw_phases first_messages 2 = Arriving smoke_event" "gw_phases loaded_messages = gw_phases first_messages"
  "gw_objects loaded_messages = (Some 0, [sample_logic])"
  by (simp_all add: first_messages_def loaded_messages_def)

lemma first_messages_fresh: "\<exists>m push. gw_phases first_messages g \<in> {Arriving m, Switching push, Handled}"
  by (auto simp: first_messages_def)

lemma loaded_messages_ok: "objects_ok sample_channel (gw_objects loaded_messages)"
  using sample_logic_typed by (simp add: objects_ok_def points_inside_def logic_of_channel_def) (simp add: sample_logic_def)

text \<open>A database that fails to find the user once a first load has read its rows.\<close>

definition race_env :: env where
  "race_env = sample_env\<lparr>e_user := \<lambda>es. if RowsClose \<in> set es then Inl ''timeout'' else Inr sample_user\<rparr>"

lemma race_env_count: "e_count race_env es = Inr 1"
  by (simp add: race_env_def sample_env_def)

lemma race_first_load:
  "RowsClose \<notin> set (hist w) \<Longrightarrow> \<exists>bl w'. run_state (CreateLogic race_env sample_channel) w = (Returned (Inr bl), w') \<and> RowsClose \<in> set (hist w')"
  by (simp add: CreateLogic_def LoadParams_def loadCameraParams_def loadSensorParams_def announceRegistered_def
      AmqpWriter_Write_def sample_writer_def race_env_def sample_env_def Let_def)

lemma race_second_load:
  "RowsClose \<in> set (hist w) \<Longrightarrow> \<exists>e. value_of (CreateLogic race_env sample_channel) w = Returned (Inl e)"
  by (simp add: CreateLogic_def LoadParams_def value_bind race_env_def)

lemma race_four_turns: "RowsClose \<notin> set (hist (gw_world (run_gateway race_env sample_channel [1, 2, 1, 2] first_messages)))"
  by (simp add: run_gateway_def gateway_turn_def first_messages_def CheckGatewayExistence_def race_env_count)

lemma sample_load: "\<exists>bl. value_of (CreateLogic sample_env sample_channel) w = Returned (Inr bl)"
  by (simp add: CreateLogic_def LoadParams_def loadCameraParams_def loadSensorParams_def announceRegistered_def
      AmqpWriter_Write_def sample_writer_def sample_env_def value_of_def Let_def)

lemma count_replicate: "count_list (replicate n x) x = n"
  by (induction n) simp_all

section \<open>Properties\<close>

text \<open>A message that is handled with no other goroutine in between is handled as \<open>ApplyLogic\<close> says, although its goroutine
  is cut into the single statements of \<open>ApplyLogic\<close> and of \<open>Process\<close>: 25 turns end it, with the channel, the world and the
  panic, if any, of one call.\<close>

theorem apply_turns_alone:
  assumes "gw_phases S g = Arriving m" and "objects_ok c (gw_objects S)" and "S' = run_gateway E c (replicate 25 g) S"
  shows "gw_phases S' g \<in> {Handled, Dead}
    \<and> run_state (ApplyLogic E (channel_with c (gw_objects S)) m) (gw_world S) =
      (if gw_phases S' g = Dead then Panicked else Returned (channel_with c (gw_objects S')), gw_world S')"
proof -
  have "gw_phases S' g \<in> {Handled, Dead}"
    using run_gateway_done [of 25 S g "replicate 25 g"] assms(1,3) by (simp add: count_replicate)
  moreover have "completed E c (gw_phases S' g) (gw_objects S') (gw_world S') = completed E c (Arriving m) (gw_objects S) (gw_world S)"
    using completed_alone [of c S g E 25] assms by simp
  ultimately show ?thesis by auto
qed

theorem apply_turns_alone_witness:
  "gw_phases (run_gateway sample_env sample_channel (replicate 25 1) loaded_messages) 1 \<in> {Handled, Dead}"
proof -
  have "gw_phases loaded_messages 1 = Arriving motion_event" by (simp del: One_nat_def)
  from apply_turns_alone [OF this loaded_messages_ok refl] show ?thesis by (rule conjunct1)
qed

text \<open>C8: any number of messages and push switches of a gateway handled at the same time, in any interleaving of their statements, cannot crash
  once the logic is loaded, or as long as no load fails: every logic object keeps its types and its gateway, a loaded
  channel stays loaded, no goroutine meets the nil logic, and none returns a cast error.\<close>

theorem gateway_goroutines_safe:
  assumes "objects_ok c (gw_objects S)" and "\<forall>g. \<exists>m push. gw_phases S g \<in> {Arriving m, Switching push, Handled}" and "usable (gc_conn c)"
    and "fst (gw_objects S) \<noteq> None \<or> never_fails E c" and "S' = run_gateway E c gs S"
  shows "objects_ok c (gw_objects S') \<and> (fst (gw_objects S) \<noteq> None \<longrightarrow> fst (gw_objects S') \<noteq> None)
    \<and> (\<forall>g. gw_phases S' g \<noteq> Dead) \<and> (\<forall>g i e. gw_phases S' g = Handling i (Ended (Some e)) \<longrightarrow> e \<notin> cast_errors)"
proof -
  let ?loads = "fst (gw_objects S) = None"
  have phases: "phase_ok c obs (gw_phases S g) \<and> phase_alive loads obs (gw_phases S g)" for obs g loads
    using assms(2) [rule_format, of g] by auto
  have ok: "gateway_ok c S'"
    using run_gateway_ok [of c S E gs] phases assms(1,5) by (simp add: gateway_ok_def)
  have alive: "gateway_alive ?loads S'"
    unfolding assms(5) by (rule run_gateway_alive) (use phases assms(3,4) in \<open>auto simp: gateway_alive_def\<close>)
  have "no_cast_error (Some e)" if "gw_phases S' g = Handling i (Ended (Some e))" for g i e
  proof -
    have "phase_ok c (gw_objects S') (gw_phases S' g)"
      using ok by (simp add: gateway_ok_def)
    then have "type_guarantee (Ended (Some e))" by (simp add: that)
    then show ?thesis unfolding type_guarantee_def by (cases rule: guarantees.cases)
  qed
  moreover have "gw_phases S' g \<noteq> Dead" for g
  proof
    assume "gw_phases S' g = Dead"
    moreover have "phase_alive ?loads (gw_objects S') (gw_phases S' g)"
      using alive by (simp add: gateway_alive_def)
    ultimately show False by simp
  qed
  ultimately show ?thesis
    using ok alive by (auto simp: gateway_ok_def gateway_alive_def no_cast_error_def)
qed

theorem gateway_goroutines_safe_witness:
  "gw_phases (run_gateway sample_env sample_channel [1, 2, 2, 1, 1, 2, 1, 2, 1] loaded_messages) 2 \<noteq> Dead
   \<and> gw_phases (run_gateway sample_env sample_channel [1, 2, 2, 1, 1, 2, 1, 2, 1] first_messages) 1 \<noteq> Dead"
proof
  have fresh: "\<forall>g. \<exists>m push. gw_phases first_messages g \<in> {Arriving m, Switching push, Handled}"
    using first_messages_fresh by blast
  have conn: "usable (gc_conn sample_channel)" by simp
  have "never_fails sample_env sample_channel"
    unfolding never_fails_def using sample_load by (metis Inl_Inr_False outcome.inject)
  then have loads: "fst (gw_objects first_messages) \<noteq> None \<or> never_fails sample_env sample_channel" ..
  have start: "objects_ok sample_channel (gw_objects first_messages)"
    by (simp add: objects_ok_def points_inside_def)
  show "gw_phases (run_gateway sample_env sample_channel [1, 2, 2, 1, 1, 2, 1, 2, 1] first_messages) 1 \<noteq> Dead"
    by (rule gateway_goroutines_safe [OF start fresh conn loads refl, THEN conjunct2, THEN conjunct2, THEN conjunct1, THEN spec])
  have "fst (gw_objects loaded_messages) \<noteq> None \<or> never_fails sample_env sample_channel" by simp
  note loaded = gateway_goroutines_safe [OF loaded_messages_ok fresh [folded first_messages_sel(4)] conn this refl]
  show "gw_phases (run_gateway sample_env sample_channel [1, 2, 2, 1, 1, 2, 1, 2, 1] loaded_messages) 2 \<noteq> Dead"
    by (rule loaded [THEN conjunct2, THEN conjunct2, THEN conjunct1, THEN spec])
qed

text \<open>No schedule can keep a message or a push switch from being handled but by never running its goroutine: after 25 turns of
  its own, at whatever places among the turns of the others, \<open>ApplyLogic\<close> or the switch has returned or panicked.\<close>

theorem gateway_goroutines_end:
  assumes "gw_phases S g \<in> {Arriving m, Switching push}" and "25 \<le> count_list gs g"
  shows "gw_phases (run_gateway E c gs S) g \<in> {Handled, Dead}"
  using run_gateway_done [of 25 S g gs E c] assms by auto

theorem gateway_goroutines_end_witness:
  "gw_phases (run_gateway sample_env sample_channel (concat (replicate 25 [2, 1])) first_messages) 1 \<in> {Handled, Dead}"
proof (rule gateway_goroutines_end)
  show "gw_phases first_messages 1 \<in> {Arriving motion_event, Switching True}"
    by (simp del: One_nat_def)
qed (simp add: eval_nat_numeral)

text \<open>C22: two first messages of a gateway that are handled at the same time can end the server: both goroutines find no logic
  and load it; the first stores and tests its own; the second, whose load failed, then resets the channel's logic to nil, and the first calls
  the logic that is no longer there.\<close>

theorem concurrent_load_crashes:
  assumes "gw_phases S 1 = Arriving m1" and "gw_phases S 2 = Arriving m2" and "fst (gw_objects S) = None"
    and "usable (gc_conn c)" and "\<forall>es. e_count E es = Inr 1"
    and "value_of (CreateLogic E c) (gw_world (run_gateway E c [1, 2, 1, 2] S)) = Returned (Inr bl)"
    and "value_of (CreateLogic E c) (gw_world (run_gateway E c [1, 2, 1, 2, 1] S)) = Returned (Inl e)"
  shows "gw_phases (run_gateway E c [1, 2, 1, 2, 1, 2, 1, 1, 2, 1] S) 1 = Dead"
proof -
  let ?S6 = "run_gateway E c [1, 2, 1, 2, 1, 2] S"
  obtain r1 r2 where "gw_phases ?S6 1 = Storing r1 (Inr bl)" "gw_phases ?S6 2 = Storing r2 (Inl e)"
    using both_loaded [OF assms] by (auto simp del: run_gateway_simps)
  from reset_while_called [OF this, of E c] show ?thesis
    by (simp only: run_gateway_simps)
qed

theorem concurrent_load_crashes_witness:
  "gw_phases (run_gateway race_env sample_channel [1, 2, 1, 2, 1, 2, 1, 1, 2, 1] first_messages) 1 = Dead"
proof -
  let ?S4 = "run_gateway race_env sample_channel [1, 2, 1, 2] first_messages"
  have start: "fst (gw_objects first_messages) = None" "usable (gc_conn sample_channel)" "\<forall>es. e_count race_env es = Inr 1"
    by (simp_all add: race_env_count)
  obtain bl w where load: "run_state (CreateLogic race_env sample_channel) (gw_world ?S4) = (Returned (Inr bl), w)" "RowsClose \<in> set (hist w)"
    using race_first_load [OF race_four_turns] by blast
  obtain r1 r2 where S4: "gw_phases ?S4 = (gw_phases first_messages)(1 := Loading r1, 2 := Loading r2)"
    using both_loading [OF first_messages_sel(2,3) start] by blast
  have "run_gateway race_env sample_channel [1, 2, 1, 2, 1] first_messages = gateway_turn race_env sample_channel 1 ?S4"
    by simp
  then have "gw_world (run_gateway race_env sample_channel [1, 2, 1, 2, 1] first_messages) = w"
    using S4 load(1) by (simp add: gateway_turn_def del: run_gateway_simps)
  then obtain e where "value_of (CreateLogic race_env sample_channel) (gw_world (run_gateway race_env sample_channel [1, 2, 1, 2, 1] first_messages)) = Returned (Inl e)"
    using race_second_load [OF load(2)] by auto
  then show ?thesis
    using load(1) by (intro concurrent_load_crashes [OF first_messages_sel(2,3) start, of bl e]) (simp_all add: value_of_def del: run_gateway_simps)
qed

text \<open>C23: what the first of two concurrent first messages does to the logic is lost when both loads succeed: its handler
  goes on with the object that the second load has replaced, and however many turns it takes (to store a media server, a running
  motion, a tariff) the channel's logic stays the one fresh from the database.\<close>

theorem concurrent_load_discards:
  assumes "gw_phases S 1 = Arriving m1" and "gw_phases S 2 = Arriving m2" and "gw_objects S = (None, [])"
    and "usable (gc_conn c)" and "\<forall>es. e_count E es = Inr 1"
    and "value_of (CreateLogic E c) (gw_world (run_gateway E c [1, 2, 1, 2] S)) = Returned (Inr bl)"
    and "value_of (CreateLogic E c) (gw_world (run_gateway E c [1, 2, 1, 2, 1] S)) = Returned (Inr bl2)"
    and "S' = run_gateway E c ([1, 2, 1, 2, 1, 2, 1, 1, 1, 2] @ replicate n 1) S"
  shows "gc_bl (channel_with c (gw_objects S')) = Some bl2"
proof -
  let ?S6 = "run_gateway E c [1, 2, 1, 2, 1, 2] S"
  have "fst (gw_objects S) = None" using assms(3) by simp
  from both_loaded [OF assms(1,2) this assms(4-7)] obtain r1 r2
    where "gw_phases ?S6 1 = Storing r1 (Inr bl)" "gw_phases ?S6 2 = Storing r2 (Inr bl2)" "gw_objects ?S6 = (None, [])"
    using assms(3) by (auto simp del: run_gateway_simps)
  from replaced_turns [OF replaced_while_handled [OF this], of E c n E c]
  have "replaced bl2 S'"
    unfolding assms(8) run_gateway_append by (simp only: run_gateway_simps)
  then show ?thesis by (auto simp: replaced_def channel_with_def)
qed

theorem concurrent_load_discards_witness:
  "\<exists>bl. value_of (CreateLogic sample_env sample_channel) (gw_world (run_gateway sample_env sample_channel [1, 2, 1, 2, 1] first_messages)) = Returned (Inr bl)
    \<and> gc_bl (channel_with sample_channel (gw_objects (run_gateway sample_env sample_channel ([1, 2, 1, 2, 1, 2, 1, 1, 1, 2] @ replicate 5 1) first_messages))) = Some bl"
proof -
  have count: "\<forall>es. e_count sample_env es = Inr 1" by (simp add: sample_env_def)
  have conn: "usable (gc_conn sample_channel)" by simp
  obtain bl where "value_of (CreateLogic sample_env sample_channel) (gw_world (run_gateway sample_env sample_channel [1, 2, 1, 2] first_messages)) = Returned (Inr bl)"
    using sample_load by blast
  moreover obtain bl2 where "value_of (CreateLogic sample_env sample_channel) (gw_world (run_gateway sample_env sample_channel [1, 2, 1, 2, 1] first_messages)) = Returned (Inr bl2)"
    using sample_load by blast
  ultimately show ?thesis
    using concurrent_load_discards [OF first_messages_sel(2,3,1) conn count _ _ refl] by blast
qed

end
