(* ===== verification/ManagerProps.thy ===== *)
theory ManagerProps
  imports ChannelClaims
begin

text \<open>
  Facts about the manager: the invariant of its channel map, one turn of the event loop measured
  against the gateways that the events announce, closing all channels, and restarting gateways.
\<close>

section \<open>The invariant of the channel map\<close>

definition server_ok :: "server \<Rightarrow> bool" where
  "server_ok s \<longleftrightarrow> distinct (map fst (mg_gwChans (sv_mgr s)))
     \<and> (\<forall>g cp. GetGatewayChannel s g = Some cp \<longrightarrow>
          cp < sv_next s \<and> gc_gatewayID (sv_chans s cp) = g \<and> channel_open (sv_chans s cp))"

definition known_gateways :: "server \<Rightarrow> gateway_id set" where
  "known_gateways s = {g. GetGatewayChannel s g \<noteq> None}"

text \<open>What an event says about a gateway: its input queue was created (\<open>True\<close>) or deleted (\<open>False\<close>).\<close>

definition gateway_event :: "ev_delivery \<Rightarrow> (bool \<times> gateway_id) option" where
  "gateway_event d =
     (case ev_name d of
        None \<Rightarrow> None
      | Some name \<Rightarrow>
          (let strArr = split_on CHR ''.'' name in
           if length strArr > 1 \<and> strArr ! 1 = ''in'' then
             (if ev_RoutingKey d = ''queue.created'' then Some (True, strArr ! 0)
              else if ev_RoutingKey d = ''queue.deleted'' then Some (False, strArr ! 0)
              else None)
           else None))"

definition gateways_after :: "ev_selected \<Rightarrow> gateway_id set \<Rightarrow> gateway_id set" where
  "gateways_after sel G =
     (case sel of
        EvReceived d \<Rightarrow>
          (case gateway_event d of
             None \<Rightarrow> G | Some (True, g) \<Rightarrow> insert g G | Some (False, g) \<Rightarrow> G - {g})
      | _ \<Rightarrow> G)"

lemma event_turn_value:
  "value_of (event_turn E db s sel) w =
     (case sel of
        EvReceived d \<Rightarrow>
          (if ev_name d = None then Panicked
           else case gateway_event d of
             None \<Rightarrow> Returned s
           | Some (True, g) \<Rightarrow> value_of (queue_created E db s g) (w\<lparr>hist := hist w @ [LogLine DebugLevel ''RabbitMQ event'']\<rparr>)
           | Some (False, g) \<Rightarrow> value_of (queue_deleted E s g) (w\<lparr>hist := hist w @ [LogLine DebugLevel ''RabbitMQ event'']\<rparr>))
      | _ \<Rightarrow> Returned s)"
proof (cases sel)
  case (EvReceived d)
  then show ?thesis
    by (cases "ev_name d") (auto simp: event_turn_def readExchangeEvent_def gateway_event_def value_bind Let_def)
qed (simp_all add: event_turn_def readExchangeEvent_def)

definition server_with :: "server \<Rightarrow> gateway_id \<Rightarrow> GatewayChannel \<Rightarrow> server" where
  "server_with s g c = s\<lparr>sv_chans := (sv_chans s)(sv_next s := c), sv_next := Suc (sv_next s),
     sv_mgr := (sv_mgr s)\<lparr>mg_gwChans := ChannelsMap_Add g (sv_next s) (mg_gwChans (sv_mgr s))\<rparr>\<rparr>"

definition server_without :: "server \<Rightarrow> gateway_id \<Rightarrow> chan_ptr \<Rightarrow> GatewayChannel \<Rightarrow> server" where
  "server_without s g cp c = s\<lparr>sv_chans := (sv_chans s)(cp := c),
     sv_mgr := (sv_mgr s)\<lparr>mg_gwChans := ChannelsMap_Remove g (mg_gwChans (sv_mgr s))\<rparr>\<rparr>"

lemma GetGatewayChannel_simps [simp]:
  "GetGatewayChannel (server_with s g c) g' = (if g' = g then Some (sv_next s) else GetGatewayChannel s g')"
  "GetGatewayChannel (server_without s g cp c) g' = (if g' = g then None else GetGatewayChannel s g')"
  by (simp_all add: GetGatewayChannel_def server_with_def server_without_def channels_map.get_add channels_map.get_remove)

lemma queue_created_value:
  "value_of (queue_created E db s g) w =
     (case value_of (NewGatewayChannel E db (mg_ServerID (sv_mgr s)) g) w of
        None \<Rightarrow> Panicked | Some c \<Rightarrow> Returned (server_with s g c))"
  by (simp add: queue_created_def value_bind server_with_def Let_def split: option.split)

definition closed_channel :: "GatewayChannel \<Rightarrow> GatewayChannel" where
  "closed_channel c = c\<lparr>gc_cancelled := True, gc_rpcCalls := closed_calls (gc_rpcCalls c)\<rparr>"

lemma Close_value: "channel_open c \<Longrightarrow> value_of (GatewayChannel_Close E c) w = Returned (closed_channel c)"
  using Close_run(1) [of c _ _ E w] by (auto simp: channel_open_def closed_channel_def)

lemma Close_started:
  "channel_open c \<Longrightarrow> \<exists>now. started (effects (GatewayChannel_Close E c) w) =
     [(UpdateGatewayStatusTask, NewStatusMessage now (gc_gatewayID c) ''off'')]"
  using Close_run(2) [of c _ _ E w] by (auto simp: channel_open_def)

lemma queue_deleted_value:
  "server_ok s \<Longrightarrow> value_of (queue_deleted E s g) w =
     (case GetGatewayChannel s g of None \<Rightarrow> Returned s
      | Some cp \<Rightarrow> Returned (server_without s g cp (closed_channel (sv_chans s cp))))"
  by (auto simp: queue_deleted_def GetGatewayChannel_def [symmetric] value_bind server_ok_def Close_value server_without_def
      split: option.split)

lemma server_ok_with:
  assumes "server_ok s" and "gc_gatewayID c = g" and "channel_open c"
  shows "server_ok (server_with s g c)"
proof -
  have "distinct (map fst (mg_gwChans (sv_mgr (server_with s g c))))"
    using assms(1) by (simp add: server_ok_def server_with_def ChannelsMap_Add_def distinct_update)
  moreover have "sv_chans (server_with s g c) (sv_next s) = c" "sv_next (server_with s g c) = Suc (sv_next s)"
    by (simp_all add: server_with_def)
  moreover have "sv_chans (server_with s g c) cp = sv_chans s cp" if "GetGatewayChannel s g' = Some cp" for g' cp
    using that assms(1) by (auto simp: server_with_def server_ok_def)
  ultimately show ?thesis
    using assms by (auto simp: server_ok_def intro: less_SucI)
qed

lemma server_ok_without:
  assumes "server_ok s" and "GetGatewayChannel s g = Some cp"
  shows "server_ok (server_without s g cp c)"
proof -
  have "distinct (map fst (mg_gwChans (sv_mgr (server_without s g cp c))))"
    using assms(1) by (simp add: server_ok_def server_without_def ChannelsMap_Remove_def distinct_delete)
  moreover have "sv_chans (server_without s g cp c) cp' = sv_chans s cp'" if "GetGatewayChannel s g' = Some cp'" "g' \<noteq> g" for g' cp'
    using that assms by (auto simp: server_without_def server_ok_def)
  moreover have "sv_next (server_without s g cp c) = sv_next s"
    by (simp add: server_without_def)
  ultimately show ?thesis
    using assms(1) by (auto simp: server_ok_def)
qed

lemma event_turn_tracks:
  assumes "server_ok s" and "value_of (event_turn E db s sel) w = Returned s'"
  shows "server_ok s' \<and> known_gateways s' = gateways_after sel (known_gateways s)"
proof (cases sel)
  case (EvReceived d)
  show ?thesis
  proof (cases "gateway_event d")
    case None
    with assms EvReceived show ?thesis
      by (auto simp: event_turn_value gateways_after_def split: if_splits)
  next
    case (Some bg)
    obtain b g where bg: "bg = (b, g)" by (cases bg)
    show ?thesis
    proof (cases b)
      case True
      from assms(2) EvReceived Some bg True obtain c v where c: "value_of (NewGatewayChannel E db (mg_ServerID (sv_mgr s)) g) v = Some c"
          "s' = server_with s g c"
        by (auto simp: event_turn_value queue_created_value split: if_splits option.splits)
      then have "server_ok s'"
        using NewGatewayChannel_ok [OF c(1)] server_ok_with [OF assms(1), of c g] by simp
      with c EvReceived Some bg True show ?thesis
        by (auto simp: known_gateways_def gateways_after_def)
    next
      case False
      with assms EvReceived Some bg have s': "s' = (case GetGatewayChannel s g of None \<Rightarrow> s
          | Some cp \<Rightarrow> server_without s g cp (closed_channel (sv_chans s cp)))"
        by (auto simp: event_turn_value queue_deleted_value split: if_splits option.splits)
      then have "server_ok s'"
        using assms(1) server_ok_without by (auto split: option.split)
      with s' EvReceived Some bg False show ?thesis
        by (auto simp: known_gateways_def gateways_after_def split: option.splits)
    qed
  qed
qed (use assms in \<open>auto simp: event_turn_value gateways_after_def\<close>)

lemma ProcessExchangeEvents_run: "ProcessExchangeEvents E db sels s = run_turns (event_turn E db) sels s"
proof (induction sels arbitrary: s)
  case (Cons sel sels)
  have "ProcessExchangeEvents E db sels = run_turns (event_turn E db) sels"
    by (rule ext) (rule Cons.IH)
  then show ?case by simp
qed simp

text \<open>The event loop is a refinement of the set of gateways that the events announce.\<close>

interpretation event_loop: turn_loop "event_turn E db" server_ok known_gateways gateways_after for E db
  by unfold_locales (rule event_turn_tracks)

lemma ProcessExchangeEvents_tracks:
  "server_ok s \<Longrightarrow> value_of (ProcessExchangeEvents E db sels s) w = Returned s' \<Longrightarrow>
   server_ok s' \<and> known_gateways s' = fold gateways_after sels (known_gateways s)"
  unfolding ProcessExchangeEvents_run by (rule event_loop.run_refines)

section \<open>Closing the manager\<close>

lemma close_channels_nil: "close_channels E (replicate n None @ chs) s = close_channels E chs s"
  by (induction n) simp_all

lemma appends_Close [intro]: "appends (GatewayChannel_Close E c)"
  unfolding GatewayChannel_Close_def
  by (intro appends_bind Stop_run(3)) (auto split: outcome.split intro: talks_appends)

lemma appends_close_channels [intro]: "appends (close_channels E chs s)"
  by (induction E chs s rule: close_channels.induct) (auto intro!: appends_bind split: outcome.split)

definition offline :: "task \<times> IotMessage \<Rightarrow> gateway_id \<Rightarrow> bool" where
  "offline tq g \<longleftrightarrow> (\<exists>now. tq = (UpdateGatewayStatusTask, NewStatusMessage now g ''off''))"

lemma close_channels_run:
  "list_all (\<lambda>cp. channel_open (sv_chans s cp)) cps \<Longrightarrow> distinct cps \<Longrightarrow>
   value_of (close_channels E (map Some cps) s) w =
     Returned (s\<lparr>sv_chans := \<lambda>cp. if cp \<in> set cps then closed_channel (sv_chans s cp) else sv_chans s cp\<rparr>)
   \<and> list_all2 offline (started (effects (close_channels E (map Some cps) s) w)) (map (\<lambda>cp. gc_gatewayID (sv_chans s cp)) cps)"
proof (induction cps arbitrary: s w)
  case (Cons cp cps)
  let ?c = "sv_chans s cp" and ?w1 = "world_after (GatewayChannel_Close E (sv_chans s cp)) w"
  let ?s1 = "s\<lparr>sv_chans := (sv_chans s)(cp := closed_channel (sv_chans s cp))\<rparr>"
  have o: "channel_open ?c" using Cons.prems by simp
  have open1: "list_all (\<lambda>cp'. channel_open (sv_chans ?s1 cp')) cps"
    using Cons.prems by (auto simp: list_all_iff)
  have same: "map (\<lambda>cp'. gc_gatewayID (sv_chans ?s1 cp')) cps = map (\<lambda>cp'. gc_gatewayID (sv_chans s cp')) cps"
    using Cons.prems by auto
  obtain now where now: "started (effects (GatewayChannel_Close E ?c) w) = [(UpdateGatewayStatusTask, NewStatusMessage now (gc_gatewayID ?c) ''off'')]"
    using Close_started [OF o] by blast
  have app: "appends (case res of Panicked \<Rightarrow> ret Panicked | Returned c \<Rightarrow> close_channels E chs (s\<lparr>sv_chans := (sv_chans s)(cp := c)\<rparr>))" for res chs
    by (auto split: outcome.split)
  have eff: "started (effects (close_channels E (map Some (cp # cps)) s) w) =
      started (effects (GatewayChannel_Close E ?c) w) @ started (effects (close_channels E (map Some cps) ?s1) ?w1)"
    by (simp add: effects_bind app appends_Close Close_value [OF o])
  have val: "value_of (close_channels E (map Some (cp # cps)) s) w = value_of (close_channels E (map Some cps) ?s1) ?w1"
    by (simp add: value_bind Close_value [OF o])
  have d: "distinct cps" using Cons.prems by simp
  have F: "(\<lambda>cp'. if cp' \<in> set cps then closed_channel (sv_chans ?s1 cp') else sv_chans ?s1 cp') =
      (\<lambda>cp'. if cp' \<in> set (cp # cps) then closed_channel (sv_chans s cp') else sv_chans s cp')"
    using Cons.prems by (intro ext) auto
  have upd: "?s1\<lparr>sv_chans := \<lambda>cp'. if cp' \<in> set cps then closed_channel (sv_chans ?s1 cp') else sv_chans ?s1 cp'\<rparr> =
      s\<lparr>sv_chans := \<lambda>cp'. if cp' \<in> set (cp # cps) then closed_channel (sv_chans s cp') else sv_chans s cp'\<rparr>"
    unfolding F by simp
  have head: "offline (UpdateGatewayStatusTask, NewStatusMessage now (gc_gatewayID ?c) ''off'') (gc_gatewayID ?c)"
    by (auto simp: offline_def)
  show ?case
    using Cons.IH [OF open1 d, of ?w1] head unfolding eff val upd same now by simp
qed (simp add: effects_run)

end
