(* ===== verification/ManagerClaims.thy ===== *)
theory ManagerClaims
  imports ManagerProps
begin

text \<open>
  The properties of the manager: the map of channels follows the exchange events, what can end the event
  loop, channels that are lost, closing everything, and restarting the gateways.
\<close>

section \<open>Lost channels\<close>

text \<open>A channel that is no longer in the map: nothing reaches it any more.\<close>

definition orphan :: "chan_ptr \<Rightarrow> server \<Rightarrow> bool" where
  "orphan cp s \<longleftrightarrow> cp < sv_next s \<and> (\<forall>g. GetGatewayChannel s g \<noteq> Some cp)"

lemma server_with_sel [simp]:
  "sv_chans (server_with s g c) = (sv_chans s)(sv_next s := c)" "sv_next (server_with s g c) = Suc (sv_next s)"
  by (simp_all add: server_with_def)

lemma server_without_sel [simp]:
  "sv_chans (server_without s g cp c) = (sv_chans s)(cp := c)" "sv_next (server_without s g cp c) = sv_next s"
  by (simp_all add: server_without_def)

text \<open>What a turn of the event loop can make of the server.\<close>

lemma event_turn_cases:
  assumes "server_ok s" and "value_of (event_turn E db s sel) w = Returned s'"
  obtains "s' = s"
  | d g c where "sel = EvReceived d" "gateway_event d = Some (True, g)" "s' = server_with s g c"
  | g cp c where "GetGatewayChannel s g = Some cp" "s' = server_without s g cp c"
proof (cases sel)
  case (EvReceived d)
  show ?thesis
  proof (cases "gateway_event d")
    case None
    with assms EvReceived have "s' = s"
      by (simp add: event_turn_value split: if_splits)
    then show ?thesis by (rule that(1))
  next
    case (Some bg)
    obtain b g where bg: "bg = (b, g)" by (cases bg)
    let ?w = "w\<lparr>hist := hist w @ [LogLine DebugLevel ''RabbitMQ event'']\<rparr>"
    show ?thesis
    proof (cases b)
      case True
      with assms(2) EvReceived Some bg have "value_of (queue_created E db s g) ?w = Returned s'"
        by (simp add: event_turn_value split: if_splits)
      then obtain c where "s' = server_with s g c"
        by (auto simp: queue_created_value split: option.splits)
      with EvReceived Some bg True show ?thesis by (intro that(2)) simp_all
    next
      case False
      with assms(2) EvReceived Some bg have "value_of (queue_deleted E s g) ?w = Returned s'"
        by (simp add: event_turn_value split: if_splits)
      then have del: "(case GetGatewayChannel s g of None \<Rightarrow> Returned s
          | Some cp \<Rightarrow> Returned (server_without s g cp (closed_channel (sv_chans s cp)))) = Returned s'"
        by (simp add: queue_deleted_value [OF assms(1)])
      show ?thesis
      proof (cases "GetGatewayChannel s g")
        case None
        with del have "s' = s" by simp
        then show ?thesis by (rule that(1))
      next
        case (Some cp)
        with del have "s' = server_without s g cp (closed_channel (sv_chans s cp))" by simp
        with Some show ?thesis by (rule that(3))
      qed
    qed
  qed
next
  case EvCtxDone
  with assms(2) have "s' = s" by (simp add: event_turn_value)
  then show ?thesis by (rule that(1))
next
  case EvClosed
  with assms(2) have "s' = s" by (simp add: event_turn_value)
  then show ?thesis by (rule that(1))
qed

lemma orphan_turn:
  assumes "server_ok s \<and> orphan cp s" and "value_of (event_turn E db s sel) w = Returned s'"
  shows "(server_ok s' \<and> orphan cp s') \<and> sv_chans s' cp = sv_chans s cp"
proof -
  from assms have ok: "server_ok s" "server_ok s'"
    using event_turn_tracks by blast+
  have o: "cp < sv_next s" "\<And>g. GetGatewayChannel s g \<noteq> Some cp"
    using assms(1) by (auto simp: orphan_def)
  from ok(1) assms(2) have "orphan cp s' \<and> sv_chans s' cp = sv_chans s cp"
  proof (cases rule: event_turn_cases)
    case 1
    with assms(1) show ?thesis by simp
  next
    case (2 d g c)
    with o show ?thesis by (simp add: orphan_def)
  next
    case (3 g cp' c)
    with o(2) [of g] have "cp' \<noteq> cp" by auto
    with o 3 show ?thesis by (simp add: orphan_def)
  qed
  with ok(2) show ?thesis by blast
qed

interpretation orphans: turn_loop "event_turn E db" "\<lambda>s. server_ok s \<and> orphan cp s" "\<lambda>s. sv_chans s cp" "\<lambda>sel c. c" for E db cp
  by unfold_locales (rule orphan_turn)

lemma fold_same: "fold (\<lambda>x c. c) xs a = a"
  by (induction xs) simp_all

lemma recreated_orphan:
  assumes "server_ok s" and "GetGatewayChannel s g = Some cp"
  shows "orphan cp (server_with s g c)"
  using assms by (auto simp: orphan_def server_ok_def intro: less_SucI)

section \<open>Closing\<close>

lemma talks_close_management [intro]: "talks (close_management E s)" "talks (close_connection E s)"
  unfolding close_management_def close_connection_def by (auto intro!: talks_intros split: option.split)

lemma close_management_value: "\<exists>err. value_of (close_management E s) w = Returned (err, s)"
  by (auto simp: close_management_def close_connection_def value_bind split: option.split)

definition close_broker :: "env \<Rightarrow> server \<Rightarrow> (err option \<times> server) outcome io" where
  "close_broker E s =
     (if length (mg_evQue (sv_mgr s)) > 0 then
        (case mg_Ch (sv_mgr s) of
           None \<Rightarrow> ret Panicked
         | Some ch \<Rightarrow> do {
             err \<leftarrow> ask (Amqp (QueueDelete ch (mg_evQue (sv_mgr s)))) (e_error E);
             (if err \<noteq> None then Error ''failed deleting queue'' else ret ());
             close_management E s
           })
      else close_management E s)"

lemma close_broker_facts:
  "talks (close_broker E s)"
  "mg_Ch (sv_mgr s) \<noteq> None \<Longrightarrow> \<exists>err. value_of (close_broker E s) w = Returned (err, s)"
  using close_management_value [of E s]
  by (auto simp: close_broker_def value_bind intro!: talks_intros split: option.split)

lemma Manager_Close_stages:
  "Manager_Close E s = do {
     closed \<leftarrow> close_channels E (GetChannels (mg_gwChans (sv_mgr s))) s;
     (case closed of Panicked \<Rightarrow> ret Panicked | Returned s' \<Rightarrow> close_broker E s')
   }"
  unfolding Manager_Close_def close_broker_def by (rule refl)

text \<open>The channels of the map, in the order it is read.\<close>

definition stored_channels :: "server \<Rightarrow> chan_ptr list" where
  "stored_channels s = map snd (mg_gwChans (sv_mgr s))"

lemma GetChannels_stored:
  "GetChannels (mg_gwChans (sv_mgr s)) = replicate (length (mg_gwChans (sv_mgr s))) None @ map Some (stored_channels s)"
  by (simp add: GetChannels_def stored_channels_def split_beta comp_def)

lemma stored_channels_facts:
  assumes "server_ok s"
  shows "distinct (stored_channels s)" and "list_all (\<lambda>cp. channel_open (sv_chans s cp)) (stored_channels s)"
    and "map (\<lambda>cp. gc_gatewayID (sv_chans s cp)) (stored_channels s) = map fst (mg_gwChans (sv_mgr s))"
proof -
  have d: "distinct (map fst (mg_gwChans (sv_mgr s)))"
    using assms by (simp add: server_ok_def)
  have entry: "gc_gatewayID (sv_chans s cp) = g \<and> channel_open (sv_chans s cp)" if "(g, cp) \<in> set (mg_gwChans (sv_mgr s))" for g cp
    using assms map_of_is_SomeI [OF d that] by (simp add: server_ok_def GetGatewayChannel_def ChannelsMap_Get_def)
  show ids: "map (\<lambda>cp. gc_gatewayID (sv_chans s cp)) (stored_channels s) = map fst (mg_gwChans (sv_mgr s))"
    using entry by (auto simp: stored_channels_def)
  show "list_all (\<lambda>cp. channel_open (sv_chans s cp)) (stored_channels s)"
    using entry by (auto simp: stored_channels_def list_all_iff)
  show "distinct (stored_channels s)"
    using d unfolding ids [symmetric] by (simp add: distinct_map)
qed

lemma Manager_Close_run:
  assumes ok: "server_ok s" and ch: "mg_Ch (sv_mgr s) \<noteq> None"
  shows "\<exists>err. value_of (Manager_Close E s) w = Returned (err,
      s\<lparr>sv_chans := \<lambda>cp. if cp \<in> set (stored_channels s) then closed_channel (sv_chans s cp) else sv_chans s cp\<rparr>)"
    and "list_all2 offline (started (effects (Manager_Close E s) w)) (map fst (mg_gwChans (sv_mgr s)))"
proof -
  let ?s = "s\<lparr>sv_chans := \<lambda>cp. if cp \<in> set (stored_channels s) then closed_channel (sv_chans s cp) else sv_chans s cp\<rparr>"
  let ?cc = "close_channels E (map Some (stored_channels s)) s"
  note run = close_channels_run [OF stored_channels_facts(2,1) [OF ok], of E w]
  have ch': "mg_Ch (sv_mgr ?s) \<noteq> None"
    using ch by simp
  have app: "appends (case r of Panicked \<Rightarrow> ret Panicked | Returned s' \<Rightarrow> close_broker E s')" for r
    by (auto split: outcome.split intro: talks_appends close_broker_facts(1))
  have close: "Manager_Close E s = do { closed \<leftarrow> ?cc; (case closed of Panicked \<Rightarrow> ret Panicked | Returned s' \<Rightarrow> close_broker E s') }"
    unfolding Manager_Close_stages GetChannels_stored close_channels_nil ..
  show "\<exists>err. value_of (Manager_Close E s) w = Returned (err, ?s)"
    unfolding close using run close_broker_facts(2) [OF ch', of E "world_after ?cc w"] by (simp add: value_bind)
  show "list_all2 offline (started (effects (Manager_Close E s) w)) (map fst (mg_gwChans (sv_mgr s)))"
    unfolding close using run stored_channels_facts(3) [OF ok]
    by (simp add: effects_bind app appends_close_channels quiet_parts [OF close_broker_facts(1)])
qed

section \<open>Restarting\<close>

text \<open>The gateway whose input queue has this name.\<close>

definition input_queue_of :: "amqp_Queue \<Rightarrow> gateway_id option" where
  "input_queue_of que =
     (let nameArr = split_on CHR ''.'' (q_Name que)
      in if length nameArr > 1 \<and> nameArr ! 1 = ''in'' then Some (nameArr ! 0) else None)"

fun is_publish :: "event \<Rightarrow> bool" where
  "is_publish (Amqp (Publish _ _ _ _)) = True"
| "is_publish _ = False"

definition publishes :: "event list \<Rightarrow> event list" where
  "publishes es = filter is_publish es"

lemma publishes_simps [simp]:
  "publishes [] = []"
  "publishes (e # es) = (if is_publish e then e # publishes es else publishes es)"
  "publishes (xs @ ys) = publishes xs @ publishes ys"
  by (simp_all add: publishes_def)

definition restart_event :: "event \<Rightarrow> gateway_id \<Rightarrow> bool" where
  "restart_event e g \<longleftrightarrow> (\<exists>ch now. e = Amqp (Publish ch exchangeName (''gateway.'' @ g @ ''.in'')
     \<lparr>pub_ContentType = ''application/json'', pub_CorrelationId = [], pub_ReplyTo = [],
      pub_Body = json_Marshal (restart_message now g)\<rparr>))"

text \<open>Computations that only talk, and publish nothing.\<close>

definition mute :: "'a io \<Rightarrow> bool" where
  "mute m \<longleftrightarrow> talks m \<and> (\<forall>w. publishes (effects m w) = [])"

lemma mute_prim [simp, intro]:
  "mute (ret x)" "\<not> is_publish e \<Longrightarrow> \<not> is_go e \<Longrightarrow> mute (ask e f)"
  "mute (Debug s)" "mute (Info s)" "mute (Warn s)" "mute (Error s)"
  by (simp_all add: mute_def effects_run)

lemma mute_bind [intro]: "mute m \<Longrightarrow> (\<And>x. mute (f x)) \<Longrightarrow> mute (State_Monad.bind m f)"
  by (auto simp: mute_def effects_append talks_appends)

lemma mute_cases [intro]:
  "(b \<Longrightarrow> mute m) \<Longrightarrow> (\<not> b \<Longrightarrow> mute m') \<Longrightarrow> mute (if b then m else m')"
  "mute m \<Longrightarrow> (\<And>x. mute (f x)) \<Longrightarrow> mute (case opt of None \<Rightarrow> m | Some x \<Rightarrow> f x)"
  "(\<And>e. mute (g e)) \<Longrightarrow> (\<And>x. mute (f x)) \<Longrightarrow> mute (case res of Inl e \<Rightarrow> g e | Inr x \<Rightarrow> f x)"
  "(\<And>x. mute (f x)) \<Longrightarrow> mute m \<Longrightarrow> mute (case out of Returned x \<Rightarrow> f x | Panicked \<Rightarrow> m)"
  by (simp_all split: option.split sum.split outcome.split)

lemmas mute_intros = mute_bind mute_cases

lemma mute_ends: "mute (NewAmqpWriter E g)" "mute (AmqpWriter_Close E wr)"
  unfolding NewAmqpWriter_def NewChannelWithQueue_def AmqpWriter_Close_def ChannelWithQueue_Close_def Let_def
  by (auto intro!: mute_intros)

lemma AmqpWriter_Write_publishes:
  "cwq_Ch (aw_cwq wr) = Some ch \<Longrightarrow> publishes (effects (AmqpWriter_Write E wr p) w) =
     [Amqp (Publish ch exchangeName (aw_routingKey wr)
       \<lparr>pub_ContentType = ''application/json'', pub_CorrelationId = [], pub_ReplyTo = [], pub_Body = p\<rparr>)]"
  by (simp add: AmqpWriter_Write_def effects_run split: option.split)

text \<open>What follows the choice of the writer.\<close>

definition restart_over :: "env \<Rightarrow> string \<Rightarrow> AmqpWriter \<Rightarrow> bool outcome io" where
  "restart_over E buffer writer = do {
     (n, err) \<leftarrow> AmqpWriter_Write E writer buffer;
     (if err \<noteq> None \<or> n \<noteq> length buffer then do {
        Error ''error sending message to broker'';
        ret (Returned False)
      }
      else do {
        res \<leftarrow> AmqpWriter_Close E writer;
        (case res of
           Panicked \<Rightarrow> ret Panicked
         | Returned err \<Rightarrow> do {
             (if err \<noteq> None then Error ''error closing gateway input channel'' else ret ());
             ret (Returned True)
           })
      })
   }"

lemma restart_queue_stages:
  "restart_queue E que =
     (case input_queue_of que of
        None \<Rightarrow> ret (Returned False)
      | Some g \<Rightarrow> do {
          now \<leftarrow> ask ClockRead (e_now E);
          wr \<leftarrow> NewAmqpWriter E g;
          (case wr of None \<Rightarrow> ret Panicked | Some writer \<Rightarrow> restart_over E (json_Marshal (restart_message now g)) writer)
        })"
  by (simp add: restart_queue_def input_queue_of_def restart_over_def [abs_def] Let_def)

lemma talks_restart_over [intro]: "talks (restart_over E buffer writer)"
  unfolding restart_over_def by (auto intro!: talks_intros)

lemma talks_restart_queue [intro]: "talks (restart_queue E que)"
  unfolding restart_queue_stages by (auto intro!: talks_intros mute_ends(1) [unfolded mute_def, THEN conjunct1])

lemma restart_over_publishes:
  assumes "cwq_Ch (aw_cwq writer) = Some ch"
  shows "publishes (effects (restart_over E buffer writer) w) =
     [Amqp (Publish ch exchangeName (aw_routingKey writer)
       \<lparr>pub_ContentType = ''application/json'', pub_CorrelationId = [], pub_ReplyTo = [], pub_Body = buffer\<rparr>)]"
    and "\<exists>b. value_of (restart_over E buffer writer) w = Returned b"
proof -
  have closes: "value_of (AmqpWriter_Close E writer) v \<noteq> Panicked" for v
    using end_Close_run(2) [OF assms, of E v] by auto
  have rest: "mute (case r of (n, err) \<Rightarrow> if err \<noteq> None \<or> n \<noteq> length buffer
      then do { Error ''error sending message to broker''; ret (Returned False) }
      else do { res \<leftarrow> AmqpWriter_Close E writer;
        (case res of Panicked \<Rightarrow> ret Panicked
         | Returned err \<Rightarrow> do { (if err \<noteq> None then Error ''error closing gateway input channel'' else ret ()); ret (Returned True) }) })"
    for r :: "nat \<times> err option"
    by (cases r) (auto intro!: mute_intros mute_ends)
  show "publishes (effects (restart_over E buffer writer) w) =
     [Amqp (Publish ch exchangeName (aw_routingKey writer)
       \<lparr>pub_ContentType = ''application/json'', pub_CorrelationId = [], pub_ReplyTo = [], pub_Body = buffer\<rparr>)]"
    unfolding restart_over_def
    using rest by (simp add: effects_append mute_def talks_appends talks_AmqpWriter_Write AmqpWriter_Write_publishes [OF assms])
  show "\<exists>b. value_of (restart_over E buffer writer) w = Returned b"
    using closes by (auto simp: restart_over_def value_bind split: prod.split outcome.split)
qed

lemma restart_queue_run:
  assumes "value_of (restart_queue E que) w = Returned b"
  shows "list_all2 restart_event (publishes (effects (restart_queue E que) w))
     (case input_queue_of que of None \<Rightarrow> [] | Some g \<Rightarrow> [g])"
proof (cases "input_queue_of que")
  case None
  then show ?thesis by (simp add: restart_queue_stages effects_run)
next
  case (Some g)
  let ?now = "e_now E (hist w @ [ClockRead])" and ?w = "world_after (ask ClockRead (e_now E)) w"
  obtain wr where wr: "value_of (NewAmqpWriter E g) ?w = Some wr"
    using assms Some by (cases "value_of (NewAmqpWriter E g) ?w") (auto simp: restart_queue_stages value_bind)
  obtain ch where ch: "cwq_Ch (aw_cwq wr) = Some ch" "aw_routingKey wr = ''gateway.'' @ g @ ''.in''"
    using NewAmqpWriter_ok [OF wr] by auto
  have "talks (case x of None \<Rightarrow> ret Panicked | Some writer \<Rightarrow> restart_over E (json_Marshal (restart_message now g)) writer)" for x now
    by (auto split: option.split)
  then have "publishes (effects (restart_queue E que) w) =
      publishes (effects (restart_over E (json_Marshal (restart_message ?now g)) wr) (world_after (NewAmqpWriter E g) ?w))"
    using Some wr mute_ends(1) [of E g]
    by (simp add: restart_queue_stages effects_append appends_bind mute_def talks_appends)
  then show ?thesis
    using Some ch by (auto simp: restart_over_publishes [OF ch(1)] restart_event_def)
qed

lemma talks_restart_queues [intro]: "talks (restart_queues E qs n)"
  by (induction qs arbitrary: n) (auto intro!: talks_bind talks_outcome)

lemma restart_queues_run:
  "value_of (restart_queues E qs n) w = Returned k \<Longrightarrow>
   list_all2 restart_event (publishes (effects (restart_queues E qs n) w)) (List.map_filter input_queue_of qs)"
proof (induction qs arbitrary: n w)
  case (Cons que qs)
  obtain b where b: "value_of (restart_queue E que) w = Returned b"
    using Cons.prems by (cases "value_of (restart_queue E que) w") (simp_all add: value_bind)
  let ?w = "world_after (restart_queue E que) w" and ?n = "if b then Suc n else n"
  have "talks (case r of Panicked \<Rightarrow> ret Panicked | Returned x \<Rightarrow> restart_queues E qs (if x then Suc n else n))" for r
    by (auto split: outcome.split)
  then have "publishes (effects (restart_queues E (que # qs) n) w) =
      publishes (effects (restart_queue E que) w) @ publishes (effects (restart_queues E qs ?n) ?w)"
    using b by (simp add: effects_append talks_appends talks_restart_queue)
  moreover have "list_all2 restart_event (publishes (effects (restart_queues E qs ?n) ?w)) (List.map_filter input_queue_of qs)"
    using Cons.prems b by (intro Cons.IH) (simp add: value_bind)
  moreover have "List.map_filter input_queue_of (que # qs) =
      (case input_queue_of que of None \<Rightarrow> [] | Some g \<Rightarrow> [g]) @ List.map_filter input_queue_of qs"
    by (cases "input_queue_of que") (simp_all add: List.map_filter_simps)
  ultimately show ?case
    using restart_queue_run [OF b] list_all2_appendI by metis
qed (simp add: effects_run List.map_filter_simps)

text \<open>The log line at the end.\<close>

definition restart_end :: "nat outcome \<Rightarrow> unit outcome io" where
  "restart_end res =
     (case res of
        Panicked \<Rightarrow> ret Panicked
      | Returned gwCounter \<Rightarrow> do {
          (if gwCounter > 0 then Info ''Restarted gateways'' else ret ());
          ret (Returned ())
        })"

lemma mute_restart_end: "mute (restart_end res)"
  unfolding restart_end_def by (auto intro!: mute_intros)

text \<open>When the broker opens no channel, the first input queue ends the loop in a panic.\<close>

lemma no_channel_writer:
  assumes "\<forall>es. \<exists>e. e_channel E es = Inl e"
  shows "value_of (NewAmqpWriter E g) w = None"
proof -
  obtain e where "e_channel E (hist w @ [Amqp OpenChannel]) = Inl e"
    using assms by blast
  then show ?thesis
    by (simp add: NewAmqpWriter_def NewChannelWithQueue_def value_bind)
qed

lemma no_channel_panics:
  assumes "\<forall>es. \<exists>e. e_channel E es = Inl e"
  shows "que \<in> set qs \<Longrightarrow> input_queue_of que = Some g \<Longrightarrow> value_of (restart_queues E qs n) w = Panicked"
proof (induction qs arbitrary: n w)
  case (Cons q qs)
  show ?case
  proof (cases "input_queue_of q")
    case None
    with Cons show ?thesis by (auto simp: restart_queue_stages value_bind)
  next
    case (Some g')
    then show ?thesis by (simp add: restart_queue_stages value_bind no_channel_writer [OF assms])
  qed
qed simp

section \<open>A sample server\<close>

definition sample_server :: server where
  "sample_server = \<lparr>sv_mgr = (NewManager ''srv'' ''amqp'' ''user'' ''pw'' ''mq'' 5672 15672)
      \<lparr>mg_Conn := True, mg_Ch := Some 9, mg_evQue := ''srv'', mg_gwChans := [(''gw1'', 0)]\<rparr>,
    sv_chans = (\<lambda>_. sample_channel), sv_next = 1\<rparr>"

definition world0 :: world where
  "world0 = sample_world zero_IotMessage"

definition queue_event :: "string \<Rightarrow> string \<Rightarrow> ev_delivery" where
  "queue_event key name = \<lparr>ev_RoutingKey = key, ev_name = Some name\<rparr>"

lemma sample_server_sel [simp]:
  "GetGatewayChannel sample_server g = (if g = ''gw1'' then Some 0 else None)" "sv_next sample_server = 1"
  "sv_chans sample_server cp = sample_channel" "mg_Ch (sv_mgr sample_server) = Some 9"
  "mg_gwChans (sv_mgr sample_server) = [(''gw1'', 0)]"
  by (simp_all add: sample_server_def GetGatewayChannel_def ChannelsMap_Get_def)

lemma sample_server_ok: "server_ok sample_server"
  using sample_channel_open by (simp add: server_ok_def)

lemma sample_known: "known_gateways sample_server = {''gw1''}"
  by (auto simp: known_gateways_def)

lemma sample_events [simp]:
  "gateway_event (queue_event ''queue.created'' ''gw1.in'') = Some (True, ''gw1'')"
  "gateway_event (queue_event ''queue.created'' ''gw2.in'') = Some (True, ''gw2'')"
  "gateway_event (queue_event ''queue.deleted'' ''gw1.in'') = Some (False, ''gw1'')"
  "ev_name (queue_event k n) = Some n"
  by (simp_all add: gateway_event_def queue_event_def)

text \<open>In the sample environment every channel can be opened.\<close>

lemma sample_created: "\<exists>c. value_of (NewGatewayChannel sample_env conn srv g) w = Some c"
  by (simp add: NewGatewayChannel_def NewAmqpReader_def NewAmqpWriter_def NewChannelWithQueue_def value_bind sample_env_def Let_def)

lemma sample_turns:
  "\<exists>c. value_of (event_turn sample_env sample_conn s (EvReceived (queue_event ''queue.created'' (g @ ''.in'')))) w =
     Returned (server_with s g c)" if "CHR ''.'' \<notin> set g"
proof -
  have "split_on CHR ''.'' (g @ ''.in'') = [g, ''in'']"
    using split_on_append [of "CHR ''.''" g "''in''"] that by simp
  then have "gateway_event (queue_event ''queue.created'' (g @ ''.in'')) = Some (True, g)"
    by (simp add: gateway_event_def queue_event_def)
  then show ?thesis
    using sample_created by (simp add: event_turn_value queue_created_value) (metis option.simps(5))
qed

section \<open>Properties\<close>

text \<open>C3: the manager knows exactly the gateways that the broker's events announce: whatever the order of the events,
  as long as the loop runs, the channel map holds one open channel of its own for every
  gateway whose input queue was created and not deleted since, and no other.\<close>

theorem gateways_tracked:
  assumes "server_ok s" and "value_of (ProcessExchangeEvents E db sels s) w = Returned s'"
  shows "server_ok s' \<and> known_gateways s' = fold gateways_after sels (known_gateways s)"
  by (rule ProcessExchangeEvents_tracks [OF assms])

theorem gateways_tracked_witness:
  "\<exists>s'. value_of (ProcessExchangeEvents sample_env sample_conn
       [EvReceived (queue_event ''queue.created'' ''gw2.in''), EvReceived (queue_event ''queue.deleted'' ''gw1.in'')] sample_server) world0 =
     Returned s' \<and> server_ok s' \<and> known_gateways s' = {''gw2''}"
proof -
  let ?ev = "EvReceived (queue_event ''queue.created'' ''gw2.in'')"
  obtain c where c: "value_of (event_turn sample_env sample_conn sample_server ?ev) world0 = Returned (server_with sample_server ''gw2'' c)"
    using sample_turns [of "''gw2''" sample_server world0] by auto
  let ?world0 = "world_after (event_turn sample_env sample_conn sample_server ?ev) world0"
  have ok: "server_ok (server_with sample_server ''gw2'' c)"
    using event_turn_tracks [OF sample_server_ok c] by simp
  obtain s' where s': "value_of (ProcessExchangeEvents sample_env sample_conn
       [?ev, EvReceived (queue_event ''queue.deleted'' ''gw1.in'')] sample_server) world0 = Returned s'"
    using c by (simp add: value_bind event_turn_value queue_deleted_value [OF ok])
  from gateways_tracked [OF sample_server_ok s'] s' show ?thesis
    by (auto simp: sample_known gateways_after_def)
qed

text \<open>A turn of the event loop panics, which ends the server, exactly when an event has no
  string header \<open>name\<close>, or announces a gateway whose channel cannot be set up.\<close>

theorem event_turn_panics:
  assumes "server_ok s"
  shows "(value_of (event_turn E db s sel) w = Panicked) =
    (\<exists>d. sel = EvReceived d \<and> (ev_name d = None
       \<or> (\<exists>g. gateway_event d = Some (True, g)
            \<and> value_of (NewGatewayChannel E db (mg_ServerID (sv_mgr s)) g) (w\<lparr>hist := hist w @ [LogLine DebugLevel ''RabbitMQ event'']\<rparr>) = None)))"
  by (cases sel) (auto simp: event_turn_value queue_created_value queue_deleted_value [OF assms] split: option.split bool.split)

theorem event_turn_panics_witness:
  "value_of (event_turn sample_env sample_conn sample_server (EvReceived \<lparr>ev_RoutingKey = ''queue.deleted'', ev_name = None\<rparr>)) world0 = Panicked
   \<and> value_of (event_turn (sample_env\<lparr>e_channel := \<lambda>_. Inl ''refused''\<rparr>) sample_conn sample_server
       (EvReceived (queue_event ''queue.created'' ''gw2.in''))) world0 = Panicked"
  unfolding event_turn_panics [OF sample_server_ok]
  by (auto simp: NewGatewayChannel_def NewAmqpReader_def NewChannelWithQueue_def value_bind Let_def)

text \<open>Once its context is cancelled, or the broker has closed the stream of events, the event loop spins: any number
  of turns returns at once, and has written no log line, called nothing and changed nothing.\<close>

theorem event_loop_spins:
  "run_state (ProcessExchangeEvents E db (map (\<lambda>cancelled. if cancelled then EvCtxDone else EvClosed) turns) s) w = (Returned s, w)"
  by (induction turns) (simp_all add: event_turn_def readExchangeEvent_def)

text \<open>C35: when a gateway that is already known is announced again, its channel is replaced without being closed and is lost: after
  this event and any others, no gateway maps to it, so no command, RPC call or shutdown
  reaches it, and it is as open as it was, with its reader still running.\<close>

theorem recreated_channel_lost:
  assumes "server_ok s" and "GetGatewayChannel s g = Some cp" and "gateway_event d = Some (True, g)"
    and "value_of (ProcessExchangeEvents E db (EvReceived d # sels) s) w = Returned s'"
  shows "sv_chans s' cp = sv_chans s cp \<and> channel_open (sv_chans s' cp) \<and> (\<forall>g'. GetGatewayChannel s' g' \<noteq> Some cp)"
proof -
  have run: "value_of (run_turns (event_turn E db) (EvReceived d # sels) s) w = Returned s'"
    using assms(4) unfolding ProcessExchangeEvents_run .
  then obtain s1 where s1: "value_of (event_turn E db s (EvReceived d)) w = Returned s1"
    by (auto simp: run_turns_Cons_value simp del: run_turns.simps split: outcome.splits)
  with run have rest: "value_of (run_turns (event_turn E db) sels s1) (world_after (event_turn E db s (EvReceived d)) w) = Returned s'"
    by (simp add: run_turns_Cons_value del: run_turns.simps)
  from s1 assms(3) obtain c where c: "s1 = server_with s g c"
    by (auto simp: event_turn_value queue_created_value split: if_splits option.splits)
  have fresh: "cp < sv_next s" "channel_open (sv_chans s cp)"
    using assms(1,2) by (auto simp: server_ok_def)
  have "server_ok s1 \<and> orphan cp s1"
    using event_turn_tracks [OF assms(1) s1] recreated_orphan [OF assms(1,2)] c by simp
  from orphans.run_refines [OF this rest] have "orphan cp s'" "sv_chans s' cp = sv_chans s1 cp"
    by (simp_all add: fold_same)
  with c fresh show ?thesis
    by (simp add: orphan_def)
qed

theorem recreated_channel_lost_witness:
  "\<exists>s' :: server. sv_chans s' 0 = sample_channel \<and> channel_open (sv_chans s' 0) \<and> GetGatewayChannel s' ''gw1'' \<noteq> Some 0"
proof -
  let ?d = "queue_event ''queue.created'' ''gw1.in''"
  obtain c where "value_of (event_turn sample_env sample_conn sample_server (EvReceived ?d)) world0 = Returned (server_with sample_server ''gw1'' c)"
    using sample_turns [of "''gw1''" sample_server world0] by auto
  then have "value_of (ProcessExchangeEvents sample_env sample_conn [EvReceived ?d] sample_server) world0 = Returned (server_with sample_server ''gw1'' c)"
    by (simp add: value_bind)
  from recreated_channel_lost [OF sample_server_ok _ _ this] show ?thesis
    by (metis sample_server_sel(1,3) sample_events(1))
qed

text \<open>C36: restarting asks every gateway that has an input queue, once and in the order of the management plugin's answer: unless
  it panics, it publishes to the gateway's own routing key the JSON of one restart message for
  it, whatever earlier publishing returned, and nothing else.\<close>

theorem restart_reaches_every_gateway:
  assumes "e_new_request E (queues_request m) = None" and "e_http E (hist w @ [HttpDo (queues_request m)]) = HttpReply 200 body"
    and "value_of (RestartGateways E m) w = Returned ()"
  shows "list_all2 restart_event (publishes (effects (RestartGateways E m) w)) (List.map_filter input_queue_of (decode_queues body))"
proof -
  let ?qs = "decode_queues body" and ?w = "w\<lparr>hist := hist w @ [HttpDo (queues_request m)]\<rparr>"
  let ?m = "State_Monad.bind (restart_queues E ?qs 0) restart_end"
  have split: "run_state (RestartGateways E m) w = run_state ?m ?w"
    using assms(1,2) by (simp add: RestartGateways_def restart_end_def [abs_def])
  obtain k where k: "value_of (restart_queues E ?qs 0) ?w = Returned k"
    using assms(3) split by (cases "value_of (restart_queues E ?qs 0) ?w") (auto simp: value_of_def split_beta restart_end_def)
  have "talks ?m"
    using mute_restart_end by (auto simp: mute_def intro!: talks_bind)
  then have "effects (RestartGateways E m) w = HttpDo (queues_request m) # effects ?m ?w"
    using split appends_hist [OF talks_appends, of ?m ?w] by (simp add: effects_def [of "RestartGateways E m"] world_after_def)
  moreover have "publishes (effects ?m ?w) = publishes (effects (restart_queues E ?qs 0) ?w)"
    using mute_restart_end by (simp add: effects_append talks_appends talks_restart_queues mute_def)
  ultimately show ?thesis
    using restart_queues_run [OF k] by simp
qed

text \<open>An answer of the management plugin.\<close>

definition sample_queues :: "amqp_Queue list" where
  "sample_queues = [\<lparr>q_Name = ''gw1.in''\<rparr>, \<lparr>q_Name = ''gw1.out''\<rparr>, \<lparr>q_Name = ''gw2.in''\<rparr>]"

definition queues_json :: json where
  "queues_json = JArr [JObj [(''name'', JStr ''gw1.in'')], JObj [(''name'', JStr ''gw1.out'')], JObj [(''name'', JStr ''gw2.in'')]]"

definition restart_env :: env where
  "restart_env = sample_env\<lparr>e_http := \<lambda>_. HttpReply 200 (Inr (render queues_json))\<rparr>"

lemma queues_decoded: "decode_queues (Inr (render queues_json)) = sample_queues"
proof -
  have "sanitize_json queues_json = queues_json"
    unfolding queues_json_def by (rule sanitize_json_valid) code_simp
  moreover have "snd (decode_slice queue_fields \<lparr>q_Name = []\<rparr>
      [JObj [(''name'', JStr ''gw1.in'')], JObj [(''name'', JStr ''gw1.out'')], JObj [(''name'', JStr ''gw2.in'')]] []) = sample_queues"
    by code_simp
  ultimately show ?thesis
    using parse_render(1) [of queues_json "2 * length (render queues_json) + 1" "[]"]
    by (simp add: decode_queues_def queues_json_def ends_value_def)
qed

lemma sample_queue_gateways: "List.map_filter input_queue_of sample_queues = [''gw1'', ''gw2'']"
  by code_simp

lemma restart_env_sel [simp]:
  "e_new_request restart_env req = None" "e_http restart_env es = HttpReply 200 (Inr (render queues_json))"
  "e_error restart_env es = None" "e_channel restart_env es = Inr 1"
  by (simp_all add: restart_env_def sample_env_def)

lemma sample_queue_restarts: "\<exists>b. value_of (restart_queue restart_env que) w = Returned b"
proof (cases "input_queue_of que")
  case (Some g)
  have "\<exists>wr. value_of (NewAmqpWriter restart_env g) v = Some wr \<and> cwq_Ch (aw_cwq wr) = Some 1" for v
    by (simp add: NewAmqpWriter_def NewChannelWithQueue_def value_bind)
  then obtain wr where "value_of (NewAmqpWriter restart_env g) (w\<lparr>hist := hist w @ [ClockRead]\<rparr>) = Some wr" "cwq_Ch (aw_cwq wr) = Some 1"
    by blast
  with Some restart_over_publishes(2) show ?thesis
    by (simp add: restart_queue_stages value_bind)
qed (auto simp: restart_queue_stages)

lemma sample_restart_returns: "value_of (RestartGateways restart_env m) w = Returned ()"
proof -
  have "\<exists>k. value_of (restart_queues restart_env qs n) v = Returned k" for qs n v
  proof (induction qs arbitrary: n v)
    case (Cons q qs)
    then show ?case using sample_queue_restarts [of q v] by (auto simp: value_bind)
  qed simp
  from this [of "decode_queues (Inr (render queues_json))" 0 "w\<lparr>hist := hist w @ [HttpDo (queues_request m)]\<rparr>"]
  show ?thesis by (auto simp: RestartGateways_def value_bind)
qed

theorem restart_reaches_every_gateway_witness:
  "list_all2 restart_event (publishes (effects (RestartGateways restart_env (sv_mgr sample_server)) (sample_world zero_IotMessage))) [''gw1'', ''gw2'']"
  using restart_reaches_every_gateway [OF _ _ sample_restart_returns, of _ _ "Inr (render queues_json)"]
  by (simp add: queues_decoded sample_queue_gateways)

text \<open>When the broker lists the input queue of some gateway but opens no channel, restarting the gateways panics, which ends the
  server: the missing writer is used all the same.\<close>

theorem restart_without_channel_panics:
  assumes "e_new_request E (queues_request m) = None" and "e_http E (hist w @ [HttpDo (queues_request m)]) = HttpReply 200 body"
    and "\<forall>es. \<exists>e. e_channel E es = Inl e" and "List.map_filter input_queue_of (decode_queues body) \<noteq> []"
  shows "value_of (RestartGateways E m) w = Panicked"
proof -
  obtain que g where "que \<in> set (decode_queues body)" "input_queue_of que = Some g"
    using assms(4) by (auto simp: List.map_filter_def filter_empty_conv)
  from no_channel_panics [OF assms(3) this] assms(1,2) show ?thesis
    by (simp add: RestartGateways_def value_bind)
qed

theorem restart_without_channel_panics_witness:
  "value_of (RestartGateways (restart_env\<lparr>e_channel := \<lambda>_. Inl ''refused''\<rparr>) (sv_mgr sample_server)) world0 = Panicked"
  by (rule restart_without_channel_panics [of _ _ _ "Inr (render queues_json)"]) (simp_all add: queues_decoded sample_queue_gateways)

end
