(* ===== verification/RestClaims.thy ===== *)
theory RestClaims
  imports ManagerClaims App
begin

text \<open>
  The REST handlers: what a command does to the server, which goroutines it starts, how it replies, and how it
  works together with the logic and the RPC calls of the gateways it names.
\<close>

section \<open>One command\<close>

definition known_targets :: "server \<Rightarrow> gateway_id list \<Rightarrow> gateway_id list" where
  "known_targets s ids = filter (\<lambda>g. GetGatewayChannel s g \<noteq> None) ids"

text \<open>The goroutine that a command starts for a known gateway.\<close>

definition command_goroutine :: "server \<Rightarrow> commandData \<Rightarrow> event \<Rightarrow> gateway_id \<Rightarrow> bool" where
  "command_goroutine s data e g \<longleftrightarrow> (\<exists>cp now r. GetGatewayChannel s g = Some cp \<and>
     e = (if cd_Command data = ''switch''
          then Go (RunTask (SendGatewayMessageTask (Some cp)) r (switch_message now data g))
          else Go (RunApplyLogic cp (recording_message now data g))))"

definition push_logic :: "commandData \<Rightarrow> GatewayChannel \<Rightarrow> GatewayChannel" where
  "push_logic data c = c\<lparr>gc_bl := map_option (SetPush (cd_Attribute data = ''on'')) (gc_bl c)\<rparr>"

definition gos :: "event list \<Rightarrow> event list" where
  "gos es = filter is_go es"

lemma gos_simps [simp]:
  "gos [] = []" "gos (e # es) = (if is_go e then e # gos es else gos es)" "gos (xs @ ys) = gos xs @ gos ys"
  by (simp_all add: gos_def)

text \<open>The server after the command for the gateway whose channel is at \<open>cp\<close>.\<close>

definition after_command :: "commandData \<Rightarrow> chan_ptr \<Rightarrow> server \<Rightarrow> server" where
  "after_command data cp s =
     (if cd_Command data = ''push'' then s\<lparr>sv_chans := (sv_chans s)(cp := push_logic data (sv_chans s cp))\<rparr> else s)"

lemma run_command_value: "value_of (run_command E data g cp s) w = after_command data cp s"
proof (cases "cd_Command data = ''push''")
  case True
  have "s\<lparr>sv_chans := (sv_chans s)(cp := push_logic data (sv_chans s cp))\<rparr> = s" if "gc_bl (sv_chans s cp) = None"
  proof -
    have "push_logic data (sv_chans s cp) = sv_chans s cp"
      using that by (simp add: push_logic_def)
    then show ?thesis by simp
  qed
  with True show ?thesis
    by (auto simp: run_command_def after_command_def GetLogic_def value_bind push_logic_def split: option.split)
qed (simp add: run_command_def after_command_def value_bind)

lemma run_command_gos:
  "gos (effects (run_command E data g cp s) w) =
     (if cd_Command data = ''switch'' then [Go (RunTask (SendGatewayMessageTask (Some cp)) (next_ref w)
          (switch_message (e_now E (hist w @ [ClockRead])) data g))]
      else if cd_Command data = ''setRecording'' then [Go (RunApplyLogic cp (recording_message (e_now E (hist w @ [ClockRead])) data g))]
      else [])"
  by (simp add: run_command_def effects_run split: option.split)

lemma appends_run_command [intro]: "appends (run_command E data g cp s)"
  unfolding run_command_def by (auto intro!: appends_bind split: option.split)

lemma appends_command_loop [intro]: "appends (command_loop E data ids b s)"
  by (induction E data ids b s rule: command_loop.induct) (auto intro!: appends_bind split: option.split)

lemma GetGatewayChannel_after [simp]: "GetGatewayChannel (after_command data cp s) g = GetGatewayChannel s g"
  by (simp add: after_command_def GetGatewayChannel_def)

lemma known_targets_after [simp]: "known_targets (after_command data cp s) ids = known_targets s ids"
  by (simp add: known_targets_def)

lemma command_goroutine_after [simp]: "command_goroutine (after_command data cp s) data e g = command_goroutine s data e g"
  by (simp add: command_goroutine_def)

section \<open>All gateways of a command\<close>

definition push_server :: "commandData \<Rightarrow> chan_ptr set \<Rightarrow> server \<Rightarrow> server" where
  "push_server data cps s =
     (if cd_Command data = ''push''
      then s\<lparr>sv_chans := \<lambda>cp. if cp \<in> cps then push_logic data (sv_chans s cp) else sv_chans s cp\<rparr> else s)"

lemma push_logic_idem [simp]: "push_logic data (push_logic data c) = push_logic data c"
  by (cases "gc_bl c") (simp_all add: push_logic_def SetPush_def)

lemma push_server_after: "push_server data cps (after_command data cp s) = push_server data (insert cp cps) s"
  by (auto simp: push_server_def after_command_def fun_eq_iff intro!: arg_cong [where f = "\<lambda>f. sv_chans_update (\<lambda>_. f) s"])

definition target_channels :: "server \<Rightarrow> gateway_id list \<Rightarrow> chan_ptr set" where
  "target_channels s ids = {cp. \<exists>g \<in> set ids. GetGatewayChannel s g = Some cp}"

lemma command_loop_value:
  "value_of (command_loop E data ids b s) w = (b \<or> known_targets s ids \<noteq> [], push_server data (target_channels s ids) s)"
proof (induction ids arbitrary: b s w)
  case Nil
  show ?case by (simp add: known_targets_def push_server_def target_channels_def)
next
  case (Cons g ids)
  show ?case
  proof (cases "GetGatewayChannel s g")
    case None
    then have "target_channels s (g # ids) = target_channels s ids"
      by (auto simp: target_channels_def)
    with None Cons show ?thesis by (simp add: value_bind known_targets_def)
  next
    case (Some cp)
    have "target_channels s (g # ids) = insert cp (target_channels s ids)"
      "target_channels (after_command data cp s) ids = target_channels s ids"
      using Some by (auto simp: target_channels_def)
    with Some Cons show ?thesis
      by (simp add: value_bind run_command_value push_server_after) (simp add: known_targets_def)
  qed
qed

lemma command_loop_gos:
  "cd_Command data \<in> {''switch'', ''setRecording''} \<Longrightarrow>
   list_all2 (command_goroutine s data) (gos (effects (command_loop E data ids b s) w)) (known_targets s ids)"
  "cd_Command data \<notin> {''switch'', ''setRecording''} \<Longrightarrow> gos (effects (command_loop E data ids b s) w) = []"
proof (induction ids arbitrary: b s w)
  case (Cons g ids)
  have warn: "gos (effects (State_Monad.bind (Warn t) (\<lambda>_. command_loop E data ids b s)) w) =
      gos (effects (command_loop E data ids b s) (world_after (Warn t) w))" for t b s w
    by (simp add: effects_append appends_command_loop) (simp add: effects_run)
  have run: "gos (effects (State_Monad.bind (run_command E data g cp s) (command_loop E data ids True)) w) =
      gos (effects (run_command E data g cp s) w) @
      gos (effects (command_loop E data ids True (after_command data cp s)) (world_after (run_command E data g cp s) w))" for cp s w
    by (simp add: effects_append appends_command_loop appends_run_command run_command_value)
  { case 1
    show ?case
    proof (cases "GetGatewayChannel s g")
      case None
      then show ?thesis
        using Cons.IH(1) [OF 1] by (simp add: warn known_targets_def)
    next
      case (Some cp)
      have "list_all2 (command_goroutine s data) (gos (effects (run_command E data g cp s) w)) [g]"
        using 1 Some by (auto simp: run_command_gos command_goroutine_def)
      moreover have "known_targets s (g # ids) = [g] @ known_targets s ids"
        using Some by (simp add: known_targets_def)
      ultimately show ?thesis
        using Some Cons.IH(1) [OF 1, of "after_command data cp s" True "world_after (run_command E data g cp s) w"]
        by (simp add: run list_all2_appendI del: append_Cons)
    qed }
  { case 2
    then show ?case
      using Cons.IH(2) by (cases "GetGatewayChannel s g") (simp_all add: warn run run_command_gos)
  }
qed (simp_all add: effects_run known_targets_def)

section \<open>The handler\<close>

lemma handleCommand_value:
  "value_of (handleCommand E s body) w =
     (case ShouldBindJSON body of
        Inl e \<Rightarrow> (JsonReply 400 (JObj [(''error'', JStr e)]), s)
      | Inr data \<Rightarrow>
          (if known_targets s (cd_GatewayIds data) = [] then TextReply 404 ''no gateways found'' else TextReply 200 ''OK'',
           push_server data (target_channels s (cd_GatewayIds data)) s))"
  by (simp add: handleCommand_def value_bind command_loop_value split: sum.split)

definition command_end :: "bool \<times> server \<Rightarrow> (rest_reply \<times> server) io" where
  "command_end = (\<lambda>(gwFound, s').
     if \<not> gwFound then do { Error ''no gateways found''; ret (TextReply 404 ''no gateways found'', s') }
     else ret (TextReply 200 ''OK'', s'))"

lemma talks_command_end: "talks (command_end x)"
  unfolding command_end_def by (cases x) (auto intro!: talks_intros)

lemma gos_talks: "talks m \<Longrightarrow> gos (effects m w) = []"
  using talks_effects(2) [of m w] by (auto simp: gos_def filter_empty_conv list_all_iff)

lemma handleCommand_gos:
  assumes "ShouldBindJSON body = Inr data"
  shows "\<exists>w'. gos (effects (handleCommand E s body) w) = gos (effects (command_loop E data (cd_GatewayIds data) False s) w')"
proof -
  have "handleCommand E s body = do { Debug ''Command data''; r \<leftarrow> command_loop E data (cd_GatewayIds data) False s; command_end r }"
    using assms by (simp add: handleCommand_def command_end_def)
  then have "gos (effects (handleCommand E s body) w) =
      gos (effects (Debug ''Command data'') w) @ gos (effects (command_loop E data (cd_GatewayIds data) False s) (world_after (Debug ''Command data'') w))"
    by (simp add: effects_append appends_bind appends_command_loop talks_appends talks_command_end gos_talks)
  then show ?thesis
    using gos_talks [of "Debug ''Command data''" w] by auto
qed

lemma handleCommand_starts:
  assumes "ShouldBindJSON body = Inr data" and "cd_Command data \<in> {''switch'', ''setRecording''}"
    and "g \<in> set (cd_GatewayIds data)" and "GetGatewayChannel s g = Some cp"
  obtains e where "e \<in> set (effects (handleCommand E s body) w)" and "command_goroutine s data e g"
proof -
  obtain v where v: "gos (effects (handleCommand E s body) w) = gos (effects (command_loop E data (cd_GatewayIds data) False s) v)"
    using handleCommand_gos [OF assms(1)] by blast
  have "list_all2 (command_goroutine s data) (gos (effects (handleCommand E s body) w)) (known_targets s (cd_GatewayIds data))"
    unfolding v by (rule command_loop_gos(1)) (rule assms(2))
  moreover have "g \<in> set (known_targets s (cd_GatewayIds data))"
    using assms(3,4) by (simp add: known_targets_def)
  ultimately obtain e where "e \<in> set (gos (effects (handleCommand E s body) w))" "command_goroutine s data e g"
    by (metis in_set_conv_nth list_all2_conv_all_nth)
  then show thesis
    by (intro that) (simp_all add: gos_def)
qed

section \<open>Applying the logic of a loaded channel\<close>

definition keep_logic :: "GatewayChannel \<Rightarrow> err option \<times> GatewayLogic \<Rightarrow> GatewayChannel outcome io" where
  "keep_logic c = (\<lambda>(err, bl'). do {
     (if err \<noteq> None then Error ''error processing message'' else ret ());
     ret (Returned (c\<lparr>gc_bl := Some bl'\<rparr>)) })"

lemma talks_keep_logic: "talks (keep_logic c x)"
  unfolding keep_logic_def by (cases x) (auto intro!: talks_intros)

lemma ApplyLogic_loaded_started:
  assumes "gc_bl c = Some bl"
  shows "started (effects (ApplyLogic E c m) w) = started (effects (Process E bl (Some (next_ref w))) (world_after (alloc m) w))"
proof -
  have "ApplyLogic E c m = do { r \<leftarrow> alloc m; x \<leftarrow> Process E bl (Some r); keep_logic c x }"
    using assms by (simp add: ApplyLogic_def process_loaded_def keep_logic_def)
  then have "started (effects (ApplyLogic E c m) w) =
      started (effects (alloc m) w) @ started (effects (Process E bl (Some (next_ref w))) (world_after (alloc m) w))"
    by (simp add: effects_append appends_bind appends_Process talks_appends talks_keep_logic quiet_parts)
  then show ?thesis by (simp add: effects_run)
qed

lemma appends_ApplyLogic [intro]: "appends (ApplyLogic E c m)"
proof (cases "gc_bl c")
  case None
  then show ?thesis
    using talks_appends [OF talks_CheckGatewayExistence]
    by (auto simp: ApplyLogic_stages intro!: appends_bind appends_load_then_process)
qed (auto simp: ApplyLogic_def intro!: appends_bind appends_process_loaded)

lemma appends_run_ApplyLogic [intro]: "appends (run_turns (ApplyLogic E) ms c)"
  by (induction ms arbitrary: c) (auto intro!: appends_bind appends_ApplyLogic split: outcome.split)

lemma channel_no_push:
  "gc_bl c = Some l \<Longrightarrow> \<not> usr_Push (gl_UserParams l) \<Longrightarrow>
   (SendPushNotificationTask, q) \<notin> set (started (effects (run_turns (ApplyLogic E) ms c) w))"
proof (induction ms arbitrary: c l w)
  case (Cons m ms)
  let ?l = "logic_after (Process E l (Some (next_ref w))) (world_after (alloc m) w)" and ?w = "world_after (ApplyLogic E c m) w"
  let ?c = "c\<lparr>gc_bl := Some ?l\<rparr>"
  have "appends (case res of Panicked \<Rightarrow> ret Panicked | Returned c' \<Rightarrow> run_turns (ApplyLogic E) ms c')" for res
    by (auto split: outcome.split)
  then have "started (effects (run_turns (ApplyLogic E) (m # ms) c) w) =
      started (effects (ApplyLogic E c m) w) @ started (effects (run_turns (ApplyLogic E) ms ?c) ?w)"
    using Cons.prems(1) by (simp add: effects_append appends_ApplyLogic ApplyLogic_loaded)
  moreover have "(SendPushNotificationTask, q) \<notin> set (started (effects (run_turns (ApplyLogic E) ms ?c) ?w))"
    by (rule Cons.IH [of _ ?l]) (simp, simp only: Process_push_switch Cons.prems(2) not_False_eq_True)
  ultimately show ?case
    using Process_push_started [OF Cons.prems(2)] by (simp add: ApplyLogic_loaded_started [OF Cons.prems(1)])
qed (simp add: effects_run)

section \<open>A configuration request that is answered\<close>

text \<open>While the caller waits, the reader takes the delivery that answers call \<open>k\<close> with message \<open>m\<close>.\<close>

definition answered :: "chan_ptr \<Rightarrow> IotMessage \<Rightarrow> string \<Rightarrow> GatewayChannel \<Rightarrow> (rpc_wait \<times> GatewayChannel) io" where
  "answered cp m k c = do {
     res \<leftarrow> reader_turn cp c (Received \<lparr>dl_CorrelationId = k, dl_Body = json_Marshal m\<rparr>);
     ret (case res of Returned (SendsDone k', c') \<Rightarrow> (DoneReceived, c') | Returned (flow, c') \<Rightarrow> (TimeElapsed, c')
          | Panicked \<Rightarrow> (TimeElapsed, c))
   }"

definition registered_answer :: "string \<Rightarrow> IotMessage \<Rightarrow> GatewayChannel \<Rightarrow> GatewayChannel" where
  "registered_answer k m c = (register_call k c)\<lparr>gc_rpcCalls := store_response k m (gc_rpcCalls (register_call k c))\<rparr>"

lemma answered_value:
  assumes "valid_text m" and "k \<noteq> []" and "\<not> gc_cancelled c"
  shows "value_of (answered cp m k (register_call k c)) w = (DoneReceived, registered_answer k m c)"
proof -
  have "response_in (Received \<lparr>dl_CorrelationId = k, dl_Body = json_Marshal m\<rparr>) = Some (k, m)"
    using assms(1,2) by (simp add: response_in_def json_roundtrip)
  moreover have "map_of (gc_rpcCalls (register_call k c)) k = Some \<lparr>call_closed = False, call_data = None\<rparr>"
    by (simp add: register_call_def)
  moreover have "\<not> gc_cancelled (register_call k c)"
    using assms(3) by (simp add: register_call_def)
  ultimately show ?thesis
    by (simp add: answered_def value_bind reader_turn_value turn_result_def registered_answer_def)
qed

lemma mute_ReadEnvelope: "mute (ReadEnvelope sel)"
  unfolding ReadEnvelope_def PrintMessage_def Let_def
  by (cases sel) (auto intro!: mute_intros split: prod.split)

lemma answered_publishes:
  assumes "valid_text m" and "k \<noteq> []" and "\<not> gc_cancelled c"
  shows "publishes (effects (answered cp m k (register_call k c)) w) = []" and "appends (answered cp m k c')"
proof -
  show "publishes (effects (answered cp m k (register_call k c)) w) = []"
    using assms by (simp add: answered_def reader_turn_def register_call_def ReadEnvelope_def copy_bytes_all json_roundtrip
        PrintMessage_def effects_run Let_def)
  have "appends (ReadEnvelope sel)" for sel
    using mute_ReadEnvelope [of sel] by (auto simp: mute_def intro: talks_appends)
  then have "appends (reader_turn cp c' sel)" for sel
    unfolding reader_turn_def Let_def
    by (auto intro!: appends_bind split: prod.split option.split)
  then show "appends (answered cp m k c')"
    unfolding answered_def by (auto intro!: appends_bind)
qed

lemma store_response_absent: "k \<notin> fst ` set calls \<Longrightarrow> store_response k m calls = calls"
  unfolding store_response_def by (rule map_idI) force

lemma DoRPC_end_answered:
  "DoRPC_end k DoneReceived (registered_answer k m c) = (Inr (Some m), release_call k c)"
proof -
  let ?rest = "filter (\<lambda>(k', _). k' \<noteq> k) (gc_rpcCalls c)"
  have "store_response k m ((k, call) # ?rest) = (k, call\<lparr>call_data := Some m\<rparr>) # ?rest" for call
  proof -
    have "k \<notin> fst ` set ?rest" by auto
    from store_response_absent [OF this, of m] show ?thesis
      by (simp add: store_response_def)
  qed
  then show ?thesis
    by (simp add: DoRPC_end_def registered_answer_def register_call_def release_call_def Let_def)
qed

section \<open>Samples\<close>

definition command_json :: "string \<Rightarrow> string \<Rightarrow> json" where
  "command_json cmd attr = JObj [(''command'', JStr cmd), (''attribute'', JStr attr),
     (''gatewayIds'', JArr [JStr ''gw1'']), (''deviceId'', JStr ''cam1''), (''vip'', JBool True)]"

definition sample_command :: "string \<Rightarrow> string \<Rightarrow> commandData" where
  "sample_command cmd attr = zero_commandData\<lparr>cd_Command := cmd, cd_Attribute := attr, cd_GatewayIds := [''gw1''],
     cd_DeviceID := ''cam1'', cd_Vip := True\<rparr>"

lemma ShouldBindJSON_render:
  assumes "nat_numbers j" and "list_all valid_utf8 (json_strings j)"
    and "decode_struct commandData_fields j zero_commandData = (None, d)"
  shows "ShouldBindJSON (render j) = Inr d"
  using parse_render(1) [OF assms(1), of "2 * length (render j) + 1" "[]"] sanitize_json_valid [OF assms(2)] assms(3)
  by (simp add: ShouldBindJSON_def ends_value_def)

lemma command_decoded:
  "decode_struct commandData_fields (command_json cmd attr) zero_commandData = (None, sample_command cmd attr)"
  by (simp add: decode_struct_def command_json_def commandData_fields_def find_field_def first_error_def sample_command_def)

lemma sample_bodies:
  "ShouldBindJSON (render (command_json ''push'' ''off'')) = Inr (sample_command ''push'' ''off'')"
  "ShouldBindJSON (render (command_json ''setRecording'' ''continuous'')) = Inr (sample_command ''setRecording'' ''continuous'')"
  "ShouldBindJSON (render (command_json ''switch'' ''on'')) = Inr (sample_command ''switch'' ''on'')"
  by (rule ShouldBindJSON_render, simp_all add: command_decoded, simp add: command_json_def, simp add: command_json_def, code_simp)+

lemma sample_command_sel [simp]:
  "cd_Command (sample_command cmd attr) = cmd" "cd_Attribute (sample_command cmd attr) = attr"
  "cd_GatewayIds (sample_command cmd attr) = [''gw1'']" "cd_DeviceID (sample_command cmd attr) = ''cam1''"
  by (simp_all add: sample_command_def)

definition loaded_server :: server where
  "loaded_server = sample_server\<lparr>sv_chans := \<lambda>_. sample_channel\<lparr>gc_bl := Some sample_logic\<rparr>\<rparr>"

lemma loaded_server_sel [simp]:
  "GetGatewayChannel loaded_server g = GetGatewayChannel sample_server g"
  "sv_chans loaded_server cp = sample_channel\<lparr>gc_bl := Some sample_logic\<rparr>"
  by (simp_all add: loaded_server_def GetGatewayChannel_def)

section \<open>Properties\<close>

text \<open>C38: the reply to a command and what it does to the server: a body that is no command gives 400 and changes
  nothing; otherwise the reply is 404 when none of the named gateways is known and 200 when one is, and the server stays as it
  is, except that a push command sets the push switch in the loaded logic of exactly the channels named.\<close>

theorem command_reply:
  "value_of (handleCommand E s body) w =
     (case ShouldBindJSON body of
        Inl e \<Rightarrow> (JsonReply 400 (JObj [(''error'', JStr e)]), s)
      | Inr data \<Rightarrow>
          (if \<forall>g \<in> set (cd_GatewayIds data). g \<notin> known_gateways s then TextReply 404 ''no gateways found'' else TextReply 200 ''OK'',
           push_server data (target_channels s (cd_GatewayIds data)) s))"
  by (simp add: handleCommand_value known_targets_def known_gateways_def filter_empty_conv split: sum.split)

theorem command_reply_witness:
  "fst (value_of (handleCommand sample_env loaded_server (render (command_json ''push'' ''off''))) world0) = TextReply 200 ''OK''
   \<and> fst (value_of (handleCommand sample_env (loaded_server\<lparr>sv_mgr := NewManager [] [] [] [] [] 0 0\<rparr>) (render (command_json ''push'' ''off''))) world0)
      = TextReply 404 ''no gateways found''"
  unfolding command_reply
  by (simp add: sample_bodies known_gateways_def) (simp add: GetGatewayChannel_def ChannelsMap_Get_def NewManager_def NewGatewayChannelsMap_def)

text \<open>C24: a push command that switches pushes off is obeyed: after it, no sequence of messages makes the channel of a named gateway
  whose logic is loaded start a push notification.\<close>

theorem push_off_obeyed:
  assumes "ShouldBindJSON body = Inr data" and "cd_Command data = ''push''" and "cd_Attribute data \<noteq> ''on''"
    and "g \<in> set (cd_GatewayIds data)" and "GetGatewayChannel s g = Some cp" and "gc_bl (sv_chans s cp) = Some l"
    and "s' = snd (value_of (handleCommand E s body) w)"
  shows "(SendPushNotificationTask, q) \<notin> set (started (effects (run_turns (ApplyLogic E) ms (sv_chans s' cp)) w'))"
proof -
  have "cp \<in> target_channels s (cd_GatewayIds data)"
    using assms(4,5) by (auto simp: target_channels_def)
  then have "sv_chans s' cp = push_logic data (sv_chans s cp)"
    using assms by (simp add: handleCommand_value push_server_def)
  with assms(3,6) have "gc_bl (sv_chans s' cp) = Some (SetPush False l)"
    by (simp add: push_logic_def)
  then show ?thesis
    by (rule channel_no_push) (simp add: SetPush_def)
qed

theorem push_off_obeyed_witness:
  "(SendPushNotificationTask, zero_IotMessage) \<notin> set (started (effects (run_turns (ApplyLogic sample_env) [smoke_event, motion_event]
     (sv_chans (snd (value_of (handleCommand sample_env loaded_server (render (command_json ''push'' ''off''))) world0)) 0)) world0))"
  by (rule push_off_obeyed [OF sample_bodies(1), of "''gw1''" _ _ sample_logic]) simp_all

text \<open>The user with the tariff, the money and the status of a command, and what the message of a \<open>setRecording\<close> command starts.\<close>

definition commanded_user :: "commandData \<Rightarrow> UserLogicParams \<Rightarrow> UserLogicParams" where
  "commanded_user data u = u\<lparr>usr_TarifId := cd_TariffID data, usr_Money := cd_Money data, usr_Vip := cd_Vip data,
     usr_LegalEntity := cd_LegalEntity data\<rparr>"

lemma recording_message_started:
  assumes "cd_Command data = ''setRecording''" and "gc_bl c = Some l \<and> getCameraLogicParams l (cd_DeviceID data) = Inr p"
  shows "if usr_Blocked (gl_UserParams l) then started (effects (ApplyLogic E c (recording_message now data g)) w') = []
     else \<exists>t. started (effects (ApplyLogic E c (recording_message now data g)) w') =
       (case recording_order (RecordingMode p) (ConvertRecordingMode (cd_Attribute data)) (usr_TarifId (gl_UserParams l))
               (commanded_user data (gl_UserParams l)) of
          None \<Rightarrow> [] | Some on \<Rightarrow> [(RecordMediaStreamTask, ToMessage t p on)])"
proof -
  let ?m = "recording_message now data g" and ?w = "world_after (alloc (recording_message now data g)) w'"
  have loaded: "gc_bl c = Some l" and p: "getCameraLogicParams l (cd_DeviceID data) = Inr p"
    using assms(2) by simp_all
  have m: "DeviceId ?m = cd_DeviceID data" "MessageType ?m = ''command''" "Command ?m = ''setRecording''"
    "Attribute ?m = cd_Attribute data" "command_user ?m (gl_UserParams l) = commanded_user data (gl_UserParams l)"
    by (simp_all add: recording_message_def assms(1) command_user_def commanded_user_def CreateCloudIotMessage_def)
  have h: "heap ?w (next_ref w') = ?m"
    by (simp add: world_after_def)
  note run = ApplyLogic_loaded_started [OF loaded, of E ?m w']
  show ?thesis
  proof (cases "usr_Blocked (gl_UserParams l)")
    case True
    then show ?thesis by (simp add: run Process_blocked)
  next
    case False
    then have "started (effects (ApplyLogic E c ?m) w') = started (effects (processCameraCommand E l (next_ref w')) ?w)"
      using m(2) h by (simp add: run Process_effects)
    then show ?thesis
      using processCameraCommand_effects(2) [OF h, of l p] p m False
      by (auto simp: started_sendRecording split: option.split)
  qed
qed

text \<open>C11: a \<open>setRecording\<close> command over REST reaches the recorder: for every known gateway it names, a goroutine applies the
  channel's logic to a message made from the body; when the logic is loaded and knows the camera, that starts
  nothing for a blocked owner, and otherwise exactly the recorder
  task of the reference rule, for the tariff, money and status that the body gives the user.\<close>

theorem recording_command_obeyed:
  assumes "ShouldBindJSON body = Inr data" and "cd_Command data = ''setRecording''"
    and "g \<in> set (cd_GatewayIds data)" and "GetGatewayChannel s g = Some cp"
  shows "\<exists>m. Go (RunApplyLogic cp m) \<in> set (effects (handleCommand E s body) w)
    \<and> (\<forall>l p w'. gc_bl (sv_chans s cp) = Some l \<and> getCameraLogicParams l (cd_DeviceID data) = Inr p \<longrightarrow>
        (if usr_Blocked (gl_UserParams l) then started (effects (ApplyLogic E (sv_chans s cp) m) w') = []
         else \<exists>now. started (effects (ApplyLogic E (sv_chans s cp) m) w') =
           (case recording_order (RecordingMode p) (ConvertRecordingMode (cd_Attribute data)) (usr_TarifId (gl_UserParams l))
                   (commanded_user data (gl_UserParams l)) of
              None \<Rightarrow> []
            | Some on \<Rightarrow> [(RecordMediaStreamTask, ToMessage now p on)])))"
proof -
  obtain e0 where "e0 \<in> set (effects (handleCommand E s body) w)" "command_goroutine s data e0 g"
    by (rule handleCommand_starts [OF assms(1) _ assms(3,4)]) (simp add: assms(2))
  then obtain now where e: "Go (RunApplyLogic cp (recording_message now data g)) \<in> set (effects (handleCommand E s body) w)"
    using assms(2,4) by (auto simp: command_goroutine_def)
  then show ?thesis
    using recording_message_started [OF assms(2)] by blast
qed

theorem recording_command_obeyed_witness:
  "\<exists>m. Go (RunApplyLogic 0 m) \<in> set (effects (handleCommand sample_env loaded_server (render (command_json ''setRecording'' ''continuous''))) world0)
     \<and> (\<exists>now. started (effects (ApplyLogic sample_env (sv_chans loaded_server 0) m) world0) = [(RecordMediaStreamTask, ToMessage now sample_camera True)])"
proof -
  let ?d = "sample_command ''setRecording'' ''continuous''"
  have "recording_order (RecordingMode sample_camera) (ConvertRecordingMode ''continuous'') (usr_TarifId sample_user) (commanded_user ?d sample_user) = Some True"
    by code_simp
  moreover have "gl_UserParams sample_logic = sample_user"
    by (simp add: sample_logic_def)
  ultimately show ?thesis
    using recording_command_obeyed [OF sample_bodies(2), of "''gw1''" loaded_server 0 sample_env world0]
    by (fastforce simp: sample_user_def)
qed

text \<open>C12: a \<open>switch\<close> command over REST reaches the gateway: for every known gateway it names, a goroutine runs the send
  task on that gateway's channel, and the only thing the task does to the outside is to publish, once and under the
  gateway's own routing key, the JSON of a switch message with the device, the command and the attribute of the body.\<close>

theorem switch_command_obeyed:
  assumes "ShouldBindJSON body = Inr data" and "cd_Command data = ''switch''"
    and "g \<in> set (cd_GatewayIds data)" and "g \<noteq> []" and "GetGatewayChannel s g = Some cp"
    and "cwq_Ch (aw_cwq (gc_in (sv_chans s cp))) = Some ch"
  shows "\<exists>m r. Go (RunTask (SendGatewayMessageTask (Some cp)) r m) \<in> set (effects (handleCommand E s body) w)
    \<and> GatewayId m = g \<and> DeviceId m = cd_DeviceID data \<and> MessageType m = ''command''
    \<and> Command m = ''switch'' \<and> Attribute m = cd_Attribute data
    \<and> externals (effects (SendGatewayMessageTask_Run (Some (GatewayChannel_Write E (sv_chans s cp))) (Some m)) w') =
        [Amqp (Publish ch exchangeName (aw_routingKey (gc_in (sv_chans s cp)))
          \<lparr>pub_ContentType = ''application/json'', pub_CorrelationId = [], pub_ReplyTo = [], pub_Body = json_Marshal m\<rparr>)]"
proof -
  obtain e where "e \<in> set (effects (handleCommand E s body) w)" "command_goroutine s data e g"
    by (rule handleCommand_starts [OF assms(1) _ assms(3,5)]) (simp add: assms(2))
  then obtain r now where e: "Go (RunTask (SendGatewayMessageTask (Some cp)) r (switch_message now data g)) \<in> set (effects (handleCommand E s body) w)"
    using assms(2,5) by (auto simp: command_goroutine_def)
  let ?m = "switch_message now data g"
  have m: "GatewayId ?m = g" "DeviceId ?m = cd_DeviceID data" "MessageType ?m = ''command''" "Command ?m = ''switch''"
    "Attribute ?m = cd_Attribute data"
    by (simp_all add: switch_message_def CreateCloudIotMessage_def assms(2))
  have "externals (effects (SendGatewayMessageTask_Run (Some (GatewayChannel_Write E (sv_chans s cp))) (Some ?m)) w') =
      [Amqp (Publish ch exchangeName (aw_routingKey (gc_in (sv_chans s cp)))
        \<lparr>pub_ContentType = ''application/json'', pub_CorrelationId = [], pub_ReplyTo = [], pub_Body = json_Marshal ?m\<rparr>)]"
    using assms(4,6) m(1)
    by (simp add: SendGatewayMessageTask_Run_def GatewayChannel_Write_def AmqpWriter_Write_def effects_run Let_def split: option.split)
  with e m show ?thesis by blast
qed

theorem switch_command_obeyed_witness:
  "\<exists>m r. Go (RunTask (SendGatewayMessageTask (Some 0)) r m) \<in>
       set (effects (handleCommand sample_env loaded_server (render (command_json ''switch'' ''on''))) world0)
     \<and> GatewayId m = ''gw1'' \<and> DeviceId m = ''cam1'' \<and> Attribute m = ''on''"
proof -
  obtain ch where "cwq_Ch (aw_cwq (gc_in (sv_chans loaded_server 0))) = Some ch"
    using sample_channel_open by (auto simp: channel_open_def)
  from switch_command_obeyed [OF sample_bodies(3), of "''gw1''" loaded_server 0 ch sample_env world0 world0] this
  show ?thesis by simp blast
qed

text \<open>C17: asking a gateway for its configuration works end to end: the request is published once, to the gateway's own routing
  key and under a fresh correlation id; when the reader receives the gateway's answer under that id while the handler waits, the
  reply is 200 with exactly that message, and the call leaves no entry behind.\<close>

theorem configure_returns_answer:
  assumes "GetGatewayChannel s g = Some cp" and "channel_open (sv_chans s cp)" and "valid_text m"
    and "k = e_uuid E (hist w @ [LogLine DebugLevel ''Getting gateway configure'', ClockRead, UuidNew])" and "k \<noteq> []"
    and "\<forall>es. e_error E es = None"
  shows "value_of (handleGatewayConfigure E (answered cp m) s g) w =
      (JsonReply 200 (encode_IotMessage m), s\<lparr>sv_chans := (sv_chans s)(cp := release_call k (sv_chans s cp))\<rparr>)
    \<and> (\<exists>ch now. publishes (effects (handleGatewayConfigure E (answered cp m) s g) w) =
         [Amqp (Publish ch exchangeName (aw_routingKey (gc_in (sv_chans s cp)))
           \<lparr>pub_ContentType = ''application/json'', pub_CorrelationId = k, pub_ReplyTo = gc_gatewayID (sv_chans s cp) @ ''.out'',
            pub_Body = json_Marshal (configure_request now g)\<rparr>)])"
proof -
  let ?c = "sv_chans s cp" and ?now = "e_now E (hist w @ [LogLine DebugLevel ''Getting gateway configure'', ClockRead])"
  let ?req = "configure_request ?now g"
  obtain ch where ch: "cwq_Ch (aw_cwq (gc_in ?c)) = Some ch" and live: "\<not> gc_cancelled ?c"
    using assms(2) by (auto simp: channel_open_def)
  let ?pub = "Amqp (Publish ch exchangeName (aw_routingKey (gc_in ?c))
     \<lparr>pub_ContentType = ''application/json'', pub_CorrelationId = k, pub_ReplyTo = gc_gatewayID ?c @ ''.out'', pub_Body = json_Marshal ?req\<rparr>)"
  let ?w2 = "w\<lparr>hist := hist w @ [LogLine DebugLevel ''Getting gateway configure'', ClockRead]\<rparr>"
  let ?w4 = "?w2\<lparr>hist := hist ?w2 @ [UuidNew, ?pub]\<rparr>"
  have start: "run_state (DoRPC_begin E ?c ?req) ?w2 = (Inr (k, register_call k ?c), ?w4)"
    using assms(4,6) ch by (simp add: DoRPC_begin_def CreateCorrelationID_def WriteEnvelope_def rpc_envelope_def)
  obtain v where wait: "run_state (answered cp m k (register_call k ?c)) ?w4 = ((DoneReceived, registered_answer k m ?c), v)"
    using answered_value [OF assms(3,5) live, of cp ?w4] by (cases "run_state (answered cp m k (register_call k ?c)) ?w4") (simp add: value_of_def)
  have rpc: "run_state (DoRPC E (answered cp m) ?c ?req) ?w2 = ((Inr (Some m), release_call k ?c), v)"
    using start wait by (simp add: DoRPC_def DoRPC_end_answered)
  have whole: "run_state (handleGatewayConfigure E (answered cp m) s g) w =
      ((JsonReply 200 (encode_IotMessage m), s\<lparr>sv_chans := (sv_chans s)(cp := release_call k ?c)\<rparr>), v)"
    using rpc assms(1) by (simp add: handleGatewayConfigure_def DoGatewayRPC_def GetGatewayChannel_def Let_def)
  have "hist v = hist ?w4 @ effects (answered cp m k (register_call k ?c)) ?w4"
    using appends_hist [OF answered_publishes(2) [OF assms(3,5) live], of cp "register_call k ?c" ?w4] wait by (simp add: world_after_def)
  then have "effects (handleGatewayConfigure E (answered cp m) s g) w =
      [LogLine DebugLevel ''Getting gateway configure'', ClockRead, UuidNew, ?pub] @ effects (answered cp m k (register_call k ?c)) ?w4"
    using whole by (simp add: effects_def [of "handleGatewayConfigure E (answered cp m) s g"] world_after_def)
  then have "publishes (effects (handleGatewayConfigure E (answered cp m) s g) w) = [?pub]"
    using answered_publishes(1) [OF assms(3,5) live] by simp
  with whole show ?thesis
    by (auto simp: value_of_def)
qed

theorem configure_returns_answer_witness:
  "fst (value_of (handleGatewayConfigure sample_env (answered 0 config_reply) sample_server ''gw1'') world0) =
     JsonReply 200 (encode_IotMessage config_reply)"
proof -
  have "e_error sample_env es = None" "e_uuid sample_env es = ''6ba7b810-9dad-11d1-80b4-00c04fd430c8''" for es
    by (simp_all add: sample_env_def)
  then show ?thesis
    using configure_returns_answer [of sample_server "''gw1''" 0 config_reply _ sample_env world0] sample_channel_open config_reply_valid
    by simp
qed

end
