(* ===== verification/AppClaims.thy ===== *)
theory AppClaims
  imports RestClaims
begin

text \<open>
  The life of the server: a start that succeeds leaves it ready for the events of the broker, and whatever they
  were, the shutdown returns and takes the gateways it knows offline.
\<close>

section \<open>Starting\<close>

definition fresh_server :: "Manager \<Rightarrow> (chan_ptr \<Rightarrow> GatewayChannel) \<Rightarrow> server" where
  "fresh_server m store = \<lparr>sv_mgr = m, sv_chans = store, sv_next = 0\<rparr>"

lemma EventExchangeInit_ok:
  "value_of (EventExchangeInit E m) w = (None, m') \<Longrightarrow>
   mg_Conn m' \<and> mg_Ch m' = mg_Ch m \<and> mg_Ch m' \<noteq> None \<and> mg_evChan m' \<and> mg_gwChans m' = mg_gwChans m"
  by (auto simp: EventExchangeInit_def value_bind Let_def split: if_splits option.splits sum.splits bool.splits)

lemma Manager_Open_ok:
  "value_of (Manager_Open E m) w = (None, m') \<Longrightarrow> mg_Conn m' \<and> mg_Ch m' \<noteq> None \<and> mg_gwChans m' = mg_gwChans m"
  by (auto simp: Manager_Open_def value_bind Let_def split: option.splits sum.splits)

lemma Connection_Init_ok: "value_of (Connection_Init E c) w = (None, c') \<Longrightarrow> Db c'"
  by (auto simp: Connection_Init_def value_bind split: option.splits)

lemma value_Fatal: "value_of (Fatal s) w = FatalExit"
  by (simp add: Fatal_def value_bind)

lemma main_start_running:
  assumes "value_of (main_start E) w = Running (conn, m, restAPI)"
  shows "Db conn \<and> mg_Conn m \<and> mg_Ch m \<noteq> None \<and> mg_evChan m \<and> mg_gwChans m = NewGatewayChannelsMap"
proof -
  have new: "mg_gwChans (config_manager E) = NewGatewayChannelsMap"
    by (simp add: config_manager_def NewManager_def)
  from assms show ?thesis
    by (auto simp: main_start_def value_bind value_Fatal split: prod.splits option.splits outcome.splits
        dest!: Connection_Init_ok Manager_Open_ok EventExchangeInit_ok simp: new)
qed

text \<open>The last things a successful start does.\<close>

definition started_up :: "event list" where
  "started_up = [Go RunEventLoop, Go RunRestServer, SignalNotify, LogLine InfoLevel ''Application started. Press Ctrl+C to exit...'']"

lemma main_start_last:
  "run_state (main_start E) w = (Running x, w1) \<Longrightarrow> \<exists>es. hist w1 = es @ started_up"
  by (auto simp: main_start_def Fatal_def started_up_def split_beta split: prod.splits option.splits outcome.splits)

section \<open>Stopping\<close>

lemma event_turn_keeps_broker:
  assumes "server_ok s" and "value_of (event_turn E db s sel) w = Returned s'"
  shows "server_ok s' \<and> mg_Ch (sv_mgr s') = mg_Ch (sv_mgr s)"
proof -
  have "mg_Ch (sv_mgr s') = mg_Ch (sv_mgr s)"
    using assms by (cases rule: event_turn_cases) (simp_all add: server_with_def server_without_def)
  then show ?thesis
    using event_turn_tracks [OF assms] by simp
qed

interpretation broker_kept: turn_loop "event_turn E db" server_ok "\<lambda>s. mg_Ch (sv_mgr s)" "\<lambda>sel ch. ch" for E db
  by unfold_locales (rule event_turn_keeps_broker)

definition stop_rest :: "env \<Rightarrow> err option \<Rightarrow> Connection \<Rightarrow> (err option \<times> server) \<Rightarrow> server outcome io" where
  "stop_rest E rest_stop conn = (\<lambda>(err, s'). do {
     (if err \<noteq> None then Error ''error while closing connection'' else ret ());
     (if rest_stop \<noteq> None then Error ''could not stop RESTful API server'' else ret ());
     db \<leftarrow> Connection_Close E conn;
     (case db of
        Panicked \<Rightarrow> ret Panicked
      | Returned err \<Rightarrow> do {
          (if err \<noteq> None then Error ''failed closing database connection'' else ret ());
          Info ''Application exited properly'';
          ret (Returned s')
        })
   })"

lemma main_stop_stages:
  "main_stop E restAPI shutdown conn s = do {
     closed \<leftarrow> Manager_Close E s;
     (case closed of Panicked \<Rightarrow> ret Panicked | Returned x \<Rightarrow> stop_rest E (Server_Stop restAPI shutdown) conn x)
   }"
  by (simp add: main_stop_def stop_rest_def cong: outcome.case_cong)

lemma stop_rest_facts:
  "talks (stop_rest E rest_stop conn x)"
  "Db conn \<Longrightarrow> value_of (stop_rest E rest_stop conn (err, s)) w = Returned s"
  by (auto simp: stop_rest_def Connection_Close_def value_bind intro!: talks_intros split: prod.split)

lemma appends_Manager_Close: "appends (Manager_Close E s)"
  unfolding Manager_Close_stages
  by (intro appends_bind appends_close_channels) (auto split: outcome.split intro: talks_appends close_broker_facts(1))

lemma main_stop_run:
  assumes "server_ok s" and "mg_Ch (sv_mgr s) \<noteq> None" and "Db conn"
  shows "\<exists>s'. value_of (main_stop E restAPI shutdown conn s) w = Returned s'"
    and "list_all2 offline (started (effects (main_stop E restAPI shutdown conn s) w)) (map fst (mg_gwChans (sv_mgr s)))"
proof -
  obtain err s' where close: "value_of (Manager_Close E s) w = Returned (err, s')"
    using Manager_Close_run(1) [OF assms(1,2)] by blast
  then show "\<exists>s'. value_of (main_stop E restAPI shutdown conn s) w = Returned s'"
    by (simp add: main_stop_stages value_bind stop_rest_facts(2) [OF assms(3)])
  have "talks (case r of Panicked \<Rightarrow> ret Panicked | Returned x \<Rightarrow> stop_rest E (Server_Stop restAPI shutdown) conn x)" for r
    by (cases r) (auto intro: stop_rest_facts(1))
  then have "started (effects (main_stop E restAPI shutdown conn s) w) = started (effects (Manager_Close E s) w)"
    by (simp add: main_stop_stages effects_append appends_Manager_Close talks_appends quiet_parts)
  then show "list_all2 offline (started (effects (main_stop E restAPI shutdown conn s) w)) (map fst (mg_gwChans (sv_mgr s)))"
    using Manager_Close_run(2) [OF assms(1,2)] by simp
qed

lemma appends_main_stop: "appends (main_stop E restAPI shutdown conn s)"
  unfolding main_stop_stages
  by (intro appends_bind appends_Manager_Close) (auto split: outcome.split intro: talks_appends stop_rest_facts(1))

definition exited :: event where
  "exited = LogLine InfoLevel ''Application exited properly''"

lemma stop_rest_last:
  "Db conn \<Longrightarrow> \<exists>es. effects (stop_rest E rest_stop conn (err, s)) w = es @ [exited]"
  by (simp add: effects_run stop_rest_def Connection_Close_def exited_def)

lemma main_stop_last:
  assumes "server_ok s" and "mg_Ch (sv_mgr s) \<noteq> None" and "Db conn"
  shows "\<exists>es. effects (main_stop E restAPI shutdown conn s) w = es @ [exited]"
proof -
  obtain err s' where "value_of (Manager_Close E s) w = Returned (err, s')"
    using Manager_Close_run(1) [OF assms(1,2)] by blast
  moreover have "appends (case r of Panicked \<Rightarrow> ret Panicked | Returned x \<Rightarrow> stop_rest E (Server_Stop restAPI shutdown) conn x)" for r
    by (cases r) (auto intro: talks_appends stop_rest_facts(1))
  ultimately have "effects (main_stop E restAPI shutdown conn s) w = effects (Manager_Close E s) w @
      effects (stop_rest E (Server_Stop restAPI shutdown) conn (err, s')) (world_after (Manager_Close E s) w)"
    by (simp add: main_stop_stages effects_append appends_Manager_Close)
  with stop_rest_last [OF assms(3)] show ?thesis by (metis append.assoc)
qed

text \<open>In the sample environment the server starts.\<close>

lemma sample_start: "\<exists>conn m. value_of (main_start restart_env) w = Running (conn, m, NewServer restart_env)"
proof -
  have queue: "e_queue restart_env es = Inr ''queue''" for es
    by (simp add: restart_env_def sample_env_def)
  show ?thesis
    by (simp add: main_start_def Connection_Init_def Manager_Open_def EventExchangeInit_def queue value_bind
        sample_restart_returns Let_def)
qed

section \<open>The whole of main\<close>

lemma value_of_run: "run_state m w = (x, w') \<Longrightarrow> value_of m w = x"
  by (simp add: value_of_def)

lemma main_stages:
  assumes "run_state (main_start E) w = (Running (conn, m, restAPI), w1)"
    and "run_state (ProcessExchangeEvents E (Some conn) sels (fresh_server m store)) w1 = (Returned s, w2)"
  shows "run_state (main E store sels ErrServerClosed wake shutdown) w =
    (case run_state (main_stop E (snd (Server_Start E restAPI ErrServerClosed)) shutdown conn s) (world_after (main_wait wake) w2) of
       (Returned s', w3) \<Rightarrow> (Running s', w3) | (Panicked, w3) \<Rightarrow> (Crashed, w3))"
  using assms
  by (simp add: main_def rest_goroutine_def Server_Start_def fresh_server_def world_after_def split_beta
      del: ProcessExchangeEvents.simps split: outcome.split)

lemma main_wait_facts: "talks (main_wait wake)"
  unfolding main_wait_def by (cases wake) (auto intro!: talks_intros)

lemma main_tail:
  assumes start: "run_state (main_start E) w = (Running (conn, m, restAPI), w1)"
    and loop: "run_state (ProcessExchangeEvents E (Some conn) sels (fresh_server m store)) w1 = (Returned s, w2)"
    and ok: "server_ok s" "mg_Ch (sv_mgr s) \<noteq> None"
  shows "\<exists>s' w3 es gs. run_state (main E store sels ErrServerClosed wake shutdown) w = (Running s', w3)
    \<and> hist w3 = hist w2 @ es @ [exited] \<and> distinct gs \<and> set gs = known_gateways s \<and> list_all2 offline (started es) gs"
proof -
  let ?api = "snd (Server_Start E restAPI ErrServerClosed)" and ?wait = "world_after (main_wait wake) w2"
  let ?stop = "main_stop E ?api shutdown conn s"
  have db: "Db conn"
    using main_start_running [OF value_of_run [OF start]] by simp
  obtain s' where stop: "value_of ?stop ?wait = Returned s'"
    using main_stop_run(1) [OF ok db] by blast
  let ?w3 = "world_after ?stop ?wait"
  have whole: "run_state (main E store sels ErrServerClosed wake shutdown) w = (Running s', ?w3)"
    using stop unfolding main_stages [OF start loop] by (simp add: value_of_def world_after_def split_beta)
  obtain es where last: "effects ?stop ?wait = es @ [exited]"
    using main_stop_last [OF ok db] by blast
  let ?es = "effects (main_wait wake) w2 @ es"
  have "hist ?w3 = hist w2 @ ?es @ [exited]"
    using appends_hist [OF appends_main_stop, of E ?api shutdown conn s ?wait] appends_hist [OF talks_appends [OF main_wait_facts], of wake w2] last
    by simp
  moreover have "started ?es = started (effects ?stop ?wait)"
    unfolding last using quiet_parts [OF main_wait_facts, of wake w2] by (simp add: exited_def)
  moreover have "distinct (map fst (mg_gwChans (sv_mgr s)))" "set (map fst (mg_gwChans (sv_mgr s))) = known_gateways s"
    using ok(1) by (auto simp: server_ok_def known_gateways_def GetGatewayChannel_def ChannelsMap_Get_def map_of_eq_None_iff image_iff)
  ultimately show ?thesis
    using whole main_stop_run(2) [OF ok db, of E ?api shutdown ?wait] by metis
qed

section \<open>Property\<close>

text \<open>C13: the life of the server: a start that succeeds has an open database, a broker connection, a management channel and a
  consumer of events, knows no gateway, and has started the event loop and the REST server; after any events that the loop takes without a
  panic the server knows the gateways they announce; when main is then woken, it ends in order, whatever the database, the
  broker and the REST server answer, having started for each of these gateways, once, the task that stores it as offline.\<close>

theorem server_lifecycle:
  assumes start: "run_state (main_start E) w = (Running (conn, m, restAPI), w1)"
    and loop: "run_state (ProcessExchangeEvents E (Some conn) sels (fresh_server m store)) w1 = (Returned s, w2)"
  shows "usable (Some conn) \<and> mg_Conn m \<and> mg_evChan m \<and> (\<exists>es. hist w1 = es @ started_up)
    \<and> known_gateways s = fold gateways_after sels {}
    \<and> (\<exists>s' w3 es gs. run_state (main E store sels ErrServerClosed wake shutdown) w = (Running s', w3)
        \<and> hist w3 = hist w2 @ es @ [exited]
        \<and> distinct gs \<and> set gs = known_gateways s \<and> list_all2 offline (started es) gs)"
proof -
  note run = main_start_running [OF value_of_run [OF start]]
  have init: "GetGatewayChannel (fresh_server m store) g = None" for g
    using run by (simp add: GetGatewayChannel_def ChannelsMap_Get_def fresh_server_def NewGatewayChannelsMap_def)
  have ok: "server_ok (fresh_server m store)"
    using run init by (simp add: server_ok_def fresh_server_def NewGatewayChannelsMap_def)
  note loop_value = value_of_run [OF loop]
  have tracked: "server_ok s" "known_gateways s = fold gateways_after sels {}"
    using ProcessExchangeEvents_tracks [OF ok loop_value] init by (simp_all add: known_gateways_def)
  have "mg_Ch (sv_mgr s) = mg_Ch (sv_mgr (fresh_server m store))"
    using broker_kept.run_refines [OF ok loop_value [unfolded ProcessExchangeEvents_run]] by (simp add: fold_same)
  then have ch: "mg_Ch (sv_mgr s) \<noteq> None"
    using run by (simp add: fresh_server_def)
  show ?thesis
    using run main_start_last [OF start] tracked(2) main_tail [OF start loop tracked(1) ch] by (simp add: usable_def)
qed

theorem server_lifecycle_witness:
  "\<exists>s'. value_of (main restart_env (\<lambda>_. sample_channel) [EvReceived (queue_event ''queue.deleted'' ''gw1.in'')] ErrServerClosed Interrupted None) world0
     = Running s'"
proof -
  let ?sels = "[EvReceived (queue_event ''queue.deleted'' ''gw1.in'')]"
  obtain conn m w1 where start: "run_state (main_start restart_env) world0 = (Running (conn, m, NewServer restart_env), w1)"
    using sample_start [of world0] unfolding value_of_def by (metis prod.collapse)
  let ?s = "fresh_server m (\<lambda>_. sample_channel)"
  have "ChannelsMap_Get (mg_gwChans (sv_mgr ?s)) g = None" for g
    using main_start_running [OF value_of_run [OF start]] by (simp add: fresh_server_def ChannelsMap_Get_def NewGatewayChannelsMap_def)
  then have "value_of (ProcessExchangeEvents restart_env (Some conn) ?sels ?s) w1 = Returned ?s"
    by (simp add: value_bind event_turn_value queue_deleted_def)
  then obtain w2 where "run_state (ProcessExchangeEvents restart_env (Some conn) ?sels ?s) w1 = (Returned ?s, w2)"
    unfolding value_of_def by (metis prod.collapse)
  from server_lifecycle [OF start this, of Interrupted None] show ?thesis
    by (auto simp: value_of_def simp del: ProcessExchangeEvents.simps)
qed

end
