(* ===== verification/Spec2Isabelle.thy ===== *)
theory Spec2Isabelle
  imports LogicClaims TaskClaims GatewayRaces AppClaims
begin

text \<open>
  A verification library of the IoT cloud server (Go, \<open>src/\<close>): the server of a smart-home
  service. Gateways in the customers' homes talk to it over RabbitMQ; it keeps their state in MySQL
  and InfluxDB, has a media server record camera streams, pushes notifications to phones, and takes
  commands over REST.

  \<^bold>\<open>The program and its theories.\<close>
  A message of a gateway travels through these parts, each with its theories.
  \<^item> \<^verbatim>\<open>internal/domain/entities\<close> (\<^theory_text>\<open>Entities\<close>): the message \<open>IotMessage\<close> with its nested
    camera and Z-Wave structs, field by field; \<^theory_text>\<open>Json\<close>, \<^theory_text>\<open>Codec\<close> and \<^theory_text>\<open>JsonText\<close> hold the part of
    \<open>encoding/json\<close> the server uses (the text syntax, struct tags with \<open>omitempty\<close> and the
    \<open>string\<close> option, field lookup without regard to case) and the round trip of messages.
  \<^item> \<^verbatim>\<open>internal/domain/logic/params\<close>, \<^verbatim>\<open>messages\<close> (\<^theory_text>\<open>Params\<close>): what the server knows of users,
    cameras and sensors, the guarded map of interface values (locale \<open>registry\<close>, interpreted for it
    and for the channel map of the broker), and the messages made inside the server.
  \<^item> \<^verbatim>\<open>internal/domain/logic\<close> (\<^theory_text>\<open>GatewayLogic\<close>): loading the parameters of a gateway and processing
    its messages; facts in \<^theory_text>\<open>GatewayLogicProps\<close> (effects and results of each handler, the invariant,
    step relations of cameras and gateways), \<^theory_text>\<open>GatewaySessions\<close> (sequences of messages) and
    \<^theory_text>\<open>LoadParamsProps\<close>; properties in \<^theory_text>\<open>LogicClaims\<close>, sample data in \<^theory_text>\<open>Samples\<close>. \<^theory_text>\<open>ProcessSteps\<close> has the
    handlers again, cut into single accesses to the shared parameters, with their equality to the handlers in one piece;
    \<^theory_text>\<open>ProcessPool\<close> runs any number of them side by side, \<^theory_text>\<open>ProcessIsolation\<close> shows that what the handler of a stream
    message sees is not changed by messages of other devices, \<^theory_text>\<open>ProcessRaces\<close> has what holds in every interleaving (types,
    configuration, undisturbed cameras, every goroutine ends within 18 turns of its own) and what two interleavings break.
  \<^item> \<^verbatim>\<open>internal/infrastructure/tasks\<close>, \<^verbatim>\<open>database\<close> (\<^theory_text>\<open>Tasks\<close>): the tasks the logic starts as
    goroutines; the contract that all of them keep is the locale \<open>task\<close> of \<^theory_text>\<open>TaskProps\<close>; properties,
    from the message to the statement or request, in \<^theory_text>\<open>TaskClaims\<close>. \<^theory_text>\<open>Binary64\<close> holds the numbers that a long sensor
    value is rounded with: \<open>strconv.ParseFloat\<close>, product, quotient, \<open>math.Round\<close> and the format \<open>%.2f\<close>, each
    rounded to the nearest binary64 number, with bounds of the rounding errors.
  \<^item> \<^verbatim>\<open>internal/infrastructure/broker\<close> (\<^theory_text>\<open>Amqp\<close>, \<^theory_text>\<open>GatewayChannel\<close>, \<^theory_text>\<open>Manager\<close>): AMQP channels with
    their queues, readers and writers; the channel of one gateway with its reader loop, its logic and
    its pending RPC calls; the manager with the map of channels and the loop over the exchange
    events. \<^theory_text>\<open>GatewayRpc\<close> and \<^theory_text>\<open>RpcClaims\<close> make the interleaving of one reader with any number of callers an
    inductive step relation; \<^theory_text>\<open>GatewayThreads\<close> runs all goroutines of a gateway's messages and push switches side by side,
    each cut into the turns of \<open>ApplyLogic\<close> and then into the statements of \<open>Process\<close> on the logic object it called;
    \<^theory_text>\<open>GatewayRaces\<close> has what every schedule keeps and how two first messages end the server; \<^theory_text>\<open>ChannelProps\<close> and \<^theory_text>\<open>ChannelClaims\<close> hold the channel's facts and
    properties, \<^theory_text>\<open>ManagerProps\<close> and \<^theory_text>\<open>ManagerClaims\<close> the manager's.
  \<^item> \<^verbatim>\<open>internal/infrastructure/rest\<close> (\<^theory_text>\<open>Rest\<close>, properties in \<^theory_text>\<open>RestClaims\<close>): the server object and its
    handlers, with the ways of a REST command to the recorder, to the push switch and to the gateway and back.
  \<^item> \<^verbatim>\<open>internal/infrastructure/logger\<close>, \<^verbatim>\<open>internal/infrastructure/application\<close> (\<^theory_text>\<open>Application\<close>): flags, the configuration
    file and the logger, before \<open>main\<close> runs.
  \<^item> \<^verbatim>\<open>cmd/gocloudserver\<close> (\<^theory_text>\<open>App\<close>, property in \<^theory_text>\<open>AppClaims\<close>): \<open>init\<close> and \<open>main\<close>: starting, waiting and stopping.

  \<^bold>\<open>Interfaces.\<close> The locale \<open>registry\<close> (\<^theory_text>\<open>Params\<close>) has the laws of a map with add, get and remove; the guarded
  parameter map and the channel map are its interpretations. The locale \<open>task\<close> says that a task
  started on a refused message does nothing outside and never panics; the tasks of the server are its interpretations. The locales
  \<open>turn_loop\<close> and \<open>total_loop\<close> (\<^theory_text>\<open>Loops\<close>) turn the simulation of one turn into that of a whole loop; they are
  interpreted for the event loop (three times: the known gateways, lost channels, the broker handle) and for
  the messages of a channel. The locale \<open>pool_guarantee\<close> (\<^theory_text>\<open>ProcessPool\<close>) turns what each turn of each goroutine guarantees into
  what every schedule guarantees; it is interpreted for types and configuration, for the cameras no message names, and for the view of a stream message.

  \<^bold>\<open>How the code is modelled.\<close>
  \<^theory_text>\<open>Runtime\<close> has the effects: a computation is a state monad over a world with the message heap (Go
  passes \<open>*IotMessage\<close>, and goroutines share it) and the history of events: log lines, \<open>go\<close> statements
  with the message as it stands there, writes to shared messages, and every call to a database, an
  HTTP server, the broker, the clock or the UUID generator. What the outside answers is a function \<open>env\<close> of the
  configuration and of the history so far, so a theorem for all environments
  holds for every database content, failure and clock. Errors are
  values, a panic is the outcome \<open>Panicked\<close>. \<open>uint64\<close> and \<open>int64\<close> are 64-bit words, strings are
  byte lists, \<open>float64\<close> is a signed exact magnitude, an infinity or not a number. A result set delivers its rows one by one and ends
  regularly or with an error, as \<open>Next\<close> does; the server never asks for that error, and \<open>row_errors_unnoticed\<close> shows what follows.
  Loops over rows, messages, queues and events are recursion on what is read; the two
  endless loops (the reader of a channel, the event loop) are one definition per turn, with what
  \<open>select\<close> chose as its argument; \<open>ProcessExchangeEvents\<close> runs such turns for a finite list of choices, and does not tell
  an event loop that goes on from one that has been left. The JSON parser recurses with fuel \<open>2 * length text + 1\<close>: every
  call consumes a byte or descends once before it does, and \<open>parse_fuel_enough\<close> shows that more fuel changes
  no result.

  \<^bold>\<open>Not modelled.\<close>
  Contexts with timeouts appear as errors of the calls they guard. Log fields are dropped,
  log texts are kept. The AMQP connection is a handle that exists or not; connection state inside the client
  library, queue contents and deliveries are its answers. SQL texts are modelled up to white
  space. Loading a logic is one turn, and the database calls of a message are answered from the history of the turns before. Each section
  under a mutex is one turn that ends: no code of the server holds two mutexes or blocks inside of one, so a deadlock on them is not a
  state of the model, and neither is a missing unlock.
  A field is read and written in one turn: a string torn between its two words is outside. The web framework's routing and
  authentication, what zap, lumberjack, pflag and viper do with their configuration, and the delivery of signals belong to libraries.
  The packages of \<^verbatim>\<open>internal/domain/interfaces\<close> declare interfaces without code.
\<close>

end
